(* ===== verification/Prelude.thy ===== *)
theory Prelude
  imports Complex_Main "HOL-Library.Word"
begin

section \<open>Prelude: C values, results and the shared automation\<close>

text \<open>
  What every component of the development uses: the results of C code that can go wrong
  (\<open>c_error\<close>), C strings as character lists with the terminating NUL left implicit, the C
  \<open>int\<close> type as an integer kept in its 32-bit range, decimal rendering of integers
  (\<open>%d\<close>) and the library lemmas the component proofs share.

  A pointer into a C string is the list of characters that are left. The empty list is the
  pointer to the terminating NUL; reading there gives NUL, and moving past it is
  \<open>OutOfBounds\<close>.
\<close>

named_theorems c_string_simps "facts on pointers into C strings"
named_theorems c_int_simps "facts on C integers and their decimal rendering"

subsection \<open>Results\<close>

datatype c_error =
    ParseError string      \<comment> \<open>a null result with the error pointer at this text\<close>
  | OutOfBounds            \<comment> \<open>a read past the end of an object\<close>
  | HeapOverflow           \<comment> \<open>a write past the end of an allocated buffer\<close>
  | NullPointer            \<comment> \<open>a null pointer is dereferenced\<close>
  | NullResult             \<comment> \<open>a null result with no error pointer\<close>
  | UseAfterFree           \<comment> \<open>an object is used after it was released\<close>
  | Uninitialised          \<comment> \<open>an object is read before it has a value\<close>
  | NoFuel                 \<comment> \<open>the bound on the recursion of the model is used up\<close>

type_synonym 'a c_res = "c_error + 'a"

definition bindr :: "'a c_res \<Rightarrow> ('a \<Rightarrow> 'b c_res) \<Rightarrow> 'b c_res" where
  "bindr r f = (case r of Inl e \<Rightarrow> Inl e | Inr x \<Rightarrow> f x)"

lemma bindr_simps [simp]:
  "bindr (Inl e) f = Inl e"
  "bindr (Inr x) f = f x"
  by (simp_all add: bindr_def)

lemma bindr_Inr_iff: "bindr r f = Inr y \<longleftrightarrow> (\<exists>x. r = Inr x \<and> f x = Inr y)"
  by (cases r) auto

lemma bindr_cong [fundef_cong]:
  "r = r' \<Longrightarrow> (\<And>x. r' = Inr x \<Longrightarrow> f x = f' x) \<Longrightarrow> bindr r f = bindr r' f'"
  by (cases r') auto

definition of_opt :: "c_error \<Rightarrow> 'a option \<Rightarrow> 'a c_res" where
  "of_opt e x = (case x of None \<Rightarrow> Inl e | Some y \<Rightarrow> Inr y)"

lemma of_opt_simps [simp]:
  "of_opt e None = Inl e"
  "of_opt e (Some y) = Inr y"
  by (simp_all add: of_opt_def)

text \<open>All results of a list of computations, or the first error (a C loop that stops there).\<close>

fun thoser :: "'a c_res list \<Rightarrow> 'a list c_res" where
  "thoser [] = Inr []"
| "thoser (r # rs) = bindr r (\<lambda>x. bindr (thoser rs) (\<lambda>xs. Inr (x # xs)))"

lemma thoser_map_Inr [simp]: "thoser (map (\<lambda>x. Inr (f x)) xs) = Inr (map f xs)"
  by (induction xs) auto

text \<open>A string written with its NUL into a buffer of the given number of bytes.\<close>

definition alloc_write :: "nat \<Rightarrow> string \<Rightarrow> string c_res" where
  "alloc_write cap s = (if length s < cap then Inr s else Inl HeapOverflow)"

lemma alloc_write_Inr [simp]: "length s < cap \<Longrightarrow> alloc_write cap s = Inr s"
  by (simp add: alloc_write_def)

subsection \<open>C strings\<close>

abbreviation NUL :: char where "NUL \<equiv> CHR 0x00"
abbreviation quote :: char where "quote \<equiv> CHR 0x22"
abbreviation backslash :: char where "backslash \<equiv> CHR 0x5C"
abbreviation newline :: char where "newline \<equiv> CHR 0x0A"
abbreviation tab :: char where "tab \<equiv> CHR 0x09"

definition cstr :: "string \<Rightarrow> string" where
  \<comment> \<open>what a C string function sees of a buffer: the bytes before the first NUL\<close>
  "cstr buf = takeWhile (\<lambda>c. c \<noteq> NUL) buf"

definition cstring :: "string \<Rightarrow> bool" where
  "cstring s \<longleftrightarrow> NUL \<notin> set s"

lemma cstr_id [simp]: "cstring s \<Longrightarrow> cstr s = s"
  unfolding cstr_def cstring_def by (simp add: takeWhile_eq_all_conv) metis

lemma cstring_cstr [simp]: "cstring (cstr s)"
  unfolding cstr_def cstring_def by (auto dest: set_takeWhileD)

lemma cstring_simps [simp]:
  "cstring []"
  "cstring (c # s) \<longleftrightarrow> c \<noteq> NUL \<and> cstring s"
  "cstring (s @ t) \<longleftrightarrow> cstring s \<and> cstring t"
  by (auto simp: cstring_def)

definition deref :: "string \<Rightarrow> char" where
  "deref s = (case s of [] \<Rightarrow> NUL | c # _ \<Rightarrow> c)"

lemma deref_simps [simp, c_string_simps]:
  "deref [] = NUL"
  "deref (c # s) = c"
  by (simp_all add: deref_def)

lemma deref_append [simp, c_string_simps]: "s \<noteq> [] \<Longrightarrow> deref (s @ t) = deref s"
  by (cases s) auto

definition c_isdigit :: "char \<Rightarrow> bool" where
  "c_isdigit c \<longleftrightarrow> 48 \<le> (of_char c :: int) \<and> (of_char c :: int) \<le> 57"

definition digit_val :: "char \<Rightarrow> int" where
  "digit_val c = of_char c - 48"

definition digit_char :: "nat \<Rightarrow> char" where
  "digit_char d = char_of (48 + d)"

lemma of_char_digit_char [simp, c_int_simps]:
  "d < 10 \<Longrightarrow> (of_char (digit_char d) :: int) = 48 + int d"
proof -
  assume "d < 10"
  then have "(of_char (char_of (48 + d) :: char) :: int) = int (of_char (char_of (48 + d) :: char))"
    by (simp only: of_nat_of_char)
  also have "\<dots> = 48 + int d"
    using \<open>d < 10\<close> by simp
  finally show ?thesis by (simp add: digit_char_def)
qed

lemma digit_char_isdigit [simp, c_int_simps]: "d < 10 \<Longrightarrow> c_isdigit (digit_char d)"
  by (simp add: c_isdigit_def)

lemma digit_val_char [simp, c_int_simps]: "d < 10 \<Longrightarrow> digit_val (digit_char d) = int d"
  by (simp add: digit_val_def)

lemma NUL_not_digit [simp]: "\<not> c_isdigit NUL"
  by (simp add: c_isdigit_def)

lemma of_char_eq_num_iff: "(of_char c :: int) = of_char d \<longleftrightarrow> c = d"
  by (metis of_char_eq_iff)

subsection \<open>C int\<close>

abbreviation INT_MAX :: int where "INT_MAX \<equiv> 2147483647"
abbreviation INT_MIN :: int where "INT_MIN \<equiv> - 2147483648"

definition is_int :: "int \<Rightarrow> bool" where
  "is_int i \<longleftrightarrow> INT_MIN \<le> i \<and> i \<le> INT_MAX"

definition wrap32 :: "int \<Rightarrow> int" where
  \<comment> \<open>two's complement wrap-around of a 32-bit signed result\<close>
  "wrap32 i = (i + 2147483648) mod 4294967296 - 2147483648"

lemma wrap32_id [simp, c_int_simps]: "is_int i \<Longrightarrow> wrap32 i = i"
  by (simp add: wrap32_def is_int_def)

lemma wrap32_is_int [simp]: "is_int (wrap32 i)"
  unfolding wrap32_def is_int_def
  using pos_mod_bound [of 4294967296 "i + 2147483648"]
    pos_mod_sign [of 4294967296 "i + 2147483648"] by linarith

text \<open>The decimal rendering of \<open>sprintf("%d")\<close>.\<close>

fun show_nat :: "nat \<Rightarrow> string" where
  "show_nat n = (if n < 10 then [digit_char n] else show_nat (n div 10) @ [digit_char (n mod 10)])"

declare show_nat.simps [simp del]

definition show_int :: "int \<Rightarrow> string" where
  "show_int i = (if i < 0 then CHR ''-'' # show_nat (nat (- i)) else show_nat (nat i))"

lemma show_nat_digits: "c \<in> set (show_nat n) \<Longrightarrow> c_isdigit c"
proof (induction n rule: show_nat.induct)
  case (1 n)
  then show ?case
    by (cases "n < 10") (auto simp: show_nat.simps [of n])
qed

lemma show_nat_nonempty [simp]: "show_nat n \<noteq> []"
  by (subst show_nat.simps) simp

lemma cstring_show_nat [simp]: "cstring (show_nat n)"
  using show_nat_digits [of NUL n] by (auto simp: cstring_def)

lemma cstring_show_int [simp]: "cstring (show_int i)"
  by (simp add: show_int_def)

lemma length_show_nat: "0 < k \<Longrightarrow> n < 10 ^ k \<Longrightarrow> length (show_nat n) \<le> k"
proof (induction k arbitrary: n)
  case 0
  then show ?case by simp
next
  case (Suc k)
  show ?case
  proof (cases "n < 10")
    case True
    then show ?thesis by (simp add: show_nat.simps [of n])
  next
    case False
    then have "0 < k" using Suc.prems by (cases k) auto
    moreover have "n div 10 < 10 ^ k" using Suc.prems by (simp add: less_mult_imp_div_less mult.commute)
    ultimately have "length (show_nat (n div 10)) \<le> k" by (rule Suc.IH)
    then show ?thesis using False by (simp add: show_nat.simps [of n])
  qed
qed

text \<open>Reading digits back, most significant first.\<close>

definition digits_val :: "string \<Rightarrow> int" where
  "digits_val ds = foldl (\<lambda>n c. n * 10 + digit_val c) 0 ds"

lemma digits_val_snoc [simp, c_int_simps]: "digits_val (ds @ [c]) = digits_val ds * 10 + digit_val c"
  by (simp add: digits_val_def)

lemma digits_val_show_nat [simp, c_int_simps]: "digits_val (show_nat n) = int n"
proof (induction n rule: show_nat.induct)
  case (1 n)
  show ?case
  proof (cases "n < 10")
    case True
    then show ?thesis by (simp add: show_nat.simps [of n] digits_val_def)
  next
    case False
    then have "digits_val (show_nat n) = int (n div 10) * 10 + int (n mod 10)"
      using 1 by (simp add: show_nat.simps [of n])
    also have "\<dots> = int n"
      by (metis div_mult_mod_eq of_nat_add of_nat_mult of_nat_numeral)
    finally show ?thesis .
  qed
qed

subsection \<open>Lists\<close>

lemma takeWhile_append_stop:
  "(\<And>x. x \<in> set xs \<Longrightarrow> P x) \<Longrightarrow> \<not> P (deref ys) \<Longrightarrow> takeWhile P (xs @ ys) = xs"
  by (induction xs) (cases ys; auto)+

lemma dropWhile_append_stop:
  "(\<And>x. x \<in> set xs \<Longrightarrow> P x) \<Longrightarrow> \<not> P (deref ys) \<Longrightarrow> dropWhile P (xs @ ys) = ys"
  by (induction xs) (cases ys; auto)+

lemma sum_list_replicate_const: "sum_list (replicate n (k::nat)) = n * k"
  by (induction n) auto

end
