(* ===== verification/C_Double.thy ===== *)
theory C_Double
  imports Prelude
begin

section \<open>The C type double, as the JSON library uses it\<close>

text \<open>
  IEEE-754 binary64 values and the operations \<^verbatim>\<open>src/cJSON.c\<close> performs on them: a
  finite value is the rational it stands for, an operation is the exact rational result
  rounded to nearest-even with a 53-bit significand, gradual underflow at \<open>2^-1074\<close> and
  overflow to infinity. The two zeros are one value: no operation used here tells them
  apart. \<open>pow(10, k)\<close> is the correctly rounded power, and the conversion to \<open>int\<close> is
  the one of x86-64, whose result for a value out of range is \<open>INT_MIN\<close>.
\<close>

datatype double = Fin rat | PInf | NInf | NaN

fun nbits :: "nat \<Rightarrow> nat" where
  "nbits n = (if n = 0 then 0 else Suc (nbits (n div 2)))"

declare nbits.simps [simp del]

definition expo :: "rat \<Rightarrow> int" where
  \<comment> \<open>the exponent of the binary digit in front: \<open>2^e \<le> x < 2^(e+1)\<close>\<close>
  "expo x = (if 1 \<le> x then int (nbits (nat \<lfloor>x\<rfloor>)) - 1
             else - int (nbits (nat (\<lceil>1 / x\<rceil> - 1))))"

definition rne :: "rat \<Rightarrow> int" where
  \<comment> \<open>to the nearest integer, ties to the even one\<close>
  "rne x = (let f = \<lfloor>x\<rfloor>; r = x - of_int f in
     if r < 1 / 2 then f else if 1 / 2 < r then f + 1 else if even f then f else f + 1)"

definition rnd :: "rat \<Rightarrow> double" where
  "rnd x = (if x = 0 then Fin 0 else
     let q = 2 powi (max (expo \<bar>x\<bar> - 52) (- 1074));
         y = of_int (rne (x / q)) * q
     in if 2 ^ 1024 \<le> \<bar>y\<bar> then (if 0 < x then PInf else NInf) else Fin y)"

definition dbl_inf :: "rat \<Rightarrow> double" where
  "dbl_inf s = (if 0 < s then PInf else if s < 0 then NInf else NaN)"

fun dmul :: "double \<Rightarrow> double \<Rightarrow> double" where
  "dmul (Fin a) (Fin b) = rnd (a * b)"
| "dmul NaN _ = NaN"
| "dmul _ NaN = NaN"
| "dmul (Fin a) PInf = dbl_inf a"
| "dmul (Fin a) NInf = dbl_inf (- a)"
| "dmul PInf (Fin b) = dbl_inf b"
| "dmul NInf (Fin b) = dbl_inf (- b)"
| "dmul PInf PInf = PInf"
| "dmul NInf NInf = PInf"
| "dmul _ _ = NInf"

fun dadd :: "double \<Rightarrow> double \<Rightarrow> double" where
  "dadd (Fin a) (Fin b) = rnd (a + b)"
| "dadd NaN _ = NaN"
| "dadd _ NaN = NaN"
| "dadd PInf NInf = NaN"
| "dadd NInf PInf = NaN"
| "dadd PInf _ = PInf"
| "dadd _ PInf = PInf"
| "dadd _ _ = NInf"

definition pow10 :: "int \<Rightarrow> double" where
  "pow10 k = rnd (10 powi k)"

definition trunc_rat :: "rat \<Rightarrow> int" where
  "trunc_rat x = (if 0 \<le> x then \<lfloor>x\<rfloor> else \<lceil>x\<rceil>)"

definition d2i :: "double \<Rightarrow> int" where
  \<comment> \<open>the conversion \<open>(int) d\<close>\<close>
  "d2i d = (case d of Fin x \<Rightarrow> if is_int (trunc_rat x) then trunc_rat x else INT_MIN | _ \<Rightarrow> INT_MIN)"

text \<open>The doubles the literals \<open>1.0e60\<close> and \<open>1.0e-6\<close> denote.\<close>

definition dbl_1e60 :: rat where
  "dbl_1e60 = 999999999999999949387135297074018866963645011013410073083904"

definition dbl_1em6 :: rat where
  "dbl_1em6 = 4722366482869645 / 4722366482869645213696"

subsection \<open>Integers of up to 53 bits are exact\<close>

lemma nbits_less: "n < 2 ^ nbits n"
proof (induction n rule: nbits.induct)
  case (1 n)
  show ?case
  proof (cases "n = 0")
    case True
    then show ?thesis by (simp add: nbits.simps [of n])
  next
    case False
    then have "n div 2 < 2 ^ nbits (n div 2)" using 1 by simp
    then show ?thesis using False by (simp add: nbits.simps [of n])
  qed
qed

lemma nbits_le: "n < 2 ^ k \<Longrightarrow> nbits n \<le> k"
proof (induction k arbitrary: n)
  case 0
  then show ?case by (simp add: nbits.simps)
next
  case (Suc k)
  then have "n div 2 < 2 ^ k" by (simp add: less_mult_imp_div_less mult.commute)
  then have "nbits (n div 2) \<le> k" by (rule Suc.IH)
  then show ?case by (simp add: nbits.simps [of n])
qed

lemma rne_of_int [simp]: "rne (of_int k) = k"
  by (simp add: rne_def)

lemma expo_of_int: "n \<noteq> 0 \<Longrightarrow> expo \<bar>of_int n\<bar> = int (nbits (nat \<bar>n\<bar>)) - 1"
proof -
  assume "n \<noteq> 0"
  then have "(1::rat) \<le> of_int \<bar>n\<bar>" by (subst of_int_1_le_iff) linarith
  then show ?thesis by (simp only: expo_def if_True floor_of_int flip: of_int_abs)
qed

lemma rnd_exactI:
  assumes "x \<noteq> 0" and "x = of_int m * 2 powi (max (expo \<bar>x\<bar> - 52) (- 1074))" and "\<bar>x\<bar> < 2 ^ 1024"
  shows "rnd x = Fin x"
proof -
  let ?q = "(2::rat) powi (max (expo \<bar>x\<bar> - 52) (- 1074))"
  have "?q \<noteq> 0" by (simp add: power_int_eq_0_iff)
  then have "x / ?q = of_int m" using assms(2) by (metis nonzero_mult_div_cancel_right)
  then have "of_int (rne (x / ?q)) * ?q = x" using assms(2) by simp
  then show ?thesis using assms(1,3) by (simp add: rnd_def Let_def)
qed

lemma rnd_of_int_less:
  assumes "\<bar>n\<bar> < 2 ^ 53" and "n \<noteq> 0"
  shows "rnd (of_int n) = Fin (of_int n)"
proof -
  have "nat \<bar>n\<bar> < 2 ^ 53" using assms(1) by (simp add: nat_less_iff)
  then have "nbits (nat \<bar>n\<bar>) \<le> 53" by (rule nbits_le)
  define k where "k = nat (53 - int (nbits (nat \<bar>n\<bar>)))"
  have e: "max (expo \<bar>of_int n :: rat\<bar> - 52) (- 1074) = - int k"
    using \<open>nbits (nat \<bar>n\<bar>) \<le> 53\<close> by (simp add: k_def expo_of_int [OF assms(2)])
  have m: "(of_int n :: rat) = of_int (n * 2 ^ k) * 2 powi (- int k)"
    by (simp add: power_int_minus)
  have b: "\<bar>of_int n :: rat\<bar> < 2 ^ 1024"
  proof -
    have "\<bar>n\<bar> < 2 ^ 1024" using assms(1) by (rule less_le_trans) simp
    then show ?thesis by (metis of_int_abs of_int_less_iff of_int_numeral of_int_power)
  qed
  show ?thesis
  proof (rule rnd_exactI)
    show "of_int n = of_int (n * 2 ^ k) * (2::rat) powi (max (expo \<bar>of_int n\<bar> - 52) (- 1074))"
      unfolding e by (rule m)
  qed (use assms(2) b in auto)
qed

lemma rnd_of_int [simp]:
  assumes "\<bar>n\<bar> < 2 ^ 53"
  shows "rnd (of_int n) = Fin (of_int n)"
  using rnd_of_int_less [OF assms] by (cases "n = 0") (simp_all add: rnd_def)

lemma rnd_numeral [simp]: "numeral w < (2::int) ^ 53 \<Longrightarrow> rnd (numeral w) = Fin (numeral w)"
  using rnd_of_int [of "numeral w"] by simp

lemma rnd_01 [simp]: "rnd 0 = Fin 0" "rnd 1 = Fin 1"
  using rnd_of_int [of 0] rnd_of_int [of 1] by simp_all

lemma pow10_0 [simp]: "pow10 0 = Fin 1"
  by (simp add: pow10_def)

lemma trunc_rat_of_int [simp]: "trunc_rat (of_int n) = n"
  by (simp add: trunc_rat_def)

lemma d2i_of_int [simp]: "d2i (Fin (of_int n)) = (if is_int n then n else INT_MIN)"
  by (simp add: d2i_def)

lemma d2i_is_int: "is_int (d2i d)"
  by (simp add: d2i_def is_int_def split: double.splits)

end
