(* ===== verification/CJSON.thy ===== *)
theory CJSON
  imports C_Double
begin

unbundle bit_operations_syntax

section \<open>The JSON library\<close>

text \<open>
  \<^verbatim>\<open>src/cJSON.c\<close> (the wrapper library compiles the same file as
  \<^verbatim>\<open>src/libfuse/lib/cJSON.c\<close>). A \<open>struct cJSON\<close> and the chain of its children is a
  tree: \<open>child\<close> is the list the \<open>next\<close> pointers link. Allocation is taken to succeed.
  Every buffer the code writes is written through its computed size, so a write past the end
  is \<open>HeapOverflow\<close>; a read past the terminating NUL is \<open>OutOfBounds\<close>. The error pointer
  \<open>ep\<close> is the argument of \<open>ParseError\<close>.
\<close>

subsection \<open>Items\<close>

abbreviation cJSON_False :: int where "cJSON_False \<equiv> 0"
abbreviation cJSON_True :: int where "cJSON_True \<equiv> 1"
abbreviation cJSON_NULL :: int where "cJSON_NULL \<equiv> 2"
abbreviation cJSON_Number :: int where "cJSON_Number \<equiv> 3"
abbreviation cJSON_String :: int where "cJSON_String \<equiv> 4"
abbreviation cJSON_Array :: int where "cJSON_Array \<equiv> 5"
abbreviation cJSON_Object :: int where "cJSON_Object \<equiv> 6"
abbreviation cJSON_IsReference :: int where "cJSON_IsReference \<equiv> 256"

datatype cJSON = CJ
  (jtype: int)
  (valuestring: "string option")
  (valueint: int)
  (valuedouble: double)
  (jname: "string option")
  (child: "cJSON list")

primrec set_type :: "int \<Rightarrow> cJSON \<Rightarrow> cJSON" where
  "set_type t (CJ _ vs vi vd nm cs) = CJ t vs vi vd nm cs"

primrec set_valuestring :: "string option \<Rightarrow> cJSON \<Rightarrow> cJSON" where
  "set_valuestring vs (CJ t _ vi vd nm cs) = CJ t vs vi vd nm cs"

primrec set_valueint :: "int \<Rightarrow> cJSON \<Rightarrow> cJSON" where
  "set_valueint vi (CJ t vs _ vd nm cs) = CJ t vs vi vd nm cs"

primrec set_valuedouble :: "double \<Rightarrow> cJSON \<Rightarrow> cJSON" where
  "set_valuedouble vd (CJ t vs vi _ nm cs) = CJ t vs vi vd nm cs"

primrec set_name :: "string option \<Rightarrow> cJSON \<Rightarrow> cJSON" where
  "set_name nm (CJ t vs vi vd _ cs) = CJ t vs vi vd nm cs"

primrec set_child :: "cJSON list \<Rightarrow> cJSON \<Rightarrow> cJSON" where
  "set_child cs (CJ t vs vi vd nm _) = CJ t vs vi vd nm cs"

definition cJSON_New_Item :: cJSON where
  "cJSON_New_Item = CJ 0 None 0 (Fin 0) None []"

definition c_tolower :: "char \<Rightarrow> char" where
  "c_tolower c = (if 65 \<le> (of_char c :: nat) \<and> (of_char c :: nat) \<le> 90
     then char_of (of_char c + 32 :: nat) else c)"

fun strcasecmp :: "string \<Rightarrow> string \<Rightarrow> int" where
  "strcasecmp (a # s) (b # t) = (if c_tolower a = c_tolower b then strcasecmp s t
     else of_char (c_tolower a) - of_char (c_tolower b))"
| "strcasecmp s t = of_char (c_tolower (deref s)) - of_char (c_tolower (deref t))"

definition cJSON_strcasecmp :: "string option \<Rightarrow> string option \<Rightarrow> int" where
  "cJSON_strcasecmp s1 s2 = (case s1 of
       None \<Rightarrow> if s2 = None then 0 else 1
     | Some a \<Rightarrow> (case s2 of None \<Rightarrow> 1 | Some b \<Rightarrow> strcasecmp a b))"

subsection \<open>Numbers\<close>

definition num_step :: "double \<Rightarrow> char \<Rightarrow> double" where
  "num_step n c = dadd (dmul n (Fin 10)) (Fin (of_int (digit_val c)))"

fun scan_digits :: "double \<Rightarrow> string \<Rightarrow> double \<times> nat \<times> string" where
  "scan_digits n [] = (n, 0, [])"
| "scan_digits n (c # cs) = (if c_isdigit c
     then (let (m, k, r) = scan_digits (num_step n c) cs in (m, Suc k, r))
     else (n, 0, c # cs))"

fun scan_subscale :: "int \<Rightarrow> string \<Rightarrow> int \<times> string" where
  "scan_subscale i [] = (i, [])"
| "scan_subscale i (c # cs) = (if c_isdigit c
     then scan_subscale (wrap32 (wrap32 (i * 10) + digit_val c)) cs else (i, c # cs))"

definition parse_exponent :: "string \<Rightarrow> int \<times> string" where
  "parse_exponent num = (if deref num = CHR ''e'' \<or> deref num = CHR ''E''
     then (let num = tl num;
               (signsubscale, num) =
                 (if deref num = CHR ''+'' then (1, tl num)
                  else if deref num = CHR ''-'' then (- 1, tl num) else (1, num));
               (subscale, num) = scan_subscale 0 num
           in (wrap32 (subscale * signsubscale), num))
     else (0, num))"

definition scan_int :: "string \<Rightarrow> double \<times> string" where
  \<comment> \<open>the digits before the point: a zero, or a digit from 1 to 9 and the digits after it\<close>
  "scan_int num = (let num = (if deref num = CHR ''0'' then tl num else num) in
     if c_isdigit (deref num) \<and> deref num \<noteq> CHR ''0''
     then (let (m, _, r) = scan_digits (Fin 0) num in (m, r)) else (Fin 0, num))"

definition scan_frac :: "double \<Rightarrow> string \<Rightarrow> double \<times> int \<times> string" where
  "scan_frac n num = (if deref num = CHR ''.'' \<and> c_isdigit (deref (tl num))
     then (let (m, k, r) = scan_digits n (tl num) in (m, - int k, r)) else (n, 0, num))"

definition parse_number :: "cJSON \<Rightarrow> string \<Rightarrow> cJSON \<times> string" where
  "parse_number item num =
    (let sign = (if deref num = CHR ''-'' then Fin (- 1) else Fin 1);
         num = (if deref num = CHR ''-'' then tl num else num);
         (n, num) = scan_int num;
         (n, scale, num) = scan_frac n num;
         (e, num) = parse_exponent num;
         n = dmul (dmul sign n) (pow10 (scale + e))
     in (set_type cJSON_Number (set_valueint (d2i n) (set_valuedouble n item)), num))"

definition dbl_near :: "int \<Rightarrow> double \<Rightarrow> bool" where
  \<comment> \<open>\<open>fabs((double) i - d) <= DBL_EPSILON\<close>\<close>
  "dbl_near i d = (case d of Fin x \<Rightarrow> \<bar>of_int i - x\<bar> \<le> 1 / 2 ^ 52 | _ \<Rightarrow> False)"

definition dbl_whole :: "rat \<Rightarrow> bool" where
  \<comment> \<open>\<open>fabs(floor(d) - d) <= DBL_EPSILON && fabs(d) < 1.0e60\<close>\<close>
  "dbl_whole x \<longleftrightarrow> \<bar>of_int \<lfloor>x\<rfloor> - x\<bar> \<le> 1 / 2 ^ 52 \<and> \<bar>x\<bar> < dbl_1e60"

definition pad6 :: "nat \<Rightarrow> string" where
  "pad6 n = map (\<lambda>k. digit_char (n div 10 ^ k mod 10)) [5, 4, 3, 2, 1, 0]"

definition fmt_f :: "rat \<Rightarrow> string" where
  \<comment> \<open>\<open>%f\<close>\<close>
  "fmt_f x = (let m = nat (rne (\<bar>x\<bar> * 10 ^ 6)) in
     (if x < 0 then ''-'' else []) @ show_nat (m div 10 ^ 6) @ ''.'' @ pad6 (m mod 10 ^ 6))"

definition expo10 :: "rat \<Rightarrow> int" where
  \<comment> \<open>the exponent of the decimal digit in front\<close>
  "expo10 x = (if 1 \<le> x then int (length (show_nat (nat \<lfloor>x\<rfloor>))) - 1
     else if x = 1 / 10 ^ (length (show_nat (nat \<lfloor>1 / x\<rfloor>)) - 1)
     then - int (length (show_nat (nat \<lfloor>1 / x\<rfloor>))) + 1
     else - int (length (show_nat (nat \<lfloor>1 / x\<rfloor>))))"

definition fmt_e :: "rat \<Rightarrow> string" where
  \<comment> \<open>\<open>%e\<close>\<close>
  "fmt_e x = (let e = expo10 \<bar>x\<bar>; m = nat (rne (\<bar>x\<bar> * 10 powi (6 - e)));
       (m, e) = (if m = 10 ^ 7 then (10 ^ 6, e + 1) else (m, e)) in
     (if x < 0 then ''-'' else []) @ show_nat (m div 10 ^ 6) @ ''.'' @ pad6 (m mod 10 ^ 6) @ ''e''
     @ (if e < 0 then ''-'' else ''+'') @ (if \<bar>e\<bar> < 10 then ''0'' else []) @ show_nat (nat \<bar>e\<bar>))"

definition print_number :: "cJSON \<Rightarrow> string c_res" where
  "print_number item = (let d = valuedouble item in
     if dbl_near (valueint item) d
        \<and> (case d of Fin x \<Rightarrow> x \<le> of_int INT_MAX \<and> of_int INT_MIN \<le> x | _ \<Rightarrow> False)
     then alloc_write 21 (show_int (valueint item))
     else alloc_write 64 (case d of
         Fin x \<Rightarrow> if dbl_whole x then show_int (rne x)
                  else if \<bar>x\<bar> < dbl_1em6 \<or> 10 ^ 9 < \<bar>x\<bar> then fmt_e x else fmt_f x
       | PInf \<Rightarrow> ''inf'' | NInf \<Rightarrow> ''-inf'' | NaN \<Rightarrow> ''-nan''))"

subsection \<open>Strings\<close>

definition hex_val :: "char \<Rightarrow> nat option" where
  "hex_val c = (let n = of_char c :: nat in
     if 48 \<le> n \<and> n \<le> 57 then Some (n - 48)
     else if 65 \<le> n \<and> n \<le> 70 then Some (10 + n - 65)
     else if 97 \<le> n \<and> n \<le> 102 then Some (10 + n - 97) else None)"

fun hex_digits :: "nat \<Rightarrow> nat \<Rightarrow> string \<Rightarrow> nat" where
  "hex_digits 0 h s = h"
| "hex_digits (Suc k) h s = (case hex_val (deref s) of None \<Rightarrow> 0
     | Some d \<Rightarrow> hex_digits k (h * 16 + d) (tl s))"

definition parse_hex4 :: "string \<Rightarrow> nat" where
  "parse_hex4 s = hex_digits 4 0 s"

definition firstByteMark :: "nat \<Rightarrow> nat" where
  "firstByteMark len = [0x00, 0x00, 0xC0, 0xE0, 0xF0, 0xF8, 0xFC] ! len"

fun utf8_bytes :: "nat \<Rightarrow> nat \<Rightarrow> nat \<Rightarrow> string" where
  \<comment> \<open>the fall-through switch: the bytes of \<open>uc\<close>, written backwards\<close>
  "utf8_bytes len 0 uc = []"
| "utf8_bytes len (Suc 0) uc = [char_of (uc OR firstByteMark len)]"
| "utf8_bytes len (Suc (Suc k)) uc =
     utf8_bytes len (Suc k) (uc div 64) @ [char_of ((uc OR 0x80) AND 0xBF)]"

definition utf8_encode :: "nat \<Rightarrow> string" where
  "utf8_encode uc = (let len = (if uc < 0x80 then 1 else if uc < 0x800 then 2
       else if uc < 0x10000 then 3 else 4) in utf8_bytes len len uc)"

fun count_string :: "string \<Rightarrow> nat \<Rightarrow> nat c_res" where
  \<comment> \<open>the first loop of \<open>parse_string\<close>, which sizes the buffer\<close>
  "count_string [] len = Inr len"
| "count_string (c # cs) len =
     (if c = quote then Inr len
      else if c = backslash then (case cs of [] \<Rightarrow> Inl OutOfBounds | _ # cs' \<Rightarrow> count_string cs' (Suc len))
      else count_string cs (Suc len))"

definition decode_unicode :: "string \<Rightarrow> (string \<times> string) c_res" where
  \<comment> \<open>the case \<open>'u'\<close>, with the pointer after the u: the bytes written and the pointer after it\<close>
  "decode_unicode p = (let uc = parse_hex4 p in
     if length p < 4 then Inl OutOfBounds
     else if (0xDC00 \<le> uc \<and> uc \<le> 0xDFFF) \<or> uc = 0 then Inr ([], drop 4 p)
     else if 0xD800 \<le> uc \<and> uc \<le> 0xDBFF then
       (let q = drop 4 p in
        if deref q \<noteq> backslash \<or> deref (tl q) \<noteq> CHR ''u'' then Inr ([], q)
        else let uc2 = parse_hex4 (drop 2 q) in
          if length q < 6 then Inl OutOfBounds
          else if uc2 < 0xDC00 \<or> 0xDFFF < uc2 then Inr ([], drop 6 q)
          else Inr (utf8_encode (0x10000 + (((uc AND 0x3FF) * 1024) OR (uc2 AND 0x3FF))), drop 6 q))
     else Inr (utf8_encode uc, drop 4 p))"

lemma decode_unicode_shorter: "decode_unicode p = Inr (w, r) \<Longrightarrow> length r < Suc (Suc (length p))"
  by (auto simp: decode_unicode_def Let_def split: if_splits)

definition simple_escape :: "char \<Rightarrow> char" where
  "simple_escape c = (if c = CHR ''b'' then CHR 0x08 else if c = CHR ''f'' then CHR 0x0C
     else if c = CHR ''n'' then CHR 0x0A else if c = CHR ''r'' then CHR 0x0D
     else if c = CHR ''t'' then CHR 0x09 else c)"

function decode_string :: "string \<Rightarrow> string \<Rightarrow> (string \<times> string) c_res" where
  \<comment> \<open>the second loop of \<open>parse_string\<close>: the bytes written so far, and the pointer it stops at\<close>
  "decode_string [] out = Inr (out, [])"
| "decode_string (c # cs) out =
     (if c = quote then Inr (out, c # cs)
      else if c \<noteq> backslash then decode_string cs (out @ [c])
      else (case cs of [] \<Rightarrow> Inl OutOfBounds
        | e # cs' \<Rightarrow> if e = CHR ''u''
            then bindr (decode_unicode cs') (\<lambda>(w, r). decode_string r (out @ w))
            else decode_string cs' (out @ [simple_escape e])))"
  by pat_completeness auto
termination
  by (relation "measure (\<lambda>(s, _). length s)") (auto dest: decode_unicode_shorter)

definition parse_string :: "cJSON \<Rightarrow> string \<Rightarrow> (cJSON \<times> string) c_res" where
  "parse_string item str = (if deref str \<noteq> quote then Inl (ParseError str)
     else bindr (count_string (tl str) 0) (\<lambda>len.
          bindr (decode_string (tl str) []) (\<lambda>(out, p).
          bindr (alloc_write (len + 1) out) (\<lambda>out.
            Inr (set_type cJSON_String (set_valuestring (Some out) item),
                 if deref p = quote then tl p else p)))))"

definition esc_len :: "char \<Rightarrow> nat" where
  "esc_len c = (if c \<in> {quote, backslash, CHR 0x08, CHR 0x0C, CHR 0x0A, CHR 0x0D, CHR 0x09}
     then 2 else if (of_char c :: nat) < 32 then 6 else 1)"

definition hex_char :: "nat \<Rightarrow> char" where
  "hex_char d = (if d < 10 then char_of (48 + d) else char_of (87 + d))"

definition hex4 :: "nat \<Rightarrow> string" where
  "hex4 n = map hex_char [n div 4096 mod 16, n div 256 mod 16, n div 16 mod 16, n mod 16]"

definition esc_char :: "char \<Rightarrow> string" where
  "esc_char c = (if 31 < (of_char c :: nat) \<and> c \<noteq> quote \<and> c \<noteq> backslash then [c]
     else backslash # (if c = backslash then [backslash] else if c = quote then [quote]
       else if c = CHR 0x08 then ''b'' else if c = CHR 0x0C then ''f''
       else if c = CHR 0x0A then ''n'' else if c = CHR 0x0D then ''r''
       else if c = CHR 0x09 then ''t'' else CHR ''u'' # hex4 (of_char c)))"

definition print_string_ptr :: "string option \<Rightarrow> string c_res" where
  "print_string_ptr str = (case str of None \<Rightarrow> Inr []
     | Some s \<Rightarrow> alloc_write (sum_list (map esc_len s) + 3)
                   (quote # concat (map esc_char s) @ [quote]))"

definition print_string :: "cJSON \<Rightarrow> string c_res" where
  "print_string item = print_string_ptr (valuestring item)"

subsection \<open>Parsing\<close>

definition skip :: "string \<Rightarrow> string" where
  "skip s = dropWhile (\<lambda>c. (of_char c :: nat) \<le> 32) s"

text \<open>
  The functions call each other through \<open>parse_value\<close>. It is an argument \<open>pv\<close> of the
  others, and \<open>parse_value\<close> ties the knot on the nesting depth.
\<close>

type_synonym value_parser = "cJSON \<Rightarrow> string \<Rightarrow> (cJSON \<times> string) c_res"

fun parse_array_loop :: "value_parser \<Rightarrow> nat \<Rightarrow> cJSON list \<Rightarrow> string \<Rightarrow> (cJSON list \<times> string) c_res" where
  "parse_array_loop pv 0 cs v = Inl NoFuel"
| "parse_array_loop pv (Suc k) cs v =
     (if deref v = CHR '',''
      then bindr (pv cJSON_New_Item (skip (tl v))) (\<lambda>(c, r).
           parse_array_loop pv k (cs @ [c]) (skip r))
      else Inr (cs, v))"

definition parse_array :: "value_parser \<Rightarrow> value_parser" where
  "parse_array pv item v =
     (if deref v \<noteq> CHR ''['' then Inl (ParseError v)
      else let item = set_type cJSON_Array item; v = skip (tl v) in
        if deref v = CHR '']'' then Inr (item, tl v)
        else bindr (pv cJSON_New_Item (skip v)) (\<lambda>(c, r).
             bindr (parse_array_loop pv (Suc (length r)) [c] (skip r)) (\<lambda>(cs, v).
               if deref v = CHR '']'' then Inr (set_child cs item, tl v)
               else Inl (ParseError v))))"

definition parse_member :: "value_parser \<Rightarrow> string \<Rightarrow> (cJSON \<times> string) c_res" where
  \<comment> \<open>one name, colon and value of \<open>parse_object\<close>\<close>
  "parse_member pv v =
     bindr (parse_string cJSON_New_Item (skip v)) (\<lambda>(c, r).
       let c = set_valuestring None (set_name (valuestring c) c); v = skip r in
       if deref v \<noteq> CHR '':'' then Inl (ParseError v)
       else bindr (pv c (skip (tl v))) (\<lambda>(c, r). Inr (c, skip r)))"

fun parse_object_loop :: "value_parser \<Rightarrow> nat \<Rightarrow> cJSON list \<Rightarrow> string \<Rightarrow> (cJSON list \<times> string) c_res" where
  "parse_object_loop pv 0 cs v = Inl NoFuel"
| "parse_object_loop pv (Suc k) cs v =
     (if deref v = CHR '',''
      then bindr (parse_member pv (tl v)) (\<lambda>(c, v). parse_object_loop pv k (cs @ [c]) v)
      else Inr (cs, v))"

definition parse_object :: "value_parser \<Rightarrow> value_parser" where
  "parse_object pv item v =
     (if deref v \<noteq> CHR ''{'' then Inl (ParseError v)
      else let item = set_type cJSON_Object item; v = skip (tl v) in
        if deref v = CHR ''}'' then Inr (item, tl v)
        else bindr (parse_member pv v) (\<lambda>(c, v).
             bindr (parse_object_loop pv (Suc (length v)) [c] v) (\<lambda>(cs, v).
               if deref v = CHR ''}'' then Inr (set_child cs item, tl v)
               else Inl (ParseError v))))"

fun parse_value :: "nat \<Rightarrow> value_parser" where
  "parse_value 0 item v = Inl NoFuel"
| "parse_value (Suc k) item v =
     (if take 4 v = ''null'' then Inr (set_type cJSON_NULL item, drop 4 v)
      else if take 5 v = ''false'' then Inr (set_type cJSON_False item, drop 5 v)
      else if take 4 v = ''true'' then Inr (set_valueint 1 (set_type cJSON_True item), drop 4 v)
      else if deref v = quote then parse_string item v
      else if deref v = CHR ''-'' \<or> c_isdigit (deref v) then Inr (parse_number item v)
      else if deref v = CHR ''['' then parse_array (parse_value k) item v
      else if deref v = CHR ''{'' then parse_object (parse_value k) item v
      else Inl (ParseError v))"

definition parse_fuel :: "string \<Rightarrow> nat" where
  "parse_fuel s = Suc (length s)"

definition cJSON_ParseWithOpts :: "string \<Rightarrow> bool \<Rightarrow> (cJSON \<times> string) c_res" where
  "cJSON_ParseWithOpts buf require_null_terminated =
    (let v = cstr buf in
     bindr (parse_value (parse_fuel v) cJSON_New_Item (skip v)) (\<lambda>(c, e).
       if require_null_terminated
       then (let e = skip e in if e \<noteq> [] then Inl (ParseError e) else Inr (c, e))
       else Inr (c, e)))"

definition cJSON_Parse :: "string \<Rightarrow> cJSON c_res" where
  "cJSON_Parse buf = bindr (cJSON_ParseWithOpts buf False) (\<lambda>(c, _). Inr c)"

subsection \<open>Printing\<close>

fun join :: "string \<Rightarrow> string list \<Rightarrow> string" where
  "join sep [] = []"
| "join sep [x] = x"
| "join sep (x # y # zs) = x @ sep @ join sep (y # zs)"

definition array_len :: "bool \<Rightarrow> string list \<Rightarrow> nat" where
  "array_len fmt entries = 5 + sum_list (map (\<lambda>e. length e + 2 + (if fmt then 1 else 0)) entries)"

definition compose_array :: "bool \<Rightarrow> string list \<Rightarrow> string" where
  "compose_array fmt entries = ''['' @ join (if fmt then '', '' else '','') entries @ '']''"

definition object_len :: "bool \<Rightarrow> nat \<Rightarrow> (string \<times> string) list \<Rightarrow> nat" where
  \<comment> \<open>\<open>depth\<close> is the one of the members\<close>
  "object_len fmt depth members = 7 + (if fmt then depth else 0)
     + sum_list (map (\<lambda>(str, ret). length ret + length str + 2 + (if fmt then 2 + depth else 0)) members)"

definition tabs :: "nat \<Rightarrow> string" where
  "tabs n = replicate n tab"

definition compose_member :: "bool \<Rightarrow> nat \<Rightarrow> string \<times> string \<Rightarrow> string" where
  "compose_member fmt depth m = (if fmt then tabs depth else []) @ fst m @ '':''
     @ (if fmt then [tab] else []) @ snd m"

definition compose_object :: "bool \<Rightarrow> nat \<Rightarrow> (string \<times> string) list \<Rightarrow> string" where
  "compose_object fmt depth members = ''{'' @ (if fmt then [newline] else [])
     @ join ('','' @ (if fmt then [newline] else [])) (map (compose_member fmt depth) members)
     @ (if fmt then newline # tabs (depth - 1) else []) @ ''}''"

lemma size_child: "Suc (2 * size_list size (child c)) < 2 * size c"
  by (cases c) simp

lemma size_member: "c \<in> set cs \<Longrightarrow> 2 * size c < Suc (2 * size_list size cs)"
  by (induction cs) auto

lemma size_child_item: "c \<in> set (child item) \<Longrightarrow> size c < size item"
  by (cases item) (auto simp: less_Suc_eq_le dest: size_member)

function print_value :: "cJSON \<Rightarrow> nat \<Rightarrow> bool \<Rightarrow> string c_res"
and print_array :: "cJSON list \<Rightarrow> nat \<Rightarrow> bool \<Rightarrow> string c_res"
and print_object :: "cJSON list \<Rightarrow> nat \<Rightarrow> bool \<Rightarrow> string c_res"
where
  "print_value item depth fmt =
     (let t = jtype item AND 255 in
      if t = cJSON_NULL then Inr ''null''
      else if t = cJSON_False then Inr ''false''
      else if t = cJSON_True then Inr ''true''
      else if t = cJSON_Number then print_number item
      else if t = cJSON_String then print_string item
      else if t = cJSON_Array then print_array (child item) depth fmt
      else if t = cJSON_Object then print_object (child item) depth fmt
      else Inl NullResult)"
| "print_array cs depth fmt =
     (if cs = [] then alloc_write 3 ''[]''
      else bindr (thoser (map (\<lambda>c. print_value c (depth + 1) fmt) cs)) (\<lambda>entries.
           alloc_write (array_len fmt entries) (compose_array fmt entries)))"
| "print_object cs depth fmt =
     (if cs = [] then alloc_write (if fmt then depth + 4 else 3)
        (''{'' @ (if fmt then newline # tabs (depth - 1) else []) @ ''}'')
      else bindr (thoser (map (\<lambda>c. bindr (print_string_ptr (jname c)) (\<lambda>str.
                              bindr (print_value c (depth + 1) fmt) (\<lambda>ret. Inr (str, ret)))) cs))
           (\<lambda>members. alloc_write (object_len fmt (depth + 1) members)
                        (compose_object fmt (depth + 1) members)))"
  by pat_completeness auto

termination
  by (relation "measure (\<lambda>x. case x of Inl (c, _) \<Rightarrow> 2 * size c
       | Inr (Inl (cs, _)) \<Rightarrow> 2 * size_list size cs + 1
       | Inr (Inr (cs, _)) \<Rightarrow> 2 * size_list size cs + 1)")
     (use size_child size_member in \<open>auto simp: less_Suc_eq_le\<close>)

declare print_value.simps [simp del] print_array.simps [simp del] print_object.simps [simp del]

definition cJSON_Print :: "cJSON \<Rightarrow> string c_res" where
  "cJSON_Print item = print_value item 0 True"

definition cJSON_PrintUnformatted :: "cJSON \<Rightarrow> string c_res" where
  "cJSON_PrintUnformatted item = print_value item 0 False"

subsection \<open>Access and construction\<close>

definition cJSON_GetArraySize :: "cJSON \<Rightarrow> nat" where
  "cJSON_GetArraySize array = length (child array)"

fun nth_item :: "cJSON list \<Rightarrow> int \<Rightarrow> cJSON option" where
  \<comment> \<open>\<open>while (c && item>0) item--,c=c->next\<close>: a negative index is the first item\<close>
  "nth_item [] i = None"
| "nth_item (c # cs) i = (if 0 < i then nth_item cs (i - 1) else Some c)"

definition cJSON_GetArrayItem :: "cJSON \<Rightarrow> int \<Rightarrow> cJSON option" where
  "cJSON_GetArrayItem array item = nth_item (child array) item"

fun find_name :: "cJSON list \<Rightarrow> string \<Rightarrow> cJSON option" where
  "find_name [] s = None"
| "find_name (c # cs) s = (if cJSON_strcasecmp (jname c) (Some s) \<noteq> 0 then find_name cs s else Some c)"

definition cJSON_GetObjectItem :: "cJSON \<Rightarrow> string \<Rightarrow> cJSON option" where
  "cJSON_GetObjectItem object s = find_name (child object) s"

definition cJSON_AddItemToArray :: "cJSON \<Rightarrow> cJSON \<Rightarrow> cJSON" where
  "cJSON_AddItemToArray array item = set_child (child array @ [item]) array"

definition cJSON_AddItemToObject :: "cJSON \<Rightarrow> string \<Rightarrow> cJSON \<Rightarrow> cJSON" where
  "cJSON_AddItemToObject object s item =
     cJSON_AddItemToArray object (set_name (Some (cstr s)) item)"

fun detach_nth :: "cJSON list \<Rightarrow> int \<Rightarrow> cJSON option \<times> cJSON list" where
  "detach_nth [] which = (None, [])"
| "detach_nth (c # cs) which = (if 0 < which
     then (let (d, r) = detach_nth cs (which - 1) in (d, c # r)) else (Some c, cs))"

definition cJSON_DetachItemFromArray :: "cJSON \<Rightarrow> int \<Rightarrow> cJSON option \<times> cJSON" where
  "cJSON_DetachItemFromArray array which =
     (let (d, r) = detach_nth (child array) which in (d, set_child r array))"

definition cJSON_DeleteItemFromArray :: "cJSON \<Rightarrow> int \<Rightarrow> cJSON" where
  "cJSON_DeleteItemFromArray array which = snd (cJSON_DetachItemFromArray array which)"

fun index_name :: "int \<Rightarrow> cJSON list \<Rightarrow> string \<Rightarrow> int option" where
  "index_name i [] s = None"
| "index_name i (c # cs) s = (if cJSON_strcasecmp (jname c) (Some s) \<noteq> 0
     then index_name (i + 1) cs s else Some i)"

definition cJSON_DetachItemFromObject :: "cJSON \<Rightarrow> string \<Rightarrow> cJSON option \<times> cJSON" where
  "cJSON_DetachItemFromObject object s = (case index_name 0 (child object) s of
     Some i \<Rightarrow> cJSON_DetachItemFromArray object i | None \<Rightarrow> (None, object))"

definition cJSON_DeleteItemFromObject :: "cJSON \<Rightarrow> string \<Rightarrow> cJSON" where
  "cJSON_DeleteItemFromObject object s = snd (cJSON_DetachItemFromObject object s)"

fun replace_nth :: "cJSON list \<Rightarrow> int \<Rightarrow> cJSON \<Rightarrow> cJSON list" where
  "replace_nth [] which newitem = []"
| "replace_nth (c # cs) which newitem = (if 0 < which
     then c # replace_nth cs (which - 1) newitem else newitem # cs)"

definition cJSON_ReplaceItemInArray :: "cJSON \<Rightarrow> int \<Rightarrow> cJSON \<Rightarrow> cJSON" where
  "cJSON_ReplaceItemInArray array which newitem =
     set_child (replace_nth (child array) which newitem) array"

definition cJSON_ReplaceItemInObject :: "cJSON \<Rightarrow> string \<Rightarrow> cJSON \<Rightarrow> cJSON" where
  "cJSON_ReplaceItemInObject object s newitem = (case index_name 0 (child object) s of
     Some i \<Rightarrow> cJSON_ReplaceItemInArray object i (set_name (Some (cstr s)) newitem)
   | None \<Rightarrow> object)"

definition cJSON_CreateNull :: cJSON where
  "cJSON_CreateNull = set_type cJSON_NULL cJSON_New_Item"

definition cJSON_CreateTrue :: cJSON where
  "cJSON_CreateTrue = set_type cJSON_True cJSON_New_Item"

definition cJSON_CreateFalse :: cJSON where
  "cJSON_CreateFalse = set_type cJSON_False cJSON_New_Item"

definition cJSON_CreateBool :: "int \<Rightarrow> cJSON" where
  "cJSON_CreateBool b = set_type (if b \<noteq> 0 then cJSON_True else cJSON_False) cJSON_New_Item"

definition cJSON_CreateNumber :: "double \<Rightarrow> cJSON" where
  "cJSON_CreateNumber num =
     set_valueint (d2i num) (set_valuedouble num (set_type cJSON_Number cJSON_New_Item))"

definition cJSON_CreateString :: "string \<Rightarrow> cJSON" where
  "cJSON_CreateString s = set_valuestring (Some (cstr s)) (set_type cJSON_String cJSON_New_Item)"

definition cJSON_CreateArray :: cJSON where
  "cJSON_CreateArray = set_type cJSON_Array cJSON_New_Item"

definition cJSON_CreateObject :: cJSON where
  "cJSON_CreateObject = set_type cJSON_Object cJSON_New_Item"

definition cJSON_CreateIntArray :: "int list \<Rightarrow> cJSON" where
  "cJSON_CreateIntArray numbers =
     set_child (map (\<lambda>n. cJSON_CreateNumber (Fin (of_int n))) numbers) cJSON_CreateArray"

definition cJSON_CreateDoubleArray :: "double list \<Rightarrow> cJSON" where
  "cJSON_CreateDoubleArray numbers = set_child (map cJSON_CreateNumber numbers) cJSON_CreateArray"

definition cJSON_CreateStringArray :: "string list \<Rightarrow> cJSON" where
  "cJSON_CreateStringArray strings = set_child (map cJSON_CreateString strings) cJSON_CreateArray"

function cJSON_Duplicate :: "cJSON \<Rightarrow> bool \<Rightarrow> cJSON" where
  "cJSON_Duplicate item recurse =
     CJ (jtype item AND (NOT cJSON_IsReference)) (valuestring item) (valueint item)
        (valuedouble item) (jname item)
        (if recurse then map (\<lambda>c. cJSON_Duplicate c True) (child item) else [])"
  by pat_completeness auto

termination
  by (relation "measure (size \<circ> fst)") (auto dest: size_child_item)

declare cJSON_Duplicate.simps [simp del]

text \<open>The add macros of \<^verbatim>\<open>cJSON.h\<close>, and the conversion of an integer argument to \<open>double\<close>.\<close>

definition dbl_of_int :: "int \<Rightarrow> double" where
  "dbl_of_int n = rnd (of_int n)"

definition cJSON_AddNullToObject :: "cJSON \<Rightarrow> string \<Rightarrow> cJSON" where
  "cJSON_AddNullToObject object name = cJSON_AddItemToObject object name cJSON_CreateNull"

definition cJSON_AddTrueToObject :: "cJSON \<Rightarrow> string \<Rightarrow> cJSON" where
  "cJSON_AddTrueToObject object name = cJSON_AddItemToObject object name cJSON_CreateTrue"

definition cJSON_AddFalseToObject :: "cJSON \<Rightarrow> string \<Rightarrow> cJSON" where
  "cJSON_AddFalseToObject object name = cJSON_AddItemToObject object name cJSON_CreateFalse"

definition cJSON_AddBoolToObject :: "cJSON \<Rightarrow> string \<Rightarrow> int \<Rightarrow> cJSON" where
  "cJSON_AddBoolToObject object name b = cJSON_AddItemToObject object name (cJSON_CreateBool b)"

definition cJSON_AddNumberToObject :: "cJSON \<Rightarrow> string \<Rightarrow> int \<Rightarrow> cJSON" where
  "cJSON_AddNumberToObject object name n =
     cJSON_AddItemToObject object name (cJSON_CreateNumber (dbl_of_int n))"

definition cJSON_AddStringToObject :: "cJSON \<Rightarrow> string \<Rightarrow> string \<Rightarrow> cJSON" where
  "cJSON_AddStringToObject object name s =
     cJSON_AddItemToObject object name (cJSON_CreateString s)"

subsection \<open>White space\<close>

lemma skip_simps [simp]:
  "skip [] = []"
  "skip (c # s) = (if (of_char c :: nat) \<le> 32 then skip s else c # s)"
  by (simp_all add: skip_def)

lemma skip_tabs [simp]: "skip (tabs n @ s) = skip s"
  by (induction n) (simp_all add: tabs_def)

lemma skip_skip [simp]: "skip (skip s) = skip s"
  by (simp add: skip_def)

lemma parse_member_skip [simp]: "parse_member pv (skip v) = parse_member pv v"
  by (simp add: parse_member_def)

lemma skip_le: "length (skip s) \<le> length s"
  by (simp add: skip_def length_dropWhile_le)

end
