(* ===== verification/CJSON_Roundtrip.thy ===== *)
theory CJSON_Roundtrip
  imports CJSON
begin

unbundle bit_operations_syntax

section \<open>What the JSON library prints it reads back\<close>

text \<open>
  The printer fills its buffers exactly (no tree overflows one), and the parser reads every
  printed tree back, formatted or not, whatever text follows it. The trees are the ones the
  tools build: strings without NUL and numbers that hold an integer of up to 53 bits.
\<close>

subsection \<open>Strings round trip\<close>

lemma of_char_range: "(of_char c :: nat) < 256"
  by simp

lemma of_char_pos: "c \<noteq> NUL \<Longrightarrow> 0 < (of_char c :: nat)"
  using of_char_eq_iff [of c NUL, where 'a = nat] by simp

lemma length_esc_char [simp]: "length (esc_char c) = esc_len c"
  by (auto simp: esc_char_def esc_len_def hex4_def)

lemma length_concat_esc [simp]: "length (concat (map esc_char s)) = sum_list (map esc_len s)"
  by (induction s) auto

definition string_text :: "string \<Rightarrow> string" where
  "string_text s = quote # concat (map esc_char s) @ [quote]"

lemma print_string_ptr_text [simp]: "print_string_ptr (Some s) = Inr (string_text s)"
  by (simp add: print_string_ptr_def string_text_def)

lemma hex_val_hex_char [simp]: "d < 16 \<Longrightarrow> hex_val (hex_char d) = Some d"
  by (auto simp: hex_val_def hex_char_def Let_def)

lemma hex_digits_sum:
  assumes "(n::nat) < 65536"
  shows "((n div 4096 mod 16 * 16 + n div 256 mod 16) * 16 + n div 16 mod 16) * 16 + n mod 16 = n"
proof -
  have "n div 16 = n div 256 * 16 + n div 16 mod 16" "n div 256 = n div 4096 * 16 + n div 256 mod 16"
    using div_mult_mod_eq [of "n div 16" 16] div_mult_mod_eq [of "n div 256" 16]
    by (simp_all add: div_mult2_eq [symmetric])
  moreover have "n div 4096 mod 16 = n div 4096"
    using assms by (simp add: less_mult_imp_div_less)
  ultimately show ?thesis
    using div_mult_mod_eq [of n 16] by simp
qed

lemma parse_hex4_hex4:
  assumes "n < 65536"
  shows "parse_hex4 (hex4 n @ r) = n"
proof -
  have four: "(4::nat) = Suc (Suc (Suc (Suc 0)))" by simp
  show ?thesis
    using hex_digits_sum [OF assms] assms less_mult_imp_div_less [of n 16 4096] unfolding parse_hex4_def four by (simp add: hex4_def)
qed

lemma decode_unicode_hex4:
  "n < 128 \<Longrightarrow> n \<noteq> 0 \<Longrightarrow> decode_unicode (hex4 n @ r) = Inr ([char_of n], r)"
  using parse_hex4_hex4 [of n r]
  by (simp add: decode_unicode_def Let_def hex4_def utf8_encode_def firstByteMark_def)

lemma decode_string_esc_char:
  assumes "c \<noteq> NUL"
  shows "decode_string (esc_char c @ r) out = decode_string r (out @ [c])"
  using decode_unicode_hex4 [of "of_char c" r] of_char_pos [OF assms]
  by (auto simp: esc_char_def simple_escape_def)

lemma decode_string_text:
  "cstring s \<Longrightarrow> decode_string (concat (map esc_char s) @ quote # r) out = Inr (out @ s, quote # r)"
  by (induction s arbitrary: out) (auto simp: decode_string_esc_char)


lemma count_string_esc_char:
  assumes "c \<noteq> NUL"
  shows "\<exists>k. 0 < k \<and> (\<forall>r n. count_string (esc_char c @ r) n = count_string r (n + k))"
proof (cases "31 < (of_char c :: nat) \<or> c \<in> {quote, backslash, CHR 0x08, CHR 0x0C, CHR 0x0A, CHR 0x0D, CHR 0x09}")
  case True
  then show ?thesis by (intro exI [of _ 1]) (auto simp: esc_char_def)
next
  case False
  have hex: "hex_char d \<noteq> quote" "hex_char d \<noteq> backslash" if "d < 16" for d
    using hex_val_hex_char [OF that] by (auto simp: hex_val_def)
  show ?thesis
    using False by (intro exI [of _ "Suc (Suc (Suc (Suc (Suc 0))))"]) (auto simp: esc_char_def hex4_def hex)
qed

lemma count_string_text:
  "cstring s \<Longrightarrow> \<exists>k \<ge> length s. count_string (concat (map esc_char s) @ quote # r) n = Inr (n + k)"
proof (induction s arbitrary: n)
  case (Cons c s)
  from Cons.prems have "c \<noteq> NUL" "cstring s" by auto
  from count_string_esc_char [OF this(1)] obtain j where
    j: "0 < j" "\<And>r n. count_string (esc_char c @ r) n = count_string r (n + j)" by blast
  from Cons.IH [OF \<open>cstring s\<close>, of "n + j"] obtain k where
    "length s \<le> k" "count_string (concat (map esc_char s) @ quote # r) (n + j) = Inr (n + j + k)" by blast
  with j show ?case by (intro exI [of _ "j + k"]) auto
qed simp

lemma parse_string_text:
  assumes "cstring s"
  shows "parse_string item (string_text s @ r)
       = Inr (set_type cJSON_String (set_valuestring (Some s) item), r)"
  using count_string_text [OF assms, of r 0] decode_string_text [OF assms, of r "[]"]
  by (auto simp: parse_string_def string_text_def)

subsection \<open>Numbers round trip\<close>

lemma digit_val_range: "c_isdigit c \<Longrightarrow> 0 \<le> digit_val c \<and> digit_val c \<le> 9"
  by (simp add: c_isdigit_def digit_val_def)

lemma digits_val_from_ge:
  "(\<And>c. c \<in> set ds \<Longrightarrow> c_isdigit c) \<Longrightarrow> 0 \<le> a \<Longrightarrow> a \<le> foldl (\<lambda>n c. n * 10 + digit_val c) a ds"
proof (induction ds arbitrary: a)
  case (Cons c ds)
  then have "0 \<le> digit_val c" using digit_val_range by simp
  then have "a \<le> a * 10 + digit_val c" using Cons.prems by simp
  also have "\<dots> \<le> foldl (\<lambda>n c. n * 10 + digit_val c) (a * 10 + digit_val c) ds"
    using Cons.prems \<open>0 \<le> digit_val c\<close> by (intro Cons.IH) auto
  finally show ?case by simp
qed simp

lemma num_step_exact:
  assumes "c_isdigit c" "0 \<le> a" "a * 10 + digit_val c < 2 ^ 53"
  shows "num_step (Fin (of_int a)) c = Fin (of_int (a * 10 + digit_val c))"
proof -
  have "\<bar>a * 10\<bar> < 2 ^ 53" "\<bar>a * 10 + digit_val c\<bar> < 2 ^ 53"
    using assms digit_val_range [OF assms(1)] by auto
  then have "rnd (of_int (a * 10)) = Fin (of_int (a * 10))"
    "rnd (of_int (a * 10 + digit_val c)) = Fin (of_int (a * 10 + digit_val c))"
    by (blast intro: rnd_of_int)+
  then show ?thesis by (simp add: num_step_def)
qed

lemma scan_digits_exact:
  "(\<And>c. c \<in> set ds \<Longrightarrow> c_isdigit c) \<Longrightarrow> \<not> c_isdigit (deref r) \<Longrightarrow> 0 \<le> a
   \<Longrightarrow> foldl (\<lambda>n c. n * 10 + digit_val c) a ds < 2 ^ 53
   \<Longrightarrow> scan_digits (Fin (of_int a)) (ds @ r)
     = (Fin (of_int (foldl (\<lambda>n c. n * 10 + digit_val c) a ds)), length ds, r)"
proof (induction ds arbitrary: a)
  case Nil
  then show ?case by (cases r) auto
next
  case (Cons c ds)
  then have d: "c_isdigit c" by simp
  have le: "a * 10 + digit_val c \<le> foldl (\<lambda>n c. n * 10 + digit_val c) (a * 10 + digit_val c) ds"
    using Cons.prems digit_val_range [OF d] by (intro digits_val_from_ge) auto
  then have "num_step (Fin (of_int a)) c = Fin (of_int (a * 10 + digit_val c))"
    using Cons.prems d by (intro num_step_exact) auto
  moreover have "scan_digits (Fin (of_int (a * 10 + digit_val c))) (ds @ r)
     = (Fin (of_int (foldl (\<lambda>n c. n * 10 + digit_val c) (a * 10 + digit_val c) ds)), length ds, r)"
    using Cons.prems digit_val_range [OF d] by (intro Cons.IH) auto
  ultimately show ?case using d by simp
qed

lemma show_nat_hd_pos: "0 < n \<Longrightarrow> hd (show_nat n) \<noteq> CHR ''0''"
proof (induction n rule: show_nat.induct)
  case (1 n)
  show ?case
  proof (cases "n < 10")
    case True
    have "digit_char n \<noteq> CHR ''0''"
      using of_char_digit_char [OF True] 1(2) by auto
    then show ?thesis using True by (simp add: show_nat.simps [of n])
  next
    case False
    then show ?thesis using 1 by (simp add: show_nat.simps [of n])
  qed
qed

definition num_stop :: "string \<Rightarrow> bool" where
  \<comment> \<open>the text does not go on as a number\<close>
  "num_stop r \<longleftrightarrow> \<not> c_isdigit (deref r) \<and> deref r \<notin> {CHR ''.'', CHR ''e'', CHR ''E''}"

lemma c_isdigit_not_minus [simp]: "\<not> c_isdigit (CHR ''-'')"
  by (simp add: c_isdigit_def)

lemma isdigit_not_minus: "c_isdigit c \<Longrightarrow> c \<noteq> CHR ''-''"
  by auto

definition number_item :: "int \<Rightarrow> cJSON \<Rightarrow> cJSON" where
  "number_item i item = set_type cJSON_Number
     (set_valueint (d2i (Fin (of_int i))) (set_valuedouble (Fin (of_int i)) item))"

lemma scan_int_show_nat:
  assumes "num_stop r" "n < 2 ^ 53"
  shows "scan_int (show_nat n @ r) = (Fin (of_nat n), r)"
proof (cases "n = 0")
  case True
  have "show_nat 0 = ''0''" by code_simp
  then show ?thesis using True assms by (simp add: num_stop_def scan_int_def)
next
  case False
  have "deref (show_nat n) \<noteq> CHR ''0''" "c_isdigit (deref (show_nat n))"
    using show_nat_hd_pos [of n] show_nat_digits [of "hd (show_nat n)" n] False
    by (cases "show_nat n"; simp)+
  moreover have "foldl (\<lambda>n c. n * 10 + digit_val c) 0 (show_nat n) = int n"
    using digits_val_show_nat [of n] by (simp add: digits_val_def)
  then have "scan_digits (Fin (of_int 0)) (show_nat n @ r) = (Fin (of_int (int n)), length (show_nat n), r)"
    using scan_digits_exact [of "show_nat n" r 0] show_nat_digits assms by (auto simp: num_stop_def)
  ultimately show ?thesis by (simp add: scan_int_def)
qed

lemma parse_number_int:
  assumes "num_stop r" "\<bar>i\<bar> < 2 ^ 53"
  shows "parse_number item (show_int i @ r) = (number_item i item, r)"
proof -
  define n where "n = nat \<bar>i\<bar>"
  have n: "n < 2 ^ 53" using assms(2) by (simp add: n_def nat_less_iff)
  have d: "deref (show_nat n @ r) \<noteq> CHR ''-''"
    using show_nat_digits [of "hd (show_nat n)" n] by (cases "show_nat n") auto
  have e: "parse_exponent r = (0, r)" "\<And>m. scan_frac m r = (m, 0, r)"
    using assms(1) by (simp_all add: parse_exponent_def scan_frac_def num_stop_def)
  have r: "rnd (of_int i) = Fin (of_int i)" using assms(2) by (rule rnd_of_int)
  show ?thesis
  proof (cases "i < 0")
    case True
    then have "show_int i = CHR ''-'' # show_nat n" "- rat_of_nat n = of_int i"
      by (simp_all add: show_int_def n_def)
    then show ?thesis
      using scan_int_show_nat [OF assms(1) n] e r by (simp add: parse_number_def number_item_def)
  next
    case False
    then have "show_int i = show_nat n" "rat_of_nat n = of_int i"
      by (simp_all add: show_int_def n_def)
    then show ?thesis
      using scan_int_show_nat [OF assms(1) n] e r d by (simp add: parse_number_def number_item_def)
  qed
qed

definition int_number :: "int \<Rightarrow> double \<Rightarrow> bool" where
  \<comment> \<open>a number holding an integer of up to 53 bits, as \<open>cJSON_CreateNumber\<close> makes it\<close>
  "int_number vi vd \<longleftrightarrow> (case vd of Fin x \<Rightarrow> x = of_int \<lfloor>x\<rfloor> \<and> \<bar>\<lfloor>x\<rfloor>\<bar> < 2 ^ 53 \<and> vi = d2i vd | _ \<Rightarrow> False)"

lemma int_numberE:
  assumes "int_number vi vd"
  obtains i where "vd = Fin (of_int i)" "\<bar>i\<bar> < 2 ^ 53" "vi = d2i (Fin (of_int i))"
  using assms by (auto simp: int_number_def split: double.splits)

lemma length_show_int: "\<bar>i\<bar> < 10 ^ k \<Longrightarrow> 0 < k \<Longrightarrow> length (show_int i) \<le> Suc k"
proof -
  assume a: "\<bar>i\<bar> < 10 ^ k" and k: "0 < k"
  have "nat \<bar>i\<bar> < 10 ^ k" using a by (simp add: nat_less_iff)
  from length_show_nat [OF k this] show ?thesis by (auto simp: show_int_def)
qed

lemma print_number_int:
  assumes "\<bar>i\<bar> < 2 ^ 53" "valuedouble item = Fin (of_int i)" "valueint item = d2i (Fin (of_int i))"
  shows "print_number item = Inr (show_int i)"
proof -
  have "length (show_int i) \<le> Suc 16"
    using assms(1) by (intro length_show_int) auto
  then have l: "length (show_int i) < 21" "length (show_int i) < 64" by simp_all
  show ?thesis
  proof (cases "is_int i")
    case True
    then show ?thesis
      using assms l by (simp add: print_number_def dbl_near_def is_int_def)
  next
    case False
    then have "\<not> dbl_near INT_MIN (Fin (of_int i))"
    proof -
      have "1 \<le> \<bar>INT_MIN - i\<bar>" using False by (auto simp: is_int_def)
      then have "1 \<le> \<bar>of_int INT_MIN - rat_of_int i\<bar>"
        by (metis of_int_1_le_iff of_int_abs of_int_diff)
      moreover have "1 / 2 ^ 52 < (1::rat)" by simp
      ultimately show ?thesis unfolding dbl_near_def double.case by linarith
    qed
    moreover have "\<bar>rat_of_int i\<bar> < dbl_1e60"
    proof -
      have "\<bar>rat_of_int i\<bar> < of_int (2 ^ 53)"
        using assms(1) by (metis of_int_abs of_int_less_iff)
      then show ?thesis by (simp add: dbl_1e60_def)
    qed
    ultimately show ?thesis
      using assms l False by (simp add: print_number_def dbl_whole_def)
  qed
qed

subsection \<open>The printed text, without the buffers\<close>

function json_text :: "bool \<Rightarrow> nat \<Rightarrow> cJSON \<Rightarrow> string" where
  "json_text fmt d item = (let t = jtype item AND 255 in
     if t = cJSON_NULL then ''null''
     else if t = cJSON_False then ''false''
     else if t = cJSON_True then ''true''
     else if t = cJSON_Number then (case valuedouble item of Fin x \<Rightarrow> show_int \<lfloor>x\<rfloor> | _ \<Rightarrow> [])
     else if t = cJSON_String then string_text (the (valuestring item))
     else if t = cJSON_Array then (if child item = [] then ''[]''
       else compose_array fmt (map (json_text fmt (d + 1)) (child item)))
     else (if child item = [] then ''{'' @ (if fmt then newline # tabs (d - 1) else []) @ ''}''
       else compose_object fmt (d + 1)
         (map (\<lambda>c. (string_text (the (jname c)), json_text fmt (d + 1) c)) (child item))))"
  by pat_completeness auto
termination
  by (relation "measure (\<lambda>(_, _, c). size c)") (auto dest: size_child_item)

declare json_text.simps [simp del]

function wf_json :: "cJSON \<Rightarrow> bool" where
  "wf_json item = (let t = jtype item AND 255 in t \<in> {0..6}
     \<and> (t = cJSON_Number \<longrightarrow> int_number (valueint item) (valuedouble item))
     \<and> (t = cJSON_String \<longrightarrow> (case valuestring item of None \<Rightarrow> False | Some s \<Rightarrow> cstring s))
     \<and> (t = cJSON_Array \<longrightarrow> list_all wf_json (child item))
     \<and> (t = cJSON_Object \<longrightarrow> list_all (\<lambda>c. wf_json c
          \<and> (case jname c of None \<Rightarrow> False | Some s \<Rightarrow> cstring s)) (child item)))"
  by pat_completeness auto
termination
  by (relation "measure size") (auto dest: size_child_item)

declare wf_json.simps [simp del]

lemma join_Cons: "join sep (x # xs) = x @ concat (map (\<lambda>e. sep @ e) xs)"
  by (induction xs arbitrary: x) auto

lemma length_join: "length (join sep xs) \<le> sum_list (map (\<lambda>e. length e + length sep) xs)"
  by (induction sep xs rule: join.induct) auto

lemma compose_array_fits: "length (compose_array fmt es) < array_len fmt es"
proof -
  have "length (join (if fmt then '', '' else '','') es)
    \<le> sum_list (map (\<lambda>e. length e + 2 + (if fmt then 1 else 0)) es)"
    by (rule order_trans [OF length_join]) (auto intro!: sum_list_mono)
  then show ?thesis by (simp add: compose_array_def array_len_def)
qed

lemma compose_object_fits: "length (compose_object fmt (Suc d) ms) < object_len fmt (Suc d) ms"
proof -
  have "length (join ('','' @ (if fmt then [newline] else [])) (map (compose_member fmt (Suc d)) ms))
    \<le> sum_list (map (\<lambda>(str, ret). length ret + length str + 2 + (if fmt then 2 + Suc d else 0)) ms)"
    by (rule order_trans [OF length_join])
      (auto simp: compose_member_def tabs_def comp_def split_def intro!: sum_list_mono)
  then show ?thesis by (cases fmt) (auto simp: compose_object_def object_len_def tabs_def)
qed

lemma thoser_map_cong: "(\<And>x. x \<in> set xs \<Longrightarrow> f x = Inr (g x)) \<Longrightarrow> thoser (map f xs) = Inr (map g xs)"
  by (induction xs) auto

lemma print_value_text: "wf_json item \<Longrightarrow> print_value item d fmt = Inr (json_text fmt d item)"
proof (induction item arbitrary: d rule: wf_json.induct)
  case (1 item)
  note simps = json_text.simps [of fmt d item] print_value.simps [of item d fmt]
  define t where "t = jtype item AND 255"
  have t: "t \<in> {0..6}" using "1.prems" by (subst (asm) wf_json.simps) (simp add: t_def Let_def)
  note wf = "1.prems" [unfolded wf_json.simps [of item] Let_def, folded t_def]
  consider "t = 0 \<or> t = 1 \<or> t = 2" | "t = 3" | "t = 4" | "t = 5" | "t = 6" using t by fastforce
  then show ?case
  proof cases
    case 1
    then show ?thesis by (auto simp: simps simp flip: t_def)
  next
    case 2
    with wf have "int_number (valueint item) (valuedouble item)" by simp
    then obtain i where "valuedouble item = Fin (of_int i)" "\<bar>i\<bar> < 2 ^ 53"
      "valueint item = d2i (Fin (of_int i))" by (rule int_numberE)
    then show ?thesis using 2 print_number_int [of i item] by (simp add: simps flip: t_def)
  next
    case 3
    then show ?thesis using wf by (auto simp: simps print_string_def simp flip: t_def split: option.splits)
  next
    case 4
    have "print_value c (d + 1) fmt = Inr (json_text fmt (d + 1) c)" if "c \<in> set (child item)" for c
      using "1.IH"(1) [OF t_def] wf 4 that by (simp add: list_all_iff)
    then show ?thesis
      using 4 by (simp add: simps print_array.simps compose_array_fits thoser_map_cong flip: t_def)
  next
    case 5
    have "print_value c (d + 1) fmt = Inr (json_text fmt (d + 1) c)"
       "print_string_ptr (jname c) = Inr (string_text (the (jname c)))" if "c \<in> set (child item)" for c
      using "1.IH"(2) [OF t_def] wf 5 that by (auto simp: list_all_iff split: option.splits)
    then show ?thesis
      using 5 compose_object_fits
      by (simp add: simps print_object.simps tabs_def thoser_map_cong flip: t_def)
  qed
qed


subsection \<open>Reading the text back\<close>

function canon :: "string option \<Rightarrow> cJSON \<Rightarrow> cJSON" where
  \<comment> \<open>the tree the parser builds for a printed item, under the name it was given\<close>
  "canon nm item = (let t = jtype item AND 255 in
     if t = cJSON_True then CJ t None 1 (Fin 0) nm []
     else if t = cJSON_Number then CJ t None (valueint item) (valuedouble item) nm []
     else if t = cJSON_String then CJ t (valuestring item) 0 (Fin 0) nm []
     else if t = cJSON_Array then CJ t None 0 (Fin 0) nm (map (canon None) (child item))
     else if t = cJSON_Object then CJ t None 0 (Fin 0) nm (map (\<lambda>c. canon (jname c) c) (child item))
     else CJ t None 0 (Fin 0) nm [])"
  by pat_completeness auto
termination
  by (relation "measure (\<lambda>(_, c). size c)") (auto dest: size_child_item)

declare canon.simps [simp del]

definition solid :: "string \<Rightarrow> bool" where
  "solid s \<longleftrightarrow> s \<noteq> [] \<and> 32 < (of_char (deref s) :: nat)"

lemma skip_solid [simp]: "solid s \<Longrightarrow> skip (s @ r) = s @ r"
  by (cases s) (auto simp: solid_def)

lemma isdigit_nat: "c_isdigit c \<longleftrightarrow> 48 \<le> (of_char c :: nat) \<and> (of_char c :: nat) \<le> 57"
proof -
  have "(of_char c :: int) = int (of_char c)" by (simp only: of_nat_of_char)
  then show ?thesis unfolding c_isdigit_def by linarith
qed

lemma solid_show_int: "solid (show_int i)"
proof -
  have "32 < (of_char (deref (show_nat n)) :: nat)" for n
    using show_nat_digits [of "deref (show_nat n)" n] show_nat_nonempty [of n]
    by (cases "show_nat n") (auto simp: isdigit_nat)
  then show ?thesis by (simp add: solid_def show_int_def)
qed

lemma solid_json_text: "wf_json item \<Longrightarrow> solid (json_text fmt d item)"
  by (subst (asm) wf_json.simps, subst json_text.simps)
    (auto simp: Let_def solid_show_int string_text_def compose_array_def compose_object_def
       int_number_def solid_def [of "_ # _"] split: double.splits)

lemma num_stop_simps [simp]:
  "num_stop []" "num_stop (CHR '','' # r)" "num_stop (CHR '']'' # r)" "num_stop (CHR ''}'' # r)"
  "num_stop (newline # r)"
  by (simp_all add: num_stop_def c_isdigit_def)

lemma num_stop_more:
  assumes "sep \<noteq> []" "num_stop sep" "num_stop r"
  shows "num_stop (concat (map (\<lambda>e. sep @ e) es) @ r)"
  using assms by (cases es) (auto simp: num_stop_def)

lemma parse_array_loop_text:
  assumes "sep \<in> {'','', '', ''}"
    and "\<And>c r. c \<in> set cs \<Longrightarrow> num_stop r \<Longrightarrow> pv cJSON_New_Item (f c @ r) = Inr (g c, r)"
    and "\<And>c. c \<in> set cs \<Longrightarrow> solid (f c)"
    and "length cs < n"
  shows "parse_array_loop pv n acc (concat (map (\<lambda>c. sep @ f c) cs) @ CHR '']'' # r)
       = Inr (acc @ map g cs, CHR '']'' # r)"
  using assms(2-)
proof (induction cs arbitrary: acc n)
  case Nil
  then show ?case by (cases n) auto
next
  case (Cons c cs)
  define rest where "rest = concat (map (\<lambda>c. sep @ f c) cs) @ CHR '']'' # r"
  from Cons.prems(3) obtain m where n: "n = Suc m" "length cs < m" by (cases n) auto
  have rest: "num_stop rest" "skip rest = rest"
    using assms(1) by (cases cs; auto simp: rest_def num_stop_def c_isdigit_def)+
  have "parse_array_loop pv m (acc @ [g c]) rest = Inr ((acc @ [g c]) @ map g cs, CHR '']'' # r)"
    unfolding rest_def using n Cons.prems by (intro Cons.IH) auto
  moreover have "pv cJSON_New_Item (f c @ rest) = Inr (g c, rest)" "solid (f c)"
    using Cons.prems(1) [of c rest] Cons.prems(2) rest by simp_all
  moreover have "concat (map (\<lambda>c. sep @ f c) (c # cs)) @ CHR '']'' # r = sep @ f c @ rest"
    by (simp add: rest_def)
  ultimately show ?case
    using rest assms(1) by (auto simp: n)
qed

lemma length_concat_map: "(\<And>x. x \<in> set xs \<Longrightarrow> f x \<noteq> []) \<Longrightarrow> length xs \<le> length (concat (map f xs))"
  by (induction xs) (auto simp: Suc_le_eq add_strict_increasing intro: add_mono [of 1, simplified])

lemma parse_array_text:
  assumes pv: "\<And>c r. c \<in> set cs \<Longrightarrow> num_stop r \<Longrightarrow> pv cJSON_New_Item (f c @ r) = Inr (g c, r)"
    and solid: "\<And>c. c \<in> set cs \<Longrightarrow> solid (f c) \<and> deref (f c) \<noteq> CHR '']''"
    and "cs \<noteq> []"
  shows "parse_array pv item (compose_array fmt (map f cs) @ r)
       = Inr (set_child (map g cs) (set_type cJSON_Array item), r)"
proof -
  obtain c ds where cs: "cs = c # ds" using \<open>cs \<noteq> []\<close> by (cases cs) auto
  define sep where "sep = (if fmt then '', '' else '','')"
  define rest where "rest = concat (map (\<lambda>c. sep @ f c) ds) @ CHR '']'' # r"
  have sep: "sep \<in> {'','', '', ''}" by (simp add: sep_def)
  have rest: "num_stop rest" "skip rest = rest"
    using sep by (cases ds; auto simp: rest_def num_stop_def c_isdigit_def)+
  have "length ds \<le> length (concat (map (\<lambda>c. sep @ f c) ds))"
    using sep by (intro length_concat_map) auto
  then have "parse_array_loop pv (Suc (length rest)) [g c] rest = Inr ([g c] @ map g ds, CHR '']'' # r)"
    unfolding rest_def using sep pv solid by (intro parse_array_loop_text) (auto simp: cs)
  moreover have "compose_array fmt (map f cs) @ r = CHR ''['' # f c @ rest"
    by (simp add: compose_array_def cs join_Cons rest_def comp_def flip: sep_def)
  moreover have "pv cJSON_New_Item (f c @ rest) = Inr (g c, rest)" "solid (f c)" "deref (f c @ rest) \<noteq> CHR '']''"
    using pv [of c rest] rest solid [of c] by (auto simp: cs solid_def)
  ultimately show ?thesis
    using rest by (simp add: parse_array_def Let_def cs del: parse_array_loop.simps)
qed


lemma parse_member_text:
  assumes pv: "pv (CJ cJSON_String None 0 (Fin 0) (Some nm) []) (v @ r) = Inr (c, r)"
    and "cstring nm" "solid v"
  shows "parse_member pv (compose_member fmt d (string_text nm, v) @ r) = Inr (c, skip r)"
    and "parse_member pv (newline # compose_member fmt d (string_text nm, v) @ r) = Inr (c, skip r)"
proof -
  have "skip (string_text nm @ CHR '':'' # s) = string_text nm @ CHR '':'' # s" for s
    by (simp add: string_text_def)
  then show "parse_member pv (compose_member fmt d (string_text nm, v) @ r) = Inr (c, skip r)"
    "parse_member pv (newline # compose_member fmt d (string_text nm, v) @ r) = Inr (c, skip r)"
    using assms by (simp_all add: parse_member_def compose_member_def parse_string_text cJSON_New_Item_def)
qed

lemma parse_object_loop_text:
  assumes "ws = (if fmt then newline # tabs k else [])"
    and "\<And>c r. c \<in> set cs \<Longrightarrow> num_stop r
       \<Longrightarrow> pv (CJ cJSON_String None 0 (Fin 0) (Some (h c)) []) (f c @ r) = Inr (g c, r)"
    and "\<And>c. c \<in> set cs \<Longrightarrow> solid (f c) \<and> cstring (h c)"
    and "length cs < n"
  shows "parse_object_loop pv n acc (skip (concat (map (\<lambda>c. ('','' @ (if fmt then [newline] else []))
            @ compose_member fmt d (string_text (h c), f c)) cs) @ ws @ CHR ''}'' # r))
       = Inr (acc @ map g cs, CHR ''}'' # r)"
  using assms(2-)
proof (induction cs arbitrary: acc n)
  case Nil
  then show ?case by (cases n) (auto simp: assms(1))
next
  case (Cons c cs)
  define rest where "rest = concat (map (\<lambda>c. ('','' @ (if fmt then [newline] else []))
      @ compose_member fmt d (string_text (h c), f c)) cs) @ ws @ CHR ''}'' # r"
  from Cons.prems(3) obtain m where n: "n = Suc m" "length cs < m" by (cases n) auto
  have rest: "num_stop rest"
    by (cases cs; auto simp: rest_def assms(1))
  have "parse_object_loop pv m (acc @ [g c]) (skip rest) = Inr ((acc @ [g c]) @ map g cs, CHR ''}'' # r)"
    unfolding rest_def using n Cons.prems by (intro Cons.IH) auto
  moreover have "pv (CJ cJSON_String None 0 (Fin 0) (Some (h c)) []) (f c @ rest) = Inr (g c, rest)"
    "solid (f c)" "cstring (h c)"
    using Cons.prems(1) [of c rest] Cons.prems(2) rest by simp_all
  note parse_member_text [of pv "h c" "f c" rest "g c", OF this(1) this(3) this(2), of fmt d]
  moreover have "concat (map (\<lambda>c. ('','' @ (if fmt then [newline] else []))
      @ compose_member fmt d (string_text (h c), f c)) (c # cs)) @ ws @ CHR ''}'' # r
    = '','' @ (if fmt then [newline] else []) @ compose_member fmt d (string_text (h c), f c) @ rest"
    by (simp add: rest_def)
  ultimately show ?case by (cases fmt) (simp_all add: n)
qed

lemma parse_object_text:
  assumes pv: "\<And>c r. c \<in> set cs \<Longrightarrow> num_stop r
       \<Longrightarrow> pv (CJ cJSON_String None 0 (Fin 0) (Some (h c)) []) (f c @ r) = Inr (g c, r)"
    and ok: "\<And>c. c \<in> set cs \<Longrightarrow> solid (f c) \<and> cstring (h c)"
    and "cs \<noteq> []"
  shows "parse_object pv item (compose_object fmt d (map (\<lambda>c. (string_text (h c), f c)) cs) @ r)
       = Inr (set_child (map g cs) (set_type cJSON_Object item), r)"
proof -
  obtain c ds where cs: "cs = c # ds" using \<open>cs \<noteq> []\<close> by (cases cs) auto
  define ws where "ws = (if fmt then newline # tabs (d - 1) else [])"
  define m where "m = (\<lambda>c. compose_member fmt d (string_text (h c), f c))"
  define rest where "rest = concat (map (\<lambda>c. ('','' @ (if fmt then [newline] else []))
      @ m c) ds) @ ws @ CHR ''}'' # r"
  have rest: "num_stop rest" by (cases ds; auto simp: rest_def ws_def)
  have "length ds \<le> length (skip rest)"
    using length_concat_map [of ds "\<lambda>c. ('','' @ (if fmt then [newline] else [])) @ m c"]
    by (cases ds) (auto simp: rest_def)
  then have loop: "parse_object_loop pv (Suc (length (skip rest))) [g c] (skip rest)
      = Inr ([g c] @ map g ds, CHR ''}'' # r)"
    unfolding rest_def m_def using pv ok
    by (intro parse_object_loop_text [where ws = ws and k = "d - 1"]) (auto simp: cs ws_def)
  have eq: "compose_object fmt d (map (\<lambda>c. (string_text (h c), f c)) cs) @ r
      = CHR ''{'' # (if fmt then [newline] else []) @ m c @ rest"
    by (simp add: compose_object_def cs join_Cons rest_def ws_def m_def comp_def)
  have "parse_member pv (skip (m c @ rest)) = Inr (g c, skip rest)"
    using parse_member_text(1) [of pv "h c" "f c" rest "g c" fmt d] pv [of c rest] ok [of c] rest
    by (simp add: m_def cs)
  moreover have "deref (skip (m c @ rest)) = quote"
    by (simp add: m_def compose_member_def string_text_def)
  ultimately show ?thesis
    using loop unfolding eq
    by (cases fmt) (simp_all add: parse_object_def Let_def cs del: parse_object_loop.simps)
qed


lemma length_join_member: "x \<in> set xs \<Longrightarrow> length x \<le> length (join sep xs)"
  by (induction sep xs rule: join.induct) auto

lemma length_text_array_child:
  "c \<in> set cs \<Longrightarrow> length (f c) < length (compose_array fmt (map f cs))"
  using length_join_member [of "f c" "map f cs" "if fmt then '', '' else '',''"]
  by (simp add: compose_array_def)

lemma length_text_object_child:
  assumes "c \<in> set cs"
  shows "length (f c) < length (compose_object fmt d (map (\<lambda>c. (h c, f c)) cs))"
proof -
  have "length (f c) \<le> length (compose_member fmt d (h c, f c))" by (simp add: compose_member_def)
  also have "\<dots> \<le> length (join ('','' @ (if fmt then [newline] else []))
      (map (compose_member fmt d) (map (\<lambda>c. (h c, f c)) cs)))"
    using assms by (intro length_join_member) auto
  finally show ?thesis by (simp add: compose_object_def)
qed

lemma parse_value_head:
  "deref v = quote \<Longrightarrow> parse_value (Suc k) item v = parse_string item v"
  "deref v = CHR ''-'' \<or> c_isdigit (deref v) \<Longrightarrow> parse_value (Suc k) item v = Inr (parse_number item v)"
  "deref v = CHR ''['' \<Longrightarrow> parse_value (Suc k) item v = parse_array (parse_value k) item v"
  "deref v = CHR ''{'' \<Longrightarrow> parse_value (Suc k) item v = parse_object (parse_value k) item v"
  by (cases v; auto simp: c_isdigit_def)+

lemma show_int_head: "deref (show_int i) = CHR ''-'' \<or> c_isdigit (deref (show_int i))"
proof -
  have "c_isdigit (deref (show_nat n))" for n
    using show_nat_digits [of "deref (show_nat n)" n] by (cases "show_nat n") auto
  then show ?thesis by (simp add: show_int_def)
qed

lemma show_int_nonempty [simp]: "show_int i \<noteq> []"
  by (simp add: show_int_def)

lemma deref_show_int_ne [simp]: "deref (show_int i) \<noteq> CHR '']''"
  using show_int_head [of i] by (auto simp: c_isdigit_def)

lemma deref_text [simp]:
  "deref (string_text s @ r) = quote" "deref (string_text s) = quote"
  "deref (compose_array fmt es) = CHR ''[''" "deref (compose_array fmt es @ r) = CHR ''[''"
  "deref (compose_object fmt d ms) = CHR ''{''" "deref (compose_object fmt d ms @ r) = CHR ''{''"
  by (simp_all add: string_text_def compose_array_def compose_object_def)

lemma json_text_head: "wf_json item \<Longrightarrow> deref (json_text fmt d item) \<noteq> CHR '']''"
  by (subst (asm) wf_json.simps, subst json_text.simps)
    (auto simp: Let_def int_number_def split: double.splits)

lemma parse_value_array:
  assumes t: "jtype item AND 255 = cJSON_Array" and wf: "list_all wf_json (child item)"
    and IH: "\<And>c r. c \<in> set (child item) \<Longrightarrow> num_stop r
       \<Longrightarrow> parse_value k cJSON_New_Item (json_text fmt (d + 1) c @ r) = Inr (canon None c, r)"
  shows "parse_value (Suc k) (CJ t0 None 0 (Fin 0) nm []) (json_text fmt d item @ r) = Inr (canon nm item, r)"
proof (cases "child item = []")
  case True
  then show ?thesis
    using t by (simp add: json_text.simps [of fmt d item] canon.simps [of nm item] parse_array_def c_isdigit_def)
next
  case False
  let ?f = "json_text fmt (d + 1)" and ?new = "CJ t0 None 0 (Fin 0) nm []"
  have "parse_array (parse_value k) ?new (compose_array fmt (map ?f (child item)) @ r)
      = Inr (set_child (map (canon None) (child item)) (set_type cJSON_Array ?new), r)"
    using IH wf False by (intro parse_array_text) (auto simp: list_all_iff solid_json_text json_text_head)
  then show ?thesis
    using t False by (simp add: json_text.simps [of fmt d item] canon.simps [of nm item]
        parse_value_head(3) del: parse_value.simps)
qed

lemma parse_value_object:
  assumes t: "jtype item AND 255 = cJSON_Object"
    and wf: "list_all (\<lambda>c. wf_json c \<and> (case jname c of None \<Rightarrow> False | Some s \<Rightarrow> cstring s)) (child item)"
    and IH: "\<And>c r. c \<in> set (child item) \<Longrightarrow> num_stop r
       \<Longrightarrow> parse_value k (CJ cJSON_String None 0 (Fin 0) (jname c) []) (json_text fmt (d + 1) c @ r)
         = Inr (canon (jname c) c, r)"
  shows "parse_value (Suc k) (CJ t0 None 0 (Fin 0) nm []) (json_text fmt d item @ r) = Inr (canon nm item, r)"
proof (cases "child item = []")
  case True
  then show ?thesis
    using t by (simp add: json_text.simps [of fmt d item] canon.simps [of nm item] parse_object_def c_isdigit_def)
next
  case False
  let ?f = "json_text fmt (d + 1)" and ?new = "CJ t0 None 0 (Fin 0) nm []"
  have name: "jname c = Some (the (jname c))" "cstring (the (jname c))" "wf_json c"
    if "c \<in> set (child item)" for c
    using wf that by (auto simp: list_all_iff split: option.splits)
  have "parse_object (parse_value k) ?new
        (compose_object fmt (d + 1) (map (\<lambda>c. (string_text (the (jname c)), ?f c)) (child item)) @ r)
      = Inr (set_child (map (\<lambda>c. canon (jname c) c) (child item)) (set_type cJSON_Object ?new), r)"
    using IH name False by (intro parse_object_text) (simp_all add: solid_json_text)
  then show ?thesis
    using t False by (simp add: json_text.simps [of fmt d item] canon.simps [of nm item]
        parse_value_head(4) del: parse_value.simps)
qed

lemma parse_value_text:
  "wf_json item \<Longrightarrow> num_stop r \<Longrightarrow> length (json_text fmt d item) < k
   \<Longrightarrow> parse_value k (CJ t0 None 0 (Fin 0) nm []) (json_text fmt d item @ r) = Inr (canon nm item, r)"
proof (induction item arbitrary: d k t0 nm r rule: wf_json.induct)
  case (1 item)
  define t where "t = jtype item AND 255"
  note simps = json_text.simps [of fmt d item, unfolded Let_def, folded t_def]
    canon.simps [of nm item, unfolded Let_def, folded t_def]
  note wf = "1.prems"(1) [unfolded wf_json.simps [of item] Let_def, folded t_def]
  obtain j where k: "k = Suc j" using "1.prems"(3) by (cases k) auto
  consider "t = 0" | "t = 1" | "t = 2" | "t = 3" | "t = 4" | "t = 5" | "t = 6" using wf by fastforce
  then show ?case
  proof cases
    case 4
    with wf have "int_number (valueint item) (valuedouble item)" by simp
    then obtain i where i: "valuedouble item = Fin (of_int i)" "\<bar>i\<bar> < 2 ^ 53"
      "valueint item = d2i (Fin (of_int i))" by (rule int_numberE)
    have "json_text fmt d item = show_int i" using 4 i by (simp add: simps)
    then show ?thesis
      using parse_value_head(2) [of "show_int i @ r"] show_int_head [of i] 4 i
        parse_number_int [OF "1.prems"(2) i(2)]
      by (simp add: k simps number_item_def del: parse_value.simps d2i_of_int)
  next
    case 5
    then obtain s where "valuestring item = Some s" "cstring s" using wf by (auto split: option.splits)
    then show ?thesis
      using 5 parse_value_head(1) [of "string_text s @ r"]
      by (simp add: simps k parse_string_text del: parse_value.simps)
  next
    case 6
    have "length (json_text fmt (d + 1) c) < j" if "c \<in> set (child item)" for c
      using length_text_array_child [OF that, of "json_text fmt (d + 1)" fmt] "1.prems"(3) that 6
      by (cases "child item = []") (auto simp: simps k)
    then show ?thesis
      using "1.IH"(1) [OF t_def 6] wf 6 unfolding k t_def
      by (intro parse_value_array) (auto simp: list_all_iff cJSON_New_Item_def)
  next
    case 7
    have "length (json_text fmt (d + 1) c) < j" if "c \<in> set (child item)" for c
      using length_text_object_child [OF that, of "json_text fmt (d + 1)" fmt "d + 1"
          "\<lambda>c. string_text (the (jname c))"] "1.prems"(3) that 7
      by (cases "child item = []") (auto simp: simps k)
    then show ?thesis
      using "1.IH"(2) [OF t_def 7] wf 7 unfolding k t_def
      by (intro parse_value_object) (auto simp: list_all_iff)
  qed (simp_all add: simps k)
qed

lemma hex_char_not_NUL: "d < 16 \<Longrightarrow> hex_char d \<noteq> NUL"
  using hex_val_hex_char [of d] by (auto simp: hex_val_def)

lemma cstring_hex4 [simp]: "cstring (hex4 n)"
  by (simp add: hex4_def hex_char_not_NUL)

lemma cstring_esc_char: "c \<noteq> NUL \<Longrightarrow> cstring (esc_char c)"
  by (auto simp: esc_char_def)

lemma cstring_concat [simp]: "cstring (concat xs) \<longleftrightarrow> list_all cstring xs"
  by (auto simp: cstring_def list_all_iff)

lemma cstring_string_text: "cstring s \<Longrightarrow> cstring (string_text s)"
  by (induction s) (auto simp: string_text_def cstring_esc_char)

lemma cstring_join: "cstring sep \<Longrightarrow> list_all cstring xs \<Longrightarrow> cstring (join sep xs)"
  by (induction sep xs rule: join.induct) auto

lemma cstring_tabs [simp]: "cstring (tabs n)"
  by (simp add: tabs_def cstring_def)

lemma cstring_json_text: "wf_json item \<Longrightarrow> cstring (json_text fmt d item)"
proof (induction item arbitrary: d rule: wf_json.induct)
  case (1 item)
  define t where "t = jtype item AND 255"
  note wf = "1.prems" [unfolded wf_json.simps [of item] Let_def, folded t_def]
  have children: "cstring (json_text fmt (d + 1) c)"
    if "t = cJSON_Array \<or> t = cJSON_Object" "c \<in> set (child item)" for c
    using that(1)
  proof
    assume "t = cJSON_Array"
    then show ?thesis using "1.IH"(1) [OF t_def _ that(2)] wf that(2) by (simp add: list_all_iff)
  next
    assume "t = cJSON_Object"
    then show ?thesis using "1.IH"(2) [OF t_def _ that(2)] wf that(2) by (simp add: list_all_iff)
  qed
  have names: "cstring (string_text (the (jname c)))" if "t = cJSON_Object" "c \<in> set (child item)" for c
    using that wf by (auto simp: list_all_iff cstring_string_text split: option.splits)
  note tx = json_text.simps [of fmt d item, unfolded Let_def, folded t_def]
  consider "t = 0" | "t = 1" | "t = 2" | "t = 3" | "t = 4" | "t = 5" | "t = 6" using wf by fastforce
  then show ?case
  proof cases
    case 4
    then show ?thesis using wf by (auto simp: tx int_number_def split: double.splits)
  next
    case 5
    then show ?thesis using wf by (auto simp: tx cstring_string_text split: option.splits)
  next
    case 6
    have "cstring (join (if fmt then '', '' else '','') (map (json_text fmt (d + 1)) (child item)))"
      using children 6 by (intro cstring_join) (auto simp: list_all_iff)
    then show ?thesis using 6 by (simp add: tx compose_array_def)
  next
    case 7
    have "cstring (join ('','' @ (if fmt then [newline] else [])) (map (compose_member fmt (d + 1))
        (map (\<lambda>c. (string_text (the (jname c)), json_text fmt (d + 1) c)) (child item))))"
      using children names 7 by (intro cstring_join) (auto simp: list_all_iff compose_member_def)
    then show ?thesis using 7 by (simp add: tx compose_object_def)
  qed (simp_all add: tx)
qed

lemma skip_json_text: "wf_json item \<Longrightarrow> skip (json_text fmt d item @ r) = json_text fmt d item @ r"
  by (simp add: solid_json_text)

subsection \<open>The trees the tools build\<close>

lemma item_updates [simp]:
  "jtype (set_name nm c) = jtype c" "jtype (set_child cs c) = jtype c"
  "valuestring (set_name nm c) = valuestring c" "valuestring (set_child cs c) = valuestring c"
  "valueint (set_name nm c) = valueint c" "valueint (set_child cs c) = valueint c"
  "valuedouble (set_name nm c) = valuedouble c" "valuedouble (set_child cs c) = valuedouble c"
  "child (set_name nm c) = child c" "child (set_child cs c) = cs"
  "jname (set_name nm c) = nm" "jname (set_child cs c) = jname c"
  by (cases c; simp)+

lemma create_fields [simp]:
  "jtype cJSON_CreateObject = cJSON_Object" "child cJSON_CreateObject = []"
  "jtype cJSON_CreateArray = cJSON_Array" "child cJSON_CreateArray = []"
  "jtype (cJSON_CreateString s) = cJSON_String" "valuestring (cJSON_CreateString s) = Some (cstr s)"
  "jtype (cJSON_CreateNumber x) = cJSON_Number" "valuedouble (cJSON_CreateNumber x) = x"
  "valueint (cJSON_CreateNumber x) = d2i x"
  "jtype cJSON_CreateNull = cJSON_NULL"
  "jtype (cJSON_CreateBool b) = (if b \<noteq> 0 then cJSON_True else cJSON_False)"
  by (simp_all add: cJSON_CreateObject_def cJSON_CreateArray_def cJSON_CreateString_def
      cJSON_CreateNumber_def cJSON_CreateNull_def cJSON_CreateBool_def cJSON_New_Item_def)

lemma add_fields [simp]:
  "jtype (cJSON_AddItemToArray a c) = jtype a" "child (cJSON_AddItemToArray a c) = child a @ [c]"
  "jtype (cJSON_AddItemToObject a k c) = jtype a"
  "child (cJSON_AddItemToObject a k c) = child a @ [set_name (Some (cstr k)) c]"
  by (simp_all add: cJSON_AddItemToArray_def cJSON_AddItemToObject_def)

lemma wf_set_name [simp]: "wf_json (set_name nm c) = wf_json c"
  by (subst (1 2) wf_json.simps) simp

lemma wf_create [simp]:
  "wf_json cJSON_CreateObject" "wf_json cJSON_CreateArray" "wf_json cJSON_CreateNull"
  "wf_json (cJSON_CreateBool b)" "wf_json (cJSON_CreateString s)"
  by (subst wf_json.simps, simp)+

lemma int_number_of_int: "\<bar>n\<bar> < 2 ^ 53 \<Longrightarrow> int_number (d2i (Fin (of_int n))) (Fin (of_int n))"
  by (simp add: int_number_def)

lemma wf_create_number [simp]: "\<bar>n\<bar> < 2 ^ 53 \<Longrightarrow> wf_json (cJSON_CreateNumber (dbl_of_int n))"
  by (subst wf_json.simps) (simp add: dbl_of_int_def int_number_of_int del: d2i_of_int)

definition is_object :: "cJSON \<Rightarrow> bool" where
  "is_object c \<longleftrightarrow> jtype c AND 255 = cJSON_Object"

definition is_array :: "cJSON \<Rightarrow> bool" where
  "is_array c \<longleftrightarrow> jtype c AND 255 = cJSON_Array"

lemma is_object_simps [simp]:
  "is_object cJSON_CreateObject" "is_object (cJSON_AddItemToObject a k c) = is_object a"
  "is_array cJSON_CreateArray" "is_array (cJSON_AddItemToArray a c) = is_array a"
  by (simp_all add: is_object_def is_array_def)

lemma wf_add [simp]:
  "is_object a \<Longrightarrow> wf_json (cJSON_AddItemToObject a k c) \<longleftrightarrow> wf_json a \<and> wf_json c"
  "is_array a \<Longrightarrow> wf_json (cJSON_AddItemToArray a c) \<longleftrightarrow> wf_json a \<and> wf_json c"
  by (auto simp: wf_json.simps [of "cJSON_AddItemToArray a c"] wf_json.simps [of a]
      wf_json.simps [of "cJSON_AddItemToObject a k c"] is_object_def is_array_def)

lemmas json_add_defs = cJSON_AddNullToObject_def cJSON_AddBoolToObject_def
  cJSON_AddNumberToObject_def cJSON_AddStringToObject_def

lemma parse_json_text:
  assumes "wf_json item" "num_stop r" "cstring r"
  shows "cJSON_ParseWithOpts (json_text fmt 0 item @ r) False = Inr (canon None item, r)"
proof -
  have "parse_value (parse_fuel (json_text fmt 0 item @ r)) cJSON_New_Item (json_text fmt 0 item @ r)
      = Inr (canon None item, r)"
    unfolding cJSON_New_Item_def using assms by (intro parse_value_text) (auto simp: parse_fuel_def)
  then show ?thesis
    using assms by (simp add: cJSON_ParseWithOpts_def cstring_json_text skip_json_text)
qed

text \<open>
  C1. Whatever tree the tools build (strings without NUL, integers of up to 53 bits) prints, in
  either format, without overflowing one of the buffers it allocates, and parsing the printed
  text followed by any text that does not continue a number gives the tree back (in the
  parser's normal form \<open>canon\<close>), with the parser stopping exactly at the text that follows.
\<close>

theorem cJSON_print_parse:
  assumes "wf_json item" "num_stop r" "cstring r"
  shows "\<exists>text. print_value item 0 fmt = Inr text
    \<and> cJSON_ParseWithOpts (text @ r) False = Inr (canon None item, r)"
  using print_value_text [OF assms(1)] parse_json_text [OF assms] by blast

definition sample_event :: cJSON where
  "sample_event = cJSON_AddItemToObject
     (cJSON_AddNumberToObject (cJSON_AddStringToObject cJSON_CreateObject ''type'' ''FUSE_INVOKE'') ''seq'' (- 12))
     ''params'' (cJSON_AddItemToArray cJSON_CreateArray (cJSON_CreateString [quote, newline, CHR 0x01, backslash]))"

lemma sample_event_wf: "wf_json sample_event"
  by (simp add: sample_event_def json_add_defs)

theorem cJSON_print_parse_witness:
  "wf_json sample_event \<and> num_stop '' {'' \<and> cstring '' {''
   \<and> (\<exists>text. print_value sample_event 0 True = Inr text
      \<and> cJSON_ParseWithOpts (text @ '' {'') False = Inr (canon None sample_event, '' {''))"
proof -
  have "num_stop '' {''" "cstring '' {''" by (simp_all add: num_stop_def c_isdigit_def)
  then show ?thesis
    using cJSON_print_parse [OF sample_event_wf, of "'' {''" True] sample_event_wf by blast
qed

end
