(* ===== verification/Framing.thy ===== *)
theory Framing
  imports CJSON_Roundtrip
begin

unbundle bit_operations_syntax

section \<open>Cutting the event stream into JSON texts\<close>

text \<open>
  The loop that the debugger (\<^verbatim>\<open>src/debugger.c\<close>, \<open>doStartDebugger\<close>), the test suite, the
  wizard and the logger share: it reads the pipe a byte at a time, counts braces outside string
  literals, and parses a chunk whenever the count is back at zero. The pipe is the list of bytes
  still to come, and the end of file is sticky. The inner loop is a \<open>partial_function\<close>: it
  does not return when the pipe ends inside an object.
\<close>

subsection \<open>The reader\<close>

record reader =
  input :: string
  fifoOpen :: bool
  unclosed_braces :: int
  unclosed_quotes :: bool
  escaping :: bool
  json_chunk :: string
  json_chunk_capacity :: nat

definition open_reader :: "string \<Rightarrow> reader" where
  "open_reader bytes = \<lparr>input = bytes, fifoOpen = True, unclosed_braces = 0, unclosed_quotes = False,
     escaping = False, json_chunk = [], json_chunk_capacity = 1024\<rparr>"

definition start_chunk :: "reader \<Rightarrow> reader" where
  "start_chunk s = s\<lparr>unclosed_braces := 0, unclosed_quotes := False, escaping := False, json_chunk := []\<rparr>"

definition store_byte :: "char \<Rightarrow> reader \<Rightarrow> reader c_res" where
  "store_byte c s =
     (let s = (if length (json_chunk s) + 1 \<ge> json_chunk_capacity s
          then s\<lparr>json_chunk_capacity := json_chunk_capacity s * 2\<rparr> else s)
      in if length (json_chunk s) < json_chunk_capacity s
         then Inr (s\<lparr>json_chunk := json_chunk s @ [c]\<rparr>) else Inl HeapOverflow)"

definition track :: "char \<Rightarrow> reader \<Rightarrow> reader" where
  "track c s =
     (let s = (if \<not> unclosed_quotes s \<and> c = CHR ''{'' then s\<lparr>unclosed_braces := unclosed_braces s + 1\<rparr>
          else if \<not> unclosed_quotes s \<and> c = CHR ''}'' then s\<lparr>unclosed_braces := unclosed_braces s - 1\<rparr>
          else if \<not> escaping s \<and> c = quote then s\<lparr>unclosed_quotes := \<not> unclosed_quotes s\<rparr> else s)
      in if c = backslash then s\<lparr>escaping := True\<rparr> else s\<lparr>escaping := False\<rparr>)"

definition read_byte :: "reader \<Rightarrow> reader c_res" where
  "read_byte s = (case input s of
       [] \<Rightarrow> Inr (s\<lparr>fifoOpen := False\<rparr>)
     | c # rest \<Rightarrow> bindr (store_byte c (s\<lparr>input := rest\<rparr>)) (\<lambda>s. Inr (track c s)))"

partial_function (option) read_chunk :: "reader \<Rightarrow> reader c_res option" where
  "read_chunk s = (case read_byte s of
       Inl e \<Rightarrow> Some (Inl e)
     | Inr s' \<Rightarrow> if unclosed_braces s' > 0 then read_chunk s' else Some (Inr s'))"

definition finish_chunk :: "reader \<Rightarrow> string c_res" where
  \<comment> \<open>the terminating NUL, and what the string functions then see\<close>
  "finish_chunk s = (if length (json_chunk s) < json_chunk_capacity s
     then Inr (cstr (json_chunk s)) else Inl HeapOverflow)"

type_synonym 'st event_handler = "cJSON option \<Rightarrow> 'st \<Rightarrow> 'st c_res"

definition parsed :: "string \<Rightarrow> cJSON option c_res" where
  \<comment> \<open>the pointer \<open>cJSON_Parse\<close> returns: null on a parse error\<close>
  "parsed text = (case cJSON_Parse text of Inr c \<Rightarrow> Inr (Some c)
     | Inl (ParseError _) \<Rightarrow> Inr None | Inl e \<Rightarrow> Inl e)"

definition deliver :: "'st event_handler \<Rightarrow> string \<Rightarrow> 'st \<Rightarrow> 'st c_res" where
  "deliver handle text st = (if length text > 0
     then bindr (parsed text) (\<lambda>event. handle event st) else Inr st)"

partial_function (option) read_events :: "'st event_handler \<Rightarrow> reader \<Rightarrow> 'st \<Rightarrow> 'st c_res option" where
  "read_events handle s st =
     (if \<not> fifoOpen s then Some (Inr st)
      else Option.bind (read_chunk (start_chunk s)) (\<lambda>r.
        (case bindr r (\<lambda>s'. bindr (finish_chunk s') (\<lambda>text. bindr (deliver handle text st) (\<lambda>st'. Inr (s', st')))) of
           Inl e \<Rightarrow> Some (Inl e)
         | Inr (s', st') \<Rightarrow> read_events handle s' st')))"

subsection \<open>The buffer never overflows\<close>

definition buf_ok :: "reader \<Rightarrow> bool" where
  "buf_ok s \<longleftrightarrow> length (json_chunk s) < json_chunk_capacity s"

lemma buf_ok_start [simp]: "0 < json_chunk_capacity s \<Longrightarrow> buf_ok (start_chunk s)"
  by (simp add: buf_ok_def start_chunk_def)

lemma track_buf [simp]:
  "json_chunk (track c s) = json_chunk s" "json_chunk_capacity (track c s) = json_chunk_capacity s"
  "input (track c s) = input s" "fifoOpen (track c s) = fifoOpen s" "buf_ok (track c s) = buf_ok s"
  by (simp_all add: track_def Let_def buf_ok_def)

lemma store_byte_eq:
  "buf_ok s \<Longrightarrow> store_byte c s = Inr (s\<lparr>json_chunk := json_chunk s @ [c], json_chunk_capacity :=
     (if length (json_chunk s) + 1 \<ge> json_chunk_capacity s then json_chunk_capacity s * 2
      else json_chunk_capacity s)\<rparr>)"
  by (cases s) (simp add: store_byte_def buf_ok_def)

lemma store_byte_ok:
  assumes "buf_ok s"
  obtains s' where "store_byte c s = Inr s'" "buf_ok s'" "json_chunk s' = json_chunk s @ [c]"
    "input s' = input s" "fifoOpen s' = fifoOpen s" "unclosed_braces s' = unclosed_braces s"
    "unclosed_quotes s' = unclosed_quotes s" "escaping s' = escaping s"
  by (rule that [OF store_byte_eq [OF assms]]) (use assms in \<open>auto simp: buf_ok_def\<close>)

lemma read_byte_ok: "buf_ok s \<Longrightarrow> \<exists>s'. read_byte s = Inr s' \<and> buf_ok s'"
proof (cases "input s")
  case (Cons c rest)
  assume "buf_ok s"
  then have "buf_ok (s\<lparr>input := rest\<rparr>)" by (simp add: buf_ok_def)
  then obtain s' where "store_byte c (s\<lparr>input := rest\<rparr>) = Inr s'" "buf_ok s'"
    by (rule store_byte_ok)
  then show ?thesis using Cons by (simp add: read_byte_def)
qed (simp add: read_byte_def buf_ok_def)

lemma read_chunk_ok:
  assumes "read_chunk s = Some r" "buf_ok s"
  shows "\<exists>s'. r = Inr s' \<and> buf_ok s'"
  using assms
proof (induction rule: read_chunk.raw_induct [rotated, consumes 1, case_names step])
  case (step rc s r)
  obtain s' where s': "read_byte s = Inr s'" "buf_ok s'" using read_byte_ok [OF step(3)] by blast
  show ?case using step(1,2) s'(2) unfolding s'(1) by (auto split: if_splits)
qed

subsection \<open>Texts the brace count follows\<close>

text \<open>
  The counters alone, as a triple. \<open>walk\<close> runs them over a text and fails when the brace count
  reaches zero, which is where the reader would cut.
\<close>

definition frame_step :: "int \<times> bool \<times> bool \<Rightarrow> char \<Rightarrow> int \<times> bool \<times> bool" where
  "frame_step st c = (case st of (b, q, e) \<Rightarrow>
     (if \<not> q \<and> c = CHR ''{'' then b + 1 else if \<not> q \<and> c = CHR ''}'' then b - 1 else b,
      if \<not> e \<and> c = quote then \<not> q else q, c = backslash))"

fun walk :: "int \<times> bool \<times> bool \<Rightarrow> string \<Rightarrow> (int \<times> bool \<times> bool) option" where
  "walk st [] = Some st"
| "walk st (c # t) = (let st' = frame_step st c in if fst st' \<le> 0 then None else walk st' t)"

definition frame :: "reader \<Rightarrow> int \<times> bool \<times> bool" where
  "frame s = (unclosed_braces s, unclosed_quotes s, escaping s)"

lemma fst_frame: "fst (frame s) = unclosed_braces s"
  by (simp add: frame_def)

lemma frame_track: "frame (track c s) = frame_step (frame s) c"
  by (simp add: frame_def frame_step_def track_def Let_def)

lemma walk_append: "walk st (s @ t) = Option.bind (walk st s) (\<lambda>st'. walk st' t)"
  by (induction st s rule: walk.induct) (auto simp: Let_def)

definition calm :: "string \<Rightarrow> bool" where
  \<comment> \<open>inside an object, the text leaves the counters where they were and never closes the object\<close>
  "calm t \<longleftrightarrow> (\<forall>b > 0. walk (b, False, False) t = Some (b, False, False))"

lemma calm_Nil [simp]: "calm []"
  by (simp add: calm_def)

lemma calm_append [simp]: "calm s \<Longrightarrow> calm t \<Longrightarrow> calm (s @ t)"
  by (simp add: calm_def walk_append)

lemma calm_Cons [simp]:
  "c \<notin> {quote, backslash, CHR ''{'', CHR ''}''} \<Longrightarrow> calm t \<Longrightarrow> calm (c # t)"
  by (simp add: calm_def frame_step_def)

lemma calm_braces:
  assumes "calm t"
  shows "calm (CHR ''{'' # t @ ''}'')"
  unfolding calm_def
proof (intro allI impI)
  fix b :: int
  assume "0 < b"
  with assms have "walk (b + 1, False, False) t = Some (b + 1, False, False)" by (simp add: calm_def)
  with \<open>0 < b\<close> show "walk (b, False, False) (CHR ''{'' # t @ ''}'') = Some (b, False, False)"
    by (simp add: walk_append frame_step_def)
qed

lemma calm_plain: "set t \<inter> {quote, backslash, CHR ''{'', CHR ''}''} = {} \<Longrightarrow> calm t"
  by (induction t) (auto intro!: calm_Cons)

lemma calm_concat: "list_all calm xs \<Longrightarrow> calm (concat xs)"
  by (induction xs) (auto intro: calm_append)

lemma calm_join: "calm sep \<Longrightarrow> list_all calm xs \<Longrightarrow> calm (join sep xs)"
  by (induction sep xs rule: join.induct) (auto intro!: calm_append)

lemma walk_esc_char:
  assumes "0 < b"
  shows "walk (b, True, e) (esc_char c @ r) = walk (b, True, c = backslash) r"
proof -
  have "hex_char d \<noteq> quote" "hex_char d \<noteq> backslash" if "d < 16" for d
    using hex_val_hex_char [OF that] by (auto simp: hex_val_def)
  then show ?thesis using assms by (auto simp: esc_char_def frame_step_def hex4_def)
qed

lemma walk_string_body:
  "0 < b \<Longrightarrow> walk (b, True, e) (concat (map esc_char s) @ r)
     = walk (b, True, if s = [] then e else last s = backslash) r"
  by (induction s arbitrary: e) (auto simp: walk_esc_char)

definition frameable_string :: "string \<Rightarrow> bool" where
  "frameable_string s \<longleftrightarrow> s = [] \<or> last s \<noteq> backslash"

lemma calm_string_text: "frameable_string s \<Longrightarrow> calm (string_text s)"
  by (auto simp: calm_def string_text_def frameable_string_def walk_string_body frame_step_def)

function frameable :: "cJSON \<Rightarrow> bool" where
  \<comment> \<open>no string and no name in the tree ends with a backslash\<close>
  "frameable item = (let t = jtype item AND 255 in
     (t = cJSON_String \<longrightarrow> frameable_string (the (valuestring item)))
     \<and> (t = cJSON_Array \<longrightarrow> list_all frameable (child item))
     \<and> (t = cJSON_Object \<longrightarrow> list_all (\<lambda>c. frameable c \<and> frameable_string (the (jname c))) (child item)))"
  by pat_completeness auto
termination
  by (relation "measure size") (auto dest: size_child_item)

declare frameable.simps [simp del]

lemma calm_tabs [simp]: "calm (tabs n)" "calm (newline # tabs n)"
  by (auto simp: tabs_def intro!: calm_plain)

lemma calm_show_int: "calm (show_int i)"
proof (rule calm_plain)
  have "c_isdigit c \<or> c = CHR ''-''" if "c \<in> set (show_int i)" for c
    using that show_nat_digits by (auto simp: show_int_def split: if_splits)
  from this [of quote] this [of backslash] this [of "CHR ''{''"] this [of "CHR ''}''"]
  show "set (show_int i) \<inter> {quote, backslash, CHR ''{'', CHR ''}''} = {}"
    by (auto simp: c_isdigit_def)
qed

lemma calm_member:
  "frameable_string nm \<Longrightarrow> calm v \<Longrightarrow> calm (compose_member fmt d (string_text nm, v))"
  by (auto simp: compose_member_def intro!: calm_append calm_string_text calm_Cons)

lemma calm_compose_array: "list_all calm es \<Longrightarrow> calm (compose_array fmt es)"
  by (simp add: compose_array_def calm_join)

definition object_body :: "bool \<Rightarrow> nat \<Rightarrow> (string \<times> string) list \<Rightarrow> string" where
  "object_body fmt d ms = (if fmt then [newline] else [])
     @ join ('','' @ (if fmt then [newline] else [])) (map (compose_member fmt d) ms)
     @ (if fmt then newline # tabs (d - 1) else [])"

lemma compose_object_body: "compose_object fmt d ms = CHR ''{'' # object_body fmt d ms @ ''}''"
  by (simp add: compose_object_def object_body_def)

lemma calm_object_body:
  "list_all calm (map (compose_member fmt d) ms) \<Longrightarrow> calm (object_body fmt d ms)"
  by (simp add: object_body_def calm_join)

lemma calm_json_text: "wf_json item \<Longrightarrow> frameable item \<Longrightarrow> calm (json_text fmt d item)"
proof (induction item arbitrary: d rule: frameable.induct)
  case (1 item)
  define t where "t = jtype item AND 255"
  note wf = "1.prems"(1) [unfolded wf_json.simps [of item] Let_def, folded t_def]
  note fr = "1.prems"(2) [unfolded frameable.simps [of item] Let_def, folded t_def]
  note tx = json_text.simps [of fmt d item, unfolded Let_def, folded t_def]
  consider "t = 0" | "t = 1" | "t = 2" | "t = 3" | "t = 4" | "t = 5" | "t = 6" using wf by fastforce
  then show ?case
  proof cases
    case 4
    then show ?thesis using wf by (simp add: tx int_number_def calm_show_int split: double.splits)
  next
    case 5
    then show ?thesis using fr by (simp add: tx calm_string_text)
  next
    case 6
    have "list_all calm (map (json_text fmt (d + 1)) (child item))"
      using "1.IH"(1) [OF t_def 6] wf fr 6 by (simp add: list_all_iff)
    then show ?thesis using 6 by (simp add: tx calm_compose_array)
  next
    case 7
    have "list_all calm (map (compose_member fmt (d + 1))
        (map (\<lambda>c. (string_text (the (jname c)), json_text fmt (d + 1) c)) (child item)))"
      using "1.IH"(2) [OF t_def 7] wf fr 7 by (simp add: list_all_iff calm_member)
    from calm_object_body [OF this] show ?thesis
      using 7 calm_braces [of "newline # tabs (d - 1)"] calm_braces [of "[]"]
      by (simp add: tx compose_object_body calm_braces)
  qed (simp_all add: tx)
qed

lemma object_text:
  assumes "wf_json item" "frameable item" "is_object item"
  obtains body where "json_text fmt d item = CHR ''{'' # body @ ''}''" "calm body"
proof (cases "child item = []")
  case True
  then show ?thesis
    using that [of "if fmt then newline # tabs (d - 1) else []"] assms(3)
    by (simp add: json_text.simps [of fmt d item] is_object_def)
next
  case False
  let ?ms = "map (\<lambda>c. (string_text (the (jname c)), json_text fmt (d + 1) c)) (child item)"
  have "list_all calm (map (compose_member fmt (d + 1)) ?ms)"
    using assms unfolding wf_json.simps [of item] frameable.simps [of item] is_object_def
    by (auto simp: list_all_iff intro!: calm_member calm_json_text)
  then show ?thesis
    using that [of "object_body fmt (d + 1) ?ms"] False assms(3) calm_object_body
    by (simp add: json_text.simps [of fmt d item] is_object_def compose_object_body)
qed

subsection \<open>The reader on printed events\<close>

lemma read_byte_Cons:
  assumes "buf_ok s" "input s = c # t"
  obtains s' where "read_byte s = Inr s'" "buf_ok s'" "json_chunk s' = json_chunk s @ [c]"
    "input s' = t" "fifoOpen s' = fifoOpen s" "frame s' = frame_step (frame s) c"
proof -
  have "buf_ok (s\<lparr>input := t\<rparr>)" using assms(1) by (simp add: buf_ok_def)
  then obtain r where r: "store_byte c (s\<lparr>input := t\<rparr>) = Inr r" "buf_ok r"
    "json_chunk r = json_chunk s @ [c]" "input r = t" "fifoOpen r = fifoOpen s" "frame r = frame s"
    by (rule store_byte_ok [of _ c]) (auto simp: frame_def)
  then have "read_byte s = Inr (track c r)" using assms(2) by (simp add: read_byte_def)
  then show ?thesis using that r frame_track by simp
qed

lemma read_chunk_unfold: "read_byte s = Inr s' \<Longrightarrow>
    read_chunk s = (if unclosed_braces s' > 0 then read_chunk s' else Some (Inr s'))"
  by (subst read_chunk.simps) simp

lemma read_chunk_walk:
  "buf_ok s \<Longrightarrow> input s = t @ r \<Longrightarrow> walk (frame s) t = Some st \<Longrightarrow>
   \<exists>s'. read_chunk s = read_chunk s' \<and> buf_ok s' \<and> frame s' = st \<and> input s' = r
     \<and> json_chunk s' = json_chunk s @ t \<and> fifoOpen s' = fifoOpen s"
proof (induction t arbitrary: s)
  case (Cons c t)
  obtain s' where s': "read_byte s = Inr s'" "buf_ok s'" "json_chunk s' = json_chunk s @ [c]"
    "input s' = t @ r" "fifoOpen s' = fifoOpen s" "frame s' = frame_step (frame s) c"
    using read_byte_Cons [OF Cons.prems(1)] Cons.prems(2) by (metis append_Cons)
  have pos: "0 < unclosed_braces s'" and w: "walk (frame s') t = Some st"
    using Cons.prems(3) fst_frame [of s'] unfolding s'(6) by (auto simp: Let_def split: if_splits)
  then have "read_chunk s = read_chunk s'" using read_chunk_unfold [OF s'(1)] by simp
  with Cons.IH [OF s'(2,4) w] s' show ?case by auto
qed auto

lemma read_chunk_object:
  assumes "buf_ok s" "frame s = (0, False, False)" "input s = CHR ''{'' # body @ CHR ''}'' # r" "calm body"
  shows "\<exists>s'. read_chunk s = Some (Inr s') \<and> buf_ok s' \<and> input s' = r
     \<and> json_chunk s' = json_chunk s @ CHR ''{'' # body @ ''}'' \<and> fifoOpen s' = fifoOpen s"
proof -
  have "walk (frame s) (CHR ''{'' # body) = Some (1, False, False)"
    using assms(2,4) by (simp add: frame_step_def calm_def)
  then obtain s1 where s1: "read_chunk s = read_chunk s1" "buf_ok s1" "frame s1 = (1, False, False)"
    "input s1 = CHR ''}'' # r" "json_chunk s1 = json_chunk s @ CHR ''{'' # body" "fifoOpen s1 = fifoOpen s"
    using read_chunk_walk [OF assms(1), of "CHR ''{'' # body" "CHR ''}'' # r"] assms(3) by auto
  obtain s2 where s2: "read_byte s1 = Inr s2" "buf_ok s2" "json_chunk s2 = json_chunk s1 @ ''}''"
    "input s2 = r" "fifoOpen s2 = fifoOpen s1" "frame s2 = frame_step (frame s1) (CHR ''}'')"
    using read_byte_Cons [OF s1(2,4)] by metis
  then have "unclosed_braces s2 = 0" using s1(3) by (simp add: frame_def frame_step_def)
  then have "read_chunk s1 = Some (Inr s2)" using read_chunk_unfold [OF s2(1)] by simp
  then show ?thesis using s1 s2 by auto
qed

definition sendable :: "cJSON \<Rightarrow> bool" where
  "sendable e \<longleftrightarrow> wf_json e \<and> frameable e \<and> is_object e"

fun feed :: "'st event_handler \<Rightarrow> cJSON list \<Rightarrow> 'st \<Rightarrow> 'st c_res" where
  "feed handle [] st = Inr st"
| "feed handle (e # es) st = bindr (handle (Some e) st) (feed handle es)"

lemma parsed_json_text: "wf_json e \<Longrightarrow> parsed (json_text True 0 e) = Inr (Some (canon None e))"
proof -
  assume "wf_json e"
  then have "cJSON_ParseWithOpts (json_text True 0 e @ []) False = Inr (canon None e, [])"
    by (intro parse_json_text) auto
  then show ?thesis by (simp add: parsed_def cJSON_Parse_def)
qed

lemma frame_start [simp]: "frame (start_chunk s) = (0, False, False)"
  "input (start_chunk s) = input s" "json_chunk (start_chunk s) = []" "fifoOpen (start_chunk s) = fifoOpen s"
  by (simp_all add: start_chunk_def frame_def)

lemma read_events_step:
  assumes "sendable e" "fifoOpen s" "0 < json_chunk_capacity s" "input s = json_text True 0 e @ r"
  shows "\<exists>s'. read_events handle s st = (case handle (Some (canon None e)) st of
            Inl x \<Rightarrow> Some (Inl x) | Inr st' \<Rightarrow> read_events handle s' st')
      \<and> fifoOpen s' \<and> 0 < json_chunk_capacity s' \<and> input s' = r"
proof -
  obtain body where body: "json_text True 0 e = CHR ''{'' # body @ ''}''" "calm body"
    using object_text [of e True 0] assms(1) unfolding sendable_def by blast
  then obtain s' where s': "read_chunk (start_chunk s) = Some (Inr s')" "buf_ok s'" "input s' = r"
    "json_chunk s' = json_text True 0 e" "fifoOpen s'"
    using read_chunk_object [of "start_chunk s" body r] assms by auto
  have fin: "finish_chunk s' = Inr (json_text True 0 e)"
    using s'(2,4) assms(1) by (simp add: finish_chunk_def buf_ok_def sendable_def cstring_json_text)
  have del: "deliver handle (json_text True 0 e) st = handle (Some (canon None e)) st"
  proof -
    have "json_text True 0 e \<noteq> []" using body(1) by simp
    then show ?thesis using assms(1) by (simp add: deliver_def sendable_def parsed_json_text)
  qed
  have "read_events handle s st = (case handle (Some (canon None e)) st of
      Inl x \<Rightarrow> Some (Inl x) | Inr st' \<Rightarrow> read_events handle s' st')"
    by (subst read_events.simps) (simp add: assms(2) s'(1) fin del split: sum.splits)
  moreover have "0 < json_chunk_capacity s'" using s'(2) by (simp add: buf_ok_def)
  ultimately show ?thesis using s' by blast
qed

lemma read_events_end:
  assumes "fifoOpen s" "input s = []" "0 < json_chunk_capacity s"
  shows "read_events handle s st = Some (Inr st)"
proof -
  define s' where "s' = (start_chunk s)\<lparr>fifoOpen := False\<rparr>"
  have "read_byte (start_chunk s) = Inr s'" using assms(2) by (simp add: read_byte_def s'_def)
  moreover have "unclosed_braces s' = 0" by (simp add: s'_def start_chunk_def)
  ultimately have "read_chunk (start_chunk s) = Some (Inr s')"
    by (simp add: read_chunk_unfold)
  moreover have "finish_chunk s' = Inr []" "\<not> fifoOpen s'"
    using assms(3) by (simp_all add: finish_chunk_def s'_def start_chunk_def)
  moreover from this have "read_events handle s' st = Some (Inr st)"
    by (subst read_events.simps) simp
  ultimately show ?thesis
    by (subst read_events.simps) (simp add: assms(1) deliver_def)
qed

lemma read_events_feed:
  "list_all sendable es \<Longrightarrow> fifoOpen s \<Longrightarrow> 0 < json_chunk_capacity s
   \<Longrightarrow> input s = concat (map (json_text True 0) es)
   \<Longrightarrow> read_events handle s st = Some (feed handle (map (canon None) es) st)"
proof (induction es arbitrary: s st)
  case Nil
  then show ?case by (simp add: read_events_end)
next
  case (Cons e es)
  obtain s' where "read_events handle s st = (case handle (Some (canon None e)) st of
      Inl x \<Rightarrow> Some (Inl x) | Inr st' \<Rightarrow> read_events handle s' st')"
    "fifoOpen s'" "0 < json_chunk_capacity s'" "input s' = concat (map (json_text True 0) es)"
    using read_events_step [of e s "concat (map (json_text True 0) es)" handle st] Cons.prems by auto
  then show ?case using Cons.IH [of s'] Cons.prems(1) by (auto split: sum.splits)
qed

subsection \<open>The pipe as a channel of events\<close>

text \<open>What the tools rely on: the handler is fed the events that were written, in order.\<close>

locale event_channel =
  fixes send :: "'e \<Rightarrow> string"
    and recv :: "'st event_handler \<Rightarrow> string \<Rightarrow> 'st \<Rightarrow> 'st c_res option"
    and norm :: "'e \<Rightarrow> cJSON"
    and ok :: "'e \<Rightarrow> bool"
  assumes recv_sent:
    "list_all ok es \<Longrightarrow> recv h (concat (map send es)) st = Some (feed h (map norm es) st)"
begin

lemma recv_invariant:
  assumes "list_all ok es" "I [] st"
    and "\<And>ds e st. ok e \<Longrightarrow> I ds st \<Longrightarrow> \<exists>st'. h (Some (norm e)) st = Inr st' \<and> I (ds @ [e]) st'"
  shows "\<exists>st'. recv h (concat (map send es)) st = Some (Inr st') \<and> I es st'"
proof -
  have "list_all ok es \<Longrightarrow> I ds st \<Longrightarrow> \<exists>st'. feed h (map norm es) st = Inr st' \<and> I (ds @ es) st'" for ds st
  proof (induction es arbitrary: ds st)
    case (Cons e es)
    then obtain st1 where "h (Some (norm e)) st = Inr st1" "I (ds @ [e]) st1" using assms(3) by fastforce
    with Cons.IH [of "ds @ [e]" st1] Cons.prems(1) show ?case by simp
  qed simp
  from this [of "[]" st] show ?thesis using assms(1,2) recv_sent by simp
qed

lemma recv_empty: "recv h [] st = Some (Inr st)"
  using recv_sent [of "[]"] by simp

end

definition receive :: "'st event_handler \<Rightarrow> string \<Rightarrow> 'st \<Rightarrow> 'st c_res option" where
  "receive handle bytes st = read_events handle (open_reader bytes) st"

interpretation pipe: event_channel "json_text True 0" receive "canon None" sendable
  by unfold_locales (simp add: receive_def read_events_feed open_reader_def)

subsection \<open>Where the reader does not return\<close>

lemma read_chunk_stuck:
  assumes "read_chunk s = Some r" "input s = []" "0 < unclosed_braces s"
  shows False
  using assms
proof (induction rule: read_chunk.raw_induct [rotated, consumes 1, case_names step])
  case (step rc s r)
  have "read_byte s = Inr (s\<lparr>fifoOpen := False\<rparr>)" using step(3) by (simp add: read_byte_def)
  then show ?case using step(1) [of "s\<lparr>fifoOpen := False\<rparr>"] step(2-) by simp
qed

lemma read_chunk_diverges:
  assumes "buf_ok s" "walk (frame s) (input s) = Some st" "0 < fst st"
  shows "read_chunk s = None"
proof -
  obtain s' where s': "read_chunk s = read_chunk s'" "input s' = []" "frame s' = st"
    using read_chunk_walk [OF assms(1), of "input s" "[]" st] assms(2) by auto
  then have "0 < unclosed_braces s'" using assms(3) fst_frame by metis
  then have "read_chunk s' \<noteq> Some r" for r using read_chunk_stuck s'(2) by blast
  then show ?thesis using s'(1) by (cases "read_chunk s'") auto
qed

lemma read_events_diverges:
  "fifoOpen s \<Longrightarrow> read_chunk (start_chunk s) = None \<Longrightarrow> read_events handle s st = None"
  by (subst read_events.simps) simp

lemma walk_prefix:
  "walk st (s @ t) = Some st' \<Longrightarrow> 0 < fst st \<Longrightarrow> \<exists>st''. walk st s = Some st'' \<and> 0 < fst st''"
  by (induction st s rule: walk.induct) (auto simp: Let_def split: if_splits)

lemma receive_diverges:
  assumes "walk (0, False, False) bytes = Some st" "0 < fst st"
  shows "receive handle bytes st0 = None"
proof -
  have "read_chunk (start_chunk (open_reader bytes)) = None"
    using assms by (intro read_chunk_diverges) (auto simp: open_reader_def)
  then show ?thesis
    unfolding receive_def by (intro read_events_diverges) (simp_all add: open_reader_def)
qed

subsection \<open>Properties\<close>

definition sample_pair :: cJSON where
  "sample_pair = cJSON_AddStringToObject cJSON_CreateObject ''path'' ''/a{''"

lemma sample_pair_sendable: "sendable sample_pair"
  by (simp add: sample_pair_def sendable_def json_add_defs frameable.simps [of "cJSON_AddItemToObject _ _ _"]
      frameable.simps [of "set_name _ _"] frameable_string_def)

text \<open>
  C2. Every tool is handed exactly the events the wrapper library wrote: if the printed events
  (objects, none of whose strings ends with a backslash) are written to the pipe one after the
  other, the reader loop ends at the end of the pipe and has called the handler on each event,
  in order, and on nothing else.
\<close>

theorem reader_delivers_events:
  assumes "list_all sendable es" "map cJSON_Print es = map Inr texts"
  shows "receive handle (concat texts) st = Some (feed handle (map (canon None) es) st)"
proof -
  have "map cJSON_Print es = map Inr (map (json_text True 0) es)"
    using assms(1) by (simp add: list_all_iff sendable_def cJSON_Print_def print_value_text)
  then have "texts = map (json_text True 0) es"
    using assms(2) by (metis Inr_inject inj_map_eq_map inj_onI)
  then show ?thesis using assms(1) by (simp add: pipe.recv_sent)
qed

theorem reader_delivers_events_witness:
  "\<exists>texts. list_all sendable [sample_pair, sample_pair] \<and> map cJSON_Print [sample_pair, sample_pair] = map Inr texts
     \<and> receive (\<lambda>e n. Inr (Suc n)) (concat texts) 0 = Some (Inr 2)"
proof -
  have s: "sendable sample_pair" by (rule sample_pair_sendable)
  let ?t = "[json_text True 0 sample_pair, json_text True 0 sample_pair]"
  have "map cJSON_Print [sample_pair, sample_pair] = map Inr ?t"
    using s by (simp add: sendable_def cJSON_Print_def print_value_text)
  with reader_delivers_events [OF _ this, of "\<lambda>e n. Inr (Suc n)" 0] s show ?thesis
    by (intro exI [of _ ?t]) simp
qed

text \<open>
  C15. The chunk buffer is never overrun: from any state with a buffer, whatever bytes arrive,
  every store goes inside the capacity, which doubles when needed, and so does the terminating
  NUL when the chunk is cut.
\<close>

theorem chunk_buffer_bounds:
  assumes "read_chunk (start_chunk s) = Some r" "0 < json_chunk_capacity s"
  shows "\<exists>s' text. r = Inr s' \<and> length (json_chunk s') < json_chunk_capacity s' \<and> finish_chunk s' = Inr text"
proof -
  obtain s' where "r = Inr s'" "buf_ok s'" using read_chunk_ok [OF assms(1)] assms(2) by auto
  then show ?thesis by (intro exI [of _ s'] exI [of _ "cstr (json_chunk s')"])
      (simp add: buf_ok_def finish_chunk_def)
qed

theorem chunk_buffer_bounds_witness:
  "\<exists>r. read_chunk (start_chunk (open_reader ''{}'')) = Some r \<and> 0 < json_chunk_capacity (open_reader ''{}'')
     \<and> (\<exists>s' text. r = Inr s' \<and> length (json_chunk s') < json_chunk_capacity s' \<and> finish_chunk s' = Inr text)"
proof -
  have cap: "0 < json_chunk_capacity (open_reader ''{}'')" by (simp add: open_reader_def)
  obtain s' where "read_chunk (start_chunk (open_reader ''{}'')) = Some (Inr s')"
    using read_chunk_object [of "start_chunk (open_reader ''{}'')" "[]" "[]"] cap
    by (auto simp: open_reader_def)
  from this chunk_buffer_bounds [OF this cap] cap show ?thesis by blast
qed

text \<open>
  C30. A pipe that ends inside an event hangs the tool: on every proper, non-empty prefix of a
  printed event the inner loop never returns, because the end of file does not close the braces.
\<close>

theorem truncated_event_hangs:
  assumes "sendable e" "cJSON_Print e = Inr text" "0 < n" "n < length text"
  shows "receive handle (take n text) st = None"
proof -
  have "text = json_text True 0 e"
    using assms(1,2) by (simp add: sendable_def cJSON_Print_def print_value_text)
  then obtain body where body: "text = CHR ''{'' # body @ ''}''" "calm body"
    using object_text [of e True 0] assms(1) unfolding sendable_def by blast
  obtain m where m: "n = Suc m" "m \<le> length body" using assms(3,4) body(1) by (cases n) auto
  have "walk (1, False, False) (take m body @ drop m body) = Some (1, False, False)"
    using body(2) by (simp add: calm_def)
  from walk_prefix [OF this] obtain st'
    where "walk (1, False, False) (take m body) = Some st'" "0 < fst st'" by auto
  then show ?thesis
    using m body(1) by (intro receive_diverges [of _ st']) (simp_all add: frame_step_def)
qed

theorem truncated_event_hangs_witness:
  "\<exists>text. sendable sample_pair \<and> cJSON_Print sample_pair = Inr text \<and> 0 < (1::nat) \<and> 1 < length text
     \<and> receive (\<lambda>e n. Inr (Suc n)) (take 1 text) 0 = None"
proof -
  have s: "sendable sample_pair" by (rule sample_pair_sendable)
  then have p: "cJSON_Print sample_pair = Inr (json_text True 0 sample_pair)"
    by (simp add: sendable_def cJSON_Print_def print_value_text)
  obtain body where "json_text True 0 sample_pair = CHR ''{'' # body @ ''}''"
    using object_text [of sample_pair True 0] s unfolding sendable_def by blast
  then have l: "1 < length (json_text True 0 sample_pair)" by simp
  from truncated_event_hangs [OF s p _ l] s p l show ?thesis by auto
qed

text \<open>
  C31. A string that ends with a backslash defeats the framing: the printed text of an event
  whose member is such a string leaves the reader inside a string literal, so that it never
  sees the end of the event and does not return.
\<close>

theorem backslash_defeats_framing:
  assumes "cstring p"
  shows "\<exists>text. cJSON_Print (cJSON_AddStringToObject cJSON_CreateObject ''path'' (p @ [backslash])) = Inr text
    \<and> receive handle text st = None"
proof -
  let ?e = "cJSON_AddStringToObject cJSON_CreateObject ''path'' (p @ [backslash])"
  let ?c = "set_name (Some ''path'') (cJSON_CreateString (p @ [backslash]))"
  have wf: "wf_json ?e" by (simp add: json_add_defs)
  have tx: "json_text True 0 ?e = CHR ''{'' # newline # tab # string_text ''path'' @ '':'' @ tab
      # quote # concat (map esc_char (p @ [backslash])) @ [quote, newline, CHR ''}'']"
    using assms by (subst json_text.simps, subst json_text.simps)
      (simp add: json_add_defs compose_object_def compose_member_def tabs_def string_text_def)
  have "walk (0, False, False) (json_text True 0 ?e) = Some (1, True, False)"
    using walk_string_body [of 1 False "p @ [backslash]" "[quote, newline, CHR ''}'']"]
      calm_string_text [of "''path''"]
    unfolding tx by (simp add: frame_step_def walk_append calm_def frameable_string_def)
  then have "receive handle (json_text True 0 ?e) st = None" by (rule receive_diverges) simp
  then show ?thesis using wf by (auto simp: cJSON_Print_def print_value_text)
qed

theorem backslash_defeats_framing_witness:
  "cstring ''/tmp/dir'' \<and> (\<exists>text.
     cJSON_Print (cJSON_AddStringToObject cJSON_CreateObject ''path'' (''/tmp/dir'' @ [backslash])) = Inr text
     \<and> receive (\<lambda>e n. Inr (Suc n)) text 0 = None)"
  using backslash_defeats_framing [of "''/tmp/dir''"] by simp

end
