(* ===== verification/Wrapper.thy ===== *)
theory Wrapper
  imports Framing
begin

section \<open>The instrumented FUSE layer\<close>

text \<open>
  What FDT adds to \<^verbatim>\<open>src/libfuse/lib/fuse.c\<close>: a wrapper around each of the user's file system
  operations that numbers the call, writes an \<open>invoke\<close> event to the debug pipe, waits on the
  step semaphore, runs the operation, and writes a \<open>return\<close> event. The \<open>fuse_fs_\<close> functions of
  the library reach the operations only through these wrappers.

  The user's operations are a parameter of the model: \<open>run_op\<close> maps a call and the file system's
  state to the outcome of the call and the new state, and \<open>has_op\<close> says which operations the
  file system provides. A call carries its C arguments: a \<open>const char *\<close> is an optional string
  (\<open>None\<close> is the null pointer), other pointers that are only logged are their addresses, and a
  memory area is the list of its bytes. An outcome carries the return value and what the
  pointed-to arguments hold after the call.
\<close>

subsection \<open>C structures\<close>

record stat =
  st_dev :: int
  st_ino :: int
  st_mode :: int
  st_nlink :: int
  st_uid :: int
  st_gid :: int
  st_rdev :: int
  st_size :: int
  st_atime :: int
  st_mtime :: int
  st_ctime :: int
  st_blksize :: int
  st_blocks :: int

record fuse_file_info =
  flags :: int
  fh_old :: int
  writepage :: int
  direct_io :: int
  keep_cache :: int
  flush :: int
  nonseekable :: int
  padding :: int
  fh :: int
  lock_owner :: int

record utimbuf =
  actime :: int
  modtime :: int

record timespec =
  tv_sec :: int
  tv_nsec :: int

record fuse_buf =
  buf_size :: int
  buf_flags :: int
  buf_mem :: int
  buf_fd :: int
  buf_pos :: int

record fuse_bufvec =
  bv_count :: nat
  bv_idx :: int
  bv_off :: int
  bv_buf :: "fuse_buf list"

record statvfs =
  f_bsize :: int
  f_frsize :: int
  f_blocks :: int
  f_bfree :: int
  f_bavail :: int
  f_files :: int
  f_ffree :: int
  f_favail :: int
  f_fsid :: int
  f_flag :: int
  f_namemax :: int

record fuse_conn_info =
  proto_major :: int
  proto_minor :: int
  async_read :: int
  max_write :: int
  max_readahead :: int
  capable :: int
  want :: int
  max_background :: int
  congestion_threshold :: int

record flock =
  l_type :: int
  l_whence :: int
  l_start :: int
  l_len :: int
  l_pid :: int

subsection \<open>Building the JSON of a call\<close>

text \<open>The additions to a fresh object, in order. A string whose bytes cannot be read is an error.\<close>

datatype json_field = FStr string "string c_res" | FNum string int | FItem string cJSON | FNull string

fun add_field :: "cJSON \<Rightarrow> json_field \<Rightarrow> cJSON c_res" where
  "add_field obj (FStr k s) = bindr s (\<lambda>s. Inr (cJSON_AddStringToObject obj k s))"
| "add_field obj (FNum k n) = Inr (cJSON_AddNumberToObject obj k n)"
| "add_field obj (FItem k c) = Inr (cJSON_AddItemToObject obj k c)"
| "add_field obj (FNull k) = Inr (cJSON_AddNullToObject obj k)"

fun add_fields :: "cJSON \<Rightarrow> json_field list \<Rightarrow> cJSON c_res" where
  "add_fields obj [] = Inr obj"
| "add_fields obj (f # fs) = bindr (add_field obj f) (\<lambda>obj. add_fields obj fs)"

definition add_numbers :: "cJSON \<Rightarrow> (string \<times> int) list \<Rightarrow> cJSON" where
  "add_numbers obj kvs = foldl (\<lambda>obj (k, n). cJSON_AddNumberToObject obj k n) obj kvs"

abbreviation FOpt :: "string \<Rightarrow> int option \<Rightarrow> json_field" where
  "FOpt k p \<equiv> (case p of Some n \<Rightarrow> FNum k n | None \<Rightarrow> FNull k)"

definition c_str :: "string option \<Rightarrow> string c_res" where
  \<comment> \<open>a string argument of \<open>cJSON_CreateString\<close>\<close>
  "c_str p = of_opt NullPointer p"

definition buffer_str :: "string \<Rightarrow> string c_res" where
  \<comment> \<open>a memory area read as a C string: without a NUL the read runs off its end\<close>
  "buffer_str bytes = (if NUL \<in> set bytes then Inr (cstr bytes) else Inl OutOfBounds)"

definition strncpy_str :: "string \<Rightarrow> int \<Rightarrow> string c_res" where
  \<comment> \<open>\<open>char cpy[n+1]; strncpy(cpy, bytes, n); cpy[n] = 0\<close>\<close>
  "strncpy_str bytes n = (if n < 0 then Inl OutOfBounds
     else if nat n \<le> length bytes \<or> NUL \<in> set bytes then Inr (cstr (take (nat n) bytes))
     else Inl OutOfBounds)"

definition statToJSONObject :: "stat \<Rightarrow> cJSON" where
  "statToJSONObject s = add_numbers cJSON_CreateObject
     [(''st_dev'', st_dev s), (''st_ino'', st_ino s), (''st_mode'', st_mode s),
      (''st_nlink'', st_nlink s), (''st_uid'', st_uid s), (''st_gid'', st_gid s),
      (''st_rdev'', st_rdev s), (''st_size'', st_size s), (''st_atime'', st_atime s),
      (''st_mtime'', st_mtime s), (''st_ctime'', st_ctime s), (''st_blksize'', st_blksize s),
      (''st_blocks'', st_blocks s)]"

definition fuseFileInfoToJSONObject :: "fuse_file_info \<Rightarrow> cJSON" where
  "fuseFileInfoToJSONObject fi = add_numbers cJSON_CreateObject
     [(''flags'', flags fi), (''fh_old'', fh_old fi), (''writepage'', writepage fi),
      (''direct_io'', direct_io fi), (''keep_cache'', keep_cache fi), (''flush'', flush fi),
      (''nonseekable'', nonseekable fi), (''padding'', padding fi), (''fh'', fh fi),
      (''lock_owner'', lock_owner fi)]"

definition utimbufToJSONObject :: "utimbuf \<Rightarrow> cJSON" where
  "utimbufToJSONObject ubuf = add_numbers cJSON_CreateObject
     [(''actime'', actime ubuf), (''modtime'', modtime ubuf)]"

definition timespecToJSONObject :: "timespec \<Rightarrow> cJSON" where
  "timespecToJSONObject tv = add_numbers cJSON_CreateObject
     [(''tv_sec'', tv_sec tv), (''tv_nsec'', tv_nsec tv)]"

definition timespecArrayToJSONObject :: "timespec list \<Rightarrow> cJSON" where
  "timespecArrayToJSONObject tv =
     foldl (\<lambda>obj t. cJSON_AddItemToArray obj (timespecToJSONObject t)) cJSON_CreateArray tv"

definition fuseBufToJSONObject :: "fuse_buf \<Rightarrow> cJSON" where
  "fuseBufToJSONObject b =
     (let obj = cJSON_AddNumberToObject cJSON_CreateObject ''size'' (buf_size b);
          obj = (if buf_flags b = 2 then cJSON_AddStringToObject obj ''flags'' ''FUSE_BUF_IS_FD''
            else if buf_flags b = 4 then cJSON_AddStringToObject obj ''flags'' ''FUSE_BUF_FD_SEEK''
            else if buf_flags b = 8 then cJSON_AddStringToObject obj ''flags'' ''FUSE_BUF_FD_RETRY''
            else obj)
      in add_numbers obj [(''mem'', buf_mem b), (''fd'', buf_fd b), (''pos'', buf_pos b)])"

definition fuseBufvecToJSONObject :: "fuse_bufvec \<Rightarrow> cJSON" where
  \<comment> \<open>the loop builds an object per buffer and drops it\<close>
  "fuseBufvecToJSONObject v =
     (let obj = add_numbers cJSON_CreateObject [(''count'', int (bv_count v)), (''idx'', bv_idx v), (''off'', bv_off v)];
          bufs = foldl (\<lambda>bufs b. let buf_obj = fuseBufToJSONObject b in bufs) cJSON_CreateArray
            (take (bv_count v) (bv_buf v))
      in cJSON_AddItemToObject obj ''buf'' bufs)"

definition statvfsToJSONObject :: "statvfs \<Rightarrow> cJSON" where
  "statvfsToJSONObject s = add_numbers cJSON_CreateObject
     [(''f_bsize'', f_bsize s), (''f_frsize'', f_frsize s), (''f_blocks'', f_blocks s),
      (''f_bfree'', f_bfree s), (''f_bavail'', f_bavail s), (''f_files'', f_files s),
      (''f_ffree'', f_ffree s), (''f_favail'', f_favail s), (''f_fsid'', f_fsid s),
      (''f_flag'', f_flag s), (''f_namemax'', f_namemax s)]"

definition fuseConnInfoToJSONObject :: "fuse_conn_info \<Rightarrow> cJSON" where
  "fuseConnInfoToJSONObject c = add_numbers cJSON_CreateObject
     [(''proto_major'', proto_major c), (''proto_minor'', proto_minor c), (''async_read'', async_read c),
      (''max_write'', max_write c), (''max_readahead'', max_readahead c), (''capable'', capable c),
      (''want'', want c), (''max_background'', max_background c),
      (''congestion_threshold'', congestion_threshold c)]"

definition flockToJSONObject :: "flock \<Rightarrow> cJSON" where
  "flockToJSONObject l = add_numbers cJSON_CreateObject
     [(''l_type'', l_type l), (''l_whence'', l_whence l), (''l_start'', l_start l),
      (''l_len'', l_len l), (''l_pid'', l_pid l)]"

subsection \<open>Calls and file systems\<close>

datatype (plugins only: size) fuse_call =
    C_getattr "string option" stat
  | C_readlink "string option" int int string
  | C_getdir "string option" int int
  | C_mknod "string option" int int
  | C_mkdir "string option" int
  | C_unlink "string option"
  | C_rmdir "string option"
  | C_symlink "string option" "string option"
  | C_rename "string option" "string option"
  | C_link "string option" "string option"
  | C_chmod "string option" int
  | C_chown "string option" int int
  | C_truncate "string option" int
  | C_utime "string option" utimbuf
  | C_open "string option" fuse_file_info
  | C_read "string option" string int int fuse_file_info
  | C_write "string option" string int int fuse_file_info
  | C_statfs "string option" statvfs
  | C_flush "string option" fuse_file_info
  | C_release "string option" fuse_file_info
  | C_fsync "string option" int fuse_file_info
  | C_setxattr "string option" "string option" string int int
  | C_getxattr "string option" "string option" int int string
  | C_listxattr "string option" int int string
  | C_removexattr "string option" "string option"
  | C_opendir "string option" fuse_file_info
  | C_readdir "string option" int int int fuse_file_info
  | C_releasedir "string option" fuse_file_info
  | C_fsyncdir "string option" int fuse_file_info
  | C_init fuse_conn_info
  | C_destroy int
  | C_access "string option" int
  | C_create "string option" int fuse_file_info
  | C_ftruncate "string option" int fuse_file_info
  | C_fgetattr "string option" stat fuse_file_info
  | C_lock "string option" fuse_file_info int flock
  | C_utimens "string option" "timespec list"
  | C_bmap "string option" int "int option"
  | C_ioctl "string option" int int fuse_file_info int int
  | C_poll "string option" fuse_file_info int "int option"
  | C_write_buf "string option" fuse_bufvec int fuse_file_info
  | C_read_buf "string option" int int int fuse_file_info
  | C_flock "string option" fuse_file_info int
  | C_fallocate "string option" int int int fuse_file_info

record fuse_out =
  ret :: int
  o_stat :: stat
  o_fi :: fuse_file_info
  o_ubuf :: utimbuf
  o_statvfs :: statvfs
  o_conn :: fuse_conn_info
  o_flock :: flock
  o_buf :: string
  o_idx :: int
  o_bufvec :: "fuse_bufvec option"
  o_entries :: "string list"

record 'u fuse_operations =
  has_op :: "string \<Rightarrow> bool"
  run_op :: "fuse_call \<Rightarrow> 'u \<Rightarrow> fuse_out \<times> 'u"

record 'u fuse_fs =
  ops :: "'u fuse_operations"
  wrapper_op :: "string \<Rightarrow> bool"
  fdt_debug_mode :: bool
  next_seqnum :: int
  user_data :: 'u
  debugFifo :: string
  sem_waits :: nat
  latencies :: nat

definition fuse_fs_new :: "'u fuse_operations \<Rightarrow> 'u \<Rightarrow> string option \<Rightarrow> 'u fuse_fs c_res" where
  \<comment> \<open>the last argument is \<open>getenv("FDT_TOOL")\<close>; a null pointer goes into \<open>strcmp\<close>\<close>
  "fuse_fs_new op u tool_ident = (case tool_ident of None \<Rightarrow> Inl NullPointer
     | Some tool \<Rightarrow> Inr \<lparr>ops = op, wrapper_op = has_op op, fdt_debug_mode = (tool = ''debugger''),
         next_seqnum = 0, user_data = u, debugFifo = [], sem_waits = 0, latencies = 0\<rparr>)"

definition take_seqnum :: "'u fuse_fs \<Rightarrow> int \<times> 'u fuse_fs" where
  "take_seqnum fs = (next_seqnum fs, fs\<lparr>next_seqnum := wrap32 (next_seqnum fs + 1)\<rparr>)"

definition invoke_event :: "string \<Rightarrow> int \<Rightarrow> cJSON \<Rightarrow> cJSON" where
  "invoke_event name seqnum params =
    (let event = cJSON_CreateObject;
         event = cJSON_AddStringToObject event ''type'' ''invoke'';
         event = cJSON_AddStringToObject event ''name'' name;
         event = cJSON_AddNumberToObject event ''seqnum'' seqnum
     in cJSON_AddItemToObject event ''params'' params)"

definition return_event :: "string \<Rightarrow> int \<Rightarrow> int option \<Rightarrow> cJSON \<Rightarrow> cJSON" where
  "return_event name seqnum return_val modified_params =
    (let event = cJSON_CreateObject;
         event = cJSON_AddStringToObject event ''type'' ''return'';
         event = cJSON_AddStringToObject event ''name'' name;
         event = cJSON_AddNumberToObject event ''seqnum'' seqnum;
         event = (case return_val of Some r \<Rightarrow> cJSON_AddNumberToObject event ''returnval'' r
           | None \<Rightarrow> cJSON_AddNullToObject event ''returnval'')
     in cJSON_AddItemToObject event ''modified_params'' modified_params)"

definition write_event :: "cJSON \<Rightarrow> 'u fuse_fs \<Rightarrow> 'u fuse_fs c_res" where
  "write_event event fs = (case cJSON_Print event of
       Inr event_json \<Rightarrow> Inr (fs\<lparr>debugFifo := debugFifo fs @ event_json\<rparr>)
     | Inl NullResult \<Rightarrow> Inl NullPointer | Inl e \<Rightarrow> Inl e)"

definition report_fs_call :: "'u fuse_fs \<Rightarrow> string \<Rightarrow> int \<Rightarrow> cJSON \<Rightarrow> 'u fuse_fs c_res" where
  \<comment> \<open>ends with \<open>sem_wait\<close>, which the debugger's \<open>sem_post\<close> lets return\<close>
  "report_fs_call fs name seqnum params = (if fdt_debug_mode fs
     then bindr (write_event (invoke_event name seqnum params) fs) (\<lambda>fs.
          Inr (fs\<lparr>sem_waits := sem_waits fs + 1\<rparr>))
     else Inr fs)"

definition report_fs_call_return :: "'u fuse_fs \<Rightarrow> string \<Rightarrow> int \<Rightarrow> int option \<Rightarrow> cJSON \<Rightarrow> 'u fuse_fs c_res" where
  "report_fs_call_return fs name seqnum return_val modified_params = (if fdt_debug_mode fs
     then write_event (return_event name seqnum return_val modified_params) fs else Inr fs)"

definition wrapper_call :: "'u fuse_fs \<Rightarrow> string \<Rightarrow> json_field list \<Rightarrow> fuse_call \<Rightarrow> bool
    \<Rightarrow> (fuse_out \<Rightarrow> json_field list) \<Rightarrow> (fuse_out \<times> 'u fuse_fs) c_res" where
  \<comment> \<open>the body the wrappers share; the operations without an \<open>int\<close> result report none\<close>
  "wrapper_call fs name params call returns modified =
    (let (seqnum, fs) = take_seqnum fs in
     bindr (add_fields cJSON_CreateObject params) (\<lambda>params.
     bindr (report_fs_call fs name seqnum params) (\<lambda>fs.
     if \<not> has_op (ops fs) name then Inl NullPointer
     else let (r, u) = run_op (ops fs) call (user_data fs); fs = fs\<lparr>user_data := u\<rparr> in
     bindr (add_fields cJSON_CreateObject (modified r)) (\<lambda>modified_params.
     bindr (report_fs_call_return fs name seqnum (if returns then Some (ret r) else None) modified_params) (\<lambda>fs.
       Inr (r, fs\<lparr>latencies := latencies fs + 1\<rparr>))))))"

subsection \<open>The wrappers\<close>

definition fuse_op_wrapper_getattr :: "'u fuse_fs \<Rightarrow> string option \<Rightarrow> stat \<Rightarrow> (fuse_out \<times> 'u fuse_fs) c_res" where
  "fuse_op_wrapper_getattr fs path s = wrapper_call fs ''getattr''
     [FStr ''path'' (c_str path), FItem ''stat'' (statToJSONObject s)]
     (C_getattr path s) True
     (\<lambda>r. [FItem ''stat'' (statToJSONObject (o_stat r))])"

definition fuse_op_wrapper_readlink :: "'u fuse_fs \<Rightarrow> string option \<Rightarrow> int \<Rightarrow> int \<Rightarrow> string \<Rightarrow> (fuse_out \<times> 'u fuse_fs) c_res" where
  "fuse_op_wrapper_readlink fs path lnk sz bytes = wrapper_call fs ''readlink''
     [FStr ''path'' (c_str path), FNum ''link'' lnk, FNum ''size'' sz]
     (C_readlink path lnk sz bytes) True
     (\<lambda>r. [FStr ''link'' (buffer_str (o_buf r))])"

definition fuse_op_wrapper_getdir :: "'u fuse_fs \<Rightarrow> string option \<Rightarrow> int \<Rightarrow> int \<Rightarrow> (fuse_out \<times> 'u fuse_fs) c_res" where
  "fuse_op_wrapper_getdir fs path b c = wrapper_call fs ''getdir''
     [FStr ''path'' (c_str path)]
     (C_getdir path b c) True
     (\<lambda>r. [])"

definition fuse_op_wrapper_mknod :: "'u fuse_fs \<Rightarrow> string option \<Rightarrow> int \<Rightarrow> int \<Rightarrow> (fuse_out \<times> 'u fuse_fs) c_res" where
  "fuse_op_wrapper_mknod fs path md dev = wrapper_call fs ''mknod''
     [FStr ''path'' (c_str path), FNum ''mode'' md, FNum ''dev'' dev]
     (C_mknod path md dev) True
     (\<lambda>r. [])"

definition fuse_op_wrapper_mkdir :: "'u fuse_fs \<Rightarrow> string option \<Rightarrow> int \<Rightarrow> (fuse_out \<times> 'u fuse_fs) c_res" where
  "fuse_op_wrapper_mkdir fs path md = wrapper_call fs ''mkdir''
     [FStr ''path'' (c_str path), FNum ''mode'' md]
     (C_mkdir path md) True
     (\<lambda>r. [])"

definition fuse_op_wrapper_unlink :: "'u fuse_fs \<Rightarrow> string option \<Rightarrow> (fuse_out \<times> 'u fuse_fs) c_res" where
  "fuse_op_wrapper_unlink fs path = wrapper_call fs ''unlink''
     [FStr ''path'' (c_str path)]
     (C_unlink path) True
     (\<lambda>r. [])"

definition fuse_op_wrapper_rmdir :: "'u fuse_fs \<Rightarrow> string option \<Rightarrow> (fuse_out \<times> 'u fuse_fs) c_res" where
  "fuse_op_wrapper_rmdir fs path = wrapper_call fs ''rmdir''
     [FStr ''path'' (c_str path)]
     (C_rmdir path) True
     (\<lambda>r. [])"

definition fuse_op_wrapper_symlink :: "'u fuse_fs \<Rightarrow> string option \<Rightarrow> string option \<Rightarrow> (fuse_out \<times> 'u fuse_fs) c_res" where
  "fuse_op_wrapper_symlink fs path lnk = wrapper_call fs ''symlink''
     [FStr ''path'' (c_str path), FStr ''link'' (c_str lnk)]
     (C_symlink path lnk) True
     (\<lambda>r. [])"

definition fuse_op_wrapper_rename :: "'u fuse_fs \<Rightarrow> string option \<Rightarrow> string option \<Rightarrow> (fuse_out \<times> 'u fuse_fs) c_res" where
  "fuse_op_wrapper_rename fs path newpath = wrapper_call fs ''rename''
     [FStr ''path'' (c_str path), FStr ''newpath'' (c_str newpath)]
     (C_rename path newpath) True
     (\<lambda>r. [])"

definition fuse_op_wrapper_link :: "'u fuse_fs \<Rightarrow> string option \<Rightarrow> string option \<Rightarrow> (fuse_out \<times> 'u fuse_fs) c_res" where
  "fuse_op_wrapper_link fs path newpath = wrapper_call fs ''link''
     [FStr ''path'' (c_str path), FStr ''newpath'' (c_str newpath)]
     (C_link path newpath) True
     (\<lambda>r. [])"

definition fuse_op_wrapper_chmod :: "'u fuse_fs \<Rightarrow> string option \<Rightarrow> int \<Rightarrow> (fuse_out \<times> 'u fuse_fs) c_res" where
  "fuse_op_wrapper_chmod fs path md = wrapper_call fs ''chmod''
     [FStr ''path'' (c_str path), FNum ''mode'' md]
     (C_chmod path md) True
     (\<lambda>r. [])"

definition fuse_op_wrapper_chown :: "'u fuse_fs \<Rightarrow> string option \<Rightarrow> int \<Rightarrow> int \<Rightarrow> (fuse_out \<times> 'u fuse_fs) c_res" where
  "fuse_op_wrapper_chown fs path uid gid = wrapper_call fs ''chown''
     [FStr ''path'' (c_str path), FNum ''uid'' uid, FNum ''gid'' gid]
     (C_chown path uid gid) True
     (\<lambda>r. [])"

definition fuse_op_wrapper_truncate :: "'u fuse_fs \<Rightarrow> string option \<Rightarrow> int \<Rightarrow> (fuse_out \<times> 'u fuse_fs) c_res" where
  "fuse_op_wrapper_truncate fs path newsize = wrapper_call fs ''truncate''
     [FStr ''path'' (c_str path), FNum ''newsize'' newsize]
     (C_truncate path newsize) True
     (\<lambda>r. [])"

definition fuse_op_wrapper_utime :: "'u fuse_fs \<Rightarrow> string option \<Rightarrow> utimbuf \<Rightarrow> (fuse_out \<times> 'u fuse_fs) c_res" where
  "fuse_op_wrapper_utime fs path ubuf = wrapper_call fs ''utime''
     [FStr ''path'' (c_str path), FItem ''ubuf'' (utimbufToJSONObject ubuf)]
     (C_utime path ubuf) True
     (\<lambda>r. [FItem ''ubuf'' (utimbufToJSONObject (o_ubuf r))])"

definition fuse_op_wrapper_open :: "'u fuse_fs \<Rightarrow> string option \<Rightarrow> fuse_file_info \<Rightarrow> (fuse_out \<times> 'u fuse_fs) c_res" where
  "fuse_op_wrapper_open fs path fi = wrapper_call fs ''open''
     [FStr ''path'' (c_str path), FItem ''fi'' (fuseFileInfoToJSONObject fi)]
     (C_open path fi) True
     (\<lambda>r. [FItem ''fi'' (fuseFileInfoToJSONObject (o_fi r))])"

definition fuse_op_wrapper_read :: "'u fuse_fs \<Rightarrow> string option \<Rightarrow> string \<Rightarrow> int \<Rightarrow> int \<Rightarrow> fuse_file_info \<Rightarrow> (fuse_out \<times> 'u fuse_fs) c_res" where
  "fuse_op_wrapper_read fs path bytes sz offset fi = wrapper_call fs ''read''
     [FStr ''path'' (c_str path), FNum ''size'' sz, FNum ''offset'' offset, FItem ''fi'' (fuseFileInfoToJSONObject fi)]
     (C_read path bytes sz offset fi) True
     (\<lambda>r. [FStr ''buf'' (strncpy_str (o_buf r) (ret r)), FItem ''fi'' (fuseFileInfoToJSONObject (o_fi r))])"

definition fuse_op_wrapper_write :: "'u fuse_fs \<Rightarrow> string option \<Rightarrow> string \<Rightarrow> int \<Rightarrow> int \<Rightarrow> fuse_file_info \<Rightarrow> (fuse_out \<times> 'u fuse_fs) c_res" where
  "fuse_op_wrapper_write fs path bf sz offset fi = wrapper_call fs ''write''
     [FStr ''path'' (c_str path), FStr ''buf'' (strncpy_str bf sz), FNum ''size'' sz, FNum ''offset'' offset, FItem ''fi'' (fuseFileInfoToJSONObject fi)]
     (C_write path bf sz offset fi) True
     (\<lambda>r. [FItem ''fi'' (fuseFileInfoToJSONObject (o_fi r))])"

definition fuse_op_wrapper_statfs :: "'u fuse_fs \<Rightarrow> string option \<Rightarrow> statvfs \<Rightarrow> (fuse_out \<times> 'u fuse_fs) c_res" where
  "fuse_op_wrapper_statfs fs path statvfs = wrapper_call fs ''statfs''
     [FStr ''path'' (c_str path), FItem ''statvfs'' (statvfsToJSONObject statvfs)]
     (C_statfs path statvfs) True
     (\<lambda>r. [FItem ''statvfs'' (statvfsToJSONObject (o_statvfs r))])"

definition fuse_op_wrapper_flush :: "'u fuse_fs \<Rightarrow> string option \<Rightarrow> fuse_file_info \<Rightarrow> (fuse_out \<times> 'u fuse_fs) c_res" where
  "fuse_op_wrapper_flush fs path fi = wrapper_call fs ''flush''
     [FStr ''path'' (c_str path), FItem ''fi'' (fuseFileInfoToJSONObject fi)]
     (C_flush path fi) True
     (\<lambda>r. [FItem ''fi'' (fuseFileInfoToJSONObject (o_fi r))])"

definition fuse_op_wrapper_release :: "'u fuse_fs \<Rightarrow> string option \<Rightarrow> fuse_file_info \<Rightarrow> (fuse_out \<times> 'u fuse_fs) c_res" where
  "fuse_op_wrapper_release fs path fi = wrapper_call fs ''release''
     [FStr ''path'' (c_str path), FItem ''fi'' (fuseFileInfoToJSONObject fi)]
     (C_release path fi) True
     (\<lambda>r. [FItem ''fi'' (fuseFileInfoToJSONObject (o_fi r))])"

definition fuse_op_wrapper_fsync :: "'u fuse_fs \<Rightarrow> string option \<Rightarrow> int \<Rightarrow> fuse_file_info \<Rightarrow> (fuse_out \<times> 'u fuse_fs) c_res" where
  "fuse_op_wrapper_fsync fs path datasync fi = wrapper_call fs ''fsync''
     [FStr ''path'' (c_str path), FNum ''datasync'' datasync, FItem ''fi'' (fuseFileInfoToJSONObject fi)]
     (C_fsync path datasync fi) True
     (\<lambda>r. [FItem ''fi'' (fuseFileInfoToJSONObject (o_fi r))])"

definition fuse_op_wrapper_setxattr :: "'u fuse_fs \<Rightarrow> string option \<Rightarrow> string option \<Rightarrow> string \<Rightarrow> int \<Rightarrow> int \<Rightarrow> (fuse_out \<times> 'u fuse_fs) c_res" where
  "fuse_op_wrapper_setxattr fs path name vl sz flg = wrapper_call fs ''setxattr''
     [FStr ''path'' (c_str path), FStr ''name'' (c_str name), FStr ''value'' (buffer_str vl), FNum ''size'' sz, FNum ''flags'' flg]
     (C_setxattr path name vl sz flg) True
     (\<lambda>r. [])"

definition fuse_op_wrapper_getxattr :: "'u fuse_fs \<Rightarrow> string option \<Rightarrow> string option \<Rightarrow> int \<Rightarrow> int \<Rightarrow> string \<Rightarrow> (fuse_out \<times> 'u fuse_fs) c_res" where
  "fuse_op_wrapper_getxattr fs path name vl sz bytes = wrapper_call fs ''getxattr''
     [FStr ''path'' (c_str path), FStr ''name'' (c_str name), FNum ''value'' vl, FNum ''size'' sz]
     (C_getxattr path name vl sz bytes) True
     (\<lambda>r. [(if vl \<noteq> 0 then FStr ''value'' (buffer_str (o_buf r)) else FNull ''value'')])"

definition fuse_op_wrapper_listxattr :: "'u fuse_fs \<Rightarrow> string option \<Rightarrow> int \<Rightarrow> int \<Rightarrow> string \<Rightarrow> (fuse_out \<times> 'u fuse_fs) c_res" where
  "fuse_op_wrapper_listxattr fs path lst sz bytes = wrapper_call fs ''listxattr''
     [FStr ''path'' (c_str path), FNum ''list'' lst, FNum ''size'' sz]
     (C_listxattr path lst sz bytes) True
     (\<lambda>r. [(if lst \<noteq> 0 then FStr ''list'' (buffer_str (o_buf r)) else FNull ''list'')])"

definition fuse_op_wrapper_removexattr :: "'u fuse_fs \<Rightarrow> string option \<Rightarrow> string option \<Rightarrow> (fuse_out \<times> 'u fuse_fs) c_res" where
  "fuse_op_wrapper_removexattr fs path name = wrapper_call fs ''removexattr''
     [FStr ''path'' (c_str path), FStr ''name'' (c_str name)]
     (C_removexattr path name) True
     (\<lambda>r. [])"

definition fuse_op_wrapper_opendir :: "'u fuse_fs \<Rightarrow> string option \<Rightarrow> fuse_file_info \<Rightarrow> (fuse_out \<times> 'u fuse_fs) c_res" where
  "fuse_op_wrapper_opendir fs path fi = wrapper_call fs ''opendir''
     [FStr ''path'' (c_str path), FItem ''fi'' (fuseFileInfoToJSONObject fi)]
     (C_opendir path fi) True
     (\<lambda>r. [FItem ''fi'' (fuseFileInfoToJSONObject (o_fi r))])"

definition fuse_op_wrapper_readdir :: "'u fuse_fs \<Rightarrow> string option \<Rightarrow> int \<Rightarrow> int \<Rightarrow> int \<Rightarrow> fuse_file_info \<Rightarrow> (fuse_out \<times> 'u fuse_fs) c_res" where
  "fuse_op_wrapper_readdir fs path bf fil offset fi = wrapper_call fs ''readdir''
     [FStr ''path'' (c_str path), FNum ''buf'' bf, FNum ''filler'' fil, FNum ''offset'' offset, FItem ''fi'' (fuseFileInfoToJSONObject fi)]
     (C_readdir path bf fil offset fi) True
     (\<lambda>r. [FItem ''fi'' (fuseFileInfoToJSONObject (o_fi r))])"

definition fuse_op_wrapper_releasedir :: "'u fuse_fs \<Rightarrow> string option \<Rightarrow> fuse_file_info \<Rightarrow> (fuse_out \<times> 'u fuse_fs) c_res" where
  "fuse_op_wrapper_releasedir fs path fi = wrapper_call fs ''releasedir''
     [FStr ''path'' (c_str path), FItem ''fi'' (fuseFileInfoToJSONObject fi)]
     (C_releasedir path fi) True
     (\<lambda>r. [FItem ''fi'' (fuseFileInfoToJSONObject (o_fi r))])"

definition fuse_op_wrapper_fsyncdir :: "'u fuse_fs \<Rightarrow> string option \<Rightarrow> int \<Rightarrow> fuse_file_info \<Rightarrow> (fuse_out \<times> 'u fuse_fs) c_res" where
  "fuse_op_wrapper_fsyncdir fs path datasync fi = wrapper_call fs ''fsyncdir''
     [FStr ''path'' (c_str path), FNum ''datasync'' datasync, FItem ''fi'' (fuseFileInfoToJSONObject fi)]
     (C_fsyncdir path datasync fi) True
     (\<lambda>r. [FItem ''fi'' (fuseFileInfoToJSONObject (o_fi r))])"

definition fuse_op_wrapper_init :: "'u fuse_fs \<Rightarrow> fuse_conn_info \<Rightarrow> (fuse_out \<times> 'u fuse_fs) c_res" where
  "fuse_op_wrapper_init fs cn = wrapper_call fs ''init''
     [FItem ''conn'' (fuseConnInfoToJSONObject cn)]
     (C_init cn) False
     (\<lambda>r. [FItem ''conn'' (fuseConnInfoToJSONObject (o_conn r))])"

definition fuse_op_wrapper_destroy :: "'u fuse_fs \<Rightarrow> int \<Rightarrow> (fuse_out \<times> 'u fuse_fs) c_res" where
  "fuse_op_wrapper_destroy fs ud = wrapper_call fs ''destroy''
     [FNum ''userdata'' ud]
     (C_destroy ud) False
     (\<lambda>r. [])"

definition fuse_op_wrapper_access :: "'u fuse_fs \<Rightarrow> string option \<Rightarrow> int \<Rightarrow> (fuse_out \<times> 'u fuse_fs) c_res" where
  "fuse_op_wrapper_access fs path msk = wrapper_call fs ''access''
     [FStr ''path'' (c_str path), FNum ''mask'' msk]
     (C_access path msk) True
     (\<lambda>r. [])"

definition fuse_op_wrapper_create :: "'u fuse_fs \<Rightarrow> string option \<Rightarrow> int \<Rightarrow> fuse_file_info \<Rightarrow> (fuse_out \<times> 'u fuse_fs) c_res" where
  "fuse_op_wrapper_create fs path md fi = wrapper_call fs ''create''
     [FStr ''path'' (c_str path), FNum ''mode'' md, FItem ''fi'' (fuseFileInfoToJSONObject fi)]
     (C_create path md fi) True
     (\<lambda>r. [FItem ''fi'' (fuseFileInfoToJSONObject (o_fi r))])"

definition fuse_op_wrapper_ftruncate :: "'u fuse_fs \<Rightarrow> string option \<Rightarrow> int \<Rightarrow> fuse_file_info \<Rightarrow> (fuse_out \<times> 'u fuse_fs) c_res" where
  "fuse_op_wrapper_ftruncate fs path offset fi = wrapper_call fs ''ftruncate''
     [FStr ''path'' (c_str path), FNum ''offset'' offset, FItem ''fi'' (fuseFileInfoToJSONObject fi)]
     (C_ftruncate path offset fi) True
     (\<lambda>r. [FItem ''fi'' (fuseFileInfoToJSONObject (o_fi r))])"

definition fuse_op_wrapper_fgetattr :: "'u fuse_fs \<Rightarrow> string option \<Rightarrow> stat \<Rightarrow> fuse_file_info \<Rightarrow> (fuse_out \<times> 'u fuse_fs) c_res" where
  "fuse_op_wrapper_fgetattr fs path s fi = wrapper_call fs ''fgetattr''
     [FStr ''path'' (c_str path), FItem ''stat'' (statToJSONObject s), FItem ''fi'' (fuseFileInfoToJSONObject fi)]
     (C_fgetattr path s fi) True
     (\<lambda>r. [FItem ''stat'' (statToJSONObject (o_stat r)), FItem ''fi'' (fuseFileInfoToJSONObject (o_fi r))])"

definition fuse_op_wrapper_lock :: "'u fuse_fs \<Rightarrow> string option \<Rightarrow> fuse_file_info \<Rightarrow> int \<Rightarrow> flock \<Rightarrow> (fuse_out \<times> 'u fuse_fs) c_res" where
  "fuse_op_wrapper_lock fs path fi cmd flock = wrapper_call fs ''lock''
     [FStr ''path'' (c_str path), FItem ''fi'' (fuseFileInfoToJSONObject fi), FNum ''cmd'' cmd, FItem ''flock'' (flockToJSONObject flock)]
     (C_lock path fi cmd flock) True
     (\<lambda>r. [FItem ''fi'' (fuseFileInfoToJSONObject (o_fi r)), FItem ''flock'' (flockToJSONObject (o_flock r))])"

definition fuse_op_wrapper_utimens :: "'u fuse_fs \<Rightarrow> string option \<Rightarrow> timespec list \<Rightarrow> (fuse_out \<times> 'u fuse_fs) c_res" where
  "fuse_op_wrapper_utimens fs path tv = wrapper_call fs ''utimens''
     [FStr ''path'' (c_str path), FItem ''tv'' (timespecArrayToJSONObject tv)]
     (C_utimens path tv) True
     (\<lambda>r. [])"

definition fuse_op_wrapper_bmap :: "'u fuse_fs \<Rightarrow> string option \<Rightarrow> int \<Rightarrow> int option \<Rightarrow> (fuse_out \<times> 'u fuse_fs) c_res" where
  "fuse_op_wrapper_bmap fs path blocksize ix = wrapper_call fs ''bmap''
     [FStr ''path'' (c_str path), FNum ''blocksize'' blocksize, FOpt ''idx'' ix]
     (C_bmap path blocksize ix) True
     (\<lambda>r. [(case ix of Some _ \<Rightarrow> FNum ''idx'' (o_idx r) | None \<Rightarrow> FNull ''idx'')])"

definition fuse_op_wrapper_ioctl :: "'u fuse_fs \<Rightarrow> string option \<Rightarrow> int \<Rightarrow> int \<Rightarrow> fuse_file_info \<Rightarrow> int \<Rightarrow> int \<Rightarrow> (fuse_out \<times> 'u fuse_fs) c_res" where
  "fuse_op_wrapper_ioctl fs path cmd arg fi flg dat = wrapper_call fs ''ioctl''
     [FStr ''path'' (c_str path), FNum ''cmd'' cmd, FNum ''arg'' arg, FItem ''fi'' (fuseFileInfoToJSONObject fi), FNum ''flags'' flg, FNum ''data'' dat]
     (C_ioctl path cmd arg fi flg dat) True
     (\<lambda>r. [FItem ''fi'' (fuseFileInfoToJSONObject (o_fi r))])"

definition fuse_op_wrapper_poll :: "'u fuse_fs \<Rightarrow> string option \<Rightarrow> fuse_file_info \<Rightarrow> int \<Rightarrow> int option \<Rightarrow> (fuse_out \<times> 'u fuse_fs) c_res" where
  "fuse_op_wrapper_poll fs path fi ph reventsp = wrapper_call fs ''poll''
     [FStr ''path'' (c_str path), FItem ''fi'' (fuseFileInfoToJSONObject fi), FNum ''ph'' ph, FOpt ''reventsp'' reventsp]
     (C_poll path fi ph reventsp) True
     (\<lambda>r. [FItem ''fi'' (fuseFileInfoToJSONObject (o_fi r)), (case reventsp of Some _ \<Rightarrow> FNum ''reventsp'' (o_idx r) | None \<Rightarrow> FNull ''reventsp'')])"

definition fuse_op_wrapper_write_buf :: "'u fuse_fs \<Rightarrow> string option \<Rightarrow> fuse_bufvec \<Rightarrow> int \<Rightarrow> fuse_file_info \<Rightarrow> (fuse_out \<times> 'u fuse_fs) c_res" where
  "fuse_op_wrapper_write_buf fs path bf ofs fi = wrapper_call fs ''write_buf''
     [FStr ''path'' (c_str path), FItem ''buf'' (fuseBufvecToJSONObject bf), FNum ''off'' ofs, FItem ''fi'' (fuseFileInfoToJSONObject fi)]
     (C_write_buf path bf ofs fi) True
     (\<lambda>r. [FItem ''fi'' (fuseFileInfoToJSONObject (o_fi r))])"

definition fuse_op_wrapper_read_buf :: "'u fuse_fs \<Rightarrow> string option \<Rightarrow> int \<Rightarrow> int \<Rightarrow> int \<Rightarrow> fuse_file_info \<Rightarrow> (fuse_out \<times> 'u fuse_fs) c_res" where
  "fuse_op_wrapper_read_buf fs path bufp sz ofs fi = wrapper_call fs ''read_buf''
     [FStr ''path'' (c_str path), FNum ''bufp'' bufp, FNum ''size'' sz, FNum ''off'' ofs, FItem ''fi'' (fuseFileInfoToJSONObject fi)]
     (C_read_buf path bufp sz ofs fi) True
     (\<lambda>r. [(case o_bufvec r of Some b \<Rightarrow> FItem ''bufp'' (fuseBufvecToJSONObject b) | None \<Rightarrow> FNull ''bufp''), FItem ''fi'' (fuseFileInfoToJSONObject (o_fi r))])"

definition fuse_op_wrapper_flock :: "'u fuse_fs \<Rightarrow> string option \<Rightarrow> fuse_file_info \<Rightarrow> int \<Rightarrow> (fuse_out \<times> 'u fuse_fs) c_res" where
  "fuse_op_wrapper_flock fs path fi lop = wrapper_call fs ''flock''
     [FStr ''path'' (c_str path), FItem ''fi'' (fuseFileInfoToJSONObject fi), FNum ''op'' lop]
     (C_flock path fi lop) True
     (\<lambda>r. [FItem ''fi'' (fuseFileInfoToJSONObject (o_fi r))])"

definition fuse_op_wrapper_fallocate :: "'u fuse_fs \<Rightarrow> string option \<Rightarrow> int \<Rightarrow> int \<Rightarrow> int \<Rightarrow> fuse_file_info \<Rightarrow> (fuse_out \<times> 'u fuse_fs) c_res" where
  "fuse_op_wrapper_fallocate fs path md offset leng fi = wrapper_call fs ''fallocate''
     [FStr ''path'' (c_str path), FNum ''mode'' md, FNum ''offset'' offset, FNum ''len'' leng, FItem ''fi'' (fuseFileInfoToJSONObject fi)]
     (C_fallocate path md offset leng fi) True
     (\<lambda>r. [FItem ''fi'' (fuseFileInfoToJSONObject (o_fi r))])"

text \<open>The table of function pointers \<open>wrapper_op\<close>.\<close>

primrec wrapper_table :: "fuse_call \<Rightarrow> 'u fuse_fs \<Rightarrow> (fuse_out \<times> 'u fuse_fs) c_res" where
  "wrapper_table (C_getattr path s) fs = fuse_op_wrapper_getattr fs path s"
| "wrapper_table (C_readlink path lnk sz bytes) fs = fuse_op_wrapper_readlink fs path lnk sz bytes"
| "wrapper_table (C_getdir path b c) fs = fuse_op_wrapper_getdir fs path b c"
| "wrapper_table (C_mknod path md dev) fs = fuse_op_wrapper_mknod fs path md dev"
| "wrapper_table (C_mkdir path md) fs = fuse_op_wrapper_mkdir fs path md"
| "wrapper_table (C_unlink path) fs = fuse_op_wrapper_unlink fs path"
| "wrapper_table (C_rmdir path) fs = fuse_op_wrapper_rmdir fs path"
| "wrapper_table (C_symlink path lnk) fs = fuse_op_wrapper_symlink fs path lnk"
| "wrapper_table (C_rename path newpath) fs = fuse_op_wrapper_rename fs path newpath"
| "wrapper_table (C_link path newpath) fs = fuse_op_wrapper_link fs path newpath"
| "wrapper_table (C_chmod path md) fs = fuse_op_wrapper_chmod fs path md"
| "wrapper_table (C_chown path uid gid) fs = fuse_op_wrapper_chown fs path uid gid"
| "wrapper_table (C_truncate path newsize) fs = fuse_op_wrapper_truncate fs path newsize"
| "wrapper_table (C_utime path ubuf) fs = fuse_op_wrapper_utime fs path ubuf"
| "wrapper_table (C_open path fi) fs = fuse_op_wrapper_open fs path fi"
| "wrapper_table (C_read path bytes sz offset fi) fs = fuse_op_wrapper_read fs path bytes sz offset fi"
| "wrapper_table (C_write path bf sz offset fi) fs = fuse_op_wrapper_write fs path bf sz offset fi"
| "wrapper_table (C_statfs path statvfs) fs = fuse_op_wrapper_statfs fs path statvfs"
| "wrapper_table (C_flush path fi) fs = fuse_op_wrapper_flush fs path fi"
| "wrapper_table (C_release path fi) fs = fuse_op_wrapper_release fs path fi"
| "wrapper_table (C_fsync path datasync fi) fs = fuse_op_wrapper_fsync fs path datasync fi"
| "wrapper_table (C_setxattr path name vl sz flg) fs = fuse_op_wrapper_setxattr fs path name vl sz flg"
| "wrapper_table (C_getxattr path name vl sz bytes) fs = fuse_op_wrapper_getxattr fs path name vl sz bytes"
| "wrapper_table (C_listxattr path lst sz bytes) fs = fuse_op_wrapper_listxattr fs path lst sz bytes"
| "wrapper_table (C_removexattr path name) fs = fuse_op_wrapper_removexattr fs path name"
| "wrapper_table (C_opendir path fi) fs = fuse_op_wrapper_opendir fs path fi"
| "wrapper_table (C_readdir path bf fil offset fi) fs = fuse_op_wrapper_readdir fs path bf fil offset fi"
| "wrapper_table (C_releasedir path fi) fs = fuse_op_wrapper_releasedir fs path fi"
| "wrapper_table (C_fsyncdir path datasync fi) fs = fuse_op_wrapper_fsyncdir fs path datasync fi"
| "wrapper_table (C_init cn) fs = fuse_op_wrapper_init fs cn"
| "wrapper_table (C_destroy ud) fs = fuse_op_wrapper_destroy fs ud"
| "wrapper_table (C_access path msk) fs = fuse_op_wrapper_access fs path msk"
| "wrapper_table (C_create path md fi) fs = fuse_op_wrapper_create fs path md fi"
| "wrapper_table (C_ftruncate path offset fi) fs = fuse_op_wrapper_ftruncate fs path offset fi"
| "wrapper_table (C_fgetattr path s fi) fs = fuse_op_wrapper_fgetattr fs path s fi"
| "wrapper_table (C_lock path fi cmd flock) fs = fuse_op_wrapper_lock fs path fi cmd flock"
| "wrapper_table (C_utimens path tv) fs = fuse_op_wrapper_utimens fs path tv"
| "wrapper_table (C_bmap path blocksize ix) fs = fuse_op_wrapper_bmap fs path blocksize ix"
| "wrapper_table (C_ioctl path cmd arg fi flg dat) fs = fuse_op_wrapper_ioctl fs path cmd arg fi flg dat"
| "wrapper_table (C_poll path fi ph reventsp) fs = fuse_op_wrapper_poll fs path fi ph reventsp"
| "wrapper_table (C_write_buf path bf ofs fi) fs = fuse_op_wrapper_write_buf fs path bf ofs fi"
| "wrapper_table (C_read_buf path bufp sz ofs fi) fs = fuse_op_wrapper_read_buf fs path bufp sz ofs fi"
| "wrapper_table (C_flock path fi lop) fs = fuse_op_wrapper_flock fs path fi lop"
| "wrapper_table (C_fallocate path md offset leng fi) fs = fuse_op_wrapper_fallocate fs path md offset leng fi"

primrec op_name :: "fuse_call \<Rightarrow> string" where
  "op_name (C_getattr path s) = ''getattr''"
| "op_name (C_readlink path lnk sz bytes) = ''readlink''"
| "op_name (C_getdir path b c) = ''getdir''"
| "op_name (C_mknod path md dev) = ''mknod''"
| "op_name (C_mkdir path md) = ''mkdir''"
| "op_name (C_unlink path) = ''unlink''"
| "op_name (C_rmdir path) = ''rmdir''"
| "op_name (C_symlink path lnk) = ''symlink''"
| "op_name (C_rename path newpath) = ''rename''"
| "op_name (C_link path newpath) = ''link''"
| "op_name (C_chmod path md) = ''chmod''"
| "op_name (C_chown path uid gid) = ''chown''"
| "op_name (C_truncate path newsize) = ''truncate''"
| "op_name (C_utime path ubuf) = ''utime''"
| "op_name (C_open path fi) = ''open''"
| "op_name (C_read path bytes sz offset fi) = ''read''"
| "op_name (C_write path bf sz offset fi) = ''write''"
| "op_name (C_statfs path statvfs) = ''statfs''"
| "op_name (C_flush path fi) = ''flush''"
| "op_name (C_release path fi) = ''release''"
| "op_name (C_fsync path datasync fi) = ''fsync''"
| "op_name (C_setxattr path name vl sz flg) = ''setxattr''"
| "op_name (C_getxattr path name vl sz bytes) = ''getxattr''"
| "op_name (C_listxattr path lst sz bytes) = ''listxattr''"
| "op_name (C_removexattr path name) = ''removexattr''"
| "op_name (C_opendir path fi) = ''opendir''"
| "op_name (C_readdir path bf fil offset fi) = ''readdir''"
| "op_name (C_releasedir path fi) = ''releasedir''"
| "op_name (C_fsyncdir path datasync fi) = ''fsyncdir''"
| "op_name (C_init cn) = ''init''"
| "op_name (C_destroy ud) = ''destroy''"
| "op_name (C_access path msk) = ''access''"
| "op_name (C_create path md fi) = ''create''"
| "op_name (C_ftruncate path offset fi) = ''ftruncate''"
| "op_name (C_fgetattr path s fi) = ''fgetattr''"
| "op_name (C_lock path fi cmd flock) = ''lock''"
| "op_name (C_utimens path tv) = ''utimens''"
| "op_name (C_bmap path blocksize ix) = ''bmap''"
| "op_name (C_ioctl path cmd arg fi flg dat) = ''ioctl''"
| "op_name (C_poll path fi ph reventsp) = ''poll''"
| "op_name (C_write_buf path bf ofs fi) = ''write_buf''"
| "op_name (C_read_buf path bufp sz ofs fi) = ''read_buf''"
| "op_name (C_flock path fi lop) = ''flock''"
| "op_name (C_fallocate path md offset leng fi) = ''fallocate''"

lemmas wrapper_defs =
  fuse_op_wrapper_getattr_def
  fuse_op_wrapper_readlink_def
  fuse_op_wrapper_getdir_def
  fuse_op_wrapper_mknod_def
  fuse_op_wrapper_mkdir_def
  fuse_op_wrapper_unlink_def
  fuse_op_wrapper_rmdir_def
  fuse_op_wrapper_symlink_def
  fuse_op_wrapper_rename_def
  fuse_op_wrapper_link_def
  fuse_op_wrapper_chmod_def
  fuse_op_wrapper_chown_def
  fuse_op_wrapper_truncate_def
  fuse_op_wrapper_utime_def
  fuse_op_wrapper_open_def
  fuse_op_wrapper_read_def
  fuse_op_wrapper_write_def
  fuse_op_wrapper_statfs_def
  fuse_op_wrapper_flush_def
  fuse_op_wrapper_release_def
  fuse_op_wrapper_fsync_def
  fuse_op_wrapper_setxattr_def
  fuse_op_wrapper_getxattr_def
  fuse_op_wrapper_listxattr_def
  fuse_op_wrapper_removexattr_def
  fuse_op_wrapper_opendir_def
  fuse_op_wrapper_readdir_def
  fuse_op_wrapper_releasedir_def
  fuse_op_wrapper_fsyncdir_def
  fuse_op_wrapper_init_def
  fuse_op_wrapper_destroy_def
  fuse_op_wrapper_access_def
  fuse_op_wrapper_create_def
  fuse_op_wrapper_ftruncate_def
  fuse_op_wrapper_fgetattr_def
  fuse_op_wrapper_lock_def
  fuse_op_wrapper_utimens_def
  fuse_op_wrapper_bmap_def
  fuse_op_wrapper_ioctl_def
  fuse_op_wrapper_poll_def
  fuse_op_wrapper_write_buf_def
  fuse_op_wrapper_read_buf_def
  fuse_op_wrapper_flock_def
  fuse_op_wrapper_fallocate_def

subsection \<open>What a wrapped call does\<close>

lemma write_event_Inr:
  "write_event event fs = Inr fs' \<longleftrightarrow> (\<exists>t. cJSON_Print event = Inr t \<and> fs' = fs\<lparr>debugFifo := debugFifo fs @ t\<rparr>)"
  by (auto simp: write_event_def split: sum.splits c_error.splits)

lemma report_fs_call_keeps:
  "report_fs_call fs name seqnum params = Inr fs' \<Longrightarrow> ops fs' = ops fs \<and> user_data fs' = user_data fs
     \<and> wrapper_op fs' = wrapper_op fs \<and> fdt_debug_mode fs' = fdt_debug_mode fs
     \<and> next_seqnum fs' = next_seqnum fs \<and> latencies fs' = latencies fs"
  by (auto simp: report_fs_call_def bindr_Inr_iff write_event_Inr split: if_splits)

lemma report_fs_call_return_keeps:
  "report_fs_call_return fs name seqnum rv mp = Inr fs' \<Longrightarrow> ops fs' = ops fs \<and> user_data fs' = user_data fs
     \<and> wrapper_op fs' = wrapper_op fs \<and> fdt_debug_mode fs' = fdt_debug_mode fs
     \<and> next_seqnum fs' = next_seqnum fs \<and> latencies fs' = latencies fs \<and> sem_waits fs' = sem_waits fs"
  by (auto simp: report_fs_call_return_def write_event_Inr split: if_splits)

lemma wrapper_callE:
  assumes "wrapper_call fs name params call returns modified = Inr (r, fs')"
  obtains p mp fs1 fs2 where
    "add_fields cJSON_CreateObject params = Inr p"
    "report_fs_call (snd (take_seqnum fs)) name (next_seqnum fs) p = Inr fs1"
    "has_op (ops fs1) name" "run_op (ops fs1) call (user_data fs1) = (r, user_data fs')"
    "add_fields cJSON_CreateObject (modified r) = Inr mp"
    "report_fs_call_return (fs1\<lparr>user_data := user_data fs'\<rparr>) name (next_seqnum fs)
       (if returns then Some (ret r) else None) mp = Inr fs2"
    "fs' = fs2\<lparr>latencies := latencies fs2 + 1\<rparr>"
proof -
  let ?fs = "snd (take_seqnum fs)" and ?rv = "if returns then Some (ret r) else None"
  note def = wrapper_call_def take_seqnum_def
  obtain p where p: "add_fields cJSON_CreateObject params = Inr p"
    using assms by (cases "add_fields cJSON_CreateObject params") (simp_all add: def)
  obtain fs1 where c: "report_fs_call ?fs name (next_seqnum fs) p = Inr fs1"
    using assms p by (cases "report_fs_call ?fs name (next_seqnum fs) p") (simp_all add: def)
  have op: "has_op (ops fs1) name"
    using assms p c by (cases "has_op (ops fs1) name") (simp_all add: def)
  obtain r0 u where run: "run_op (ops fs1) call (user_data fs1) = (r0, u)" by fastforce
  obtain mp where mp: "add_fields cJSON_CreateObject (modified r0) = Inr mp"
    using assms p c op run by (cases "add_fields cJSON_CreateObject (modified r0)") (simp_all add: def)
  obtain fs2 where d: "report_fs_call_return (fs1\<lparr>user_data := u\<rparr>) name (next_seqnum fs)
      (if returns then Some (ret r0) else None) mp = Inr fs2"
    using assms p c op run mp by (cases "report_fs_call_return (fs1\<lparr>user_data := u\<rparr>) name
      (next_seqnum fs) (if returns then Some (ret r0) else None) mp") (simp_all add: def)
  have r: "r0 = r" "fs' = fs2\<lparr>latencies := latencies fs2 + 1\<rparr>"
    using assms p c op run mp d by (simp_all add: def)
  have u: "u = user_data fs'" using report_fs_call_return_keeps [OF d] r(2) by simp
  show thesis
    by (rule that [OF p c op run [unfolded r(1) u] mp [unfolded r(1)] d [unfolded r(1) u] r(2)])
qed

definition call_events :: "fuse_call \<Rightarrow> int \<Rightarrow> cJSON list \<Rightarrow> bool" where
  \<comment> \<open>the two events of one call: its name and number on both, its parameters, its result\<close>
  "call_events call seqnum es \<longleftrightarrow> (\<exists>p rv mp. es = [invoke_event (op_name call) seqnum p, return_event (op_name call) seqnum rv mp])"

lemma wrapper_call_effect:
  assumes "wrapper_call fs (op_name call) params call returns modified = Inr (r, fs')"
  shows "run_op (ops fs) call (user_data fs) = (r, user_data fs')" "has_op (ops fs) (op_name call)"
    and "ops fs' = ops fs" "wrapper_op fs' = wrapper_op fs" "fdt_debug_mode fs' = fdt_debug_mode fs"
    and "next_seqnum fs' = wrap32 (next_seqnum fs + 1)"
    and "\<not> fdt_debug_mode fs \<Longrightarrow> debugFifo fs' = debugFifo fs \<and> sem_waits fs' = sem_waits fs"
    and "fdt_debug_mode fs \<Longrightarrow> sem_waits fs' = sem_waits fs + 1 \<and> (\<exists>es texts. call_events call (next_seqnum fs) es
      \<and> map cJSON_Print es = map Inr texts \<and> debugFifo fs' = debugFifo fs @ concat texts)"
proof -
  obtain p mp fs1 fs2 where "add_fields cJSON_CreateObject params = Inr p"
    and p: "report_fs_call (snd (take_seqnum fs)) (op_name call) (next_seqnum fs) p = Inr fs1"
    and run: "has_op (ops fs1) (op_name call)" "run_op (ops fs1) call (user_data fs1) = (r, user_data fs')"
    and "add_fields cJSON_CreateObject (modified r) = Inr mp"
    and mp: "report_fs_call_return (fs1\<lparr>user_data := user_data fs'\<rparr>) (op_name call) (next_seqnum fs)
       (if returns then Some (ret r) else None) mp = Inr fs2"
    and fs': "fs' = fs2\<lparr>latencies := latencies fs2 + 1\<rparr>"
    using assms by (rule wrapper_callE)
  have k1: "ops fs1 = ops fs" "user_data fs1 = user_data fs" "wrapper_op fs1 = wrapper_op fs"
    "fdt_debug_mode fs1 = fdt_debug_mode fs" "next_seqnum fs1 = wrap32 (next_seqnum fs + 1)"
    using report_fs_call_keeps [OF p] by (simp_all add: take_seqnum_def)
  have k2: "ops fs2 = ops fs1" "wrapper_op fs2 = wrapper_op fs1" "fdt_debug_mode fs2 = fdt_debug_mode fs1"
    "next_seqnum fs2 = next_seqnum fs1" "sem_waits fs2 = sem_waits fs1"
    using report_fs_call_return_keeps [OF mp] by simp_all
  show "run_op (ops fs) call (user_data fs) = (r, user_data fs')" "has_op (ops fs) (op_name call)"
    using run unfolding k1 by blast+
  show "ops fs' = ops fs" "wrapper_op fs' = wrapper_op fs" "fdt_debug_mode fs' = fdt_debug_mode fs"
    "next_seqnum fs' = wrap32 (next_seqnum fs + 1)"
    unfolding fs' using k1 k2 by simp_all
  show "debugFifo fs' = debugFifo fs \<and> sem_waits fs' = sem_waits fs" if "\<not> fdt_debug_mode fs"
  proof -
    have "fs1 = snd (take_seqnum fs)" using that p by (simp add: report_fs_call_def take_seqnum_def)
    then have "debugFifo fs1 = debugFifo fs" "sem_waits fs1 = sem_waits fs" by (simp_all add: take_seqnum_def)
    moreover have "debugFifo fs2 = debugFifo fs1"
      using that mp k1(4) by (auto simp: report_fs_call_return_def)
    ultimately show ?thesis using k2(5) unfolding fs' by simp
  qed
  show "sem_waits fs' = sem_waits fs + 1 \<and> (\<exists>es texts. call_events call (next_seqnum fs) es
      \<and> map cJSON_Print es = map Inr texts \<and> debugFifo fs' = debugFifo fs @ concat texts)"
    if "fdt_debug_mode fs"
  proof -
    have "\<exists>t1. cJSON_Print (invoke_event (op_name call) (next_seqnum fs) p) = Inr t1
      \<and> debugFifo fs1 = debugFifo fs @ t1 \<and> sem_waits fs1 = sem_waits fs + 1"
      using that p by (auto simp: report_fs_call_def take_seqnum_def bindr_Inr_iff write_event_Inr)
    then obtain t1 where t1: "cJSON_Print (invoke_event (op_name call) (next_seqnum fs) p) = Inr t1"
      "debugFifo fs1 = debugFifo fs @ t1" "sem_waits fs1 = sem_waits fs + 1" by blast
    have "\<exists>t2. cJSON_Print (return_event (op_name call) (next_seqnum fs)
        (if returns then Some (ret r) else None) mp) = Inr t2 \<and> debugFifo fs2 = debugFifo fs1 @ t2"
    proof -
      have "fdt_debug_mode fs1" using that k1 by simp
      then show ?thesis using mp by (auto simp: report_fs_call_return_def write_event_Inr)
    qed
    then obtain t2 where t2: "cJSON_Print (return_event (op_name call) (next_seqnum fs)
        (if returns then Some (ret r) else None) mp) = Inr t2" "debugFifo fs2 = debugFifo fs1 @ t2" by blast
    let ?es = "[invoke_event (op_name call) (next_seqnum fs) p, return_event (op_name call) (next_seqnum fs)
        (if returns then Some (ret r) else None) mp]"
    have "call_events call (next_seqnum fs) ?es" unfolding call_events_def by blast
    then show ?thesis
      unfolding fs' using t1 t2 k2 by (intro conjI exI [of _ ?es] exI [of _ "[t1, t2]"]) simp_all
  qed
qed

lemma wrapper_table_call:
  "\<exists>params returns modified. \<forall>fs. wrapper_table call fs
     = wrapper_call fs (op_name call) params call returns modified"
  by (cases call; simp only: wrapper_table.simps op_name.simps wrapper_defs; intro exI allI; rule refl)

fun run_calls :: "fuse_call list \<Rightarrow> 'u fuse_fs \<Rightarrow> (fuse_out list \<times> 'u fuse_fs) c_res" where
  "run_calls [] fs = Inr ([], fs)"
| "run_calls (c # cs) fs = bindr (wrapper_table c fs) (\<lambda>(r, fs).
     bindr (run_calls cs fs) (\<lambda>(rs, fs). Inr (r # rs, fs)))"

fun run_direct :: "'u fuse_operations \<Rightarrow> fuse_call list \<Rightarrow> 'u \<Rightarrow> fuse_out list \<times> 'u" where
  "run_direct op [] u = ([], u)"
| "run_direct op (c # cs) u = (let (r, u) = run_op op c u; (rs, u) = run_direct op cs u in (r # rs, u))"

fun calls_events :: "fuse_call list \<Rightarrow> int \<Rightarrow> cJSON list \<Rightarrow> bool" where
  "calls_events [] seqnum es = (es = [])"
| "calls_events (c # cs) seqnum es = (\<exists>ds fs. es = ds @ fs \<and> call_events c seqnum ds
     \<and> calls_events cs (wrap32 (seqnum + 1)) fs)"

end
