(* ===== verification/Fuse_Dispatch.thy ===== *)
theory Fuse_Dispatch
  imports Wrapper
begin

unbundle bit_operations_syntax

section \<open>The library's entry points\<close>

text \<open>
  The \<open>fuse_fs_\<close> functions of \<^verbatim>\<open>src/libfuse/lib/fuse.c\<close>, through which the library calls
  the file system: each goes through the wrapper when the operation is provided and returns
  a default otherwise (\<open>-ENOSYS\<close>, or success for the operations that may be left out), and a few
  fall back on an older operation. A result is the return value with the outcome of the
  operation that was run, if any. File systems are of API version 25 or later, so the
  \<open>fuse_compat_\<close> helpers call the wrapper. The messages of the library's own debug flag and
  the thread's \<open>private_data\<close> are left out.
\<close>

type_synonym 'u fs_result = "((int \<times> fuse_out option) \<times> 'u fuse_fs) c_res"

abbreviation ENOSYS :: int where "ENOSYS \<equiv> 38"

definition ran :: "(fuse_out \<times> 'u fuse_fs) c_res \<Rightarrow> 'u fs_result" where
  "ran res = bindr res (\<lambda>(r, fs). Inr ((ret r, Some r), fs))"

definition no_op :: "int \<Rightarrow> 'u fuse_fs \<Rightarrow> 'u fs_result" where
  "no_op err fs = Inr ((err, None), fs)"

definition fuse_fs_getattr :: "'u fuse_fs \<Rightarrow> string option \<Rightarrow> stat \<Rightarrow> 'u fs_result" where
  "fuse_fs_getattr fs path s = (if wrapper_op fs ''getattr''
     then ran (fuse_op_wrapper_getattr fs path s) else no_op (- ENOSYS) fs)"

definition fuse_fs_readlink :: "'u fuse_fs \<Rightarrow> string option \<Rightarrow> int \<Rightarrow> int \<Rightarrow> string \<Rightarrow> 'u fs_result" where
  "fuse_fs_readlink fs path lnk sz bytes = (if wrapper_op fs ''readlink''
     then ran (fuse_op_wrapper_readlink fs path lnk sz bytes) else no_op (- ENOSYS) fs)"

definition fuse_fs_mknod :: "'u fuse_fs \<Rightarrow> string option \<Rightarrow> int \<Rightarrow> int \<Rightarrow> 'u fs_result" where
  "fuse_fs_mknod fs path md dev = (if wrapper_op fs ''mknod''
     then ran (fuse_op_wrapper_mknod fs path md dev) else no_op (- ENOSYS) fs)"

definition fuse_fs_mkdir :: "'u fuse_fs \<Rightarrow> string option \<Rightarrow> int \<Rightarrow> 'u fs_result" where
  "fuse_fs_mkdir fs path md = (if wrapper_op fs ''mkdir''
     then ran (fuse_op_wrapper_mkdir fs path md) else no_op (- ENOSYS) fs)"

definition fuse_fs_unlink :: "'u fuse_fs \<Rightarrow> string option \<Rightarrow> 'u fs_result" where
  "fuse_fs_unlink fs path = (if wrapper_op fs ''unlink''
     then ran (fuse_op_wrapper_unlink fs path) else no_op (- ENOSYS) fs)"

definition fuse_fs_rmdir :: "'u fuse_fs \<Rightarrow> string option \<Rightarrow> 'u fs_result" where
  "fuse_fs_rmdir fs path = (if wrapper_op fs ''rmdir''
     then ran (fuse_op_wrapper_rmdir fs path) else no_op (- ENOSYS) fs)"

definition fuse_fs_symlink :: "'u fuse_fs \<Rightarrow> string option \<Rightarrow> string option \<Rightarrow> 'u fs_result" where
  "fuse_fs_symlink fs path lnk = (if wrapper_op fs ''symlink''
     then ran (fuse_op_wrapper_symlink fs path lnk) else no_op (- ENOSYS) fs)"

definition fuse_fs_rename :: "'u fuse_fs \<Rightarrow> string option \<Rightarrow> string option \<Rightarrow> 'u fs_result" where
  "fuse_fs_rename fs path newpath = (if wrapper_op fs ''rename''
     then ran (fuse_op_wrapper_rename fs path newpath) else no_op (- ENOSYS) fs)"

definition fuse_fs_link :: "'u fuse_fs \<Rightarrow> string option \<Rightarrow> string option \<Rightarrow> 'u fs_result" where
  "fuse_fs_link fs path newpath = (if wrapper_op fs ''link''
     then ran (fuse_op_wrapper_link fs path newpath) else no_op (- ENOSYS) fs)"

definition fuse_fs_chmod :: "'u fuse_fs \<Rightarrow> string option \<Rightarrow> int \<Rightarrow> 'u fs_result" where
  "fuse_fs_chmod fs path md = (if wrapper_op fs ''chmod''
     then ran (fuse_op_wrapper_chmod fs path md) else no_op (- ENOSYS) fs)"

definition fuse_fs_chown :: "'u fuse_fs \<Rightarrow> string option \<Rightarrow> int \<Rightarrow> int \<Rightarrow> 'u fs_result" where
  "fuse_fs_chown fs path uid gid = (if wrapper_op fs ''chown''
     then ran (fuse_op_wrapper_chown fs path uid gid) else no_op (- ENOSYS) fs)"

definition fuse_fs_truncate :: "'u fuse_fs \<Rightarrow> string option \<Rightarrow> int \<Rightarrow> 'u fs_result" where
  "fuse_fs_truncate fs path newsize = (if wrapper_op fs ''truncate''
     then ran (fuse_op_wrapper_truncate fs path newsize) else no_op (- ENOSYS) fs)"

definition fuse_fs_open :: "'u fuse_fs \<Rightarrow> string option \<Rightarrow> fuse_file_info \<Rightarrow> 'u fs_result" where
  "fuse_fs_open fs path fi = (if wrapper_op fs ''open''
     then ran (fuse_op_wrapper_open fs path fi) else no_op 0 fs)"

definition fuse_fs_flush :: "'u fuse_fs \<Rightarrow> string option \<Rightarrow> fuse_file_info \<Rightarrow> 'u fs_result" where
  "fuse_fs_flush fs path fi = (if wrapper_op fs ''flush''
     then ran (fuse_op_wrapper_flush fs path fi) else no_op (- ENOSYS) fs)"

definition fuse_fs_release :: "'u fuse_fs \<Rightarrow> string option \<Rightarrow> fuse_file_info \<Rightarrow> 'u fs_result" where
  "fuse_fs_release fs path fi = (if wrapper_op fs ''release''
     then ran (fuse_op_wrapper_release fs path fi) else no_op 0 fs)"

definition fuse_fs_fsync :: "'u fuse_fs \<Rightarrow> string option \<Rightarrow> int \<Rightarrow> fuse_file_info \<Rightarrow> 'u fs_result" where
  "fuse_fs_fsync fs path datasync fi = (if wrapper_op fs ''fsync''
     then ran (fuse_op_wrapper_fsync fs path datasync fi) else no_op (- ENOSYS) fs)"

definition fuse_fs_setxattr :: "'u fuse_fs \<Rightarrow> string option \<Rightarrow> string option \<Rightarrow> string \<Rightarrow> int \<Rightarrow> int \<Rightarrow> 'u fs_result" where
  "fuse_fs_setxattr fs path name vl sz flg = (if wrapper_op fs ''setxattr''
     then ran (fuse_op_wrapper_setxattr fs path name vl sz flg) else no_op (- ENOSYS) fs)"

definition fuse_fs_getxattr :: "'u fuse_fs \<Rightarrow> string option \<Rightarrow> string option \<Rightarrow> int \<Rightarrow> int \<Rightarrow> string \<Rightarrow> 'u fs_result" where
  "fuse_fs_getxattr fs path name vl sz bytes = (if wrapper_op fs ''getxattr''
     then ran (fuse_op_wrapper_getxattr fs path name vl sz bytes) else no_op (- ENOSYS) fs)"

definition fuse_fs_listxattr :: "'u fuse_fs \<Rightarrow> string option \<Rightarrow> int \<Rightarrow> int \<Rightarrow> string \<Rightarrow> 'u fs_result" where
  "fuse_fs_listxattr fs path lst sz bytes = (if wrapper_op fs ''listxattr''
     then ran (fuse_op_wrapper_listxattr fs path lst sz bytes) else no_op (- ENOSYS) fs)"

definition fuse_fs_removexattr :: "'u fuse_fs \<Rightarrow> string option \<Rightarrow> string option \<Rightarrow> 'u fs_result" where
  "fuse_fs_removexattr fs path name = (if wrapper_op fs ''removexattr''
     then ran (fuse_op_wrapper_removexattr fs path name) else no_op (- ENOSYS) fs)"

definition fuse_fs_opendir :: "'u fuse_fs \<Rightarrow> string option \<Rightarrow> fuse_file_info \<Rightarrow> 'u fs_result" where
  "fuse_fs_opendir fs path fi = (if wrapper_op fs ''opendir''
     then ran (fuse_op_wrapper_opendir fs path fi) else no_op 0 fs)"

definition fuse_fs_releasedir :: "'u fuse_fs \<Rightarrow> string option \<Rightarrow> fuse_file_info \<Rightarrow> 'u fs_result" where
  "fuse_fs_releasedir fs path fi = (if wrapper_op fs ''releasedir''
     then ran (fuse_op_wrapper_releasedir fs path fi) else no_op 0 fs)"

definition fuse_fs_fsyncdir :: "'u fuse_fs \<Rightarrow> string option \<Rightarrow> int \<Rightarrow> fuse_file_info \<Rightarrow> 'u fs_result" where
  "fuse_fs_fsyncdir fs path datasync fi = (if wrapper_op fs ''fsyncdir''
     then ran (fuse_op_wrapper_fsyncdir fs path datasync fi) else no_op (- ENOSYS) fs)"

definition fuse_fs_access :: "'u fuse_fs \<Rightarrow> string option \<Rightarrow> int \<Rightarrow> 'u fs_result" where
  "fuse_fs_access fs path msk = (if wrapper_op fs ''access''
     then ran (fuse_op_wrapper_access fs path msk) else no_op (- ENOSYS) fs)"

definition fuse_fs_create :: "'u fuse_fs \<Rightarrow> string option \<Rightarrow> int \<Rightarrow> fuse_file_info \<Rightarrow> 'u fs_result" where
  "fuse_fs_create fs path md fi = (if wrapper_op fs ''create''
     then ran (fuse_op_wrapper_create fs path md fi) else no_op (- ENOSYS) fs)"

definition fuse_fs_lock :: "'u fuse_fs \<Rightarrow> string option \<Rightarrow> fuse_file_info \<Rightarrow> int \<Rightarrow> flock \<Rightarrow> 'u fs_result" where
  "fuse_fs_lock fs path fi cmd flock = (if wrapper_op fs ''lock''
     then ran (fuse_op_wrapper_lock fs path fi cmd flock) else no_op (- ENOSYS) fs)"

definition fuse_fs_bmap :: "'u fuse_fs \<Rightarrow> string option \<Rightarrow> int \<Rightarrow> int option \<Rightarrow> 'u fs_result" where
  "fuse_fs_bmap fs path blocksize ix = (if wrapper_op fs ''bmap''
     then ran (fuse_op_wrapper_bmap fs path blocksize ix) else no_op (- ENOSYS) fs)"

definition fuse_fs_ioctl :: "'u fuse_fs \<Rightarrow> string option \<Rightarrow> int \<Rightarrow> int \<Rightarrow> fuse_file_info \<Rightarrow> int \<Rightarrow> int \<Rightarrow> 'u fs_result" where
  "fuse_fs_ioctl fs path cmd arg fi flg dat = (if wrapper_op fs ''ioctl''
     then ran (fuse_op_wrapper_ioctl fs path cmd arg fi flg dat) else no_op (- ENOSYS) fs)"

definition fuse_fs_poll :: "'u fuse_fs \<Rightarrow> string option \<Rightarrow> fuse_file_info \<Rightarrow> int \<Rightarrow> int option \<Rightarrow> 'u fs_result" where
  "fuse_fs_poll fs path fi ph reventsp = (if wrapper_op fs ''poll''
     then ran (fuse_op_wrapper_poll fs path fi ph reventsp) else no_op (- ENOSYS) fs)"

definition fuse_fs_flock :: "'u fuse_fs \<Rightarrow> string option \<Rightarrow> fuse_file_info \<Rightarrow> int \<Rightarrow> 'u fs_result" where
  "fuse_fs_flock fs path fi lop = (if wrapper_op fs ''flock''
     then ran (fuse_op_wrapper_flock fs path fi lop) else no_op (- ENOSYS) fs)"

definition fuse_fs_fallocate :: "'u fuse_fs \<Rightarrow> string option \<Rightarrow> int \<Rightarrow> int \<Rightarrow> int \<Rightarrow> fuse_file_info \<Rightarrow> 'u fs_result" where
  "fuse_fs_fallocate fs path md offset leng fi = (if wrapper_op fs ''fallocate''
     then ran (fuse_op_wrapper_fallocate fs path md offset leng fi) else no_op (- ENOSYS) fs)"

definition fuse_fs_fgetattr :: "'u fuse_fs \<Rightarrow> string option \<Rightarrow> stat \<Rightarrow> fuse_file_info \<Rightarrow> 'u fs_result" where
  "fuse_fs_fgetattr fs path buf fi =
    (if wrapper_op fs ''fgetattr'' then ran (fuse_op_wrapper_fgetattr fs path buf fi)
     else if path \<noteq> None \<and> wrapper_op fs ''getattr'' then ran (fuse_op_wrapper_getattr fs path buf)
     else no_op (- ENOSYS) fs)"

definition fuse_fs_ftruncate :: "'u fuse_fs \<Rightarrow> string option \<Rightarrow> int \<Rightarrow> fuse_file_info \<Rightarrow> 'u fs_result" where
  "fuse_fs_ftruncate fs path sz fi =
    (if wrapper_op fs ''ftruncate'' then ran (fuse_op_wrapper_ftruncate fs path sz fi)
     else if path \<noteq> None \<and> wrapper_op fs ''truncate'' then ran (fuse_op_wrapper_truncate fs path sz)
     else no_op (- ENOSYS) fs)"

definition fuse_fs_utimens :: "'u fuse_fs \<Rightarrow> string option \<Rightarrow> timespec list \<Rightarrow> 'u fs_result" where
  "fuse_fs_utimens fs path tv =
    (if wrapper_op fs ''utimens'' then ran (fuse_op_wrapper_utimens fs path tv)
     else if wrapper_op fs ''utime''
     then ran (fuse_op_wrapper_utime fs path \<lparr>actime = tv_sec (tv ! 0), modtime = tv_sec (tv ! 1)\<rparr>)
     else no_op (- ENOSYS) fs)"

definition fuse_fs_readdir :: "'u fuse_fs \<Rightarrow> string option \<Rightarrow> int \<Rightarrow> int \<Rightarrow> int \<Rightarrow> fuse_file_info
    \<Rightarrow> int \<Rightarrow> int \<Rightarrow> 'u fs_result" where
  \<comment> \<open>the last two arguments are the addresses of the local \<open>dh\<close> and of \<open>fill_dir_old\<close>\<close>
  "fuse_fs_readdir fs path bf fil ofs fi dh fill_dir_old =
    (if wrapper_op fs ''readdir'' then ran (fuse_op_wrapper_readdir fs path bf fil ofs fi)
     else if wrapper_op fs ''getdir'' then ran (fuse_op_wrapper_getdir fs path dh fill_dir_old)
     else no_op (- ENOSYS) fs)"

definition fuse_fs_statfs :: "'u fuse_fs \<Rightarrow> string option \<Rightarrow> statvfs \<Rightarrow> ((int \<times> statvfs) \<times> 'u fuse_fs) c_res" where
  "fuse_fs_statfs fs path buf = (if wrapper_op fs ''statfs''
     then bindr (fuse_op_wrapper_statfs fs path buf) (\<lambda>(r, fs). Inr ((ret r, o_statvfs r), fs))
     else Inr ((0, buf\<lparr>f_namemax := 255, f_bsize := 512\<rparr>), fs))"

abbreviation FUSE_CAP_POSIX_LOCKS :: int where "FUSE_CAP_POSIX_LOCKS \<equiv> 2"
abbreviation FUSE_CAP_SPLICE_READ :: int where "FUSE_CAP_SPLICE_READ \<equiv> 512"
abbreviation FUSE_CAP_FLOCK_LOCKS :: int where "FUSE_CAP_FLOCK_LOCKS \<equiv> 1024"

definition clear_caps :: "'u fuse_fs \<Rightarrow> int \<Rightarrow> int" where
  "clear_caps fs w =
    (let w = (if \<not> wrapper_op fs ''write_buf'' then w AND (NOT FUSE_CAP_SPLICE_READ) else w);
         w = (if \<not> wrapper_op fs ''lock'' then w AND (NOT FUSE_CAP_POSIX_LOCKS) else w)
     in if \<not> wrapper_op fs ''flock'' then w AND (NOT FUSE_CAP_FLOCK_LOCKS) else w)"

definition fuse_fs_init :: "'u fuse_fs \<Rightarrow> fuse_conn_info \<Rightarrow> (fuse_conn_info \<times> 'u fuse_fs) c_res" where
  "fuse_fs_init fs cn =
    (let cn = cn\<lparr>want := clear_caps fs (want cn)\<rparr> in
     if wrapper_op fs ''init''
     then bindr (fuse_op_wrapper_init fs cn) (\<lambda>(r, fs). Inr (o_conn r, fs)) else Inr (cn, fs))"

definition fuse_fs_destroy :: "'u fuse_fs \<Rightarrow> int \<Rightarrow> 'u fuse_fs c_res" where
  \<comment> \<open>the second argument is the address \<open>fs->user_data\<close>\<close>
  "fuse_fs_destroy fs ud = (if wrapper_op fs ''destroy''
     then bindr (fuse_op_wrapper_destroy fs ud) (\<lambda>(_, fs). Inr fs) else Inr fs)"

end
