(* ===== verification/CJSON_Safety.thy ===== *)
theory CJSON_Safety
  imports CJSON
begin

section \<open>Termination and memory safety of the JSON parser\<close>

text \<open>
  The parser ends on every text: \<open>bounded_parser\<close> states what the array and object parsers
  need of \<open>parse_value\<close>, and \<open>parse_value\<close> provides it at every nesting budget. String
  literals with complete escapes are read within their buffers; an incomplete one is not.
\<close>

subsection \<open>Termination\<close>

lemma count_string_no_fuel: "count_string s n \<noteq> Inl NoFuel"
  by (induction s n rule: count_string.induct) (auto split: list.splits)

lemma decode_unicode_no_fuel: "decode_unicode p \<noteq> Inl NoFuel"
  by (simp add: decode_unicode_def Let_def)

lemma decode_string_no_fuel: "decode_string s out \<noteq> Inl NoFuel"
proof (induction s out rule: decode_string.induct)
  case (2 c cs out)
  then show ?case
    by (auto split: list.splits sum.splits simp: bindr_def decode_unicode_no_fuel)
qed simp

lemma parse_string_no_fuel: "parse_string item s \<noteq> Inl NoFuel"
  using count_string_no_fuel decode_string_no_fuel
  by (auto simp: parse_string_def bindr_def alloc_write_def split: sum.splits)

lemma decode_string_rest: "decode_string s out = Inr (w, r) \<Longrightarrow> length r \<le> length s"
proof (induction s out rule: decode_string.induct)
  case (2 c cs out)
  then show ?case
    by (fastforce simp: bindr_Inr_iff split: if_splits list.splits dest: decode_unicode_shorter)
qed simp


lemma parse_string_rest: "parse_string item s = Inr (c, r) \<Longrightarrow> length r \<le> length s"
  by (cases s) (auto simp: parse_string_def bindr_Inr_iff split: if_splits dest!: decode_string_rest)

lemma scan_digits_rest: "length (snd (snd (scan_digits n s))) \<le> length s"
  by (induction n s rule: scan_digits.induct) (auto simp: Let_def split: prod.splits)

lemma scan_subscale_rest: "length (snd (scan_subscale n s)) \<le> length s"
  by (induction n s rule: scan_subscale.induct) auto

lemma parse_exponent_rest: "length (snd (parse_exponent s)) \<le> length s"
  using scan_subscale_rest [of 0 "tl s"] scan_subscale_rest [of 0 "tl (tl s)"]
  by (cases s) (auto simp: parse_exponent_def Let_def split: prod.splits)

lemma scan_int_rest: "length (snd (scan_int s)) \<le> length s"
  using scan_digits_rest [of "Fin 0" s] scan_digits_rest [of "Fin 0" "tl s"]
  by (auto simp: scan_int_def Let_def split: prod.splits)

lemma scan_frac_rest: "length (snd (snd (scan_frac n s))) \<le> length s"
  using scan_digits_rest [of n "tl s"] by (auto simp: scan_frac_def split: prod.splits)

lemma parse_number_rest: "length (snd (parse_number item s)) \<le> length s"
proof -
  define t where "t = (if deref s = CHR ''-'' then tl s else s)"
  obtain n u where u: "scan_int t = (n, u)" by fastforce
  obtain m k v where v: "scan_frac n u = (m, k, v)" by (metis prod_cases3)
  have "snd (parse_number item s) = snd (parse_exponent v)"
    using u v by (auto simp: parse_number_def Let_def t_def split: prod.splits)
  also have "length \<dots> \<le> length v" by (rule parse_exponent_rest)
  also have "\<dots> \<le> length u" using scan_frac_rest [of n u] v by simp
  also have "\<dots> \<le> length t" using scan_int_rest [of t] u by simp
  also have "\<dots> \<le> length s" by (simp add: t_def)
  finally show ?thesis .
qed

locale bounded_parser =
  fixes pv :: value_parser and n :: nat
  assumes total: "length v < n \<Longrightarrow> pv item v \<noteq> Inl NoFuel"
    and rest: "pv item v = Inr (c, r) \<Longrightarrow> length r \<le> length v"
begin

lemma array_loop_rest: "parse_array_loop pv k cs v = Inr (ds, r) \<Longrightarrow> length r \<le> length v"
proof (induction k arbitrary: cs v)
  case (Suc k)
  show ?case
  proof (cases "deref v = CHR '',''")
    case True
    with Suc.prems obtain c q where q: "pv cJSON_New_Item (skip (tl v)) = Inr (c, q)"
      "parse_array_loop pv k (cs @ [c]) (skip q) = Inr (ds, r)" by (auto simp: bindr_Inr_iff)
    show ?thesis
      using Suc.IH [OF q(2)] rest [OF q(1)] skip_le [of q] skip_le [of "tl v"] by simp
  qed (use Suc.prems in simp)
qed simp

lemma array_loop_total: "length v < k \<Longrightarrow> length v \<le> n \<Longrightarrow> parse_array_loop pv k cs v \<noteq> Inl NoFuel"
proof (induction k arbitrary: cs v)
  case (Suc k)
  show ?case
  proof (cases "deref v = CHR '',''")
    case True
    then have v: "length (skip (tl v)) < length v" using skip_le [of "tl v"] by (cases v) auto
    then have "pv cJSON_New_Item (skip (tl v)) \<noteq> Inl NoFuel" using Suc.prems by (intro total) simp
    moreover have "parse_array_loop pv k (cs @ [c]) (skip q) \<noteq> Inl NoFuel"
      if "pv cJSON_New_Item (skip (tl v)) = Inr (c, q)" for c q
      using rest [OF that] v skip_le [of q] Suc.prems by (intro Suc.IH) simp_all
    ultimately show ?thesis using True by (cases "pv cJSON_New_Item (skip (tl v))") auto
  qed simp
qed simp

lemma array_rest:
  assumes "parse_array pv item v = Inr (c, r)"
  shows "length r \<le> length v"
proof (cases "deref (skip (tl v)) = CHR '']''")
  case True
  then show ?thesis using assms skip_le [of "tl v"] by (auto simp: parse_array_def split: if_splits)
next
  case False
  with assms obtain d q cs w where q: "pv cJSON_New_Item (skip (tl v)) = Inr (d, q)"
    "parse_array_loop pv (Suc (length q)) [d] (skip q) = Inr (cs, w)" "r = tl w"
    by (auto simp: parse_array_def Let_def bindr_Inr_iff split: if_splits simp del: parse_array_loop.simps)
  show ?thesis
    using rest [OF q(1)] array_loop_rest [OF q(2)] q(3) skip_le [of "tl v"] skip_le [of q] by simp
qed

lemma array_total:
  assumes "length v \<le> n"
  shows "parse_array pv item v \<noteq> Inl NoFuel"
proof (cases "deref v = CHR ''[''")
  case True
  then have v: "length (skip (tl v)) < length v" using skip_le [of "tl v"] by (cases v) auto
  then have "pv cJSON_New_Item (skip (tl v)) \<noteq> Inl NoFuel" using assms by (intro total) simp
  moreover have "parse_array_loop pv (Suc (length q)) [d] (skip q) \<noteq> Inl NoFuel"
    if "pv cJSON_New_Item (skip (tl v)) = Inr (d, q)" for d q
    using rest [OF that] v skip_le [of q] assms by (intro array_loop_total) simp_all
  ultimately show ?thesis
    by (auto simp: parse_array_def Let_def bindr_def simp del: parse_array_loop.simps split: sum.splits)
qed (simp add: parse_array_def)

lemma member_rest:
  assumes "parse_member pv v = Inr (c, r)"
  shows "length r \<le> length v"
proof -
  from assms obtain d q e w where q: "parse_string cJSON_New_Item (skip v) = Inr (d, q)"
    "pv e (skip (tl (skip q))) = Inr (c, w)" "r = skip w"
    by (auto simp: parse_member_def Let_def bindr_Inr_iff split: if_splits)
  show ?thesis
    using parse_string_rest [OF q(1)] rest [OF q(2)] q(3) skip_le [of v] skip_le [of q]
      skip_le [of "tl (skip q)"] skip_le [of w] by simp
qed

lemma member_total:
  assumes "length v \<le> n"
  shows "parse_member pv v \<noteq> Inl NoFuel"
proof -
  have "pv e (skip (tl (skip q))) \<noteq> Inl NoFuel"
    if q: "parse_string cJSON_New_Item (skip v) = Inr (d, q)" and "deref (skip q) = CHR '':''" for d q e
  proof (rule total)
    have "skip q \<noteq> []" using that(2) by auto
    then show "length (skip (tl (skip q))) < n"
      using assms parse_string_rest [OF q] skip_le [of v] skip_le [of q] skip_le [of "tl (skip q)"]
      by (cases "skip q") auto
  qed
  then show ?thesis
    using parse_string_no_fuel by (auto simp: parse_member_def Let_def bindr_def split: sum.splits)
qed

lemma object_loop_rest: "parse_object_loop pv k cs v = Inr (ds, r) \<Longrightarrow> length r \<le> length v"
proof (induction k arbitrary: cs v)
  case (Suc k)
  show ?case
  proof (cases "deref v = CHR '',''")
    case True
    with Suc.prems obtain c q where q: "parse_member pv (tl v) = Inr (c, q)"
      "parse_object_loop pv k (cs @ [c]) q = Inr (ds, r)" by (auto simp: bindr_Inr_iff)
    show ?thesis using Suc.IH [OF q(2)] member_rest [OF q(1)] by simp
  qed (use Suc.prems in simp)
qed simp

lemma object_loop_total: "length v < k \<Longrightarrow> length v \<le> n \<Longrightarrow> parse_object_loop pv k cs v \<noteq> Inl NoFuel"
proof (induction k arbitrary: cs v)
  case (Suc k)
  show ?case
  proof (cases "deref v = CHR '',''")
    case True
    then have v: "length (tl v) < length v" by (cases v) auto
    then have "parse_member pv (tl v) \<noteq> Inl NoFuel" using Suc.prems by (intro member_total) simp
    moreover have "parse_object_loop pv k (cs @ [c]) q \<noteq> Inl NoFuel" if "parse_member pv (tl v) = Inr (c, q)" for c q
      using member_rest [OF that] v Suc.prems by (intro Suc.IH) simp_all
    ultimately show ?thesis using True by (cases "parse_member pv (tl v)") auto
  qed simp
qed simp

lemma object_rest:
  assumes "parse_object pv item v = Inr (c, r)"
  shows "length r \<le> length v"
proof (cases "deref (skip (tl v)) = CHR ''}''")
  case True
  then show ?thesis using assms skip_le [of "tl v"] by (auto simp: parse_object_def split: if_splits)
next
  case False
  with assms obtain d q cs w where q: "parse_member pv (skip (tl v)) = Inr (d, q)"
    "parse_object_loop pv (Suc (length q)) [d] q = Inr (cs, w)" "r = tl w"
    by (auto simp: parse_object_def Let_def bindr_Inr_iff split: if_splits simp del: parse_object_loop.simps)
  show ?thesis
    using member_rest [OF q(1)] object_loop_rest [OF q(2)] q(3) skip_le [of "tl v"] by simp
qed

lemma object_total:
  assumes "length v \<le> n"
  shows "parse_object pv item v \<noteq> Inl NoFuel"
proof (cases "deref v = CHR ''{''")
  case True
  then have v: "length (skip (tl v)) < length v" using skip_le [of "tl v"] by (cases v) auto
  then have "parse_member pv (skip (tl v)) \<noteq> Inl NoFuel" using assms by (intro member_total) simp
  moreover have "parse_object_loop pv (Suc (length q)) [d] q \<noteq> Inl NoFuel"
    if "parse_member pv (skip (tl v)) = Inr (d, q)" for d q
    using member_rest [OF that] v assms by (intro object_loop_total) simp_all
  ultimately show ?thesis
    by (auto simp: parse_object_def Let_def bindr_def simp del: parse_object_loop.simps split: sum.splits)
qed (simp add: parse_object_def)

end

lemma parse_value_bounded: "bounded_parser (parse_value k) k"
proof (induction k)
  case 0
  show ?case by unfold_locales simp_all
next
  case (Suc k)
  show ?case
  proof
    fix v :: string and item
    assume "length v < Suc k"
    then show "parse_value (Suc k) item v \<noteq> Inl NoFuel"
      using bounded_parser.array_total [OF Suc] bounded_parser.object_total [OF Suc] parse_string_no_fuel by simp
  next
    fix v item c r
    assume "parse_value (Suc k) item v = Inr (c, r)"
    then show "length r \<le> length v"
      using parse_number_rest [of item v]
      by (auto split: if_splits dest: parse_string_rest
          bounded_parser.array_rest [OF Suc] bounded_parser.object_rest [OF Suc])
  qed
qed

interpretation pvalue: bounded_parser "parse_value k" k for k
  by (rule parse_value_bounded)

text \<open>
  C13. Parsing always ends: the nesting budget of \<open>cJSON_Parse\<close> covers every text, so on every
  input the parser returns a tree, reports an error position, or runs into one of the memory
  errors, and never needs more recursion.
\<close>

theorem cJSON_Parse_terminates: "cJSON_ParseWithOpts buf req \<noteq> Inl NoFuel"
proof -
  have "parse_value (parse_fuel (cstr buf)) cJSON_New_Item (skip (cstr buf)) \<noteq> Inl NoFuel"
    using skip_le [of "cstr buf"] by (intro pvalue.total) (simp add: parse_fuel_def)
  then show ?thesis
    by (auto simp: cJSON_ParseWithOpts_def Let_def bindr_def split: sum.splits)
qed

subsection \<open>String literals\<close>

fun is_hex :: "char \<Rightarrow> bool" where
  "is_hex c = (hex_val c \<noteq> None)"

function esc_ok :: "string \<Rightarrow> bool" where
  \<comment> \<open>the inside of a JSON string literal whose escapes are complete\<close>
  "esc_ok [] = True"
| "esc_ok (c # s) = (if c = backslash
     then (case s of [] \<Rightarrow> False
       | e # t \<Rightarrow> if e = CHR ''u'' then 4 \<le> length t \<and> list_all is_hex (take 4 t) \<and> esc_ok (drop 4 t)
                  else esc_ok t)
     else c \<noteq> quote \<and> esc_ok s)"
  by pat_completeness auto
termination by (relation "measure length") auto

definition decodes :: "string \<Rightarrow> string \<Rightarrow> string \<Rightarrow> bool" where
  \<comment> \<open>both loops of \<open>parse_string\<close> run to the closing quote and the text fits the buffer\<close>
  "decodes s w r \<longleftrightarrow> (\<forall>out. decode_string (s @ quote # r) out = Inr (out @ w, quote # r))
     \<and> (\<exists>k \<ge> length w. \<forall>n. count_string (s @ quote # r) n = Inr (n + k))"

lemma decodes_Nil: "decodes [] [] r"
  by (simp add: decodes_def)

lemma decodes_step:
  assumes "decodes t w r" "length u \<le> k"
    and "\<And>out. decode_string (s @ t @ quote # r) out = decode_string (t @ quote # r) (out @ u)"
    and "\<And>n. count_string (s @ t @ quote # r) n = count_string (t @ quote # r) (n + k)"
  shows "decodes (s @ t) (u @ w) r"
proof -
  obtain j where "length w \<le> j" "\<And>n. count_string (t @ quote # r) n = Inr (n + j)"
    using assms(1) by (auto simp: decodes_def)
  then have "\<exists>i \<ge> length (u @ w). \<forall>n. count_string ((s @ t) @ quote # r) n = Inr (n + i)"
    using assms(2,4) by (intro exI [of _ "k + j"]) (auto simp: add.assoc)
  then show ?thesis using assms(1,3) by (simp add: decodes_def)
qed

lemma utf8_encode_length: "length (utf8_encode uc) \<le> 4" "uc < 65536 \<Longrightarrow> length (utf8_encode uc) \<le> 3"
proof -
  have "length (utf8_bytes l k uc) = k" for l k
    by (induction l k uc rule: utf8_bytes.induct) auto
  then show "length (utf8_encode uc) \<le> 4" "uc < 65536 \<Longrightarrow> length (utf8_encode uc) \<le> 3"
    by (auto simp: utf8_encode_def Let_def)
qed

lemma hex_val_less: "hex_val c = Some d \<Longrightarrow> d < 16"
  by (auto simp: hex_val_def Let_def split: if_splits)

lemma hex_digits_less: "h < 16 ^ j \<Longrightarrow> hex_digits k h s < 16 ^ (j + k)"
proof (induction k arbitrary: h j s)
  case (Suc k)
  show ?case
  proof (cases "hex_val (deref s)")
    case (Some d)
    have "h * 16 + d < 16 ^ Suc j" using hex_val_less [OF Some] Suc.prems by simp
    from Suc.IH [OF this] Some show ?thesis by simp
  qed simp
qed simp

lemma parse_hex4_less: "parse_hex4 s < 65536"
  using hex_digits_less [of 0 0 4 s] by (simp add: parse_hex4_def)

lemma is_hex_plain: "is_hex c \<Longrightarrow> c \<noteq> quote \<and> c \<noteq> backslash"
  by (auto simp: hex_val_def)

lemma count_hex:
  "length t = 4 \<Longrightarrow> list_all is_hex t \<Longrightarrow> count_string (t @ s) n = count_string s (Suc (Suc (Suc (Suc n))))"
proof -
  assume "length t = 4" "list_all is_hex t"
  then obtain a b c d where t: "t = [a, b, c, d]" "is_hex a" "is_hex b" "is_hex c" "is_hex d"
    by (auto simp: numeral_eq_Suc length_Suc_conv)
  then show ?thesis using is_hex_plain by (simp del: is_hex.simps)
qed

lemma decode_unicode_cases:
  assumes "length t = 4"
  obtains (one) w where "decode_unicode (t @ s) = Inr (w, s)" "length w \<le> 3"
  | (two) "deref s = backslash" "deref (tl s) = CHR ''u''"
      "\<And>t' s'. s = backslash # CHR ''u'' # t' @ s' \<Longrightarrow> length t' = 4
        \<Longrightarrow> \<exists>w. decode_unicode (t @ s) = Inr (w, s') \<and> length w \<le> 4"
proof (cases "deref s = backslash \<and> deref (tl s) = CHR ''u''
    \<and> 0xD800 \<le> parse_hex4 (t @ s) \<and> parse_hex4 (t @ s) \<le> 0xDBFF")
  case True
  show ?thesis
  proof (rule two)
    fix t' s'
    assume "s = backslash # CHR ''u'' # t' @ s'" "length t' = 4"
    then show "\<exists>w. decode_unicode (t @ s) = Inr (w, s') \<and> length w \<le> 4"
      using True assms utf8_encode_length(1) by (simp add: decode_unicode_def Let_def)
  qed (use True in auto)
next
  case False
  have "\<exists>w. decode_unicode (t @ s) = Inr (w, s) \<and> length w \<le> 3"
    using False assms parse_hex4_less [of "t @ s"] utf8_encode_length(2) [of "parse_hex4 (t @ s)"]
    by (auto simp: decode_unicode_def Let_def)
  then show ?thesis using one by blast
qed


lemma esc_ok_u:
  assumes "esc_ok (backslash # CHR ''u'' # t)"
  obtains h t' where "t = h @ t'" "length h = 4" "list_all is_hex h" "esc_ok t'"
  using assms by (intro that [of "take 4 t" "drop 4 t"]) auto

lemma esc_u_decodes:
  assumes "esc_ok (backslash # CHR ''u'' # t)"
    and IH: "\<And>t'. length t' < length t \<Longrightarrow> esc_ok t' \<Longrightarrow> \<exists>w. decodes t' w r"
  shows "\<exists>w. decodes (backslash # CHR ''u'' # t) w r"
proof -
  obtain h t' where t: "t = h @ t'" "length h = 4" "list_all is_hex h" "esc_ok t'"
    using esc_ok_u [OF assms(1)] .
  from t(2) show ?thesis
  proof (cases rule: decode_unicode_cases [of h "t' @ quote # r"])
    case (one u)
    obtain w where "decodes t' w r" using IH [of t'] t by auto
    then have "decodes ((backslash # CHR ''u'' # h) @ t') (u @ w) r"
      using one t by (intro decodes_step [where k = 5]) (auto simp: count_hex numeral_eq_Suc)
    then show ?thesis using t by auto
  next
    case two
    then have "t' \<noteq> []" by auto
    then obtain s where s: "t' = backslash # CHR ''u'' # s"
      using two(1,2) t(4) by (cases t'; cases "tl t'") (auto split: if_splits)
    obtain h' t'' where t'': "s = h' @ t''" "length h' = 4" "list_all is_hex h'" "esc_ok t''"
      using esc_ok_u [of s] t(4) s by blast
    obtain u where u: "decode_unicode (h @ t' @ quote # r) = Inr (u, t'' @ quote # r)" "length u \<le> 4"
      using two(3) [of h' "t'' @ quote # r"] s t'' by auto
    obtain w where "decodes t'' w r" using IH [of t''] t s t'' by auto
    then have "decodes ((backslash # CHR ''u'' # h @ backslash # CHR ''u'' # h') @ t'') (u @ w) r"
      using u t s t'' by (intro decodes_step [where k = 10]) (auto simp: count_hex numeral_eq_Suc)
    then show ?thesis using t s t'' by auto
  qed
qed

lemma esc_ok_decodes: "esc_ok s \<Longrightarrow> \<exists>w. decodes s w r"
proof (induction s rule: measure_induct_rule [of length])
  case (less s)
  show ?case
  proof (cases s)
    case Nil
    then show ?thesis using decodes_Nil by blast
  next
    case (Cons c s')
    show ?thesis
    proof (cases "c = backslash")
      case False
      then obtain w where "decodes s' w r" using less Cons by (auto split: if_splits)
      then have "decodes ([c] @ s') ([c] @ w) r"
        using False less.prems Cons by (intro decodes_step [where k = 1]) auto
      then show ?thesis using Cons by auto
    next
      case True
      then obtain e t where s': "s' = e # t" using less.prems Cons by (cases s') auto
      show ?thesis
      proof (cases "e = CHR ''u''")
        case False
        then obtain w where "decodes t w r" using less.IH [of t] less.prems Cons True s' by auto
        then have "decodes ([c, e] @ t) ([simple_escape e] @ w) r"
          using False True by (intro decodes_step [where k = 1]) auto
        then show ?thesis using Cons s' by auto
      next
        case u: True
        then show ?thesis using less.IH less.prems Cons True s' esc_u_decodes [of t r] by auto
      qed
    qed
  qed
qed


text \<open>
  C14. A string literal whose escapes are complete (a character after every backslash, four hex
  digits after every \<open>\\u\<close>) is read without leaving the input or the buffer sized by the
  first loop, surrogate pairs included, and the parser stops after the closing quote.
\<close>

theorem parse_string_safe:
  assumes "esc_ok s"
  shows "\<exists>w. parse_string item (quote # s @ quote # r)
       = Inr (set_type cJSON_String (set_valuestring (Some w) item), r)"
proof -
  obtain w k where "decode_string (s @ quote # r) [] = Inr (w, quote # r)"
    "length w \<le> k" "count_string (s @ quote # r) 0 = Inr k"
    using esc_ok_decodes [OF assms, of r] by (auto simp: decodes_def)
  then show ?thesis by (intro exI [of _ w]) (simp add: parse_string_def)
qed

theorem parse_string_safe_witness:
  "esc_ok (backslash # ''uD83D'' @ backslash # ''uDE00 x'' @ [backslash, quote])
   \<and> (\<exists>w. parse_string cJSON_New_Item (quote # (backslash # ''uD83D'' @ backslash # ''uDE00 x'' @ [backslash, quote])
        @ quote # '', 1'')
      = Inr (set_type cJSON_String (set_valuestring (Some w) cJSON_New_Item), '', 1''))"
proof -
  have "esc_ok (backslash # ''uD83D'' @ backslash # ''uDE00 x'' @ [backslash, quote])"
    by (simp add: hex_val_def)
  then show ?thesis using parse_string_safe by blast
qed

lemma count_string_plain:
  "quote \<notin> set s \<Longrightarrow> backslash \<notin> set s \<Longrightarrow> decode_string s out = Inr (out @ s, [])"
  by (induction s arbitrary: out) auto

text \<open>
  C29. A string literal that ends inside a unicode escape makes the second loop jump over the
  closing quote: with more than four characters of plain text after the quote, the parser
  writes past the end of the buffer the first loop sized.
\<close>

theorem parse_string_overflow:
  assumes "quote \<notin> set s" "backslash \<notin> set s" "4 < length s"
  shows "parse_string item ([quote, backslash, CHR ''u'', CHR ''1'', quote] @ s) = Inl HeapOverflow"
proof -
  let ?p = "CHR ''1'' # quote # s"
  have four: "(4::nat) = Suc (Suc (Suc (Suc 0)))" by simp
  have "hex_val quote = None" by (simp add: hex_val_def)
  then have "parse_hex4 ?p = 0" unfolding parse_hex4_def four by (simp split: option.splits)
  then have "decode_unicode ?p = Inr ([], drop 2 s)"
    using assms(3) by (simp add: decode_unicode_def Let_def)
  moreover have "decode_string (drop 2 s) [] = Inr (drop 2 s, [])"
    using assms(1,2) by (subst count_string_plain) (auto dest: in_set_dropD)
  ultimately show ?thesis
    using assms(3) by (simp add: parse_string_def alloc_write_def)
qed

theorem parse_string_overflow_witness:
  "quote \<notin> set '':12345'' \<and> backslash \<notin> set '':12345'' \<and> 4 < length '':12345''
   \<and> parse_string cJSON_New_Item ([quote, backslash, CHR ''u'', CHR ''1'', quote] @ '':12345'') = Inl HeapOverflow"
  using parse_string_overflow [of "'':12345''" cJSON_New_Item] by simp

end
