(* ===== verification/Wrapper_Props.thy ===== *)
theory Wrapper_Props
  imports Fuse_Dispatch CJSON_Safety
begin

section \<open>What the instrumentation shows and what it changes\<close>

text \<open>
  The wrappers leave the file system's behaviour alone and log every call as a pair of events
  with a number of its own, which a tool at the other end of the pipe reads back. Two classes
  of calls break this: a \<open>read\<close> that fails, and attribute values without a terminating NUL.
\<close>

subsection \<open>One call\<close>

lemma wrapper_table_effect:
  assumes "wrapper_table call fs = Inr (r, fs')"
  shows "run_op (ops fs) call (user_data fs) = (r, user_data fs')" "has_op (ops fs) (op_name call)"
    and "ops fs' = ops fs" "wrapper_op fs' = wrapper_op fs" "fdt_debug_mode fs' = fdt_debug_mode fs"
    and "next_seqnum fs' = wrap32 (next_seqnum fs + 1)"
    and "\<not> fdt_debug_mode fs \<Longrightarrow> debugFifo fs' = debugFifo fs \<and> sem_waits fs' = sem_waits fs"
    and "fdt_debug_mode fs \<Longrightarrow> sem_waits fs' = sem_waits fs + 1 \<and> (\<exists>es texts. call_events call (next_seqnum fs) es
      \<and> map cJSON_Print es = map Inr texts \<and> debugFifo fs' = debugFifo fs @ concat texts)"
proof -
  obtain params returns modified where
    "\<And>fs :: 'a fuse_fs. wrapper_table call fs = wrapper_call fs (op_name call) params call returns modified"
    using wrapper_table_call by blast
  with assms have w: "wrapper_call fs (op_name call) params call returns modified = Inr (r, fs')" by simp
  show "run_op (ops fs) call (user_data fs) = (r, user_data fs')" "has_op (ops fs) (op_name call)"
    "ops fs' = ops fs" "wrapper_op fs' = wrapper_op fs" "fdt_debug_mode fs' = fdt_debug_mode fs"
    "next_seqnum fs' = wrap32 (next_seqnum fs + 1)"
    "\<not> fdt_debug_mode fs \<Longrightarrow> debugFifo fs' = debugFifo fs \<and> sem_waits fs' = sem_waits fs"
    "fdt_debug_mode fs \<Longrightarrow> sem_waits fs' = sem_waits fs + 1 \<and> (\<exists>es texts. call_events call (next_seqnum fs) es
      \<and> map cJSON_Print es = map Inr texts \<and> debugFifo fs' = debugFifo fs @ concat texts)"
    using wrapper_call_effect [OF w] by blast+
qed

subsection \<open>Sequences of calls\<close>

lemma run_calls_Cons:
  assumes "run_calls (c # cs) fs = Inr (rs, fs')"
  obtains r fs1 rs1 where "wrapper_table c fs = Inr (r, fs1)" "run_calls cs fs1 = Inr (rs1, fs')" "rs = r # rs1"
  using assms by (auto simp: bindr_Inr_iff)

lemma run_calls_direct:
  "run_calls calls fs = Inr (rs, fs') \<Longrightarrow> run_direct (ops fs) calls (user_data fs) = (rs, user_data fs')"
proof (induction calls arbitrary: fs rs)
  case (Cons c cs)
  from Cons.prems obtain r fs1 rs1 where 1: "wrapper_table c fs = Inr (r, fs1)"
    "run_calls cs fs1 = Inr (rs1, fs')" "rs = r # rs1" by (rule run_calls_Cons)
  from Cons.IH [OF 1(2)] wrapper_table_effect(1,3) [OF 1(1)] 1(3) show ?case by simp
qed simp

lemma run_calls_quiet:
  "run_calls calls fs = Inr (rs, fs') \<Longrightarrow> \<not> fdt_debug_mode fs
   \<Longrightarrow> debugFifo fs' = debugFifo fs \<and> sem_waits fs' = sem_waits fs"
proof (induction calls arbitrary: fs rs)
  case (Cons c cs)
  from Cons.prems(1) obtain r fs1 rs1 where 1: "wrapper_table c fs = Inr (r, fs1)"
    "run_calls cs fs1 = Inr (rs1, fs')" by (rule run_calls_Cons)
  from Cons.IH [OF 1(2)] wrapper_table_effect(5,7) [OF 1(1)] Cons.prems(2) show ?case by simp
qed simp

lemma run_calls_log:
  "run_calls calls fs = Inr (rs, fs') \<Longrightarrow> fdt_debug_mode fs
   \<Longrightarrow> sem_waits fs' = sem_waits fs + length calls \<and> (\<exists>es texts. calls_events calls (next_seqnum fs) es
      \<and> map cJSON_Print es = map Inr texts \<and> debugFifo fs' = debugFifo fs @ concat texts)"
proof (induction calls arbitrary: fs rs)
  case (Cons c cs)
  from Cons.prems(1) obtain r fs1 rs1 where 1: "wrapper_table c fs = Inr (r, fs1)"
    "run_calls cs fs1 = Inr (rs1, fs')" by (rule run_calls_Cons)
  note eff = wrapper_table_effect [OF 1(1)]
  obtain es texts where es: "call_events c (next_seqnum fs) es" "map cJSON_Print es = map Inr texts"
    "debugFifo fs1 = debugFifo fs @ concat texts" "sem_waits fs1 = sem_waits fs + 1"
    using eff(8) Cons.prems(2) by blast
  have "fdt_debug_mode fs1" using eff(5) Cons.prems(2) by simp
  with Cons.IH [OF 1(2)] eff(6) obtain es' texts' where
    es': "calls_events cs (wrap32 (next_seqnum fs + 1)) es'" "map cJSON_Print es' = map Inr texts'"
    "debugFifo fs' = debugFifo fs1 @ concat texts'" "sem_waits fs' = sem_waits fs1 + length cs" by auto
  have "calls_events (c # cs) (next_seqnum fs) (es @ es')" using es(1) es'(1) by auto
  then show ?case
    using es es' by (intro conjI exI [of _ "es @ es'"] exI [of _ "texts @ texts'"]) simp_all
qed simp

lemma calls_events_length: "calls_events calls n es \<Longrightarrow> length es = 2 * length calls"
  by (induction calls n es rule: calls_events.induct) (auto simp: call_events_def)

lemma calls_events_nth:
  "calls_events calls n es \<Longrightarrow> is_int n \<Longrightarrow> n + int (length calls) \<le> INT_MAX \<Longrightarrow> k < length calls
   \<Longrightarrow> call_events (calls ! k) (n + int k) [es ! (2 * k), es ! (2 * k + 1)]"
proof (induction calls n es arbitrary: k rule: calls_events.induct)
  case (2 c cs n es)
  from "2.prems"(1) obtain ds fs where es: "es = ds @ fs" "call_events c n ds"
    "calls_events cs (wrap32 (n + 1)) fs" by auto
  then obtain a b where ds: "ds = [a, b]" by (auto simp: call_events_def)
  have n: "is_int (n + 1)" using "2.prems"(2,3) by (simp add: is_int_def)
  show ?case
  proof (cases k)
    case (Suc j)
    have "call_events (cs ! j) (n + 1 + int j) [fs ! (2 * j), fs ! (2 * j + 1)]"
      using "2.IH" [of fs j] es(3) n "2.prems"(3,4) Suc by simp
    then show ?thesis using Suc es(1) ds by (simp add: algebra_simps)
  qed (use es ds in simp)
qed simp

end
