(* ===== verification/Wrapper_Total.thy ===== *)
theory Wrapper_Total
  imports Wrapper_Props
begin

section \<open>When a wrapped call goes through\<close>

text \<open>
  The calls the wrappers can log: no null strings, memory areas that hold what the wrapper reads
  of them, and numbers that a JSON number keeps exactly (below 2 to the 53). For these, every
  wrapper returns; the two kinds of outcome that make one crash are stated as well.
\<close>

subsection \<open>Conditions\<close>

definition small :: "int \<Rightarrow> bool" where
  "small n \<longleftrightarrow> \<bar>n\<bar> < 2 ^ 53"

definition small_opt :: "int option \<Rightarrow> bool" where
  "small_opt p \<longleftrightarrow> (case p of None \<Rightarrow> True | Some n \<Rightarrow> small n)"

definition area_holds :: "string \<Rightarrow> int \<Rightarrow> bool" where
  "area_holds bytes n \<longleftrightarrow> 0 \<le> n \<and> (nat n \<le> length bytes \<or> NUL \<in> set bytes)"

definition small_stat :: "stat \<Rightarrow> bool" where
  "small_stat s \<longleftrightarrow> list_all small [st_dev s, st_ino s, st_mode s, st_nlink s, st_uid s, st_gid s,
     st_rdev s, st_size s, st_atime s, st_mtime s, st_ctime s, st_blksize s, st_blocks s]"

definition small_fi :: "fuse_file_info \<Rightarrow> bool" where
  "small_fi fi \<longleftrightarrow> list_all small [flags fi, fh_old fi, writepage fi, direct_io fi, keep_cache fi,
     flush fi, nonseekable fi, padding fi, fh fi, lock_owner fi]"

definition small_ubuf :: "utimbuf \<Rightarrow> bool" where
  "small_ubuf u \<longleftrightarrow> small (actime u) \<and> small (modtime u)"

definition small_timespec :: "timespec \<Rightarrow> bool" where
  "small_timespec t \<longleftrightarrow> small (tv_sec t) \<and> small (tv_nsec t)"

definition small_bufvec :: "fuse_bufvec \<Rightarrow> bool" where
  "small_bufvec b \<longleftrightarrow> small (int (bv_count b)) \<and> small (bv_idx b) \<and> small (bv_off b)"

definition small_statvfs :: "statvfs \<Rightarrow> bool" where
  "small_statvfs s \<longleftrightarrow> list_all small [f_bsize s, f_frsize s, f_blocks s, f_bfree s, f_bavail s,
     f_files s, f_ffree s, f_favail s, f_fsid s, f_flag s, f_namemax s]"

definition small_conn :: "fuse_conn_info \<Rightarrow> bool" where
  "small_conn c \<longleftrightarrow> list_all small [proto_major c, proto_minor c, async_read c, max_write c,
     max_readahead c, capable c, want c, max_background c, congestion_threshold c]"

definition small_flock :: "flock \<Rightarrow> bool" where
  "small_flock l \<longleftrightarrow> list_all small [l_type l, l_whence l, l_start l, l_len l, l_pid l]"

primrec call_ok :: "fuse_call \<Rightarrow> bool" where
  "call_ok (C_getattr path s) = (path \<noteq> None \<and> small_stat s)"
| "call_ok (C_readlink path lnk sz bytes) = (path \<noteq> None \<and> small lnk \<and> small sz)"
| "call_ok (C_getdir path b c) = (path \<noteq> None)"
| "call_ok (C_mknod path md dev) = (path \<noteq> None \<and> small md \<and> small dev)"
| "call_ok (C_mkdir path md) = (path \<noteq> None \<and> small md)"
| "call_ok (C_unlink path) = (path \<noteq> None)"
| "call_ok (C_rmdir path) = (path \<noteq> None)"
| "call_ok (C_symlink path lnk) = (path \<noteq> None \<and> lnk \<noteq> None)"
| "call_ok (C_rename path newpath) = (path \<noteq> None \<and> newpath \<noteq> None)"
| "call_ok (C_link path newpath) = (path \<noteq> None \<and> newpath \<noteq> None)"
| "call_ok (C_chmod path md) = (path \<noteq> None \<and> small md)"
| "call_ok (C_chown path uid gid) = (path \<noteq> None \<and> small uid \<and> small gid)"
| "call_ok (C_truncate path newsize) = (path \<noteq> None \<and> small newsize)"
| "call_ok (C_utime path ubuf) = (path \<noteq> None \<and> small_ubuf ubuf)"
| "call_ok (C_open path fi) = (path \<noteq> None \<and> small_fi fi)"
| "call_ok (C_read path bytes sz offset fi) = (path \<noteq> None \<and> small sz \<and> small offset \<and> small_fi fi)"
| "call_ok (C_write path bf sz offset fi) = (path \<noteq> None \<and> area_holds bf sz \<and> small sz \<and> small offset \<and> small_fi fi)"
| "call_ok (C_statfs path statvfs) = (path \<noteq> None \<and> small_statvfs statvfs)"
| "call_ok (C_flush path fi) = (path \<noteq> None \<and> small_fi fi)"
| "call_ok (C_release path fi) = (path \<noteq> None \<and> small_fi fi)"
| "call_ok (C_fsync path datasync fi) = (path \<noteq> None \<and> small datasync \<and> small_fi fi)"
| "call_ok (C_setxattr path name vl sz flg) = (path \<noteq> None \<and> name \<noteq> None \<and> NUL \<in> set vl \<and> small sz \<and> small flg)"
| "call_ok (C_getxattr path name vl sz bytes) = (path \<noteq> None \<and> name \<noteq> None \<and> small vl \<and> small sz)"
| "call_ok (C_listxattr path lst sz bytes) = (path \<noteq> None \<and> small lst \<and> small sz)"
| "call_ok (C_removexattr path name) = (path \<noteq> None \<and> name \<noteq> None)"
| "call_ok (C_opendir path fi) = (path \<noteq> None \<and> small_fi fi)"
| "call_ok (C_readdir path bf fil offset fi) = (path \<noteq> None \<and> small bf \<and> small fil \<and> small offset \<and> small_fi fi)"
| "call_ok (C_releasedir path fi) = (path \<noteq> None \<and> small_fi fi)"
| "call_ok (C_fsyncdir path datasync fi) = (path \<noteq> None \<and> small datasync \<and> small_fi fi)"
| "call_ok (C_init cn) = (small_conn cn)"
| "call_ok (C_destroy ud) = (small ud)"
| "call_ok (C_access path msk) = (path \<noteq> None \<and> small msk)"
| "call_ok (C_create path md fi) = (path \<noteq> None \<and> small md \<and> small_fi fi)"
| "call_ok (C_ftruncate path offset fi) = (path \<noteq> None \<and> small offset \<and> small_fi fi)"
| "call_ok (C_fgetattr path s fi) = (path \<noteq> None \<and> small_stat s \<and> small_fi fi)"
| "call_ok (C_lock path fi cmd flock) = (path \<noteq> None \<and> small_fi fi \<and> small cmd \<and> small_flock flock)"
| "call_ok (C_utimens path tv) = (path \<noteq> None \<and> list_all small_timespec tv)"
| "call_ok (C_bmap path blocksize ix) = (path \<noteq> None \<and> small blocksize \<and> small_opt ix)"
| "call_ok (C_ioctl path cmd arg fi flg dat) = (path \<noteq> None \<and> small cmd \<and> small arg \<and> small_fi fi \<and> small flg \<and> small dat)"
| "call_ok (C_poll path fi ph reventsp) = (path \<noteq> None \<and> small_fi fi \<and> small ph \<and> small_opt reventsp)"
| "call_ok (C_write_buf path bf ofs fi) = (path \<noteq> None \<and> small_bufvec bf \<and> small ofs \<and> small_fi fi)"
| "call_ok (C_read_buf path bufp sz ofs fi) = (path \<noteq> None \<and> small bufp \<and> small sz \<and> small ofs \<and> small_fi fi)"
| "call_ok (C_flock path fi lop) = (path \<noteq> None \<and> small_fi fi \<and> small lop)"
| "call_ok (C_fallocate path md offset leng fi) = (path \<noteq> None \<and> small md \<and> small offset \<and> small leng \<and> small_fi fi)"

primrec out_ok :: "fuse_call \<Rightarrow> fuse_out \<Rightarrow> bool" where
  "out_ok (C_getattr path s) r = (small (ret r) \<and> small_stat (o_stat r))"
| "out_ok (C_readlink path lnk sz bytes) r = (small (ret r) \<and> NUL \<in> set (o_buf r))"
| "out_ok (C_getdir path b c) r = (small (ret r))"
| "out_ok (C_mknod path md dev) r = (small (ret r))"
| "out_ok (C_mkdir path md) r = (small (ret r))"
| "out_ok (C_unlink path) r = (small (ret r))"
| "out_ok (C_rmdir path) r = (small (ret r))"
| "out_ok (C_symlink path lnk) r = (small (ret r))"
| "out_ok (C_rename path newpath) r = (small (ret r))"
| "out_ok (C_link path newpath) r = (small (ret r))"
| "out_ok (C_chmod path md) r = (small (ret r))"
| "out_ok (C_chown path uid gid) r = (small (ret r))"
| "out_ok (C_truncate path newsize) r = (small (ret r))"
| "out_ok (C_utime path ubuf) r = (small (ret r) \<and> small_ubuf (o_ubuf r))"
| "out_ok (C_open path fi) r = (small (ret r) \<and> small_fi (o_fi r))"
| "out_ok (C_read path bytes sz offset fi) r = (small (ret r) \<and> area_holds (o_buf r) (ret r) \<and> small_fi (o_fi r))"
| "out_ok (C_write path bf sz offset fi) r = (small (ret r) \<and> small_fi (o_fi r))"
| "out_ok (C_statfs path statvfs) r = (small (ret r) \<and> small_statvfs (o_statvfs r))"
| "out_ok (C_flush path fi) r = (small (ret r) \<and> small_fi (o_fi r))"
| "out_ok (C_release path fi) r = (small (ret r) \<and> small_fi (o_fi r))"
| "out_ok (C_fsync path datasync fi) r = (small (ret r) \<and> small_fi (o_fi r))"
| "out_ok (C_setxattr path name vl sz flg) r = (small (ret r))"
| "out_ok (C_getxattr path name vl sz bytes) r = (small (ret r) \<and> (vl \<noteq> 0 \<longrightarrow> NUL \<in> set (o_buf r)))"
| "out_ok (C_listxattr path lst sz bytes) r = (small (ret r) \<and> (lst \<noteq> 0 \<longrightarrow> NUL \<in> set (o_buf r)))"
| "out_ok (C_removexattr path name) r = (small (ret r))"
| "out_ok (C_opendir path fi) r = (small (ret r) \<and> small_fi (o_fi r))"
| "out_ok (C_readdir path bf fil offset fi) r = (small (ret r) \<and> small_fi (o_fi r))"
| "out_ok (C_releasedir path fi) r = (small (ret r) \<and> small_fi (o_fi r))"
| "out_ok (C_fsyncdir path datasync fi) r = (small (ret r) \<and> small_fi (o_fi r))"
| "out_ok (C_init cn) r = (small_conn (o_conn r))"
| "out_ok (C_destroy ud) r = (True)"
| "out_ok (C_access path msk) r = (small (ret r))"
| "out_ok (C_create path md fi) r = (small (ret r) \<and> small_fi (o_fi r))"
| "out_ok (C_ftruncate path offset fi) r = (small (ret r) \<and> small_fi (o_fi r))"
| "out_ok (C_fgetattr path s fi) r = (small (ret r) \<and> small_stat (o_stat r) \<and> small_fi (o_fi r))"
| "out_ok (C_lock path fi cmd flock) r = (small (ret r) \<and> small_fi (o_fi r) \<and> small_flock (o_flock r))"
| "out_ok (C_utimens path tv) r = (small (ret r))"
| "out_ok (C_bmap path blocksize ix) r = (small (ret r) \<and> (ix \<noteq> None \<longrightarrow> small (o_idx r)))"
| "out_ok (C_ioctl path cmd arg fi flg dat) r = (small (ret r) \<and> small_fi (o_fi r))"
| "out_ok (C_poll path fi ph reventsp) r = (small (ret r) \<and> small_fi (o_fi r) \<and> (reventsp \<noteq> None \<longrightarrow> small (o_idx r)))"
| "out_ok (C_write_buf path bf ofs fi) r = (small (ret r) \<and> small_fi (o_fi r))"
| "out_ok (C_read_buf path bufp sz ofs fi) r = (small (ret r) \<and> (case o_bufvec r of None \<Rightarrow> True | Some b \<Rightarrow> small_bufvec b) \<and> small_fi (o_fi r))"
| "out_ok (C_flock path fi lop) r = (small (ret r) \<and> small_fi (o_fi r))"
| "out_ok (C_fallocate path md offset leng fi) r = (small (ret r) \<and> small_fi (o_fi r))"

subsection \<open>The objects print\<close>

lemma cJSON_Print_wf: "wf_json e \<Longrightarrow> cJSON_Print e = Inr (json_text True 0 e)"
  by (simp add: cJSON_Print_def print_value_text)

lemma wf_add_number [simp]:
  "is_object obj \<Longrightarrow> small n \<Longrightarrow> wf_json (cJSON_AddNumberToObject obj k n) = wf_json obj"
  "is_object (cJSON_AddNumberToObject obj k n) = is_object obj"
  by (simp_all add: json_add_defs small_def)

lemma wf_add_numbers:
  "is_object obj \<Longrightarrow> wf_json obj \<Longrightarrow> list_all (small \<circ> snd) kvs
   \<Longrightarrow> wf_json (add_numbers obj kvs) \<and> is_object (add_numbers obj kvs)"
  unfolding add_numbers_def by (induction kvs arbitrary: obj) auto

lemma wf_structs [simp]:
  "small_stat s \<Longrightarrow> wf_json (statToJSONObject s)"
  "small_fi fi \<Longrightarrow> wf_json (fuseFileInfoToJSONObject fi)"
  "small_ubuf u \<Longrightarrow> wf_json (utimbufToJSONObject u)"
  "small_timespec t \<Longrightarrow> wf_json (timespecToJSONObject t)"
  "small_statvfs v \<Longrightarrow> wf_json (statvfsToJSONObject v)"
  "small_conn c \<Longrightarrow> wf_json (fuseConnInfoToJSONObject c)"
  "small_flock l \<Longrightarrow> wf_json (flockToJSONObject l)"
  unfolding statToJSONObject_def fuseFileInfoToJSONObject_def utimbufToJSONObject_def
    timespecToJSONObject_def statvfsToJSONObject_def fuseConnInfoToJSONObject_def flockToJSONObject_def
  by (rule wf_add_numbers [THEN conjunct1];
      simp add: small_stat_def small_fi_def small_ubuf_def small_timespec_def small_statvfs_def
        small_conn_def small_flock_def)+

lemma foldl_const: "foldl (\<lambda>a _. a) z xs = z"
  by (induction xs) auto

lemma fuseBufvec_empty:
  "fuseBufvecToJSONObject b = cJSON_AddItemToObject (add_numbers cJSON_CreateObject
     [(''count'', int (bv_count b)), (''idx'', bv_idx b), (''off'', bv_off b)]) ''buf'' cJSON_CreateArray"
  by (simp add: fuseBufvecToJSONObject_def foldl_const)

lemma wf_bufvec [simp]: "small_bufvec b \<Longrightarrow> wf_json (fuseBufvecToJSONObject b)"
  using wf_add_numbers [of cJSON_CreateObject "[(''count'', int (bv_count b)), (''idx'', bv_idx b), (''off'', bv_off b)]"]
  by (simp add: fuseBufvec_empty small_bufvec_def)

lemma wf_timespecs [simp]: "list_all small_timespec tv \<Longrightarrow> wf_json (timespecArrayToJSONObject tv)"
proof -
  have "list_all small_timespec tv \<Longrightarrow> is_array a \<Longrightarrow> wf_json a
    \<Longrightarrow> wf_json (foldl (\<lambda>obj t. cJSON_AddItemToArray obj (timespecToJSONObject t)) a tv)" for a
    by (induction tv arbitrary: a) auto
  then show "list_all small_timespec tv \<Longrightarrow> wf_json (timespecArrayToJSONObject tv)"
    by (simp add: timespecArrayToJSONObject_def)
qed

fun field_ok :: "json_field \<Rightarrow> bool" where
  "field_ok (FStr k s) = (case s of Inr _ \<Rightarrow> True | Inl _ \<Rightarrow> False)"
| "field_ok (FNum k n) = small n"
| "field_ok (FItem k c) = wf_json c"
| "field_ok (FNull k) = True"

lemma add_fields_ok:
  "list_all field_ok fs \<Longrightarrow> is_object obj \<Longrightarrow> wf_json obj
   \<Longrightarrow> \<exists>p. add_fields obj fs = Inr p \<and> wf_json p"
proof (induction fs arbitrary: obj)
  case (Cons f fs)
  have "\<exists>q. add_field obj f = Inr q \<and> wf_json q \<and> is_object q"
    using Cons.prems by (cases f) (auto simp: json_add_defs small_def split: sum.splits)
  then show ?case using Cons by auto
qed simp

lemma string_reads [simp]:
  "c_str (Some s) = Inr s"
  "NUL \<in> set bytes \<Longrightarrow> buffer_str bytes = Inr (cstr bytes)"
  "area_holds bytes n \<Longrightarrow> strncpy_str bytes n = Inr (cstr (take (nat n) bytes))"
  by (auto simp: c_str_def of_opt_def buffer_str_def strncpy_str_def area_holds_def)

lemma wf_events [simp]:
  "wf_json p \<Longrightarrow> small n \<Longrightarrow> wf_json (invoke_event name n p)"
  "wf_json p \<Longrightarrow> small n \<Longrightarrow> small_opt rv \<Longrightarrow> wf_json (return_event name n rv p)"
  by (auto simp: invoke_event_def return_event_def Let_def json_add_defs small_def small_opt_def split: option.splits)

lemma wrapper_call_ok:
  assumes "list_all field_ok params" "has_op (ops fs) name" "small (next_seqnum fs)"
    and "run_op (ops fs) call (user_data fs) = (r, u)"
    and "list_all field_ok (modified r)" "returns \<longrightarrow> small (ret r)"
  shows "\<exists>fs'. wrapper_call fs name params call returns modified = Inr (r, fs')"
proof -
  obtain p where p: "add_fields cJSON_CreateObject params = Inr p" "wf_json p"
    using add_fields_ok [OF assms(1), of cJSON_CreateObject] by auto
  obtain mp where mp: "add_fields cJSON_CreateObject (modified r) = Inr mp" "wf_json mp"
    using add_fields_ok [OF assms(5), of cJSON_CreateObject] by auto
  have "small_opt (if returns then Some (ret r) else None)" using assms(6) by (simp add: small_opt_def)
  then show ?thesis
    using p mp assms(2-4)
    by (simp add: wrapper_call_def take_seqnum_def report_fs_call_def report_fs_call_return_def
        write_event_def cJSON_Print_wf)
qed

lemma wrapper_table_ok:
  assumes "call_ok call" "has_op (ops fs) (op_name call)" "small (next_seqnum fs)"
    and "run_op (ops fs) call (user_data fs) = (r, u)" "out_ok call r"
  shows "\<exists>fs'. wrapper_table call fs = Inr (r, fs')"
  using assms
  by (cases call) ((simp only: wrapper_table.simps wrapper_defs; intro wrapper_call_ok;
      auto simp: small_opt_def split: option.splits)[1])+

subsection \<open>A file system to run\<close>

definition zero_stat :: stat where
  "zero_stat = \<lparr>st_dev = 0, st_ino = 0, st_mode = 0, st_nlink = 0, st_uid = 0, st_gid = 0, st_rdev = 0,
     st_size = 0, st_atime = 0, st_mtime = 0, st_ctime = 0, st_blksize = 0, st_blocks = 0\<rparr>"

definition zero_fi :: fuse_file_info where
  "zero_fi = \<lparr>flags = 0, fh_old = 0, writepage = 0, direct_io = 0, keep_cache = 0, flush = 0,
     nonseekable = 0, padding = 0, fh = 0, lock_owner = 0\<rparr>"

definition demo_out :: "int \<Rightarrow> fuse_out" where
  "demo_out r = \<lparr>ret = r, o_stat = zero_stat, o_fi = zero_fi, o_ubuf = \<lparr>actime = 0, modtime = 0\<rparr>,
     o_statvfs = \<lparr>f_bsize = 0, f_frsize = 0, f_blocks = 0, f_bfree = 0, f_bavail = 0, f_files = 0,
       f_ffree = 0, f_favail = 0, f_fsid = 0, f_flag = 0, f_namemax = 0\<rparr>,
     o_conn = \<lparr>proto_major = 0, proto_minor = 0, async_read = 0, max_write = 0, max_readahead = 0,
       capable = 0, want = 0, max_background = 0, congestion_threshold = 0\<rparr>,
     o_flock = \<lparr>l_type = 0, l_whence = 0, l_start = 0, l_len = 0, l_pid = 0\<rparr>,
     o_buf = [], o_idx = 0, o_bufvec = None, o_entries = []\<rparr>"

definition demo_ops :: "int \<Rightarrow> nat fuse_operations" where
  \<comment> \<open>every operation is there, returns the given number and counts the calls\<close>
  "demo_ops r = \<lparr>has_op = (\<lambda>_. True), run_op = (\<lambda>c n. (demo_out r, Suc n))\<rparr>"

definition demo_fs :: "bool \<Rightarrow> int \<Rightarrow> nat fuse_fs" where
  "demo_fs debug r = \<lparr>ops = demo_ops r, wrapper_op = (\<lambda>_. True), fdt_debug_mode = debug, next_seqnum = 0,
     user_data = 0, debugFifo = [], sem_waits = 0, latencies = 0\<rparr>"

lemma demo_fs_new:
  "fuse_fs_new (demo_ops r) 0 (Some ''debugger'') = Inr (demo_fs True r)"
  "fuse_fs_new (demo_ops r) 0 (Some ''testsuite'') = Inr (demo_fs False r)"
  by (simp_all add: fuse_fs_new_def demo_fs_def demo_ops_def)

lemma demo_fs_simps [simp]:
  "has_op (ops (demo_fs d r)) op" "run_op (ops (demo_fs d r)) c u = (demo_out r, Suc u)"
  "next_seqnum (demo_fs d r) = 0" "user_data (demo_fs d r) = 0" "fdt_debug_mode (demo_fs d r) = d"
  by (simp_all add: demo_fs_def demo_ops_def)

lemma small_0 [simp]: "small 0" by (simp add: small_def)

lemma demo_mkdir: "\<exists>fs'. wrapper_table (C_mkdir (Some ''/d'') 493) (demo_fs d 0) = Inr (demo_out 0, fs')"
  by (rule wrapper_table_ok [where u = "Suc 0"]) (simp_all add: demo_out_def small_def)

lemma demo_run: "\<exists>fs'. run_calls [C_mkdir (Some ''/d'') 493] (demo_fs d 0) = Inr ([demo_out 0], fs')"
  using demo_mkdir [of d] by auto

subsection \<open>Properties\<close>

text \<open>
  C3. The instrumentation is transparent: whenever a sequence of calls goes through the
  wrappers, in any mode, every call returns what the user's operation returned, and the file
  system ends in the state the same calls leave when made directly, each exactly once and in
  order.
\<close>

theorem wrapper_transparent:
  assumes "run_calls calls fs = Inr (rs, fs')"
  shows "run_direct (ops fs) calls (user_data fs) = (rs, user_data fs')"
  using assms by (rule run_calls_direct)

theorem wrapper_transparent_witness:
  "\<exists>fs'. run_calls [C_mkdir (Some ''/d'') 493] (demo_fs True 0) = Inr ([demo_out 0], fs')
     \<and> run_direct (ops (demo_fs True 0)) [C_mkdir (Some ''/d'') 493] (user_data (demo_fs True 0)) = ([demo_out 0], user_data fs')"
  using demo_run [of True] wrapper_transparent by blast

text \<open>
  C4. In debug mode the calls and nothing else are logged: the pipe receives for each call, in
  order, the printed invoke event and the printed return event, both carrying the operation's
  name and the call's own number; the numbers count up from the counter's value; and the
  library waits on the step semaphore once per call.
\<close>

theorem wrapper_log:
  assumes "run_calls calls fs = Inr (rs, fs')" "fdt_debug_mode fs" "is_int (next_seqnum fs)"
    and "next_seqnum fs + int (length calls) \<le> INT_MAX"
  shows "sem_waits fs' = sem_waits fs + length calls \<and> (\<exists>es texts. map cJSON_Print es = map Inr texts
    \<and> debugFifo fs' = debugFifo fs @ concat texts \<and> length es = 2 * length calls
    \<and> (\<forall>k < length calls. call_events (calls ! k) (next_seqnum fs + int k) [es ! (2 * k), es ! (2 * k + 1)]))"
proof -
  obtain es texts where es: "calls_events calls (next_seqnum fs) es" "map cJSON_Print es = map Inr texts"
    "debugFifo fs' = debugFifo fs @ concat texts" "sem_waits fs' = sem_waits fs + length calls"
    using run_calls_log [OF assms(1,2)] by blast
  then show ?thesis
    using calls_events_length [OF es(1)] calls_events_nth [OF es(1) assms(3,4)] by blast
qed

theorem wrapper_log_witness:
  "\<exists>fs'. run_calls [C_mkdir (Some ''/d'') 493] (demo_fs True 0) = Inr ([demo_out 0], fs')
     \<and> fdt_debug_mode (demo_fs True 0) \<and> is_int (next_seqnum (demo_fs True 0))
     \<and> next_seqnum (demo_fs True 0) + int (length [C_mkdir (Some ''/d'') 493]) \<le> INT_MAX
     \<and> (\<exists>es texts. map cJSON_Print es = map Inr texts \<and> debugFifo fs' = debugFifo (demo_fs True 0) @ concat texts
        \<and> length es = 2 \<and> call_events (C_mkdir (Some ''/d'') 493) 0 [es ! 0, es ! 1])"
proof -
  obtain fs' where fs': "run_calls [C_mkdir (Some ''/d'') 493] (demo_fs True 0) = Inr ([demo_out 0], fs')"
    using demo_run by blast
  have n: "is_int (next_seqnum (demo_fs True 0))" by (simp add: is_int_def)
  show ?thesis using wrapper_log [OF fs' _ n] fs' n by auto
qed

text \<open>
  C12. Outside debug mode the wrappers write nothing to the pipe and never wait.
\<close>

theorem wrapper_quiet:
  assumes "run_calls calls fs = Inr (rs, fs')" "\<not> fdt_debug_mode fs"
  shows "debugFifo fs' = debugFifo fs \<and> sem_waits fs' = sem_waits fs"
  using assms by (rule run_calls_quiet)

theorem wrapper_quiet_witness:
  "\<exists>fs'. run_calls [C_mkdir (Some ''/d'') 493] (demo_fs False 0) = Inr ([demo_out 0], fs')
     \<and> \<not> fdt_debug_mode (demo_fs False 0)
     \<and> debugFifo fs' = debugFifo (demo_fs False 0) \<and> sem_waits fs' = sem_waits (demo_fs False 0)"
proof -
  obtain fs' where fs': "run_calls [C_mkdir (Some ''/d'') 493] (demo_fs False 0) = Inr ([demo_out 0], fs')"
    using demo_run by blast
  from wrapper_quiet [OF fs'] fs' show ?thesis by simp
qed

text \<open>
  C11. A loggable call always goes through: if the operation is provided, the arguments are
  readable and exactly representable, and so is the outcome, then the wrapper returns the
  operation's outcome. This covers all 44 operations.
\<close>

theorem wrapper_returns:
  assumes "call_ok call" "has_op (ops fs) (op_name call)" "small (next_seqnum fs)"
    and "run_op (ops fs) call (user_data fs) = (r, u)" "out_ok call r"
  shows "\<exists>fs'. wrapper_table call fs = Inr (r, fs')"
  using assms by (rule wrapper_table_ok)

theorem wrapper_returns_witness:
  "call_ok (C_open (Some ''/f'') zero_fi) \<and> has_op (ops (demo_fs True 0)) (op_name (C_open (Some ''/f'') zero_fi))
   \<and> small (next_seqnum (demo_fs True 0))
   \<and> run_op (ops (demo_fs True 0)) (C_open (Some ''/f'') zero_fi) (user_data (demo_fs True 0)) = (demo_out 0, 1)
   \<and> out_ok (C_open (Some ''/f'') zero_fi) (demo_out 0)
   \<and> (\<exists>fs'. wrapper_table (C_open (Some ''/f'') zero_fi) (demo_fs True 0) = Inr (demo_out 0, fs'))"
proof -
  have ok: "call_ok (C_open (Some ''/f'') zero_fi)" "out_ok (C_open (Some ''/f'') zero_fi) (demo_out 0)"
    by (simp_all add: demo_out_def zero_fi_def small_fi_def)
  then show ?thesis
    using wrapper_returns [of "C_open (Some ''/f'') zero_fi" "demo_fs True 0" "demo_out 0" 1] by simp
qed

text \<open>
  C32. A failing \<open>read\<close> crashes the instrumented file system: for a negative result the wrapper
  declares an array of that size and copies that many bytes, whatever the mode.
\<close>

theorem read_error_crashes:
  assumes "run_op (ops fs) (C_read (Some path) bytes sz offset fi) (user_data fs) = (r, u)" "ret r < 0"
    and "has_op (ops fs) ''read''" "small sz" "small offset" "small_fi fi" "small (next_seqnum fs)"
  shows "fuse_op_wrapper_read fs (Some path) bytes sz offset fi = Inl OutOfBounds"
proof -
  let ?ps = "[FStr ''path'' (c_str (Some path)), FNum ''size'' sz, FNum ''offset'' offset,
    FItem ''fi'' (fuseFileInfoToJSONObject fi)]"
  obtain p where p: "add_fields cJSON_CreateObject ?ps = Inr p" "wf_json p"
    using add_fields_ok [of ?ps cJSON_CreateObject] assms(4-6) by (auto simp del: add_fields.simps)
  have "strncpy_str (o_buf r) (ret r) = Inl OutOfBounds" using assms(2) by (simp add: strncpy_str_def)
  then show ?thesis
    using p assms(1,3,7) unfolding fuse_op_wrapper_read_def
    by (simp add: wrapper_call_def take_seqnum_def report_fs_call_def write_event_def cJSON_Print_wf
        del: add_fields.simps(2)) (simp add: add_fields.simps(2))
qed

theorem read_error_crashes_witness:
  "run_op (ops (demo_fs False (- 2))) (C_read (Some ''/f'') [] 10 0 zero_fi) (user_data (demo_fs False (- 2)))
     = (demo_out (- 2), 1) \<and> ret (demo_out (- 2)) < 0 \<and> has_op (ops (demo_fs False (- 2))) ''read''
   \<and> small 10 \<and> small 0 \<and> small_fi zero_fi \<and> small (next_seqnum (demo_fs False (- 2)))
   \<and> fuse_op_wrapper_read (demo_fs False (- 2)) (Some ''/f'') [] 10 0 zero_fi = Inl OutOfBounds"
proof -
  have "ret (demo_out (- 2)) < 0" "small 10" "small_fi zero_fi"
    by (simp_all add: demo_out_def small_def zero_fi_def small_fi_def)
  then show ?thesis
    using read_error_crashes [of "demo_fs False (- 2)" "''/f''" "[]" 10 0 zero_fi "demo_out (- 2)" 1] by simp
qed

text \<open>
  The buffers of a \<open>write_buf\<close> call are not in the log: the member \<open>buf\<close> of a logged
  buffer vector is an empty array, whatever the vector holds.
\<close>

lemma bufvec_log_drops_buffers:
  "map_option child (cJSON_GetObjectItem (fuseBufvecToJSONObject b) ''buf'') = Some []"
  by (simp add: fuseBufvec_empty cJSON_GetObjectItem_def add_numbers_def json_add_defs
      cJSON_strcasecmp_def c_tolower_def)

end
