(* ===== verification/Event_Access.thy ===== *)
theory Event_Access
  imports Wrapper_Total
begin

unbundle bit_operations_syntax

section \<open>Reading the members of an event\<close>

text \<open>
  The tools read events with \<open>cJSON_GetObjectItem\<close> and follow the result without checking
  it, so a missing member is a null dereference. The laws of lookup after insertion are the
  interface \<open>named_members\<close>, which the functions of \<^verbatim>\<open>src/cJSON.c\<close> provide, and they carry
  over to an event that went through the pipe.
\<close>

definition get_item :: "cJSON option \<Rightarrow> string \<Rightarrow> cJSON c_res" where
  \<comment> \<open>\<open>cJSON_GetObjectItem(obj, k)\<close> where the code dereferences \<open>obj\<close> and the result\<close>
  "get_item obj k = (case obj of None \<Rightarrow> Inl NullPointer
     | Some o' \<Rightarrow> of_opt NullPointer (cJSON_GetObjectItem o' k))"

definition item_string :: "cJSON option \<Rightarrow> string \<Rightarrow> string c_res" where
  \<comment> \<open>the member's \<open>valuestring\<close>, where the code goes on to read it\<close>
  "item_string obj k = bindr (get_item obj k) (\<lambda>i. of_opt NullPointer (valuestring i))"

definition item_int :: "cJSON option \<Rightarrow> string \<Rightarrow> int c_res" where
  "item_int obj k = bindr (get_item obj k) (\<lambda>i. Inr (valueint i))"

subsection \<open>Names are compared without regard to case\<close>

lemma c_tolower_NUL [simp]: "c_tolower c = NUL \<longleftrightarrow> c = NUL"
proof
  assume "c_tolower c = NUL"
  then have "(of_char (c_tolower c) :: nat) = 0" by simp
  moreover have "(of_char (char_of (of_char c + 32 :: nat) :: char) :: nat) = of_char c + 32"
    if "(of_char c :: nat) \<le> 90"
    using that by (simp add: of_char_of)
  ultimately have "(of_char c :: nat) = 0" by (simp add: c_tolower_def split: if_splits)
  then show "c = NUL" using of_char_pos [of c] by auto
qed (simp add: c_tolower_def)

lemma of_char_tolower_0 [simp]: "(of_char (c_tolower c) :: int) = 0 \<longleftrightarrow> c = NUL"
proof -
  have "(of_char (c_tolower c) :: int) = of_char NUL \<longleftrightarrow> c_tolower c = NUL"
    by (rule of_char_eq_iff)
  then show ?thesis by simp
qed

lemma c_tolower_NUL_is [simp]: "c_tolower NUL = NUL"
  by (simp add: c_tolower_def)

lemma strcasecmp_0:
  "cstring s \<Longrightarrow> cstring t \<Longrightarrow> strcasecmp s t = 0 \<longleftrightarrow> map c_tolower s = map c_tolower t"
  by (induction s t rule: list_induct2') auto

definition same_name :: "string \<Rightarrow> string \<Rightarrow> bool" where
  "same_name a b \<longleftrightarrow> map c_tolower (cstr a) = map c_tolower (cstr b)"

lemma cJSON_strcasecmp_same:
  "cstring b \<Longrightarrow> cJSON_strcasecmp (Some (cstr a)) (Some b) = 0 \<longleftrightarrow> same_name a b"
  by (simp add: cJSON_strcasecmp_def strcasecmp_0 same_name_def)

subsection \<open>Lookup after insertion\<close>

locale named_members =
  fixes empty :: 'o
    and get :: "'o \<Rightarrow> string \<Rightarrow> 'v option"
    and put :: "'o \<Rightarrow> string \<Rightarrow> 'v \<Rightarrow> 'o"
    and norm :: "'v \<Rightarrow> 'v"
    and same :: "string \<Rightarrow> string \<Rightarrow> bool"
    and key_ok :: "string \<Rightarrow> bool"
  assumes get_empty: "get empty k = None"
    and get_put: "key_ok k' \<Longrightarrow> get (put ob k v) k' = (case get ob k' of Some x \<Rightarrow> Some x
          | None \<Rightarrow> if same k k' then Some (norm v) else None)"
begin

lemma get_puts_from: "key_ok k \<Longrightarrow> get (foldl (\<lambda>ob (k, v). put ob k v) ob kvs) k = (case get ob k of
    Some x \<Rightarrow> Some x | None \<Rightarrow> map_option (norm \<circ> snd) (find (\<lambda>(k', _). same k' k) kvs))"
  by (induction kvs arbitrary: ob) (auto simp: get_put split: option.splits)

lemma get_puts: "key_ok k \<Longrightarrow> get (foldl (\<lambda>ob (k, v). put ob k v) empty kvs) k
    = map_option (norm \<circ> snd) (find (\<lambda>(k', _). same k' k) kvs)"
  by (simp add: get_puts_from get_empty)

end

lemma find_name_append: "find_name (cs @ ds) k = (case find_name cs k of Some x \<Rightarrow> Some x | None \<Rightarrow> find_name ds k)"
  by (induction cs) auto

definition member :: "cJSON \<Rightarrow> string \<Rightarrow> cJSON option" where
  \<comment> \<open>the member of that name, without its name\<close>
  "member obj k = map_option (set_name None) (cJSON_GetObjectItem obj k)"

lemma set_name_set_name [simp]: "set_name a (set_name b c) = set_name a c"
  by (cases c) simp

interpretation js: named_members cJSON_CreateObject member cJSON_AddItemToObject "set_name None" same_name cstring
proof
  show "member cJSON_CreateObject k = None" for k
    by (simp add: member_def cJSON_GetObjectItem_def)
  show "member (cJSON_AddItemToObject ob k v) k' = (case member ob k' of Some x \<Rightarrow> Some x
      | None \<Rightarrow> if same_name k k' then Some (set_name None v) else None)" if "cstring k'" for ob k v k'
    using that by (auto simp: member_def cJSON_GetObjectItem_def find_name_append cJSON_strcasecmp_same
        split: option.splits)
qed

subsection \<open>Through the pipe\<close>

lemma jname_canon [simp]: "jname (canon nm c) = nm"
  by (subst canon.simps) (simp add: Let_def)

lemma canon_set_name [simp]: "canon nm (set_name k c) = canon nm c"
  by (simp add: canon.simps [of nm "set_name k c"] canon.simps [of nm c] Let_def)

lemma find_name_canon:
  "find_name (map (\<lambda>c. canon (jname c) c) cs) k = map_option (\<lambda>c. canon (jname c) c) (find_name cs k)"
  by (induction cs) auto

lemma child_canon_object: "is_object c \<Longrightarrow> child (canon nm c) = map (\<lambda>c. canon (jname c) c) (child c)"
  by (subst canon.simps) (simp add: is_object_def)

lemma get_canon:
  "is_object ob \<Longrightarrow> cJSON_GetObjectItem (canon nm ob) k = map_option (\<lambda>c. canon (jname c) c) (cJSON_GetObjectItem ob k)"
  by (simp add: cJSON_GetObjectItem_def child_canon_object find_name_canon)

lemma canon_fields:
  "jtype c AND 255 = cJSON_Number \<Longrightarrow> valueint (canon nm c) = valueint c"
  "jtype c AND 255 = cJSON_Number \<Longrightarrow> valuedouble (canon nm c) = valuedouble c"
  "jtype c AND 255 = cJSON_String \<Longrightarrow> valuestring (canon nm c) = valuestring c"
  "jtype (canon nm c) = jtype c AND 255"
  by (subst canon.simps, simp add: Let_def)+

subsection \<open>The members of the events\<close>

lemma invoke_event_child: "child (invoke_event name n p) =
    [set_name (Some ''type'') (cJSON_CreateString ''invoke''), set_name (Some ''name'') (cJSON_CreateString name),
     set_name (Some ''seqnum'') (cJSON_CreateNumber (dbl_of_int n)), set_name (Some ''params'') p]"
  by (simp add: invoke_event_def Let_def json_add_defs cstr_def)

lemma return_event_child: "child (return_event name n rv p) =
    [set_name (Some ''type'') (cJSON_CreateString ''return''), set_name (Some ''name'') (cJSON_CreateString name),
     set_name (Some ''seqnum'') (cJSON_CreateNumber (dbl_of_int n)),
     set_name (Some ''returnval'') (case rv of Some r \<Rightarrow> cJSON_CreateNumber (dbl_of_int r) | None \<Rightarrow> cJSON_CreateNull),
     set_name (Some ''modified_params'') p]"
  by (simp add: return_event_def Let_def json_add_defs cstr_def split: option.splits)

lemma is_object_events [simp]: "is_object (invoke_event name n p)" "is_object (return_event name n rv p)"
  by (simp_all add: invoke_event_def return_event_def Let_def json_add_defs split: option.splits)

lemma item_canon:
  assumes "is_object ob" "cJSON_GetObjectItem ob k = Some c"
  shows "get_item (Some (canon nm ob)) k = Inr (canon (jname c) c)"
    and "jtype c AND 255 = cJSON_Number \<Longrightarrow> item_int (Some (canon nm ob)) k = Inr (valueint c)"
    and "jtype c AND 255 = cJSON_String \<Longrightarrow> item_string (Some (canon nm ob)) k = of_opt NullPointer (valuestring c)"
  using assms by (simp_all add: get_item_def item_int_def item_string_def get_canon canon_fields)

lemma invoke_event_items:
  "cJSON_GetObjectItem (invoke_event name n p) ''type'' = Some (set_name (Some ''type'') (cJSON_CreateString ''invoke''))"
  "cJSON_GetObjectItem (invoke_event name n p) ''name'' = Some (set_name (Some ''name'') (cJSON_CreateString name))"
  "cJSON_GetObjectItem (invoke_event name n p) ''seqnum'' = Some (set_name (Some ''seqnum'') (cJSON_CreateNumber (dbl_of_int n)))"
  "cJSON_GetObjectItem (invoke_event name n p) ''params'' = Some (set_name (Some ''params'') p)"
  by (simp_all add: cJSON_GetObjectItem_def invoke_event_child cJSON_strcasecmp_def c_tolower_def)

lemma return_event_items:
  "cJSON_GetObjectItem (return_event name n rv p) ''type'' = Some (set_name (Some ''type'') (cJSON_CreateString ''return''))"
  "cJSON_GetObjectItem (return_event name n rv p) ''name'' = Some (set_name (Some ''name'') (cJSON_CreateString name))"
  "cJSON_GetObjectItem (return_event name n rv p) ''seqnum'' = Some (set_name (Some ''seqnum'') (cJSON_CreateNumber (dbl_of_int n)))"
  "cJSON_GetObjectItem (return_event name n rv p) ''returnval'' = Some (set_name (Some ''returnval'')
     (case rv of Some r \<Rightarrow> cJSON_CreateNumber (dbl_of_int r) | None \<Rightarrow> cJSON_CreateNull))"
  "cJSON_GetObjectItem (return_event name n rv p) ''modified_params'' = Some (set_name (Some ''modified_params'') p)"
  by (simp_all add: cJSON_GetObjectItem_def return_event_child cJSON_strcasecmp_def c_tolower_def)

lemma d2i_dbl_of_int [simp]: "is_int n \<Longrightarrow> d2i (dbl_of_int n) = n"
proof -
  assume n: "is_int n"
  then have "\<bar>n\<bar> < 2 ^ 53" by (auto simp: is_int_def abs_if)
  then show ?thesis using n by (simp add: dbl_of_int_def)
qed

lemmas event_items = invoke_event_items [THEN item_canon(1) [OF is_object_events(1)]]
  return_event_items [THEN item_canon(1) [OF is_object_events(2)]]

lemma event_fields:
  "item_string (Some (canon nm (invoke_event name n p))) ''type'' = Inr ''invoke''"
  "item_string (Some (canon nm (invoke_event name n p))) ''name'' = Inr (cstr name)"
  "is_int n \<Longrightarrow> item_int (Some (canon nm (invoke_event name n p))) ''seqnum'' = Inr n"
  "item_string (Some (canon nm (return_event name n rv p))) ''type'' = Inr ''return''"
  "item_string (Some (canon nm (return_event name n rv p))) ''name'' = Inr (cstr name)"
  "is_int n \<Longrightarrow> item_int (Some (canon nm (return_event name n rv p))) ''seqnum'' = Inr n"
  using invoke_event_items [THEN item_canon(2) [OF is_object_events(1)]]
    invoke_event_items [THEN item_canon(3) [OF is_object_events(1)]]
    return_event_items [THEN item_canon(2) [OF is_object_events(2)]]
    return_event_items [THEN item_canon(3) [OF is_object_events(2)]]
  by (simp_all add: cstr_def)
subsection \<open>Objects the reader can frame\<close>

definition plain :: "string \<Rightarrow> bool" where
  "plain s \<longleftrightarrow> frameable_string (cstr s)"

lemmas plain_keys = plain_def frameable_string_def cstr_def

lemma plain_Nil [simp]: "plain []"
  by (simp add: plain_keys)

lemma frameable_set_name [simp]: "frameable (set_name nm c) = frameable c"
  by (subst (1 2) frameable.simps) simp

lemma frameable_create [simp]:
  "frameable cJSON_CreateObject" "frameable cJSON_CreateArray" "frameable cJSON_CreateNull"
  "frameable (cJSON_CreateString s) = plain s" "frameable (cJSON_CreateNumber x)" "frameable (cJSON_CreateBool b)"
  by (subst frameable.simps, simp add: plain_def)+

lemma frameable_add [simp]:
  "is_object a \<Longrightarrow> frameable (cJSON_AddItemToObject a k c) \<longleftrightarrow> frameable a \<and> frameable c \<and> plain k"
  "is_array a \<Longrightarrow> frameable (cJSON_AddItemToArray a c) \<longleftrightarrow> frameable a \<and> frameable c"
  by (auto simp: frameable.simps [of "cJSON_AddItemToArray a c"] frameable.simps [of a] plain_def
      frameable.simps [of "cJSON_AddItemToObject a k c"] is_object_def is_array_def)

subsection \<open>Trees that were read\<close>

lemma canon_object: "is_object c \<Longrightarrow> canon nm c = CJ cJSON_Object None 0 (Fin 0) nm (map (\<lambda>c. canon (jname c) c) (child c))"
  by (subst canon.simps) (simp add: is_object_def)

lemma canon_array: "is_array c \<Longrightarrow> canon nm c = CJ cJSON_Array None 0 (Fin 0) nm (map (canon None) (child c))"
  by (subst canon.simps) (simp add: is_array_def)

lemma is_canon [simp]: "is_array (canon nm c) = is_array c" "is_object (canon nm c) = is_object c"
  by (simp_all add: is_array_def is_object_def canon_fields and.assoc)

lemma canon_canon [simp]: "canon nm (canon nm' c) = canon nm c"
proof (induction nm' c arbitrary: nm rule: canon.induct)
  case (1 nm' item)
  define t where "t = jtype item AND 255"
  have t: "t AND 255 = t" by (simp add: t_def and.assoc)
  note eq = canon.simps [of nm' item, unfolded Let_def, folded t_def]
  have "map (canon None \<circ> canon None) (child item) = map (canon None) (child item)" if "t = cJSON_Array"
    using "1.IH"(1) [OF t_def] that by (simp add: comp_def)
  moreover have "map ((\<lambda>c. canon (jname c) c) \<circ> (\<lambda>c. canon (jname c) c)) (child item) = map (\<lambda>c. canon (jname c) c) (child item)"
    if "t = cJSON_Object"
    using "1.IH"(2) [OF t_def] that by (simp add: comp_def)
  ultimately show ?case
    unfolding eq by (subst (1 2) canon.simps) (auto simp: t t_def [symmetric] Let_def)
qed

lemma wf_canon: "wf_json c \<Longrightarrow> wf_json (canon nm c)"
proof (induction nm c rule: canon.induct)
  case (1 nm item)
  define t where "t = jtype item AND 255"
  have t: "t AND 255 = t" by (simp add: t_def and.assoc)
  note eq = canon.simps [of nm item, unfolded Let_def, folded t_def]
    and wf = "1.prems" [unfolded wf_json.simps [of item] Let_def, folded t_def]
  have "list_all wf_json (map (canon None) (child item))" if "t = cJSON_Array"
    using "1.IH"(1) [OF t_def] wf that by (simp add: list_all_iff)
  moreover have "list_all (\<lambda>c. wf_json c \<and> (case jname c of None \<Rightarrow> False | Some s \<Rightarrow> cstring s))
      (map (\<lambda>c. canon (jname c) c) (child item))" if "t = cJSON_Object"
    using "1.IH"(2) [OF t_def] wf that by (simp add: list_all_iff)
  ultimately show ?case using wf unfolding eq by (subst wf_json.simps) (auto simp: t Let_def)
qed

lemma canon_bool: "valueint (canon nm (cJSON_CreateBool (of_bool b))) = of_bool b"
  by (cases b; subst canon.simps; simp add: cJSON_CreateBool_def cJSON_New_Item_def)

end
