(* ===== verification/Fdt_Base.thy ===== *)
theory Fdt_Base
  imports Event_Access
begin

section \<open>The state and the services of the main program\<close>

text \<open>
  The globals of \<^verbatim>\<open>src/fdt.c\<close> and the functions of it that the tools call: the texts shown to the
  user, the descriptions of the operations, the error shared with the child process, the
  environment of the mounted file system and the handler of \<open>SIGCHLD\<close>. Each tool extends the
  record with the globals of its own source file, so that all of them work on one program state.

  What the program does to its surroundings is part of the state: the lines it prints, the
  signals it sends, the dialogs it shows, and the status it exits with. Files are a parameter.
\<close>

datatype tool = Wizard_tool | Testsuite_tool | Debugger_tool | Logger_tool

record fdt =
  abs_libpath :: string
  bin_path :: string
  usingGui :: bool
  terminate_calls :: int
  fuse_pid :: int
  stopToolFunction :: "tool option"
  fs_mounted :: bool
  shared_error :: string
  fsigs :: "cJSON option"
  resources :: "cJSON option"
  skipped_tests :: "string option"
  test_data_file :: "string option"
  start_sensitive :: bool
  stop_sensitive :: bool
  stdout :: "string list"
  stderr :: "string list"
  kills :: "(int \<times> int) list"
  dialogs :: "string list"
  exited :: "int option"

definition printf :: "string \<Rightarrow> 'a fdt_scheme \<Rightarrow> 'a fdt_scheme" where
  "printf line st = st\<lparr>stdout := stdout st @ [line]\<rparr>"

definition eprintf :: "string \<Rightarrow> 'a fdt_scheme \<Rightarrow> 'a fdt_scheme" where
  "eprintf line st = st\<lparr>stderr := stderr st @ [line]\<rparr>"

definition kill :: "int \<Rightarrow> int \<Rightarrow> 'a fdt_scheme \<Rightarrow> 'a fdt_scheme" where
  "kill pid sig st = st\<lparr>kills := kills st @ [(pid, sig)]\<rparr>"

abbreviation (input) SIGINT :: int where "SIGINT \<equiv> 2"
abbreviation (input) SIGKILL :: int where "SIGKILL \<equiv> 9"

lemma output_simps [simp]:
  "stdout (printf l st) = stdout st @ [l]" "stderr (printf l st) = stderr st"
  "kills (printf l st) = kills st" "fuse_pid (printf l st) = fuse_pid st" "usingGui (printf l st) = usingGui st"
  "stdout (eprintf l st) = stdout st" "stderr (eprintf l st) = stderr st @ [l]"
  "kills (eprintf l st) = kills st" "fuse_pid (eprintf l st) = fuse_pid st" "usingGui (eprintf l st) = usingGui st"
  "kills (kill p s st) = kills st @ [(p, s)]" "stdout (kill p s st) = stdout st"
  "stderr (kill p s st) = stderr st" "fuse_pid (kill p s st) = fuse_pid st" "usingGui (kill p s st) = usingGui st"
  "fs_mounted (printf l st) = fs_mounted st" "shared_error (printf l st) = shared_error st"
  "fs_mounted (eprintf l st) = fs_mounted st" "shared_error (eprintf l st) = shared_error st"
  "fs_mounted (kill p s st) = fs_mounted st" "shared_error (kill p s st) = shared_error st"
  by (simp_all add: printf_def eprintf_def kill_def)

subsection \<open>Texts\<close>

definition snprintf :: "nat \<Rightarrow> string \<Rightarrow> string" where
  \<comment> \<open>at most \<open>cap - 1\<close> characters of the formatted text\<close>
  "snprintf cap s = take (cap - 1) s"

lemma snprintf_fits [simp]: "length s < cap \<Longrightarrow> snprintf cap s = s"
  by (simp add: snprintf_def)

definition c_isprint :: "char \<Rightarrow> bool" where
  "c_isprint c \<longleftrightarrow> 32 \<le> (of_char c :: nat) \<and> (of_char c :: nat) < 127"

definition hex_upper :: "nat \<Rightarrow> char" where
  "hex_upper d = (if d < 10 then digit_char d else char_of (55 + d))"

definition sprintf_02X :: "char \<Rightarrow> string" where
  \<comment> \<open>\<open>sprintf("%02X", c)\<close> for a signed \<open>char\<close>: a negative one is eight digits of its \<open>int\<close>\<close>
  "sprintf_02X c = (let n = (of_char c :: nat); ds = [hex_upper (n div 16), hex_upper (n mod 16)] in
     if n < 128 then ds else ''FFFFFF'' @ ds)"

definition put_at :: "nat \<Rightarrow> nat \<Rightarrow> string \<Rightarrow> string \<Rightarrow> string c_res" where
  \<comment> \<open>the bytes and a NUL stored at an offset of a buffer of that size\<close>
  "put_at cap off bytes dst = (if off + length bytes + 1 \<le> cap
     then Inr (take off dst @ bytes @ NUL # drop (off + length bytes + 1) dst) else Inl HeapOverflow)"

fun hex_bytes :: "nat \<Rightarrow> nat \<Rightarrow> string \<Rightarrow> string \<Rightarrow> string c_res" where
  "hex_bytes cap i [] dst = Inr dst"
| "hex_bytes cap i (c # cs) dst = bindr (put_at cap (i * 2) (sprintf_02X c) dst) (hex_bytes cap (i + 1) cs)"

definition bufferToAscii :: "string \<Rightarrow> string c_res" where
  "bufferToAscii str = (let n = length str in
     if list_all c_isprint str then Inr str
     else bindr (hex_bytes (n * 2 + 1) 0 str (replicate (n * 2 + 1) NUL)) (\<lambda>dst.
       Inr (cstr (dst[n := NUL]))))"

fun wrap_from :: "int \<Rightarrow> nat \<Rightarrow> bool \<Rightarrow> string \<Rightarrow> string" where
  "wrap_from line_len i needs_break [] = []"
| "wrap_from line_len i needs_break (c # cs) =
    (let needs_break = (needs_break \<or> (0 < i \<and> int i mod line_len = 0)) in
     if needs_break \<and> c = CHR '' '' then newline # wrap_from line_len (i + 1) False cs
     else c # wrap_from line_len (i + 1) needs_break cs)"

definition wrap_text :: "string \<Rightarrow> int \<Rightarrow> string" where
  "wrap_text orig line_len = wrap_from line_len 0 False orig"

definition testToFunction :: "string \<Rightarrow> string c_res" where
  \<comment> \<open>\<open>test + 5\<close> leaves out \<open>test_\<close>\<close>
  "testToFunction test = (if 5 \<le> length test then Inr (drop 5 test) else Inl OutOfBounds)"

subsection \<open>The descriptions of the operations\<close>

fun named_item :: "cJSON list \<Rightarrow> string \<Rightarrow> cJSON option c_res" where
  "named_item [] name = Inr None"
| "named_item (item # items) name = bindr (item_string (Some item) ''name'') (\<lambda>name_str.
     if name_str = name then Inr (Some item) else named_item items name)"

definition getFunctionSignature :: "'a fdt_scheme \<Rightarrow> string \<Rightarrow> cJSON option c_res" where
  "getFunctionSignature st name = (case fsigs st of None \<Rightarrow> Inl NullPointer
     | Some items \<Rightarrow> named_item (child items) name)"

definition getFunctionResources :: "'a fdt_scheme \<Rightarrow> string \<Rightarrow> cJSON option c_res" where
  "getFunctionResources st name = (case resources st of None \<Rightarrow> Inl NullPointer
     | Some items \<Rightarrow> named_item (child items) name)"

definition readJSONFile :: "(string \<Rightarrow> string option) \<Rightarrow> string \<Rightarrow> 'a fdt_scheme \<Rightarrow> (cJSON option \<times> 'a fdt_scheme) c_res" where
  "readJSONFile files fpath st = (let st = printf (''Loading JSON file: '' @ fpath) st in
     case files fpath of
       Some bytes \<Rightarrow> bindr (parsed (cstr bytes)) (\<lambda>obj.
         Inr (obj, printf (''Loaded '' @ show_nat (length bytes) @ '' bytes'') st))
     | None \<Rightarrow> Inr (None, eprintf ''Unable to read file'' st))"

subsection \<open>Shared state\<close>

definition setFusePID :: "int \<Rightarrow> 'a fdt_scheme \<Rightarrow> 'a fdt_scheme" where
  "setFusePID i st = st\<lparr>fuse_pid := i\<rparr>"

definition setFSMounted :: "bool \<Rightarrow> 'a fdt_scheme \<Rightarrow> 'a fdt_scheme" where
  "setFSMounted mounted st = st\<lparr>fs_mounted := mounted\<rparr>"

definition setStopToolFunction :: "tool option \<Rightarrow> 'a fdt_scheme \<Rightarrow> 'a fdt_scheme" where
  "setStopToolFunction f st = st\<lparr>stopToolFunction := f\<rparr>"

definition addSkippedTest :: "string \<Rightarrow> int \<Rightarrow> 'a fdt_scheme \<Rightarrow> 'a fdt_scheme c_res" where
  "addSkippedTest func_name test_num st =
    (let test_str_len = length func_name + 64;
         test_str = snprintf test_str_len (func_name @ '':'' @ show_int test_num) in
     case skipped_tests st of
       None \<Rightarrow> bindr (alloc_write test_str_len test_str) (\<lambda>s. Inr (st\<lparr>skipped_tests := Some s\<rparr>))
     | Some old \<Rightarrow> bindr (alloc_write (length old + test_str_len) (old @ '','' @ take test_str_len test_str)) (\<lambda>s.
         Inr (st\<lparr>skipped_tests := Some s\<rparr>)))"

definition setTestDataFile :: "string \<Rightarrow> 'a fdt_scheme \<Rightarrow> 'a fdt_scheme" where
  "setTestDataFile fname st = printf (''Set test data file to '' @ [CHR 0x27] @ fname @ [CHR 0x27])
     (st\<lparr>test_data_file := Some fname\<rparr>)"

definition getEnvVarsForFork :: "string \<Rightarrow> 'a fdt_scheme \<Rightarrow> string list \<times> 'a fdt_scheme" where
  "getEnvVarsForFork tool_ident st =
    (let path = abs_libpath st;
         envp = [snprintf (16 + length path + 1) (''LD_LIBRARY_PATH='' @ path),
                 snprintf (18 + length path + 1) (''DYLD_LIBRARY_PATH='' @ path),
                 snprintf (9 + length tool_ident + 1) (''FDT_TOOL='' @ tool_ident)];
         (envp, st) = (case skipped_tests st of None \<Rightarrow> (envp, st)
           | Some s \<Rightarrow> (let decl = snprintf (14 + length s + 1) (''SKIPPED_TESTS='' @ s) in
               (envp @ [decl], printf decl st)));
         envp = (case test_data_file st of None \<Rightarrow> envp
           | Some f \<Rightarrow> envp @ [snprintf (15 + length f + 1) (''TEST_DATA_FILE='' @ f)])
     in (envp, st))"

abbreviation (input) shared_error_maxlen :: nat where "shared_error_maxlen \<equiv> 1024"

definition setSharedError :: "string \<Rightarrow> 'a fdt_scheme \<Rightarrow> 'a fdt_scheme c_res" where
  "setSharedError err_str st = (let err_str = (if shared_error_maxlen \<le> length err_str
       then take (shared_error_maxlen - 1) err_str else err_str) in
     bindr (alloc_write shared_error_maxlen err_str) (\<lambda>s. Inr (st\<lparr>shared_error := s\<rparr>)))"

definition setSharedErrorPrefixed :: "string \<Rightarrow> string \<Rightarrow> 'a fdt_scheme \<Rightarrow> 'a fdt_scheme c_res" where
  "setSharedErrorPrefixed prefix err_str_raw st =
     setSharedError (snprintf (length prefix + length err_str_raw + 1) (prefix @ err_str_raw)) st"

subsection \<open>A child process ends\<close>

definition crash_message :: string where
  "crash_message = ''FUSE module terminated unexpectedly or crashed. This is likely due to a runtime error in the filesystem, so check the console for the cause.''"

definition childKilled_fuse :: "nat option \<Rightarrow> 'a fdt_scheme \<Rightarrow> 'a fdt_scheme c_res" where
  \<comment> \<open>the mounted file system ended: ten slots of 100 ms, in one of which the thread that reads
     its events may clear \<open>fuse_pid\<close>\<close>
  "childKilled_fuse cleared st =
    (let st = printf ''Unexpected SIGCHLD! Waiting 1000ms to synchronise...'' st in
     if (case cleared of Some slot_id \<Rightarrow> slot_id < 10 | None \<Rightarrow> False)
     then Inr ((printf ''Filesystem unmounted cleanly while waiting'' (setFusePID 0 st))\<lparr>fs_mounted := False\<rparr>)
     else bindr (if length (shared_error st) = 0 then setSharedError crash_message st else Inr st) (\<lambda>st.
       Inr (st\<lparr>fuse_pid := 0, fs_mounted := False\<rparr>)))"

fun childKilled :: "int list \<Rightarrow> nat option \<Rightarrow> 'a fdt_scheme \<Rightarrow> 'a fdt_scheme c_res" where
  \<comment> \<open>the results of \<open>waitpid\<close> up to the first \<open>-1\<close>\<close>
  "childKilled [] cleared st = Inr st"
| "childKilled (pid # pids) cleared st = (if pid = fuse_pid st then childKilled_fuse cleared st
     else childKilled pids cleared (if fuse_pid st = 0 then st\<lparr>fs_mounted := False\<rparr> else st))"

end
