(* ===== verification/Debugger.thy ===== *)
theory Debugger
  imports Fdt_Base
begin

section \<open>The debugger\<close>

text \<open>
  The model of \<^verbatim>\<open>src/debugger.c\<close>. A wrapped call writes an event to the pipe and waits on the
  semaphore; the debugger reads the event, counts the call as pending, and posts the semaphore
  when the user advances.
\<close>

datatype event_row = Row (cell_seqnum: int) (cell_event: "string option") (cell_func: "string option")
  (rows: "event_row list")

record debugger = fdt +
  pendingInvocations :: int
  autoAdvance :: bool
  closing :: bool
  stepSem :: nat
  stdin :: "string list"
  tailq_events :: "cJSON list"
  event_table :: "event_row list"
  advance_sensitive :: bool

subsection \<open>Stepping\<close>

definition canAdvance :: "'a debugger_scheme \<Rightarrow> bool" where
  "canAdvance d \<longleftrightarrow> 0 < pendingInvocations d"

definition advance :: "'a debugger_scheme \<Rightarrow> 'a debugger_scheme" where
  "advance d = (if canAdvance d
     then d\<lparr>stepSem := stepSem d + 1, pendingInvocations := pendingInvocations d - 1\<rparr>
     else printf ''Cannot advance until next FUSE operation executes'' d)"

function advancePending :: "'a debugger_scheme \<Rightarrow> 'a debugger_scheme" where
  "advancePending d = (if canAdvance d
     then advancePending (printf ''Advanced pending invocation'' (advance d)) else d)"
  by pat_completeness auto
termination
  by (relation "measure (\<lambda>d. nat (pendingInvocations d))") (auto simp: canAdvance_def advance_def printf_def)

declare advancePending.simps [simp del]

definition waitToAdvance :: "'a debugger_scheme \<Rightarrow> 'a debugger_scheme" where
  \<comment> \<open>\<open>getline\<close>: the next line, or nothing at the end of the input\<close>
  "waitToAdvance d = (printf ''[ paused ]'' d)\<lparr>stdin := tl (stdin d)\<rparr>"

definition updateAdvanceButtonState :: "'a debugger_scheme \<Rightarrow> 'a debugger_scheme" where
  "updateAdvanceButtonState d = d\<lparr>advance_sensitive := canAdvance d\<rparr>"

definition startDebugger :: "'a debugger_scheme \<Rightarrow> tool \<times> 'a debugger_scheme" where
  \<comment> \<open>the new semaphore has the value zero; the thread it starts is \<open>doStartDebugger\<close>\<close>
  "startDebugger d = (Debugger_tool, d\<lparr>closing := False, stepSem := 0\<rparr>)"

definition stopDebugger :: "'a debugger_scheme \<Rightarrow> 'a debugger_scheme" where
  "stopDebugger d =
    (let d = printf ''Stopping debugger'' d;
         d = advancePending (d\<lparr>closing := True\<rparr>);
         pid = fuse_pid d in
     if pid \<noteq> 0 then printf ''Sent SIGINT to FUSE binary'' (kill pid SIGINT (setFusePID 0 d)) else d)"

definition advance_btn_handler :: "'a debugger_scheme \<Rightarrow> 'a debugger_scheme" where
  "advance_btn_handler d = advance d"

definition autoadvance_btn_handler :: "bool \<Rightarrow> 'a debugger_scheme \<Rightarrow> 'a debugger_scheme" where
  \<comment> \<open>the argument is the state of the toggle button\<close>
  "autoadvance_btn_handler active d = advancePending (updateAdvanceButtonState (d\<lparr>autoAdvance := active\<rparr>))"

subsection \<open>Events\<close>

definition numbered :: "string \<Rightarrow> int \<Rightarrow> string \<Rightarrow> string" where
  "numbered arrow seqnum name = arrow @ '' ('' @ show_int seqnum @ '')'' @ [tab] @ name"

definition handle_invoke :: "int \<Rightarrow> string \<Rightarrow> 'a debugger_scheme \<Rightarrow> 'a debugger_scheme" where
  "handle_invoke seqnum name d =
    (let d = printf (numbered ''[->]'' seqnum name) d;
         d = d\<lparr>pendingInvocations := wrap32 (pendingInvocations d + 1)\<rparr> in
     if closing d \<or> autoAdvance d then advance d
     else if usingGui d then d
     else advance (waitToAdvance d))"

definition handle_return :: "int \<Rightarrow> string \<Rightarrow> cJSON \<Rightarrow> 'a debugger_scheme \<Rightarrow> 'a debugger_scheme" where
  "handle_return seqnum name returnval_obj d =
    (if jtype returnval_obj = cJSON_NULL then printf (numbered ''[<-]'' seqnum name) d
     else if jtype returnval_obj = cJSON_Number
       then printf (numbered ''[<-]'' seqnum name @ '' returned '' @ show_int (valueint returnval_obj)) d
     else printf (numbered ''[<-]'' seqnum name @ '' (returned an unexpected type)'') d)"

definition handleDebuggerEvent :: "('a debugger_scheme) event_handler" where
  "handleDebuggerEvent event d =
    bindr (item_string event ''type'') (\<lambda>type.
    bindr (item_string event ''name'') (\<lambda>name.
    bindr (item_int event ''seqnum'') (\<lambda>seqnum.
    bindr (if type = ''invoke'' then Inr (handle_invoke seqnum name d)
           else if type = ''return'' then bindr (get_item event ''returnval'') (\<lambda>returnval_obj.
             Inr (handle_return seqnum name returnval_obj d))
           else Inr (eprintf (''Unexpected event type '' @ [CHR 0x27] @ type @ [CHR 0x27]) d)) (\<lambda>d.
    Inr (if usingGui d then d\<lparr>tailq_events := tailq_events d @ [the event]\<rparr> else d)))))"

definition doStartDebugger :: "string option \<Rightarrow> 'a debugger_scheme \<Rightarrow> 'a debugger_scheme c_res option" where
  \<comment> \<open>the bytes of the pipe, or \<open>None\<close> where it cannot be opened\<close>
  "doStartDebugger fifo d = map_option (\<lambda>r. bindr r (\<lambda>d.
       Inr (printf ''FUSE binary detached so debugger will terminate.'' d)))
     (case fifo of None \<Rightarrow> Some (Inr d) | Some bytes \<Rightarrow> receive handleDebuggerEvent bytes d)"

subsection \<open>The table of events\<close>

definition is_inside :: "cJSON \<Rightarrow> bool" where
  "is_inside node \<longleftrightarrow> jtype node = cJSON_Array \<or> jtype node = cJSON_Object"

definition param_label :: "cJSON \<Rightarrow> string option c_res" where
  \<comment> \<open>a leaf without a name is a null pointer in \<open>strlen\<close>, and so is a leaf that cannot be printed\<close>
  "param_label item = (if is_inside item then Inr (jname item)
     else bindr (of_opt NullPointer (jname item)) (\<lambda>label.
       case cJSON_Print item of
         Inr value \<Rightarrow> Inr (Some (snprintf (length label + 2 + length value + 1) (label @ '': '' @ value)))
       | Inl NullResult \<Rightarrow> Inl NullPointer | Inl e \<Rightarrow> Inl e))"

function showParams :: "cJSON \<Rightarrow> event_row list c_res" where
  \<comment> \<open>the rows below a node; each one is put before those of the items ahead of it\<close>
  "showParams node = (if is_inside node
     then bindr (thoser (map (\<lambda>item. bindr (param_label item) (\<lambda>label.
            bindr (showParams item) (\<lambda>rs. Inr (Row 0 None label rs)))) (child node))) (\<lambda>rs. Inr (rev rs))
     else Inr [])"
  by pat_completeness auto
termination
  by (relation "measure size") (auto dest: size_child_item)

declare showParams.simps [simp del]

definition event_label :: "cJSON \<Rightarrow> string \<Rightarrow> (string \<times> cJSON) c_res" where
  \<comment> \<open>the text of the event column and the parameters; \<open>params\<close> has no value for other types\<close>
  "event_label event type =
    (if type = ''invoke'' then bindr (get_item (Some event) ''params'') (\<lambda>params. Inr (type, params))
     else if type = ''return'' then
       bindr (get_item (Some event) ''returnval'') (\<lambda>returnval_obj.
       bindr (get_item (Some event) ''modified_params'') (\<lambda>params.
         Inr (if jtype returnval_obj = cJSON_Number
              then snprintf (length type + 1 + 50) (type @ '' '' @ show_int (valueint returnval_obj)) else type, params)))
     else Inl Uninitialised)"

definition show_event :: "cJSON \<Rightarrow> 'a debugger_scheme \<Rightarrow> 'a debugger_scheme c_res" where
  "show_event event d =
    bindr (item_string (Some event) ''type'') (\<lambda>type.
    bindr (get_item (Some event) ''name'') (\<lambda>name.
    bindr (item_int (Some event) ''seqnum'') (\<lambda>seqnum.
    bindr (event_label event type) (\<lambda>(label, params).
    bindr (showParams params) (\<lambda>rs.
      Inr (updateAdvanceButtonState (d\<lparr>event_table := Row seqnum (Some label) (valuestring name) rs # event_table d\<rparr>)))))))"

fun show_events :: "cJSON list \<Rightarrow> 'a debugger_scheme \<Rightarrow> 'a debugger_scheme c_res" where
  "show_events [] d = Inr d"
| "show_events (e # es) d = bindr (show_event e d) (\<lambda>d. show_events es (d\<lparr>tailq_events := es\<rparr>))"

definition gui_idle_debugger :: "'a debugger_scheme \<Rightarrow> 'a debugger_scheme c_res" where
  \<comment> \<open>runs under the lock of the queue\<close>
  "gui_idle_debugger d = show_events (tailq_events d) d"

definition initGUIEventQueue :: "'a debugger_scheme \<Rightarrow> 'a debugger_scheme" where
  "initGUIEventQueue d = d\<lparr>tailq_events := []\<rparr>"

end
