(* ===== verification/Debugger_Props.thy ===== *)
theory Debugger_Props
  imports Debugger
begin

unbundle bit_operations_syntax

section \<open>The debugger and the calls that wait for it\<close>

text \<open>
  What each operation of the debugger does to the semaphore, the pending calls and the event table.
\<close>

subsection \<open>The operations\<close>

lemma advance_simps [simp]:
  "stepSem (advance d) = (if canAdvance d then stepSem d + 1 else stepSem d)"
  "pendingInvocations (advance d) = (if canAdvance d then pendingInvocations d - 1 else pendingInvocations d)"
  "usingGui (advance d) = usingGui d" "closing (advance d) = closing d" "autoAdvance (advance d) = autoAdvance d"
  "tailq_events (advance d) = tailq_events d" "fuse_pid (advance d) = fuse_pid d" "kills (advance d) = kills d"
  "event_table (advance d) = event_table d"
  by (simp_all add: advance_def printf_def)

lemma printf_debugger [simp]:
  "stepSem (printf l d) = stepSem d" "pendingInvocations (printf l d) = pendingInvocations d"
  "closing (printf l d) = closing d" "autoAdvance (printf l d) = autoAdvance d"
  "tailq_events (printf l d) = tailq_events d" "event_table (printf l d) = event_table d"
  "stepSem (eprintf l d) = stepSem d" "pendingInvocations (eprintf l d) = pendingInvocations d"
  "closing (eprintf l d) = closing d" "autoAdvance (eprintf l d) = autoAdvance d"
  "tailq_events (eprintf l d) = tailq_events d" "event_table (eprintf l d) = event_table d"
  by (simp_all add: printf_def eprintf_def)

lemma advancePending_effect:
  "pendingInvocations (advancePending d) = min (pendingInvocations d) 0
   \<and> stepSem (advancePending d) = stepSem d + nat (pendingInvocations d)
   \<and> usingGui (advancePending d) = usingGui d \<and> closing (advancePending d) = closing d
   \<and> autoAdvance (advancePending d) = autoAdvance d \<and> tailq_events (advancePending d) = tailq_events d
   \<and> fuse_pid (advancePending d) = fuse_pid d \<and> kills (advancePending d) = kills d
   \<and> event_table (advancePending d) = event_table d"
proof (induction d rule: advancePending.induct)
  case (1 d)
  show ?case
  proof (cases "canAdvance d")
    case True
    then have "Suc (stepSem d + nat (pendingInvocations d - 1)) = stepSem d + nat (pendingInvocations d)"
      by (auto simp: canAdvance_def)
    then show ?thesis using 1 True by (subst (1 2 3 4 5 6 7 8 9) advancePending.simps) (auto simp: canAdvance_def)
  next
    case False
    then show ?thesis by (subst (1 2 3 4 5 6 7 8 9) advancePending.simps) (auto simp: canAdvance_def)
  qed
qed

lemmas advancePending_simps [simp] = advancePending_effect [THEN conjunct1]
  advancePending_effect [THEN conjunct2, THEN conjunct1]
  advancePending_effect [THEN conjunct2, THEN conjunct2, THEN conjunct1]

lemma advancePending_keeps [simp]:
  "closing (advancePending d) = closing d" "autoAdvance (advancePending d) = autoAdvance d"
  "tailq_events (advancePending d) = tailq_events d" "fuse_pid (advancePending d) = fuse_pid d"
  "kills (advancePending d) = kills d" "event_table (advancePending d) = event_table d"
  using advancePending_effect [of d] by blast+

definition enqueue :: "cJSON \<Rightarrow> 'a debugger_scheme \<Rightarrow> 'a debugger_scheme" where
  "enqueue e d = (if usingGui d then d\<lparr>tailq_events := tailq_events d @ [e]\<rparr> else d)"

lemma handle_invoke_event:
  "is_int n \<Longrightarrow> handleDebuggerEvent (Some (canon nm (invoke_event name n p))) d
     = Inr (enqueue (canon nm (invoke_event name n p)) (handle_invoke n (cstr name) d))"
  by (simp add: handleDebuggerEvent_def event_fields enqueue_def)

lemma handle_return_event:
  "is_int n \<Longrightarrow> handleDebuggerEvent (Some (canon nm (return_event name n rv p))) d
     = Inr (enqueue (canon nm (return_event name n rv p)) (handle_return n (cstr name)
         (canon (Some ''returnval'') (case rv of Some r \<Rightarrow> cJSON_CreateNumber (dbl_of_int r) | None \<Rightarrow> cJSON_CreateNull)) d))"
  using event_items(8) [of nm name n rv p]
  by (simp add: handleDebuggerEvent_def event_fields enqueue_def)

subsection \<open>The rows of the table\<close>

function showable :: "cJSON \<Rightarrow> bool" where
  \<comment> \<open>every leaf below the item keeps a name, which the members of an array do not have\<close>
  "showable item = (let t = jtype item AND 255 in
     (t = cJSON_Array \<longrightarrow> list_all (\<lambda>c. (is_array c \<or> is_object c) \<and> showable c) (child item))
     \<and> (t = cJSON_Object \<longrightarrow> list_all (\<lambda>c. jname c \<noteq> None \<and> showable c) (child item)))"
  by pat_completeness auto
termination
  by (relation "measure size") (auto dest: size_child_item)

declare showable.simps [simp del]

lemma is_inside_canon: "is_inside (canon nm c) \<longleftrightarrow> is_array c \<or> is_object c"
  by (simp add: is_inside_def canon_fields is_array_def is_object_def)

lemma child_canon_array: "is_array c \<Longrightarrow> child (canon nm c) = map (canon None) (child c)"
  by (subst canon.simps) (simp add: is_array_def)

lemma param_label_canon:
  "wf_json c \<Longrightarrow> is_array c \<or> is_object c \<or> nm \<noteq> None \<Longrightarrow> \<exists>l. param_label (canon nm c) = Inr l"
  using wf_canon [of c nm] by (auto simp: param_label_def is_inside_canon cJSON_Print_wf)

lemma thoser_ok: "(\<And>x. x \<in> set xs \<Longrightarrow> \<exists>y. f x = Inr y) \<Longrightarrow> \<exists>ys. thoser (map f xs) = Inr ys \<and> length ys = length xs"
  by (induction xs) (simp, fastforce)

lemma wf_showable_member:
  assumes "wf_json c" "showable c" "e \<in> set (child c)" "is_array c \<or> is_object c"
  shows "wf_json e" "showable e" "is_array c \<Longrightarrow> is_array e \<or> is_object e" "is_object c \<Longrightarrow> jname e \<noteq> None"
  using assms unfolding wf_json.simps [of c] showable.simps [of c] is_array_def is_object_def Let_def list_all_iff
  by blast+

lemma showParams_canon: "wf_json c \<Longrightarrow> showable c \<Longrightarrow> \<exists>rs. showParams (canon nm c) = Inr rs"
proof (induction c arbitrary: nm rule: measure_induct_rule [of size])
  case (less c)
  have row: "\<exists>r. bindr (param_label d) (\<lambda>label. bindr (showParams d) (\<lambda>rs. Inr (Row 0 None label rs))) = Inr r"
    if c: "is_array c \<or> is_object c" and d: "d \<in> set (child (canon nm c))" for d
  proof -
    from d c obtain e where e: "e \<in> set (child c)" "d = canon (if is_array c then None else jname e) e"
      by (cases "is_array c") (auto simp: child_canon_array child_canon_object)
    note m = wf_showable_member [OF less.prems e(1) c]
    have "is_array e \<or> is_object e \<or> (if is_array c then None else jname e) \<noteq> None" using m(3,4) c by auto
    from param_label_canon [OF m(1) this] less.IH [OF size_child_item [OF e(1)] m(1,2)] show ?thesis
      unfolding e(2) by (metis bindr_simps(2))
  qed
  show ?case
    using thoser_ok [of "child (canon nm c)" "\<lambda>d. bindr (param_label d) (\<lambda>label. bindr (showParams d) (\<lambda>rs. Inr (Row 0 None label rs)))"] row
    by (subst showParams.simps) (auto simp: is_inside_canon)
qed

lemma show_invoke_event:
  assumes "is_int n" "showParams (canon (Some ''params'') p) = Inr rs"
  shows "show_event (canon nm (invoke_event name n p)) d = Inr (updateAdvanceButtonState
    (d\<lparr>event_table := Row n (Some ''invoke'') (Some (cstr name)) rs # event_table d\<rparr>))"
  using assms event_items(2,4) [of nm name n p]
  by (simp add: show_event_def event_fields event_label_def canon_fields)

lemma show_return_event:
  assumes "is_int n" "pred_option is_int rv" "showParams (canon (Some ''modified_params'') p) = Inr rs"
  shows "show_event (canon nm (return_event name n rv p)) d = Inr (updateAdvanceButtonState
    (d\<lparr>event_table := Row n (Some (case rv of Some r \<Rightarrow> ''return '' @ show_int r | None \<Rightarrow> ''return''))
       (Some (cstr name)) rs # event_table d\<rparr>))"
proof -
  have "length (show_int r) \<le> 11" if "rv = Some r" for r
  proof -
    have "is_int r" using that assms(2) by simp
    then show ?thesis using length_show_int [of r 10] by (simp add: is_int_def abs_if split: if_splits)
  qed
  then show ?thesis
    using assms event_items(6,8,9) [of nm name n rv p]
    by (cases rv) (simp_all add: show_event_def event_fields event_label_def canon_fields)
qed

end
