(* ===== verification/Debug_Session.thy ===== *)
theory Debug_Session
  imports Debugger_Props
begin

section \<open>A debugging session\<close>

text \<open>
  A mounted file system and the debugger as one system. The wrapped calls run on the threads of
  the library: a call writes its first event and blocks in \<open>sem_wait\<close> (\<open>report_fs_call\<close> of
  \<^verbatim>\<open>src/libfuse/lib/fuse.c\<close>), goes on when it gets the semaphore, and writes its second event. The
  reader thread of the debugger takes the events in the order they were written, as
  \<open>reader_delivers_events\<close> allows; the GUI thread runs the handlers of the buttons and the idle
  function. Any of them may take the next step.
\<close>

datatype call_event = Invoke string int cJSON | Return string int "int option" cJSON

primrec event_json :: "call_event \<Rightarrow> cJSON" where
  "event_json (Invoke name n p) = invoke_event name n p"
| "event_json (Return name n rv p) = return_event name n rv p"

primrec event_ok :: "call_event \<Rightarrow> bool" where
  \<comment> \<open>the tree of the parameters can be written and shown, the numbers are of type \<open>int\<close>\<close>
  "event_ok (Invoke name n p) = (is_int n \<and> wf_json p \<and> showable p)"
| "event_ok (Return name n rv p) = (is_int n \<and> pred_option is_int rv \<and> wf_json p \<and> showable p)"

record session =
  dbg :: debugger
  in_pipe :: "call_event list"
  waiting :: "(string \<times> int) list"
  running :: "(string \<times> int) list"
  call_number :: int

definition thread_limit :: nat where "thread_limit = 2147483646"

datatype action = CallStarts string cJSON | CallProceeds | CallReturns "int option" cJSON
  | Deliver | Click | Toggle bool | Idle | Stop

inductive session_step :: "session \<Rightarrow> action \<Rightarrow> session \<Rightarrow> bool" where
  starts: "event_ok (Invoke name (call_number s) p) \<Longrightarrow> length (waiting s) \<le> thread_limit
    \<Longrightarrow> session_step s (CallStarts name p) (s\<lparr>in_pipe := in_pipe s @ [Invoke name (call_number s) p],
          waiting := waiting s @ [(name, call_number s)], call_number := wrap32 (call_number s + 1)\<rparr>)"
| proceeds: "0 < stepSem (dbg s) \<Longrightarrow> waiting s = xs @ c # ys
    \<Longrightarrow> session_step s CallProceeds (s\<lparr>dbg := (dbg s)\<lparr>stepSem := stepSem (dbg s) - 1\<rparr>,
          waiting := xs @ ys, running := running s @ [c]\<rparr>)"
| returns: "running s = xs @ (name, n) # ys \<Longrightarrow> event_ok (Return name n rv p)
    \<Longrightarrow> session_step s (CallReturns rv p) (s\<lparr>in_pipe := in_pipe s @ [Return name n rv p], running := xs @ ys\<rparr>)"
| deliver: "in_pipe s = e # es \<Longrightarrow> handleDebuggerEvent (Some (canon None (event_json e))) (dbg s) = Inr d
    \<Longrightarrow> session_step s Deliver (s\<lparr>dbg := d, in_pipe := es\<rparr>)"
| click: "session_step s Click (s\<lparr>dbg := advance_btn_handler (dbg s)\<rparr>)"
| toggle: "session_step s (Toggle b) (s\<lparr>dbg := autoadvance_btn_handler b (dbg s)\<rparr>)"
| idle: "gui_idle_debugger (dbg s) = Inr d \<Longrightarrow> session_step s Idle (s\<lparr>dbg := d\<rparr>)"
| stop: "session_step s Stop (s\<lparr>dbg := stopDebugger (dbg s)\<rparr>)"

inductive_cases session_stepE: "session_step s a s'"
inductive_simps session_step_proceeds [simp]: "session_step s CallProceeds s'"
inductive_simps session_step_click [simp]: "session_step s Click s'"

inductive session_run :: "session \<Rightarrow> action list \<Rightarrow> session \<Rightarrow> bool" where
  run_Nil: "session_run s [] s"
| run_snoc: "session_run s as s' \<Longrightarrow> session_step s' a s'' \<Longrightarrow> session_run s (as @ [a]) s''"

definition started :: "debugger \<Rightarrow> int \<Rightarrow> session" where
  \<comment> \<open>the session that \<open>startDebugger\<close> begins\<close>
  "started d n = \<lparr>dbg = snd (startDebugger d), in_pipe = [], waiting = [], running = [], call_number = n\<rparr>"

subsection \<open>The invariant\<close>

primrec is_Invoke :: "call_event \<Rightarrow> bool" where
  "is_Invoke (Invoke _ _ _) = True"
| "is_Invoke (Return _ _ _ _) = False"

abbreviation invokes :: "call_event list \<Rightarrow> nat" where
  "invokes es \<equiv> length (filter is_Invoke es)"

definition released :: "'a debugger_scheme \<Rightarrow> bool" where
  \<comment> \<open>the debugger does not stop at calls\<close>
  "released d \<longleftrightarrow> closing d \<or> autoAdvance d \<or> \<not> usingGui d"

definition balanced :: "session \<Rightarrow> bool" where
  "balanced s \<longleftrightarrow> 0 \<le> pendingInvocations (dbg s)
     \<and> int (stepSem (dbg s)) + pendingInvocations (dbg s) + int (invokes (in_pipe s)) = int (length (waiting s))
     \<and> length (waiting s) \<le> Suc thread_limit
     \<and> (released (dbg s) \<longrightarrow> pendingInvocations (dbg s) = 0)"

definition events_ok :: "session \<Rightarrow> bool" where
  "events_ok s \<longleftrightarrow> is_int (call_number s) \<and> list_all event_ok (in_pipe s)
     \<and> (\<forall>q \<in> set (tailq_events (dbg s)). \<exists>e. event_ok e \<and> q = canon None (event_json e))"

lemma handle_invoke_effect:
  assumes "0 \<le> pendingInvocations d" "pendingInvocations d < INT_MAX" "released d \<longrightarrow> pendingInvocations d = 0"
  shows "pendingInvocations (handle_invoke n name d) = (if released d then 0 else pendingInvocations d + 1)"
    "stepSem (handle_invoke n name d) = (if released d then stepSem d + 1 else stepSem d)"
    "released (handle_invoke n name d) = released d" "tailq_events (handle_invoke n name d) = tailq_events d"
    "usingGui (handle_invoke n name d) = usingGui d"
proof -
  have "is_int (pendingInvocations d + 1)" using assms(1,2) by (simp add: is_int_def)
  then show "pendingInvocations (handle_invoke n name d) = (if released d then 0 else pendingInvocations d + 1)"
    "stepSem (handle_invoke n name d) = (if released d then stepSem d + 1 else stepSem d)"
    using assms by (auto simp: handle_invoke_def Let_def released_def waitToAdvance_def canAdvance_def)
qed (simp_all add: handle_invoke_def Let_def released_def waitToAdvance_def)

lemma handle_return_effect:
  "pendingInvocations (handle_return n name r d) = pendingInvocations d" "stepSem (handle_return n name r d) = stepSem d"
  "released (handle_return n name r d) = released d" "tailq_events (handle_return n name r d) = tailq_events d"
  "usingGui (handle_return n name r d) = usingGui d"
  by (simp_all add: handle_return_def released_def)

lemma enqueue_effect [simp]:
  "pendingInvocations (enqueue e d) = pendingInvocations d" "stepSem (enqueue e d) = stepSem d"
  "released (enqueue e d) = released d" "usingGui (enqueue e d) = usingGui d"
  "tailq_events (enqueue e d) = (if usingGui d then tailq_events d @ [e] else tailq_events d)"
  by (simp_all add: enqueue_def released_def)

text \<open>Delivering an event never fails, and moves a call from the pipe to the pending ones or on.\<close>

lemma deliver_effect:
  assumes "event_ok e" "0 \<le> pendingInvocations d" "is_Invoke e \<longrightarrow> pendingInvocations d < INT_MAX"
    "released d \<longrightarrow> pendingInvocations d = 0"
  shows "\<exists>d'. handleDebuggerEvent (Some (canon None (event_json e))) d = Inr d' \<and> released d' = released d
    \<and> pendingInvocations d' = pendingInvocations d + (if is_Invoke e \<and> \<not> released d then 1 else 0)
    \<and> stepSem d' = stepSem d + (if is_Invoke e \<and> released d then 1 else 0)
    \<and> usingGui d' = usingGui d
    \<and> tailq_events d' = (if usingGui d then tailq_events d @ [canon None (event_json e)] else tailq_events d)"
proof (cases e)
  case (Invoke name n p)
  then show ?thesis using assms handle_invoke_effect [of d] by (simp add: handle_invoke_event)
next
  case (Return name n rv p)
  then show ?thesis using assms
    by (simp add: handle_return_event handle_return_effect)
qed

definition row_head :: "event_row \<Rightarrow> int \<times> string option \<times> string option" where
  "row_head r = (cell_seqnum r, cell_event r, cell_func r)"

primrec event_head :: "call_event \<Rightarrow> int \<times> string option \<times> string option" where
  "event_head (Invoke name n p) = (n, Some ''invoke'', Some (cstr name))"
| "event_head (Return name n rv p) = (n, Some (case rv of Some r \<Rightarrow> ''return '' @ show_int r | None \<Rightarrow> ''return''),
     Some (cstr name))"

lemma show_event_effect:
  assumes "event_ok e"
  shows "\<exists>row. show_event (canon None (event_json e)) d
    = Inr (updateAdvanceButtonState (d\<lparr>event_table := row # event_table d\<rparr>)) \<and> row_head row = event_head e"
proof (cases e)
  case (Invoke name n p)
  then obtain rs where "showParams (canon (Some ''params'') p) = Inr rs"
    using assms showParams_canon by fastforce
  then show ?thesis using assms Invoke by (auto simp: show_invoke_event row_head_def)
next
  case (Return name n rv p)
  then obtain rs where "showParams (canon (Some ''modified_params'') p) = Inr rs"
    using assms showParams_canon by fastforce
  then show ?thesis using assms Return show_return_event [of n rv p rs None name d] by (auto simp: row_head_def)
qed

lemma show_events_effect:
  "(\<forall>q \<in> set qs. \<exists>e. event_ok e \<and> q = canon None (event_json e))
   \<Longrightarrow> \<exists>d'. show_events qs d = Inr d' \<and> released d' = released d \<and> usingGui d' = usingGui d
     \<and> pendingInvocations d' = pendingInvocations d \<and> stepSem d' = stepSem d
     \<and> length (event_table d') = length (event_table d) + length qs
     \<and> tailq_events d' = (if qs = [] then tailq_events d else [])
     \<and> (qs \<noteq> [] \<longrightarrow> advance_sensitive d' = canAdvance d')"
proof (induction qs arbitrary: d)
  case (Cons q qs)
  then obtain e where e: "event_ok e" "q = canon None (event_json e)" by auto
  obtain row where "show_event q d = Inr (updateAdvanceButtonState (d\<lparr>event_table := row # event_table d\<rparr>))"
    using show_event_effect [OF e(1)] e(2) by blast
  moreover obtain d' where "show_events qs (updateAdvanceButtonState (d\<lparr>event_table := row # event_table d\<rparr>)\<lparr>tailq_events := qs\<rparr>) = Inr d'
     \<and> released d' = released d \<and> usingGui d' = usingGui d
     \<and> pendingInvocations d' = pendingInvocations d \<and> stepSem d' = stepSem d
     \<and> length (event_table d') = length (event_table d) + 1 + length qs
     \<and> tailq_events d' = [] \<and> (qs \<noteq> [] \<longrightarrow> advance_sensitive d' = canAdvance d')"
    using Cons.IH [of "updateAdvanceButtonState (d\<lparr>event_table := row # event_table d\<rparr>)\<lparr>tailq_events := qs\<rparr>"] Cons.prems
    by (auto simp: updateAdvanceButtonState_def released_def split: if_splits)
  ultimately show ?case by (cases qs) (auto simp: updateAdvanceButtonState_def canAdvance_def)
qed simp

lemma idle_effect:
  assumes "events_ok s"
  shows "\<exists>d. gui_idle_debugger (dbg s) = Inr d \<and> released d = released (dbg s) \<and> usingGui d = usingGui (dbg s)
     \<and> pendingInvocations d = pendingInvocations (dbg s) \<and> stepSem d = stepSem (dbg s)
     \<and> length (event_table d) = length (event_table (dbg s)) + length (tailq_events (dbg s)) \<and> tailq_events d = []
     \<and> (tailq_events (dbg s) \<noteq> [] \<longrightarrow> advance_sensitive d = canAdvance d)"
  using assms show_events_effect [of "tailq_events (dbg s)" "dbg s"]
  by (auto simp: gui_idle_debugger_def events_ok_def split: if_splits)

lemma stopDebugger_effect [simp]:
  "pendingInvocations (stopDebugger d) = min (pendingInvocations d) 0"
  "stepSem (stopDebugger d) = stepSem d + nat (pendingInvocations d)"
  "released (stopDebugger d)" "usingGui (stopDebugger d) = usingGui d" "tailq_events (stopDebugger d) = tailq_events d"
  "fuse_pid (stopDebugger d) = 0"
  by (simp_all add: stopDebugger_def Let_def released_def kill_def setFusePID_def printf_def)

lemma toggle_effect [simp]:
  "pendingInvocations (autoadvance_btn_handler b d) = min (pendingInvocations d) 0"
  "stepSem (autoadvance_btn_handler b d) = stepSem d + nat (pendingInvocations d)"
  "tailq_events (autoadvance_btn_handler b d) = tailq_events d"
  by (simp_all add: autoadvance_btn_handler_def updateAdvanceButtonState_def)

lemma released_simps [simp]:
  "released (d\<lparr>stepSem := x\<rparr>) = released d" "released (advance d) = released d"
  by (simp_all add: released_def)

lemma deliver_session:
  assumes "balanced s" "events_ok s" "in_pipe s = e # es"
  shows "\<exists>d. handleDebuggerEvent (Some (canon None (event_json e))) (dbg s) = Inr d \<and> released d = released (dbg s)
    \<and> pendingInvocations d = pendingInvocations (dbg s) + (if is_Invoke e \<and> \<not> released (dbg s) then 1 else 0)
    \<and> stepSem d = stepSem (dbg s) + (if is_Invoke e \<and> released (dbg s) then 1 else 0)
    \<and> usingGui d = usingGui (dbg s)
    \<and> tailq_events d = (if usingGui (dbg s) then tailq_events (dbg s) @ [canon None (event_json e)] else tailq_events (dbg s))"
  using assms by (intro deliver_effect) (auto simp: balanced_def events_ok_def thread_limit_def)

lemma session_step_ok:
  assumes "session_step s a s'" "balanced s" "events_ok s"
  shows "balanced s' \<and> events_ok s'"
  using assms
proof (cases rule: session_step.cases)
  case (deliver e es d)
  then show ?thesis using assms(2,3) deliver_session [OF assms(2,3) deliver(3)]
    by (auto simp: balanced_def events_ok_def)
next
  case (idle d)
  then show ?thesis using assms idle_effect [OF assms(3)] by (auto simp: balanced_def events_ok_def)
qed (auto simp: balanced_def events_ok_def advance_btn_handler_def canAdvance_def)

lemma session_run_ok:
  "session_run s as s' \<Longrightarrow> balanced s \<Longrightarrow> events_ok s \<Longrightarrow> balanced s' \<and> events_ok s'"
  by (induction rule: session_run.induct) (auto dest: session_step_ok)

definition startable :: "debugger \<Rightarrow> int \<Rightarrow> bool" where
  "startable d n \<longleftrightarrow> pendingInvocations d = 0 \<and> tailq_events d = [] \<and> is_int n"

lemma started_ok: "startable d n \<Longrightarrow> balanced (started d n) \<and> events_ok (started d n)"
  by (simp add: startable_def started_def startDebugger_def balanced_def events_ok_def)

subsection \<open>Runs\<close>

lemma session_run_append: "session_run s' bs s'' \<Longrightarrow> session_run s as s' \<Longrightarrow> session_run s (as @ bs) s''"
proof (induction rule: session_run.induct)
  case (run_snoc s' bs t b t')
  from session_run.run_snoc [OF run_snoc.IH [OF run_snoc.prems] run_snoc.hyps(2)] show ?case by simp
qed simp

lemma session_run_one: "session_step s a s' \<Longrightarrow> session_run s [a] s'"
  using run_snoc [OF run_Nil] by fastforce

lemma session_run_Cons: "session_step s a s' \<Longrightarrow> session_run s' as s'' \<Longrightarrow> session_run s (a # as) s''"
  using session_run_append [of s' as s'' s "[a]"] session_run_one by fastforce





definition user_free :: "action list \<Rightarrow> bool" where
  "user_free as \<longleftrightarrow> Stop \<notin> set as \<and> Toggle True \<notin> set as \<and> Toggle False \<notin> set as"

lemma stepping_step:
  assumes "session_step s a s'" "balanced s" "events_ok s" "\<not> released (dbg s)" "user_free [a]"
  shows "\<not> released (dbg s') \<and> stepSem (dbg s') + (if a = CallProceeds then 1 else 0)
    \<le> stepSem (dbg s) + (if a = Click then 1 else 0)"
  using assms
proof (cases rule: session_step.cases)
  case (deliver e es d)
  then show ?thesis using deliver_session [OF assms(2,3) deliver(3)] assms(4) by auto
next
  case (idle d)
  then show ?thesis using idle_effect [OF assms(3)] assms(4) by auto
next
  case (toggle b)
  then show ?thesis using assms(5) by (cases b) (auto simp: user_free_def)
qed (auto simp: user_free_def advance_btn_handler_def)

lemma stepping_run:
  "session_run s as s' \<Longrightarrow> balanced s \<Longrightarrow> events_ok s \<Longrightarrow> \<not> released (dbg s) \<Longrightarrow> user_free as
   \<Longrightarrow> \<not> released (dbg s') \<and> stepSem (dbg s') + count_list as CallProceeds \<le> stepSem (dbg s) + count_list as Click"
proof (induction rule: session_run.induct)
  case (run_snoc s as s' a s'')
  have "user_free as" "user_free [a]" using run_snoc.prems(4) by (auto simp: user_free_def)
  moreover have "balanced s'" "events_ok s'" using session_run_ok [OF run_snoc.hyps(1)] run_snoc.prems by auto
  ultimately show ?case using run_snoc.IH run_snoc.prems stepping_step [OF run_snoc.hyps(2)] by fastforce
qed simp

subsection \<open>An example\<close>

definition demo_dbg :: "bool \<Rightarrow> debugger" where
  "demo_dbg gui = \<lparr>abs_libpath = ''/lib'', bin_path = ''.'', usingGui = gui, terminate_calls = 0, fuse_pid = 42,
     stopToolFunction = Some Debugger_tool, fs_mounted = True, shared_error = [], fsigs = None, resources = None,
     skipped_tests = None, test_data_file = None, start_sensitive = False, stop_sensitive = True, stdout = [],
     stderr = [], kills = [], dialogs = [], exited = None, pendingInvocations = 0, autoAdvance = False,
     closing = False, stepSem = 0, stdin = [], tailq_events = [], event_table = [], advance_sensitive = False\<rparr>"

lemma demo_startable: "startable (demo_dbg gui) 0" "usingGui (demo_dbg gui) = gui" "\<not> autoAdvance (demo_dbg gui)"
  by (simp_all add: startable_def demo_dbg_def is_int_def)

lemma showable_empty [simp]: "showable cJSON_CreateObject"
  by (subst showable.simps) simp

lemma demo_start:
  "\<exists>s. session_run (started (demo_dbg gui) 0) [CallStarts ''getattr'' cJSON_CreateObject] s
     \<and> in_pipe s = [Invoke ''getattr'' 0 cJSON_CreateObject] \<and> waiting s = [(''getattr'', 0)]"
proof -
  let ?s = "started (demo_dbg gui) 0"
  have "session_step ?s (CallStarts ''getattr'' cJSON_CreateObject) (?s\<lparr>in_pipe := in_pipe ?s @ [Invoke ''getattr'' 0 cJSON_CreateObject],
      waiting := waiting ?s @ [(''getattr'', 0)], call_number := wrap32 (0 + 1)\<rparr>)"
    using session_step.starts [of "''getattr''" ?s cJSON_CreateObject] by (simp add: started_def is_int_def)
  from session_run_one [OF this] show ?thesis by (auto simp: started_def)
qed

subsection \<open>Properties\<close>

lemma show_events_rows:
  "list_all event_ok es \<Longrightarrow> \<exists>d'. show_events (map (\<lambda>e. canon None (event_json e)) es) d = Inr d'
     \<and> map row_head (event_table d') = rev (map event_head es) @ map row_head (event_table d)"
proof (induction es arbitrary: d)
  case (Cons e es)
  then obtain row where "show_event (canon None (event_json e)) d
    = Inr (updateAdvanceButtonState (d\<lparr>event_table := row # event_table d\<rparr>))" "row_head row = event_head e"
    using show_event_effect by fastforce
  moreover obtain d' where "show_events (map (\<lambda>e. canon None (event_json e)) es) (updateAdvanceButtonState
      (d\<lparr>event_table := row # event_table d\<rparr>)\<lparr>tailq_events := map (\<lambda>e. canon None (event_json e)) es\<rparr>) = Inr d'"
    "map row_head (event_table d') = rev (map event_head es) @ row_head row # map row_head (event_table d)"
    using Cons.IH [of "updateAdvanceButtonState (d\<lparr>event_table := row # event_table d\<rparr>)
        \<lparr>tailq_events := map (\<lambda>e. canon None (event_json e)) es\<rparr>"] Cons.prems
    by (auto simp: updateAdvanceButtonState_def)
  ultimately show ?case by simp
qed simp



text \<open>
  C16. Stepping: with the GUI, no automatic advance and no stop, at most as many calls proceed as
  there were clicks on the advance button, semaphore posts not yet used included.
\<close>

theorem no_call_without_click:
  assumes "startable d n" "usingGui d" "\<not> autoAdvance d" "user_free as" "session_run (started d n) as s"
  shows "count_list as CallProceeds + stepSem (dbg s) \<le> count_list as Click"
proof -
  have "\<not> released (dbg (started d n))" "stepSem (dbg (started d n)) = 0"
    using assms(2,3) by (simp_all add: released_def started_def startDebugger_def)
  then show ?thesis using stepping_run [OF assms(5)] started_ok [OF assms(1)] assms(4) by simp
qed

theorem no_call_without_click_witness:
  "\<exists>s. startable (demo_dbg True) 0 \<and> usingGui (demo_dbg True) \<and> \<not> autoAdvance (demo_dbg True)
    \<and> user_free [CallStarts ''getattr'' cJSON_CreateObject]
    \<and> session_run (started (demo_dbg True) 0) [CallStarts ''getattr'' cJSON_CreateObject] s \<and> stepSem (dbg s) = 0"
proof -
  obtain s where s: "session_run (started (demo_dbg True) 0) [CallStarts ''getattr'' cJSON_CreateObject] s"
    using demo_start by blast
  have f: "user_free [CallStarts ''getattr'' cJSON_CreateObject]" by (simp add: user_free_def)
  have "usingGui (demo_dbg True)" by (simp add: demo_startable(2))
  then show ?thesis
    using no_call_without_click [OF demo_startable(1) _ demo_startable(3) f s] f s demo_startable by auto
qed



text \<open>
  C18. The table of events shows every event that was queued, newest first, with its number, its
  function and, for the return of an operation that has a result, that result; the queue is empty
  afterwards, and the advance button is active exactly when a call is pending.
\<close>

theorem gui_rows_show_events:
  assumes "list_all event_ok es" "es \<noteq> []" "tailq_events d = map (\<lambda>e. canon None (event_json e)) es"
  shows "\<exists>d'. gui_idle_debugger d = Inr d'
    \<and> map row_head (event_table d') = rev (map event_head es) @ map row_head (event_table d)
    \<and> tailq_events d' = [] \<and> advance_sensitive d' = canAdvance d'"
proof -
  have "\<forall>q \<in> set (tailq_events d). \<exists>e. event_ok e \<and> q = canon None (event_json e)"
    using assms(1,3) by (auto simp: list_all_iff)
  from show_events_effect [OF this, of d] show_events_rows [OF assms(1), of d] assms(2,3) show ?thesis
    unfolding gui_idle_debugger_def by auto
qed

definition demo_queue :: "call_event list" where
  "demo_queue = [Invoke ''mkdir'' 0 cJSON_CreateObject, Return ''mkdir'' 0 (Some 0) cJSON_CreateObject]"

theorem gui_rows_show_events_witness:
  "let d = (demo_dbg True)\<lparr>tailq_events := map (\<lambda>e. canon None (event_json e)) demo_queue\<rparr> in
    list_all event_ok demo_queue \<and> demo_queue \<noteq> [] \<and> (\<exists>d'. gui_idle_debugger d = Inr d'
    \<and> map row_head (event_table d') = [(0, Some ''return 0'', Some ''mkdir''), (0, Some ''invoke'', Some ''mkdir'')])"
proof -
  have ok: "list_all event_ok demo_queue" "demo_queue \<noteq> []" by (simp_all add: demo_queue_def is_int_def)
  have "show_int 0 = ''0''" by code_simp
  then show ?thesis
    using ok gui_rows_show_events [OF ok, of "(demo_dbg True)\<lparr>tailq_events := map (\<lambda>e. canon None (event_json e)) demo_queue\<rparr>"]
    by (auto simp: demo_queue_def demo_dbg_def cstr_def)
qed

text \<open>
  C33. Starting the debugger does not reset the count of pending invocations. Where the last file
  system died while calls were pending, one click posts the new semaphore although no call waits,
  and the next call proceeds before its event has been read.
\<close>

theorem restart_keeps_pending:
  assumes "0 < pendingInvocations d" "event_ok (Invoke name n p)"
  shows "\<exists>s. session_run (started d n) [Click, CallStarts name p, CallProceeds] s
    \<and> in_pipe s = [Invoke name n p] \<and> running s = [(name, n)]"
proof -
  let ?s0 = "started d n"
  let ?s1 = "?s0\<lparr>dbg := advance_btn_handler (dbg ?s0)\<rparr>"
  let ?s2 = "?s1\<lparr>in_pipe := [Invoke name n p], waiting := [(name, n)], call_number := wrap32 (n + 1)\<rparr>"
  let ?s3 = "?s2\<lparr>dbg := (dbg ?s2)\<lparr>stepSem := stepSem (dbg ?s2) - 1\<rparr>, waiting := [], running := [(name, n)]\<rparr>"
  have 1: "session_step ?s0 Click ?s1" by (rule session_step.click)
  have 2: "session_step ?s1 (CallStarts name p) ?s2"
    using session_step.starts [of name ?s1 p] assms(2) by (simp add: started_def)
  have "stepSem (dbg ?s2) = 1"
    using assms(1) by (simp add: started_def startDebugger_def advance_btn_handler_def canAdvance_def)
  then have 3: "session_step ?s2 CallProceeds ?s3"
    using session_step.proceeds [of ?s2 "[]" "(name, n)" "[]"] by (simp add: started_def)
  show ?thesis
    using session_run_Cons [OF 1 session_run_Cons [OF 2 session_run_one [OF 3]]] by (intro exI [of _ ?s3]) simp
qed

theorem restart_keeps_pending_witness:
  "let d = (demo_dbg True)\<lparr>pendingInvocations := 1\<rparr> in 0 < pendingInvocations d
    \<and> event_ok (Invoke ''getattr'' 0 cJSON_CreateObject)
    \<and> (\<exists>s. session_run (started d 0) [Click, CallStarts ''getattr'' cJSON_CreateObject, CallProceeds] s
         \<and> in_pipe s = [Invoke ''getattr'' 0 cJSON_CreateObject] \<and> running s = [(''getattr'', 0)])"
proof -
  have "event_ok (Invoke ''getattr'' 0 cJSON_CreateObject)" by (simp add: is_int_def)
  from restart_keeps_pending [OF _ this, of "(demo_dbg True)\<lparr>pendingInvocations := 1\<rparr>"] this show ?thesis by simp
qed

end
