(* ===== verification/Refinement.thy ===== *)
theory Refinement
  imports Framing
begin

section \<open>Refinement of a component by its code\<close>

text \<open>
  The contract between the functions of a component and an abstract machine it implements: every
  action the code performs from a related state ends without error in a related state. The lemmas
  lift the contract to sequences of actions.
\<close>

fun run_actions :: "('x \<Rightarrow> 'c \<Rightarrow> 'c c_res) \<Rightarrow> 'x list \<Rightarrow> 'c \<Rightarrow> 'c c_res" where
  "run_actions step [] c = Inr c"
| "run_actions step (x # xs) c = bindr (step x c) (run_actions step xs)"

lemma run_actions_append [simp]:
  "run_actions step (xs @ ys) c = bindr (run_actions step xs c) (run_actions step ys)"
proof (induction xs arbitrary: c)
  case (Cons x xs)
  then show ?case by (cases "step x c") simp_all
qed simp

lemma bindr_InrE:
  assumes "bindr r f = Inr y"
  obtains x where "r = Inr x" "f x = Inr y"
  using assms by (cases r) simp_all

lemma feed_append: "feed h (xs @ ys) st = bindr (feed h xs st) (feed h ys)"
proof (induction xs arbitrary: st)
  case (Cons x xs)
  then show ?case by (cases "h (Some x) st") auto
qed simp

locale simulation =
  fixes spec :: "'x \<Rightarrow> 'a \<Rightarrow> 'a"
    and code :: "'x \<Rightarrow> 'c \<Rightarrow> 'c c_res"
    and rel :: "'a \<Rightarrow> 'c \<Rightarrow> bool"
    and ok :: "'x \<Rightarrow> 'a \<Rightarrow> bool"
  assumes sim_step: "rel a c \<Longrightarrow> ok x a \<Longrightarrow> \<exists>c'. code x c = Inr c' \<and> rel (spec x a) c'"
begin

primrec all_ok :: "'x list \<Rightarrow> 'a \<Rightarrow> bool" where
  "all_ok [] a \<longleftrightarrow> True"
| "all_ok (x # xs) a \<longleftrightarrow> ok x a \<and> all_ok xs (spec x a)"

lemma sim_run:
  "rel a c \<Longrightarrow> all_ok xs a \<Longrightarrow> \<exists>c'. run_actions code xs c = Inr c' \<and> rel (fold spec xs a) c'"
proof (induction xs arbitrary: a c)
  case (Cons x xs)
  then obtain c1 where "code x c = Inr c1" "rel (spec x a) c1" using sim_step by fastforce
  with Cons.IH [of "spec x a" c1] Cons.prems(2) show ?case by simp
qed simp

lemma all_ok_static: "(\<And>x a. x \<in> set xs \<Longrightarrow> ok x a) \<Longrightarrow> all_ok xs a"
  by (induction xs arbitrary: a) auto

end

end
