(* ===== verification/Wrapper_Debugger.thy ===== *)
theory Wrapper_Debugger
  imports Debug_Session Refinement
begin

unbundle bit_operations_syntax

section \<open>From the wrapped call to the debugger\<close>

text \<open>
  The two ends of the pipe together: what the wrappers of \<^verbatim>\<open>src/libfuse/lib/fuse.c\<close> write is what the
  debugger of \<^verbatim>\<open>src/debugger.c\<close> reads. The strings of a call are \<open>plain\<close> where none of them ends with
  a backslash, which the reader of the pipe does not get past.
\<close>

subsection \<open>Plain calls\<close>

definition plain_opt :: "string option \<Rightarrow> bool" where
  "plain_opt s \<longleftrightarrow> pred_option plain s"

primrec call_plain :: "fuse_call \<Rightarrow> bool" where
  "call_plain (C_getattr path s) = (plain_opt path)"
| "call_plain (C_readlink path lnk sz bytes) = (plain_opt path)"
| "call_plain (C_getdir path b c) = (plain_opt path)"
| "call_plain (C_mknod path md dev) = (plain_opt path)"
| "call_plain (C_mkdir path md) = (plain_opt path)"
| "call_plain (C_unlink path) = (plain_opt path)"
| "call_plain (C_rmdir path) = (plain_opt path)"
| "call_plain (C_symlink path lnk) = (plain_opt path \<and> plain_opt lnk)"
| "call_plain (C_rename path newpath) = (plain_opt path \<and> plain_opt newpath)"
| "call_plain (C_link path newpath) = (plain_opt path \<and> plain_opt newpath)"
| "call_plain (C_chmod path md) = (plain_opt path)"
| "call_plain (C_chown path uid gid) = (plain_opt path)"
| "call_plain (C_truncate path newsize) = (plain_opt path)"
| "call_plain (C_utime path ubuf) = (plain_opt path)"
| "call_plain (C_open path fi) = (plain_opt path)"
| "call_plain (C_read path bytes sz offset fi) = (plain_opt path)"
| "call_plain (C_write path bf sz offset fi) = (plain_opt path \<and> plain (take (nat sz) bf))"
| "call_plain (C_statfs path statvfs) = (plain_opt path)"
| "call_plain (C_flush path fi) = (plain_opt path)"
| "call_plain (C_release path fi) = (plain_opt path)"
| "call_plain (C_fsync path datasync fi) = (plain_opt path)"
| "call_plain (C_setxattr path name vl sz flg) = (plain_opt path \<and> plain_opt name \<and> plain vl)"
| "call_plain (C_getxattr path name vl sz bytes) = (plain_opt path \<and> plain_opt name)"
| "call_plain (C_listxattr path lst sz bytes) = (plain_opt path)"
| "call_plain (C_removexattr path name) = (plain_opt path \<and> plain_opt name)"
| "call_plain (C_opendir path fi) = (plain_opt path)"
| "call_plain (C_readdir path bf fil offset fi) = (plain_opt path)"
| "call_plain (C_releasedir path fi) = (plain_opt path)"
| "call_plain (C_fsyncdir path datasync fi) = (plain_opt path)"
| "call_plain (C_init cn) = True"
| "call_plain (C_destroy ud) = True"
| "call_plain (C_access path msk) = (plain_opt path)"
| "call_plain (C_create path md fi) = (plain_opt path)"
| "call_plain (C_ftruncate path offset fi) = (plain_opt path)"
| "call_plain (C_fgetattr path s fi) = (plain_opt path)"
| "call_plain (C_lock path fi cmd flock) = (plain_opt path)"
| "call_plain (C_utimens path tv) = (plain_opt path)"
| "call_plain (C_bmap path blocksize ix) = (plain_opt path)"
| "call_plain (C_ioctl path cmd arg fi flg dat) = (plain_opt path)"
| "call_plain (C_poll path fi ph reventsp) = (plain_opt path)"
| "call_plain (C_write_buf path bf ofs fi) = (plain_opt path)"
| "call_plain (C_read_buf path bufp sz ofs fi) = (plain_opt path)"
| "call_plain (C_flock path fi lop) = (plain_opt path)"
| "call_plain (C_fallocate path md offset leng fi) = (plain_opt path)"

definition out_plain :: "fuse_out \<Rightarrow> bool" where
  "out_plain r \<longleftrightarrow> plain (o_buf r) \<and> plain (take (nat (ret r)) (o_buf r))"

fun field_plain :: "json_field \<Rightarrow> bool" where
  "field_plain (FStr k s) = (plain k \<and> (case s of Inr t \<Rightarrow> plain t | Inl _ \<Rightarrow> True))"
| "field_plain (FNum k n) = plain k"
| "field_plain (FItem k c) = (plain k \<and> frameable c \<and> showable c)"
| "field_plain (FNull k) = plain k"

subsection \<open>The objects are framed and shown\<close>

lemma showable_set_name [simp]: "showable (set_name nm c) = showable c"
  by (subst (1 2) showable.simps) simp

lemma showable_create [simp]:
  "showable cJSON_CreateArray" "showable cJSON_CreateNull" "showable (cJSON_CreateString s)"
  "showable (cJSON_CreateNumber x)"
  by (subst showable.simps, simp)+

lemma showable_add [simp]:
  "is_object a \<Longrightarrow> showable (cJSON_AddItemToObject a k c) \<longleftrightarrow> showable a \<and> showable c"
  "is_array a \<Longrightarrow> showable (cJSON_AddItemToArray a c) \<longleftrightarrow> showable a \<and> (is_array c \<or> is_object c) \<and> showable c"
  by (auto simp: showable.simps [of "cJSON_AddItemToArray a c"] showable.simps [of a]
      showable.simps [of "cJSON_AddItemToObject a k c"] is_object_def is_array_def)

lemma add_number_framed [simp]:
  "is_object obj \<Longrightarrow> frameable (cJSON_AddNumberToObject obj k n) \<longleftrightarrow> frameable obj \<and> plain k"
  "is_object obj \<Longrightarrow> showable (cJSON_AddNumberToObject obj k n) \<longleftrightarrow> showable obj"
  by (simp_all add: json_add_defs)

lemma add_numbers_framed:
  "is_object obj \<Longrightarrow> frameable obj \<Longrightarrow> showable obj \<Longrightarrow> list_all (plain \<circ> fst) kvs
   \<Longrightarrow> frameable (add_numbers obj kvs) \<and> showable (add_numbers obj kvs) \<and> is_object (add_numbers obj kvs)"
  unfolding add_numbers_def by (induction kvs arbitrary: obj) (simp_all add: split_beta)

lemma struct_framed [simp]:
  "frameable (statToJSONObject s) \<and> showable (statToJSONObject s) \<and> is_object (statToJSONObject s)"
  "frameable (fuseFileInfoToJSONObject fi) \<and> showable (fuseFileInfoToJSONObject fi) \<and> is_object (fuseFileInfoToJSONObject fi)"
  "frameable (utimbufToJSONObject u) \<and> showable (utimbufToJSONObject u) \<and> is_object (utimbufToJSONObject u)"
  "frameable (timespecToJSONObject t) \<and> showable (timespecToJSONObject t) \<and> is_object (timespecToJSONObject t)"
  "frameable (statvfsToJSONObject v) \<and> showable (statvfsToJSONObject v) \<and> is_object (statvfsToJSONObject v)"
  "frameable (fuseConnInfoToJSONObject c) \<and> showable (fuseConnInfoToJSONObject c) \<and> is_object (fuseConnInfoToJSONObject c)"
  "frameable (flockToJSONObject l) \<and> showable (flockToJSONObject l) \<and> is_object (flockToJSONObject l)"
  unfolding statToJSONObject_def fuseFileInfoToJSONObject_def utimbufToJSONObject_def
    timespecToJSONObject_def statvfsToJSONObject_def fuseConnInfoToJSONObject_def flockToJSONObject_def
  by (rule add_numbers_framed; simp add: plain_keys)+

lemma bufvec_framed [simp]: "frameable (fuseBufvecToJSONObject b) \<and> showable (fuseBufvecToJSONObject b)"
  using add_numbers_framed [of cJSON_CreateObject "[(''count'', int (bv_count b)), (''idx'', bv_idx b), (''off'', bv_off b)]"]
  by (simp add: fuseBufvec_empty plain_keys)

lemma timespecs_framed [simp]: "frameable (timespecArrayToJSONObject tv) \<and> showable (timespecArrayToJSONObject tv)"
proof -
  have "is_array a \<Longrightarrow> frameable a \<and> showable a
    \<Longrightarrow> frameable (foldl (\<lambda>obj t. cJSON_AddItemToArray obj (timespecToJSONObject t)) a tv)
      \<and> showable (foldl (\<lambda>obj t. cJSON_AddItemToArray obj (timespecToJSONObject t)) a tv)" for a
    by (induction tv arbitrary: a) auto
  then show ?thesis by (simp add: timespecArrayToJSONObject_def)
qed

lemma add_fields_framed:
  "list_all field_ok fs \<Longrightarrow> list_all field_plain fs \<Longrightarrow> is_object obj \<Longrightarrow> wf_json obj \<Longrightarrow> frameable obj \<Longrightarrow> showable obj
   \<Longrightarrow> \<exists>p. add_fields obj fs = Inr p \<and> wf_json p \<and> frameable p \<and> showable p"
proof (induction fs arbitrary: obj)
  case (Cons f fs)
  have "\<exists>q. add_field obj f = Inr q \<and> wf_json q \<and> is_object q \<and> frameable q \<and> showable q"
    using Cons.prems by (cases f) (auto simp: json_add_defs small_def split: sum.splits)
  then show ?case using Cons by auto
qed simp

lemma events_framed:
  "frameable p \<Longrightarrow> plain name \<Longrightarrow> frameable (invoke_event name n p)"
  "frameable p \<Longrightarrow> plain name \<Longrightarrow> frameable (return_event name n rv p)"
  by (auto simp: invoke_event_def return_event_def Let_def json_add_defs plain_keys split: option.splits)

subsection \<open>The events of a wrapped call\<close>

text \<open>The members of the JSON object that the wrapper of a call writes for its arguments.\<close>

primrec call_params :: "fuse_call \<Rightarrow> json_field list" where
  "call_params (C_getattr path s) = [FStr ''path'' (c_str path), FItem ''stat'' (statToJSONObject s)]"
| "call_params (C_readlink path lnk sz bytes) = [FStr ''path'' (c_str path), FNum ''link'' lnk, FNum ''size'' sz]"
| "call_params (C_getdir path b c) = [FStr ''path'' (c_str path)]"
| "call_params (C_mknod path md dev) = [FStr ''path'' (c_str path), FNum ''mode'' md, FNum ''dev'' dev]"
| "call_params (C_mkdir path md) = [FStr ''path'' (c_str path), FNum ''mode'' md]"
| "call_params (C_unlink path) = [FStr ''path'' (c_str path)]"
| "call_params (C_rmdir path) = [FStr ''path'' (c_str path)]"
| "call_params (C_symlink path lnk) = [FStr ''path'' (c_str path), FStr ''link'' (c_str lnk)]"
| "call_params (C_rename path newpath) = [FStr ''path'' (c_str path), FStr ''newpath'' (c_str newpath)]"
| "call_params (C_link path newpath) = [FStr ''path'' (c_str path), FStr ''newpath'' (c_str newpath)]"
| "call_params (C_chmod path md) = [FStr ''path'' (c_str path), FNum ''mode'' md]"
| "call_params (C_chown path uid gid) = [FStr ''path'' (c_str path), FNum ''uid'' uid, FNum ''gid'' gid]"
| "call_params (C_truncate path newsize) = [FStr ''path'' (c_str path), FNum ''newsize'' newsize]"
| "call_params (C_utime path ubuf) = [FStr ''path'' (c_str path), FItem ''ubuf'' (utimbufToJSONObject ubuf)]"
| "call_params (C_open path fi) = [FStr ''path'' (c_str path), FItem ''fi'' (fuseFileInfoToJSONObject fi)]"
| "call_params (C_read path bytes sz offset fi) = [FStr ''path'' (c_str path), FNum ''size'' sz, FNum ''offset'' offset, FItem ''fi'' (fuseFileInfoToJSONObject fi)]"
| "call_params (C_write path bf sz offset fi) = [FStr ''path'' (c_str path), FStr ''buf'' (strncpy_str bf sz), FNum ''size'' sz, FNum ''offset'' offset, FItem ''fi'' (fuseFileInfoToJSONObject fi)]"
| "call_params (C_statfs path statvfs) = [FStr ''path'' (c_str path), FItem ''statvfs'' (statvfsToJSONObject statvfs)]"
| "call_params (C_flush path fi) = [FStr ''path'' (c_str path), FItem ''fi'' (fuseFileInfoToJSONObject fi)]"
| "call_params (C_release path fi) = [FStr ''path'' (c_str path), FItem ''fi'' (fuseFileInfoToJSONObject fi)]"
| "call_params (C_fsync path datasync fi) = [FStr ''path'' (c_str path), FNum ''datasync'' datasync, FItem ''fi'' (fuseFileInfoToJSONObject fi)]"
| "call_params (C_setxattr path name vl sz flg) = [FStr ''path'' (c_str path), FStr ''name'' (c_str name), FStr ''value'' (buffer_str vl), FNum ''size'' sz, FNum ''flags'' flg]"
| "call_params (C_getxattr path name vl sz bytes) = [FStr ''path'' (c_str path), FStr ''name'' (c_str name), FNum ''value'' vl, FNum ''size'' sz]"
| "call_params (C_listxattr path lst sz bytes) = [FStr ''path'' (c_str path), FNum ''list'' lst, FNum ''size'' sz]"
| "call_params (C_removexattr path name) = [FStr ''path'' (c_str path), FStr ''name'' (c_str name)]"
| "call_params (C_opendir path fi) = [FStr ''path'' (c_str path), FItem ''fi'' (fuseFileInfoToJSONObject fi)]"
| "call_params (C_readdir path bf fil offset fi) = [FStr ''path'' (c_str path), FNum ''buf'' bf, FNum ''filler'' fil, FNum ''offset'' offset, FItem ''fi'' (fuseFileInfoToJSONObject fi)]"
| "call_params (C_releasedir path fi) = [FStr ''path'' (c_str path), FItem ''fi'' (fuseFileInfoToJSONObject fi)]"
| "call_params (C_fsyncdir path datasync fi) = [FStr ''path'' (c_str path), FNum ''datasync'' datasync, FItem ''fi'' (fuseFileInfoToJSONObject fi)]"
| "call_params (C_init cn) = [FItem ''conn'' (fuseConnInfoToJSONObject cn)]"
| "call_params (C_destroy ud) = [FNum ''userdata'' ud]"
| "call_params (C_access path msk) = [FStr ''path'' (c_str path), FNum ''mask'' msk]"
| "call_params (C_create path md fi) = [FStr ''path'' (c_str path), FNum ''mode'' md, FItem ''fi'' (fuseFileInfoToJSONObject fi)]"
| "call_params (C_ftruncate path offset fi) = [FStr ''path'' (c_str path), FNum ''offset'' offset, FItem ''fi'' (fuseFileInfoToJSONObject fi)]"
| "call_params (C_fgetattr path s fi) = [FStr ''path'' (c_str path), FItem ''stat'' (statToJSONObject s), FItem ''fi'' (fuseFileInfoToJSONObject fi)]"
| "call_params (C_lock path fi cmd flock) = [FStr ''path'' (c_str path), FItem ''fi'' (fuseFileInfoToJSONObject fi), FNum ''cmd'' cmd, FItem ''flock'' (flockToJSONObject flock)]"
| "call_params (C_utimens path tv) = [FStr ''path'' (c_str path), FItem ''tv'' (timespecArrayToJSONObject tv)]"
| "call_params (C_bmap path blocksize ix) = [FStr ''path'' (c_str path), FNum ''blocksize'' blocksize, FOpt ''idx'' ix]"
| "call_params (C_ioctl path cmd arg fi flg dat) = [FStr ''path'' (c_str path), FNum ''cmd'' cmd, FNum ''arg'' arg, FItem ''fi'' (fuseFileInfoToJSONObject fi), FNum ''flags'' flg, FNum ''data'' dat]"
| "call_params (C_poll path fi ph reventsp) = [FStr ''path'' (c_str path), FItem ''fi'' (fuseFileInfoToJSONObject fi), FNum ''ph'' ph, FOpt ''reventsp'' reventsp]"
| "call_params (C_write_buf path bf ofs fi) = [FStr ''path'' (c_str path), FItem ''buf'' (fuseBufvecToJSONObject bf), FNum ''off'' ofs, FItem ''fi'' (fuseFileInfoToJSONObject fi)]"
| "call_params (C_read_buf path bufp sz ofs fi) = [FStr ''path'' (c_str path), FNum ''bufp'' bufp, FNum ''size'' sz, FNum ''off'' ofs, FItem ''fi'' (fuseFileInfoToJSONObject fi)]"
| "call_params (C_flock path fi lop) = [FStr ''path'' (c_str path), FItem ''fi'' (fuseFileInfoToJSONObject fi), FNum ''op'' lop]"
| "call_params (C_fallocate path md offset leng fi) = [FStr ''path'' (c_str path), FNum ''mode'' md, FNum ''offset'' offset, FNum ''len'' leng, FItem ''fi'' (fuseFileInfoToJSONObject fi)]"

definition framed_events :: "json_field list \<Rightarrow> string \<Rightarrow> int \<Rightarrow> cJSON list \<Rightarrow> bool" where
  \<comment> \<open>the two events of a call, written so that they can be read back and shown\<close>
  "framed_events params name n es \<longleftrightarrow> (\<exists>p rv mp. es = [invoke_event name n p, return_event name n rv mp]
     \<and> add_fields cJSON_CreateObject params = Inr p \<and> wf_json p
     \<and> list_all sendable es \<and> showable p \<and> showable mp)"

definition framed_result :: "'u fuse_fs \<Rightarrow> json_field list \<Rightarrow> string \<Rightarrow> fuse_out \<Rightarrow> (fuse_out \<times> 'u fuse_fs) c_res \<Rightarrow> bool" where
  "framed_result fs params name r res \<longleftrightarrow> (\<exists>fs' es. res = Inr (r, fs') \<and> framed_events params name (next_seqnum fs) es
     \<and> debugFifo fs' = debugFifo fs @ concat (map (json_text True 0) es))"

lemma wrapper_call_framed:
  assumes "list_all field_ok params" "list_all field_plain params" "has_op (ops fs) name" "small (next_seqnum fs)" "plain name"
    and "run_op (ops fs) call (user_data fs) = (r, u)" "fdt_debug_mode fs"
    and "list_all field_ok (modified r)" "list_all field_plain (modified r)" "returns \<longrightarrow> small (ret r)"
  shows "framed_result fs params name r (wrapper_call fs name params call returns modified)"
proof -
  obtain p where p: "add_fields cJSON_CreateObject params = Inr p" "wf_json p" "frameable p" "showable p"
    using add_fields_framed [OF assms(1,2), of cJSON_CreateObject] by auto
  obtain mp where mp: "add_fields cJSON_CreateObject (modified r) = Inr mp" "wf_json mp" "frameable mp" "showable mp"
    using add_fields_framed [OF assms(8,9), of cJSON_CreateObject] by auto
  let ?rv = "if returns then Some (ret r) else None"
  let ?es = "[invoke_event name (next_seqnum fs) p, return_event name (next_seqnum fs) ?rv mp]"
  have rv: "small_opt ?rv" using assms(10) by (simp add: small_opt_def)
  have "sendable (invoke_event name (next_seqnum fs) p)" "sendable (return_event name (next_seqnum fs) ?rv mp)"
    using p(2,3) mp(2,3) rv assms(4,5) by (simp_all add: sendable_def events_framed)
  then have "framed_events params name (next_seqnum fs) ?es" using p(1,2,4) mp(4) unfolding framed_events_def by auto
  moreover have "\<exists>fs'. wrapper_call fs name params call returns modified = Inr (r, fs')
      \<and> debugFifo fs' = debugFifo fs @ concat (map (json_text True 0) ?es)"
    using p(1,2) mp(1,2) rv assms(3,4,6,7)
    by (simp add: wrapper_call_def take_seqnum_def report_fs_call_def report_fs_call_return_def
        write_event_def cJSON_Print_wf)
  ultimately show ?thesis unfolding framed_result_def by blast
qed

lemma plain_reads [simp]:
  "plain_opt (Some s) = plain s" "plain (cstr s) = plain s"
  by (simp_all add: plain_opt_def plain_def)

text \<open>The names of the operations and of their parameters.\<close>

lemma plain_names [simp]:
  "plain ''access''" "plain ''arg''" "plain ''blocksize''" "plain ''bmap''" "plain ''buf''" "plain ''bufp''"
  "plain ''chmod''" "plain ''chown''" "plain ''cmd''" "plain ''conn''" "plain ''create''" "plain ''data''"
  "plain ''datasync''" "plain ''destroy''" "plain ''dev''" "plain ''fallocate''" "plain ''fgetattr''"
  "plain ''fi''" "plain ''filler''" "plain ''flags''" "plain ''flock''" "plain ''flush''" "plain ''fsync''"
  "plain ''fsyncdir''" "plain ''ftruncate''" "plain ''getattr''" "plain ''getdir''" "plain ''getxattr''"
  "plain ''gid''" "plain ''idx''" "plain ''init''" "plain ''ioctl''" "plain ''len''" "plain ''link''"
  "plain ''list''" "plain ''listxattr''" "plain ''lock''" "plain ''mask''" "plain ''mkdir''"
  "plain ''mknod''" "plain ''mode''" "plain ''name''" "plain ''newpath''" "plain ''newsize''" "plain ''off''"
  "plain ''offset''" "plain ''op''" "plain ''open''" "plain ''opendir''" "plain ''path''" "plain ''ph''"
  "plain ''poll''" "plain ''read''" "plain ''read_buf''" "plain ''readdir''" "plain ''readlink''"
  "plain ''release''" "plain ''releasedir''" "plain ''removexattr''" "plain ''rename''" "plain ''reventsp''"
  "plain ''rmdir''" "plain ''setxattr''" "plain ''size''" "plain ''stat''" "plain ''statfs''"
  "plain ''statvfs''" "plain ''symlink''" "plain ''truncate''" "plain ''tv''" "plain ''ubuf''"
  "plain ''uid''" "plain ''unlink''" "plain ''userdata''" "plain ''utime''" "plain ''utimens''"
  "plain ''value''" "plain ''write''" "plain ''write_buf''"
  by (simp_all add: plain_keys)

lemma field_path [simp]:
  "(case c_str path of Inl _ \<Rightarrow> False | Inr _ \<Rightarrow> True) \<longleftrightarrow> path \<noteq> None"
  "plain_opt path \<Longrightarrow> (case c_str path of Inl _ \<Rightarrow> True | Inr s \<Rightarrow> plain s)"
  by (cases path; simp add: c_str_def)+


lemma wrapper_table_framed:
  assumes "call_ok call" "call_plain call" "has_op (ops fs) (op_name call)" "small (next_seqnum fs)" "fdt_debug_mode fs"
    and "run_op (ops fs) call (user_data fs) = (r, u)" "out_ok call r" "out_plain r"
  shows "framed_result fs (call_params call) (op_name call) r (wrapper_table call fs)"
  using assms
  by (cases call) ((simp only: wrapper_table.simps op_name.simps call_params.simps wrapper_defs; intro wrapper_call_framed;
      simp add: small_opt_def out_plain_def split: option.splits)[1])+

subsection \<open>The events of a run\<close>

fun run_loggable :: "'u fuse_operations \<Rightarrow> fuse_call list \<Rightarrow> 'u \<Rightarrow> bool" where
  \<comment> \<open>every call and its outcome can be written to the pipe and read back\<close>
  "run_loggable op [] u = True"
| "run_loggable op (c # cs) u = (call_ok c \<and> call_plain c \<and> has_op op (op_name c)
     \<and> (let (r, u') = run_op op c u in out_ok c r \<and> out_plain r \<and> run_loggable op cs u'))"

fun framed_log :: "fuse_call list \<Rightarrow> int \<Rightarrow> cJSON list \<Rightarrow> bool" where
  "framed_log [] n es = (es = [])"
| "framed_log (c # cs) n es = (\<exists>ds fs. es = ds @ fs \<and> framed_events (call_params c) (op_name c) n ds \<and> framed_log cs (wrap32 (n + 1)) fs)"

lemma small_int: "is_int n \<Longrightarrow> small n"
  by (auto simp: is_int_def small_def abs_if)

lemma run_calls_framed:
  assumes "fdt_debug_mode fs" "is_int (next_seqnum fs)" "run_loggable (ops fs) calls (user_data fs)"
  shows "\<exists>outs fs' es. run_calls calls fs = Inr (outs, fs') \<and> framed_log calls (next_seqnum fs) es
    \<and> debugFifo fs' = debugFifo fs @ concat (map (json_text True 0) es)
    \<and> sem_waits fs' = sem_waits fs + length calls"
  using assms
proof (induction calls arbitrary: fs)
  case (Cons c cs)
  obtain r u where r: "run_op (ops fs) c (user_data fs) = (r, u)" by fastforce
  with Cons.prems have ok: "call_ok c" "call_plain c" "has_op (ops fs) (op_name c)" "out_ok c r" "out_plain r"
    "run_loggable (ops fs) cs u" by auto
  obtain fs1 es1 where 1: "wrapper_table c fs = Inr (r, fs1)" "framed_events (call_params c) (op_name c) (next_seqnum fs) es1"
    "debugFifo fs1 = debugFifo fs @ concat (map (json_text True 0) es1)"
    using wrapper_table_framed [OF ok(1-3) small_int [OF Cons.prems(2)] Cons.prems(1) r ok(4,5)]
    unfolding framed_result_def by blast
  note eff = wrapper_table_effect [OF 1(1)]
  have "user_data fs1 = u" using eff(1) r by simp
  then obtain outs fs2 es2 where "run_calls cs fs1 = Inr (outs, fs2)" "framed_log cs (wrap32 (next_seqnum fs + 1)) es2"
    "debugFifo fs2 = debugFifo fs1 @ concat (map (json_text True 0) es2)" "sem_waits fs2 = sem_waits fs1 + length cs"
    using Cons.IH [of fs1] Cons.prems(1) ok(6) eff by auto
  moreover have "sem_waits fs1 = sem_waits fs + 1" using eff Cons.prems(1) by simp
  ultimately show ?case using 1
    by (intro exI [of _ "r # outs"] exI [of _ fs2] exI [of _ "es1 @ es2"]) auto
qed simp

lemma framed_log_sendable: "framed_log calls n es \<Longrightarrow> list_all sendable es"
  by (induction calls arbitrary: n es) (auto simp: framed_events_def)

lemma feed_framed_events:
  assumes "framed_events params name n es" "is_int n" "released d" "pendingInvocations d = 0"
  shows "\<exists>d'. feed handleDebuggerEvent (map (canon None) es) d = Inr d' \<and> released d' \<and> pendingInvocations d' = 0
    \<and> stepSem d' = stepSem d + 1 \<and> usingGui d' = usingGui d"
proof -
  obtain p rv mp where es: "es = [invoke_event name n p, return_event name n rv mp]"
    using assms(1) by (auto simp: framed_events_def)
  show ?thesis
    using assms(2-) handle_invoke_effect [of d] unfolding es
    by (simp add: handle_invoke_event handle_return_event handle_return_effect)
qed

lemma feed_framed_log:
  "framed_log calls n es \<Longrightarrow> is_int n \<Longrightarrow> released d \<Longrightarrow> pendingInvocations d = 0
   \<Longrightarrow> \<exists>d'. feed handleDebuggerEvent (map (canon None) es) d = Inr d' \<and> released d' \<and> pendingInvocations d' = 0
     \<and> stepSem d' = stepSem d + length calls"
proof (induction calls arbitrary: n es d)
  case (Cons c cs)
  obtain ds fs where es: "es = ds @ fs" "framed_events (call_params c) (op_name c) n ds" "framed_log cs (wrap32 (n + 1)) fs"
    using Cons.prems(1) by auto
  obtain d1 where d1: "feed handleDebuggerEvent (map (canon None) ds) d = Inr d1" "released d1"
    "pendingInvocations d1 = 0" "stepSem d1 = stepSem d + 1"
    using feed_framed_events [OF es(2) Cons.prems(2-4)] by blast
  from Cons.IH [OF es(3) _ d1(2,3)] d1 es(1) show ?case by (auto simp: feed_append)
qed simp

end
