(* ===== verification/CJSON_Typed.thy ===== *)
theory CJSON_Typed
  imports CJSON_Safety
begin

section \<open>The shape of the trees the parser returns\<close>

text \<open>
  A node has seven types and fields that only some of them use. The tools read those fields
  without testing the type first, so they rely on the parser to fill them in consistently.
  \<open>typed_parser\<close> states what the parsers of arrays and objects need of \<open>parse_value\<close>, and
  \<open>parse_value\<close> provides it at every nesting budget.
\<close>

subsection \<open>Well-typed trees\<close>

definition blank :: "cJSON \<Rightarrow> bool" where
  \<comment> \<open>a node before its value is parsed: perhaps a name, and nothing else\<close>
  "blank c \<longleftrightarrow> valuestring c = None \<and> child c = []"

definition fields_typed :: "cJSON \<Rightarrow> bool" where
  "fields_typed c \<longleftrightarrow> jtype c \<in> {cJSON_False, cJSON_True, cJSON_NULL, cJSON_Number, cJSON_String, cJSON_Array, cJSON_Object}
     \<and> (valuestring c \<noteq> None \<longleftrightarrow> jtype c = cJSON_String)
     \<and> (jtype c = cJSON_Number \<longrightarrow> valueint c = d2i (valuedouble c))
     \<and> (child c \<noteq> [] \<longrightarrow> jtype c = cJSON_Array \<or> jtype c = cJSON_Object)
     \<and> (jtype c = cJSON_Array \<longrightarrow> list_all (\<lambda>d. jname d = None) (child c))
     \<and> (jtype c = cJSON_Object \<longrightarrow> list_all (\<lambda>d. jname d \<noteq> None) (child c))"

function well_typed :: "cJSON \<Rightarrow> bool" where
  "well_typed c \<longleftrightarrow> fields_typed c \<and> list_all well_typed (child c)"
  by pat_completeness auto
termination
  by (relation "measure size") (auto dest: size_child_item)

declare well_typed.simps [simp del]

lemma set_fields [simp]:
  "jtype (set_type t c) = t" "valuestring (set_type t c) = valuestring c" "valueint (set_type t c) = valueint c"
  "valuedouble (set_type t c) = valuedouble c" "jname (set_type t c) = jname c" "child (set_type t c) = child c"
  "jtype (set_child cs c) = jtype c" "valuestring (set_child cs c) = valuestring c" "valueint (set_child cs c) = valueint c"
  "valuedouble (set_child cs c) = valuedouble c" "jname (set_child cs c) = jname c" "child (set_child cs c) = cs"
  "jtype (set_valuestring s c) = jtype c" "valuestring (set_valuestring s c) = s" "jname (set_valuestring s c) = jname c"
  "child (set_valuestring s c) = child c" "jname (set_name nm c) = nm" "child (set_name nm c) = child c"
  "jtype (set_valueint i c) = jtype c" "valuestring (set_valueint i c) = valuestring c" "valueint (set_valueint i c) = i"
  "valuedouble (set_valueint i c) = valuedouble c" "jname (set_valueint i c) = jname c" "child (set_valueint i c) = child c"
  "jtype (set_valuedouble d c) = jtype c" "valuestring (set_valuedouble d c) = valuestring c"
  "valuedouble (set_valuedouble d c) = d" "jname (set_valuedouble d c) = jname c" "child (set_valuedouble d c) = child c"
  by (cases c; simp)+

lemma blank_New_Item [simp]: "blank cJSON_New_Item" "jname cJSON_New_Item = None"
  by (simp_all add: blank_def cJSON_New_Item_def)

lemma typed_leaf:
  assumes "blank c" "t \<in> {cJSON_False, cJSON_True, cJSON_NULL}"
  shows "well_typed (set_type t c)" "well_typed (set_valueint i (set_type t c))"
  using assms by (auto simp: well_typed.simps fields_typed_def blank_def)

lemma typed_node:
  assumes "blank c" "list_all well_typed cs"
  shows "list_all (\<lambda>d. jname d = None) cs \<Longrightarrow> well_typed (set_child cs (set_type cJSON_Array c))"
    and "list_all (\<lambda>d. jname d \<noteq> None) cs \<Longrightarrow> well_typed (set_child cs (set_type cJSON_Object c))"
  using assms by (simp_all add: well_typed.simps fields_typed_def blank_def)

lemma typed_empty:
  assumes "blank c"
  shows "well_typed (set_type cJSON_Array c)" "well_typed (set_type cJSON_Object c)"
  using assms by (simp_all add: well_typed.simps fields_typed_def blank_def)

lemma parse_string_typed:
  assumes "blank item" "parse_string item s = Inr (c, r)"
  shows "well_typed c \<and> jname c = jname item \<and> valuestring c \<noteq> None \<and> child c = []"
  using assms by (auto simp: parse_string_def bindr_Inr_iff well_typed.simps fields_typed_def blank_def split: if_splits)

lemma parse_number_typed:
  assumes "blank item"
  shows "well_typed (fst (parse_number item s)) \<and> jname (fst (parse_number item s)) = jname item"
  using assms by (auto simp: parse_number_def Let_def well_typed.simps fields_typed_def blank_def split: prod.splits)

subsection \<open>Arrays and objects\<close>

locale typed_parser =
  fixes pv :: value_parser
  assumes typed: "blank item \<Longrightarrow> pv item v = Inr (c, r) \<Longrightarrow> well_typed c \<and> jname c = jname item"
begin

lemma array_loop_typed:
  "parse_array_loop pv k cs v = Inr (ds, r) \<Longrightarrow> list_all (\<lambda>c. well_typed c \<and> jname c = None) cs
    \<Longrightarrow> list_all (\<lambda>c. well_typed c \<and> jname c = None) ds"
proof (induction k arbitrary: cs v)
  case (Suc k)
  show ?case
  proof (cases "deref v = CHR '',''")
    case True
    with Suc.prems obtain c q where q: "pv cJSON_New_Item (skip (tl v)) = Inr (c, q)"
      "parse_array_loop pv k (cs @ [c]) (skip q) = Inr (ds, r)" by (auto simp: bindr_Inr_iff)
    show ?thesis using Suc.IH [OF q(2)] typed [OF _ q(1)] Suc.prems(2) by simp
  qed (use Suc.prems in simp)
qed simp

lemma array_typed:
  assumes b: "blank item" and p: "parse_array pv item v = Inr (c, r)"
  shows "well_typed c \<and> jname c = jname item"
proof (cases "deref (skip (tl v)) = CHR '']''")
  case True
  then show ?thesis using p b by (auto simp: parse_array_def typed_empty split: if_splits)
next
  case False
  with p obtain d q cs w where q: "pv cJSON_New_Item (skip (skip (tl v))) = Inr (d, q)"
    "parse_array_loop pv (Suc (length q)) [d] (skip q) = Inr (cs, w)" "c = set_child cs (set_type cJSON_Array item)"
    by (auto simp: parse_array_def Let_def bindr_Inr_iff split: if_splits simp del: parse_array_loop.simps)
  have "list_all (\<lambda>c. well_typed c \<and> jname c = None) cs"
    using typed [OF _ q(1)] by (intro array_loop_typed [OF q(2)]) simp
  then show ?thesis using q(3) typed_node(1) [OF b, of cs] by (simp add: list_all_iff)
qed

lemma member_typed:
  assumes "parse_member pv v = Inr (c, r)"
  shows "well_typed c \<and> jname c \<noteq> None"
proof -
  from assms obtain d q w where q: "parse_string cJSON_New_Item (skip v) = Inr (d, q)"
    "pv (set_valuestring None (set_name (valuestring d) d)) (skip (tl (skip q))) = Inr (c, w)"
    by (auto simp: parse_member_def Let_def bindr_Inr_iff split: if_splits)
  have d: "valuestring d \<noteq> None" "child d = []" using parse_string_typed [OF _ q(1)] by simp_all
  show ?thesis using typed [OF _ q(2)] d by (simp add: blank_def)
qed

lemma object_loop_typed:
  "parse_object_loop pv k cs v = Inr (ds, r) \<Longrightarrow> list_all (\<lambda>c. well_typed c \<and> jname c \<noteq> None) cs
    \<Longrightarrow> list_all (\<lambda>c. well_typed c \<and> jname c \<noteq> None) ds"
proof (induction k arbitrary: cs v)
  case (Suc k)
  show ?case
  proof (cases "deref v = CHR '',''")
    case True
    with Suc.prems obtain c q where q: "parse_member pv (tl v) = Inr (c, q)"
      "parse_object_loop pv k (cs @ [c]) q = Inr (ds, r)" by (auto simp: bindr_Inr_iff)
    show ?thesis using Suc.IH [OF q(2)] member_typed [OF q(1)] Suc.prems(2) by simp
  qed (use Suc.prems in simp)
qed simp

lemma object_typed:
  assumes b: "blank item" and p: "parse_object pv item v = Inr (c, r)"
  shows "well_typed c \<and> jname c = jname item"
proof (cases "deref (skip (tl v)) = CHR ''}''")
  case True
  then show ?thesis using p b by (auto simp: parse_object_def typed_empty split: if_splits)
next
  case False
  with p obtain d q cs w where q: "parse_member pv (skip (tl v)) = Inr (d, q)"
    "parse_object_loop pv (Suc (length q)) [d] q = Inr (cs, w)" "c = set_child cs (set_type cJSON_Object item)"
    by (auto simp: parse_object_def Let_def bindr_Inr_iff split: if_splits simp del: parse_object_loop.simps)
  have "list_all (\<lambda>c. well_typed c \<and> jname c \<noteq> None) cs"
    using member_typed [OF q(1)] by (intro object_loop_typed [OF q(2)]) simp
  then show ?thesis using q(3) typed_node(2) [OF b, of cs] by (simp add: list_all_iff)
qed

end

lemma parse_value_typed: "typed_parser (parse_value k)"
proof (induction k)
  case 0
  show ?case by unfold_locales simp
next
  case (Suc k)
  show ?case
  proof
    fix item v c r
    assume "blank item" "parse_value (Suc k) item v = Inr (c, r)"
    then show "well_typed c \<and> jname c = jname item"
      using parse_number_typed [of item v]
      by (auto simp: typed_leaf split: if_splits dest: parse_string_typed
          typed_parser.array_typed [OF Suc] typed_parser.object_typed [OF Suc])
  qed
qed

interpretation tvalue: typed_parser "parse_value k" for k
  by (rule parse_value_typed)

text \<open>
  C25. Every tree that \<open>cJSON_Parse\<close> returns is well typed, at every node: the type is one of the
  seven, exactly the strings carry a text, the integer of a number is its value cut to an
  \<open>int\<close>, only arrays and objects have children, every member of an object has a name and no
  element of an array has one; and the root has no name.
\<close>

theorem cJSON_Parse_well_typed:
  assumes "cJSON_Parse buf = Inr c"
  shows "well_typed c \<and> jname c = None"
proof -
  from assms obtain r where "parse_value (parse_fuel (cstr buf)) cJSON_New_Item (skip (cstr buf)) = Inr (c, r)"
    by (auto simp: cJSON_Parse_def cJSON_ParseWithOpts_def Let_def bindr_Inr_iff)
  then show ?thesis using tvalue.typed [OF blank_New_Item(1)] by simp
qed

theorem cJSON_Parse_well_typed_witness:
  "cJSON_Parse ''[null,true]'' = Inr (CJ 5 None 0 (Fin 0) None [CJ 2 None 0 (Fin 0) None [], CJ 1 None 1 (Fin 0) None []])
    \<and> well_typed (CJ 5 None 0 (Fin 0) None [CJ 2 None 0 (Fin 0) None [], CJ 1 None 1 (Fin 0) None []])"
proof -
  have "cJSON_Parse ''[null,true]'' = Inr (CJ 5 None 0 (Fin 0) None [CJ 2 None 0 (Fin 0) None [], CJ 1 None 1 (Fin 0) None []])"
    by code_simp
  then show ?thesis using cJSON_Parse_well_typed by blast
qed

end
