(* ===== verification/Wizard.thy ===== *)
theory Wizard
  imports Debugger
begin

section \<open>The wizard\<close>

text \<open>
  The model of \<^verbatim>\<open>src/wizard.c\<close>: the thread that receives the events of the tests, and the idle
  function of the GUI that works out the status of every function, shows the table of functions
  and, for the function that needs attention, its message, signature and links. Widgets are
  numbered; a page is the list of the widgets it holds, and removing a widget that a page no
  longer holds is a use after free. The linked lists of the code begin with a node without data,
  which the model leaves out; \<open>None\<close> is the list that has not been allocated.
\<close>

datatype funcstat = IMPLEMENTED | DEFINED | UNDEFINED | SKIPPED

record wizard = debugger +
  wizard_events :: "cJSON list option"
  wizard_events_displayed :: "cJSON list option"
  func_rows :: "string \<Rightarrow> nat option"
  func_table :: "(string \<times> string) list"
  notification_event :: "cJSON option"
  notification_status :: funcstat
  recv_end_event :: bool
  message_func :: string
  message_text :: string
  tabs_shown :: bool
  skip_sensitive :: bool
  first_update :: bool
  last_func_name :: string
  next_widget :: nat
  sig_page :: "(nat \<times> string) list"
  sig_l1 :: "nat option"
  sig_params :: "nat list"
  sig_l2 :: "nat option"
  res_page :: "(nat \<times> string) list"
  res_links :: "nat list"

definition nodes :: "'e list option \<Rightarrow> 'e list" where
  \<comment> \<open>the events a list holds\<close>
  "nodes l = (case l of None \<Rightarrow> [] | Some es \<Rightarrow> es)"

subsection \<open>Receiving events\<close>

definition startWizard :: "'a wizard_scheme \<Rightarrow> tool \<times> 'a wizard_scheme" where
  "startWizard d = (Wizard_tool, d\<lparr>recv_end_event := False\<rparr>)"

definition reset_wizard :: "'a wizard_scheme \<Rightarrow> 'a wizard_scheme" where
  "reset_wizard d = (let d = (if wizard_events d \<noteq> None then d\<lparr>notification_event := None\<rparr> else d) in
     d\<lparr>wizard_events := Some [], wizard_events_displayed := Some [], func_rows := (\<lambda>_. None)\<rparr>)"

definition handleWizardEvent :: "('a wizard_scheme) event_handler" where
  "handleWizardEvent event d =
    bindr (case event of None \<Rightarrow> Inl NullPointer | Some e \<Rightarrow> (case cJSON_Print e of
        Inr json \<Rightarrow> Inr json | Inl NullResult \<Rightarrow> Inl NullPointer | Inl x \<Rightarrow> Inl x)) (\<lambda>json.
    bindr (item_string event ''func_name'') (\<lambda>func_name.
    let d = printf json d in
    if func_name = ''__END'' then
      Inr (printf ''FUSE binary detached so wizard will terminate.'' (setFusePID 0 (d\<lparr>recv_end_event := True\<rparr>)))
    else if usingGui d then Inr (d\<lparr>wizard_events := Some (nodes (wizard_events d) @ [the event])\<rparr>)
    else Inr d))"

definition doStartWizard :: "string option \<Rightarrow> 'a wizard_scheme \<Rightarrow> 'a wizard_scheme c_res option" where
  "doStartWizard fifo d = (let d = reset_wizard d in
     case fifo of None \<Rightarrow> Some (Inr d) | Some bytes \<Rightarrow> receive handleWizardEvent bytes d)"

definition stopWizard :: "'a wizard_scheme \<Rightarrow> 'a wizard_scheme" where
  "stopWizard d = (let pid = fuse_pid d in
     if pid \<noteq> 0 then printf ''Sent SIGINT to FUSE binary'' (kill pid SIGINT (setFusePID 0 d)) else d)"

subsection \<open>The status of a function\<close>

abbreviation event_string :: "cJSON \<Rightarrow> string \<Rightarrow> string c_res" where
  "event_string e k \<equiv> item_string (Some e) k"

abbreviation event_int :: "cJSON \<Rightarrow> string \<Rightarrow> int c_res" where
  "event_int e k \<equiv> item_int (Some e) k"

record tally =
  num_passed :: int
  num_failed :: int
  num_skipped :: int
  failing_event :: "cJSON option"

fun tally_events :: "string \<Rightarrow> cJSON list \<Rightarrow> tally \<Rightarrow> tally c_res" where
  "tally_events test_name [] t = Inr t"
| "tally_events test_name (event # es) t =
    bindr (event_string event ''func_name'') (\<lambda>t_test_name.
    if test_name = t_test_name then
      bindr (event_int event ''passed'') (\<lambda>passed.
      bindr (get_item (Some event) ''message'') (\<lambda>msg.
      if passed \<noteq> 0 then
        bindr (of_opt NullPointer (valuestring msg)) (\<lambda>msg.
          tally_events test_name es (t\<lparr>num_passed := num_passed t + 1,
            num_skipped := num_skipped t + (if ''Skipped'' = msg then 1 else 0)\<rparr>))
      else tally_events test_name es (t\<lparr>num_failed := num_failed t + 1,
             failing_event := (if failing_event t = None then Some event else failing_event t)\<rparr>)))
    else tally_events test_name es t)"

definition no_tally :: tally where
  "no_tally = \<lparr>num_passed = 0, num_failed = 0, num_skipped = 0, failing_event = None\<rparr>"

definition status_of :: "tally \<Rightarrow> funcstat" where
  "status_of t = (if num_failed t = 0 then (if num_skipped t > 0 then SKIPPED else IMPLEMENTED)
     else if num_passed t > 0 then DEFINED else UNDEFINED)"

definition getFunctionStatus :: "string \<Rightarrow> cJSON list \<Rightarrow> (funcstat \<times> cJSON option) c_res" where
  "getFunctionStatus test_name es = bindr (tally_events test_name es no_tally) (\<lambda>t. Inr (status_of t, failing_event t))"

fun isFunctionDisplayed :: "string \<Rightarrow> cJSON list \<Rightarrow> bool c_res" where
  "isFunctionDisplayed func_name [] = Inr False"
| "isFunctionDisplayed func_name (t_event # es) = bindr (event_string t_event ''func_name'') (\<lambda>t_func_name.
     if func_name = t_func_name then Inr True else isFunctionDisplayed func_name es)"

primrec status_str :: "funcstat \<Rightarrow> string" where
  "status_str IMPLEMENTED = ''Done''"
| "status_str SKIPPED = ''Skipped''"
| "status_str DEFINED = ''Needs fixing''"
| "status_str UNDEFINED = ''Needs defining''"

definition needs_attention :: "funcstat \<Rightarrow> bool" where
  "needs_attention s \<longleftrightarrow> s = DEFINED \<or> s = UNDEFINED"

definition updateFunctionRow :: "string \<Rightarrow> 'a wizard_scheme \<Rightarrow> 'a wizard_scheme c_res" where
  "updateFunctionRow test_name d =
    bindr (testToFunction test_name) (\<lambda>func_name.
    case func_rows d func_name of
      Some iter \<Rightarrow> bindr (getFunctionStatus test_name (nodes (wizard_events d))) (\<lambda>(status, failing).
        let d = (if needs_attention status then d\<lparr>notification_event := failing, notification_status := status\<rparr> else d) in
        Inr (d\<lparr>func_table := (func_table d)[iter := (fst (func_table d ! iter), status_str status)]\<rparr>))
    | None \<Rightarrow> Inr (eprintf (''Failed to lookup row with key '' @ func_name) d))"

subsection \<open>The table of functions\<close>

definition append_row :: "cJSON \<Rightarrow> string \<Rightarrow> 'a wizard_scheme \<Rightarrow> 'a wizard_scheme c_res" where
  "append_row event test_name d = bindr (testToFunction test_name) (\<lambda>func_name.
     Inr (d\<lparr>func_table := func_table d @ [(func_name, [])],
            func_rows := (func_rows d)(func_name \<mapsto> length (func_table d)),
            wizard_events_displayed := Some (event # nodes (wizard_events_displayed d))\<rparr>))"

fun append_rows :: "cJSON list \<Rightarrow> 'a wizard_scheme \<Rightarrow> 'a wizard_scheme c_res" where
  "append_rows [] d = Inr d"
| "append_rows (event # es) d =
    bindr (event_string event ''func_name'') (\<lambda>test_name.
    bindr (isFunctionDisplayed test_name (nodes (wizard_events_displayed d))) (\<lambda>displayed.
    bindr (if displayed then Inr d else append_row event test_name d) (append_rows es)))"

fun update_rows :: "cJSON list \<Rightarrow> 'a wizard_scheme \<Rightarrow> 'a wizard_scheme c_res" where
  "update_rows [] d = Inr d"
| "update_rows (event # es) d = bindr (event_string event ''func_name'') (\<lambda>func_name.
     bindr (updateFunctionRow func_name d) (update_rows es))"

subsection \<open>The information on a function\<close>

definition setMessageViewFunc :: "string \<Rightarrow> 'a wizard_scheme \<Rightarrow> 'a wizard_scheme" where
  "setMessageViewFunc str d = d\<lparr>message_func := str\<rparr>"

definition setMessageViewMessage :: "string \<Rightarrow> 'a wizard_scheme \<Rightarrow> 'a wizard_scheme" where
  "setMessageViewMessage str d = d\<lparr>message_text := str\<rparr>"

definition container_remove :: "nat \<Rightarrow> (nat \<times> string) list \<Rightarrow> (nat \<times> string) list c_res" where
  \<comment> \<open>the page holds the only reference, so that a removed widget is gone\<close>
  "container_remove w page = (if w \<in> fst ` set page then Inr (filter (\<lambda>(v, _). v \<noteq> w) page) else Inl UseAfterFree)"

fun container_remove_all :: "nat list \<Rightarrow> (nat \<times> string) list \<Rightarrow> (nat \<times> string) list c_res" where
  "container_remove_all [] page = Inr page"
| "container_remove_all (w # ws) page = bindr (container_remove w page) (container_remove_all ws)"

definition number_from :: "nat \<Rightarrow> string list \<Rightarrow> (nat \<times> string) list" where
  "number_from n labels = zip [n ..< n + length labels] labels"

fun item_strings :: "cJSON list \<Rightarrow> string list c_res" where
  "item_strings [] = Inr []"
| "item_strings (c # cs) = bindr (of_opt NullPointer (valuestring c)) (\<lambda>s. bindr (item_strings cs) (\<lambda>ss. Inr (s # ss)))"

definition updateSignatureTab :: "string \<Rightarrow> 'a wizard_scheme \<Rightarrow> 'a wizard_scheme c_res" where
  "updateSignatureTab func_name d =
    bindr (container_remove_all ((case sig_l1 d of None \<Rightarrow> [] | Some l1 \<Rightarrow> [l1]) @ sig_params d
             @ (case sig_l2 d of None \<Rightarrow> [] | Some l2 \<Rightarrow> [l2])) (sig_page d)) (\<lambda>page.
    let d = d\<lparr>sig_page := page\<rparr> in
    bindr (getFunctionSignature d func_name) (\<lambda>func. case func of None \<Rightarrow> Inr d
      | Some func \<Rightarrow>
        bindr (get_item (Some func) ''params'') (\<lambda>params_array.
        bindr (item_string (Some func) ''rtype'') (\<lambda>rtype.
        if 32 < length (child params_array) then Inl HeapOverflow
        else let n = next_widget d;
          params = map (\<lambda>c. case valuestring c of None \<Rightarrow> [] | Some s \<Rightarrow> s) (child params_array);
          l1 = snprintf (length func_name + 33) (func_name @ '' takes the following parameters:'');
          l2 = snprintf (34 + length rtype) (''It should return a value of type '' @ rtype) in
        Inr (d\<lparr>next_widget := n + length params + 2, sig_l1 := Some n, sig_params := [n + 1 ..< n + 1 + length params],
               sig_l2 := Some (n + 1 + length params), sig_page := page @ number_from n (l1 # params @ [l2])\<rparr>)))))"

definition link_html :: "string \<Rightarrow> string" where
  "link_html link = snprintf (length link * 2 + 16) (''<a href='' @ [quote] @ link @ [quote] @ ''>'' @ link @ ''</a>'')"

definition updateResourcesTab :: "string \<Rightarrow> 'a wizard_scheme \<Rightarrow> 'a wizard_scheme c_res" where
  "updateResourcesTab func_name d =
    bindr (container_remove_all (res_links d) (res_page d)) (\<lambda>page.
    let d = d\<lparr>res_page := page\<rparr> in
    bindr (getFunctionResources d func_name) (\<lambda>func. case func of None \<Rightarrow> Inr d
      | Some func \<Rightarrow> (case cJSON_GetObjectItem func ''links'' of None \<Rightarrow> Inr d
        | Some links_array \<Rightarrow>
          bindr (item_strings (child links_array)) (\<lambda>links.
          if 32 < length links then Inl HeapOverflow
          else let n = next_widget d in
          Inr (d\<lparr>next_widget := n + length links, res_links := [n ..< n + length links],
                 res_page := page @ number_from n (map link_html links)\<rparr>)))))"

definition updateInfoTabs :: "string \<Rightarrow> 'a wizard_scheme \<Rightarrow> 'a wizard_scheme c_res" where
  "updateInfoTabs func_name d =
    (if \<not> first_update d \<and> last_func_name d = func_name then Inr d
     else bindr (alloc_write 1024 func_name) (\<lambda>last.
       let d = printf ''Updating info tabs'' (d\<lparr>last_func_name := last, first_update := False\<rparr>);
           d = d\<lparr>tabs_shown := (func_name \<noteq> []), skip_sensitive := (func_name \<noteq> [])\<rparr> in
       bindr (updateSignatureTab func_name d) (updateResourcesTab func_name)))"

subsection \<open>The idle function\<close>

definition success_message :: string where
  "success_message = ''Well done, you have defined and implemented all of the essential FUSE functions and your filesystem should now be usable. Try running it against the test suite to find any defects and make your filesystem more robust.''"

definition error_prefix :: string where
  "error_prefix = ''Your filesystem terminated unexpectedly while running tests against it. Check the console for any error messages. ''"

definition no_test_suffix :: string where
  "no_test_suffix = ''No tests could be run successfully. Make sure you are calling fuse_main correctly, and that there are no errors before this point.''"

definition crash_text :: "cJSON list \<Rightarrow> string c_res" where
  "crash_text es = (case rev es of [] \<Rightarrow> Inr (error_prefix @ no_test_suffix)
     | last_event # _ \<Rightarrow>
         bindr (event_string last_event ''func_name'') (\<lambda>func_name.
         bindr (event_int last_event ''test_num'') (\<lambda>test_num.
         let suffix = snprintf 512 (if test_num = 0
               then ''The last succesful test was making sure that '' @ func_name @ '' is defined.''
               else ''The last succesful test was a call to '' @ func_name @ ''.'') in
         alloc_write 1024 (error_prefix @ suffix))))"

definition show_notification :: "cJSON \<Rightarrow> 'a wizard_scheme \<Rightarrow> 'a wizard_scheme c_res" where
  "show_notification event d =
    bindr (event_string event ''func_name'') (\<lambda>test_name.
    bindr (testToFunction test_name) (\<lambda>func_name.
    bindr (event_int event ''test_num'') (\<lambda>_. bindr (event_int event ''passed'') (\<lambda>_. bindr (event_int event ''optional'') (\<lambda>_.
    bindr (event_string event ''message'') (\<lambda>message.
      updateInfoTabs func_name (setMessageViewMessage message (setMessageViewFunc func_name d))))))))"

definition show_progress :: "'a wizard_scheme \<Rightarrow> 'a wizard_scheme c_res" where
  "show_progress d =
    bindr (if nodes (wizard_events_displayed d) \<noteq> [] then
        (if fs_mounted d then Inr (setMessageViewMessage [] (setMessageViewFunc ''Running tests...'' d))
         else if recv_end_event d then Inr (setMessageViewMessage success_message (setMessageViewFunc ''Success!'' d))
         else bindr (crash_text (nodes (wizard_events d))) (\<lambda>err.
           Inr (setMessageViewMessage err (setMessageViewFunc ''Filesystem crashed'' d))))
      else Inr (setMessageViewMessage ''Press Start to run the wizard'' (setMessageViewFunc ''Wizard'' d)))
    (updateInfoTabs [])"

definition refresh_table :: "'a wizard_scheme \<Rightarrow> 'a wizard_scheme c_res" where
  \<comment> \<open>the part that runs under the lock of the events\<close>
  "refresh_table d =
    (let d = (if wizard_events_displayed d = Some [] then d\<lparr>func_table := []\<rparr> else d) in
     bindr (append_rows (nodes (wizard_events d)) d) (\<lambda>d. update_rows (nodes (wizard_events_displayed d)) d))"

definition gui_idle_wizard :: "'a wizard_scheme \<Rightarrow> 'a wizard_scheme c_res" where
  "gui_idle_wizard d = bindr (refresh_table d) (\<lambda>d.
     case notification_event d of Some e \<Rightarrow> show_notification e d | None \<Rightarrow> show_progress d)"

end
