(* ===== verification/Wizard_Tests.thy ===== *)
theory Wizard_Tests
  imports Fdt_Base
begin

section \<open>The tests of the wizard\<close>

text \<open>
  The model of \<^verbatim>\<open>src/wizard_tests.c\<close>, which the library runs instead of mounting the file system when
  the tool is the wizard: it calls the operations of the user one by one, checks what they return
  and writes an event for every check. The operations are the parameter record of the wrappers;
  what the code takes from its surroundings is the record \<open>host\<close>: the contents of fresh memory, the
  value of \<open>errno\<close> after a call, and the \<open>readlink\<close> of the operating system. Console output of the
  library is left out.
\<close>

record 'u host =
  junk_fi :: fuse_file_info
  junk_stat :: stat
  junk_buf :: string
  errno_of :: "'u \<Rightarrow> int"
  host_readlink :: "string \<Rightarrow> int"
  filler_ptr :: int

record 'u wizard_run =
  w_user :: 'u
  w_sent :: string
  wizard_fifo :: bool
  test_failed :: bool
  skip_list :: "string option list"
  filled_file_cur :: bool
  filled_file_parent :: bool
  filled_new_file_1 :: bool
  filled_new_file_2 :: bool
  executing_readdir :: bool
  bad_increment :: bool
  files_filled :: int

type_synonym 'u test_step = "'u wizard_run \<Rightarrow> 'u wizard_run c_res"

fun steps :: "('s \<Rightarrow> 's c_res) list \<Rightarrow> 's \<Rightarrow> 's c_res" where
  \<comment> \<open>statements one after the other\<close>
  "steps [] w = Inr w"
| "steps (f # fs) w = bindr (f w) (steps fs)"

abbreviation (input) ENOENT :: int where "ENOENT \<equiv> 2"
abbreviation (input) EEXIST :: int where "EEXIST \<equiv> 17"
abbreviation (input) F_OK :: int where "F_OK \<equiv> 0"
abbreviation (input) R_OK :: int where "R_OK \<equiv> 4"
abbreviation (input) O_RDWR :: int where "O_RDWR \<equiv> 2"
abbreviation (input) O_RDWR_CREAT :: int where "O_RDWR_CREAT \<equiv> 66"
abbreviation (input) file_mode :: int where "file_mode \<equiv> 420"

subsection \<open>Events\<close>

datatype fmt_arg = Arg_d int | Arg_s string

definition conversion :: "char \<Rightarrow> char \<Rightarrow> fmt_arg \<Rightarrow> string option" where
  \<comment> \<open>the conversions the messages use: \<open>%d\<close> and \<open>%s\<close>\<close>
  "conversion c d a = (if c \<noteq> CHR ''%'' then None
     else case a of Arg_d i \<Rightarrow> if d = CHR ''d'' then Some (show_int i) else None
     | Arg_s t \<Rightarrow> if d = CHR ''s'' then Some t else None)"

fun vformat :: "string \<Rightarrow> fmt_arg list \<Rightarrow> string" where
  "vformat (c # d # s) (a # as) = (case conversion c d a of Some t \<Rightarrow> t @ vformat s as | None \<Rightarrow> c # vformat (d # s) (a # as))"
| "vformat s as = s"

definition wizard_fifo_init :: "'u test_step" where
  "wizard_fifo_init w = Inr (w\<lparr>wizard_fifo := True\<rparr>)"

definition wizard_event :: "string \<Rightarrow> int \<Rightarrow> bool \<Rightarrow> bool \<Rightarrow> string \<Rightarrow> cJSON" where
  "wizard_event func_name test_num passed optional message =
    (let event = cJSON_CreateObject;
         event = cJSON_AddStringToObject event ''func_name'' func_name;
         event = cJSON_AddNumberToObject event ''test_num'' test_num;
         event = cJSON_AddBoolToObject event ''passed'' (of_bool passed);
         event = cJSON_AddBoolToObject event ''optional'' (of_bool optional)
     in cJSON_AddStringToObject event ''message'' message)"

definition report_wizard_event :: "string \<Rightarrow> int \<Rightarrow> bool \<Rightarrow> bool \<Rightarrow> string \<Rightarrow> fmt_arg list option \<Rightarrow> 'u test_step" where
  \<comment> \<open>without a stream the write goes through a null pointer\<close>
  "report_wizard_event func_name test_num passed optional message args_in w =
    (let message = (case args_in of
           Some args \<Rightarrow> snprintf (length func_name + length message + 1024) (vformat message args)
         | None \<Rightarrow> message) in
     case cJSON_Print (wizard_event func_name test_num passed optional message) of
       Inr event_json \<Rightarrow> if wizard_fifo w then Inr (w\<lparr>w_sent := w_sent w @ event_json\<rparr>) else Inl NullPointer
     | Inl NullResult \<Rightarrow> Inl NullPointer | Inl e \<Rightarrow> Inl e)"

definition tests_end :: "'u test_step" where
  "tests_end = report_wizard_event ''__END'' 0 True True [] None"

definition wizard_fifo_destroy :: "'u test_step" where
  "wizard_fifo_destroy w = Inr (w\<lparr>wizard_fifo := False\<rparr>)"

definition test_pass :: "string \<Rightarrow> int \<Rightarrow> bool \<Rightarrow> 'u test_step" where
  "test_pass func_name test_num optional = report_wizard_event func_name test_num True optional [] None"

definition test_skip :: "string \<Rightarrow> int \<Rightarrow> bool \<Rightarrow> 'u test_step" where
  "test_skip func_name test_num optional = report_wizard_event func_name test_num True optional ''Skipped'' None"

definition test_fail :: "string \<Rightarrow> int \<Rightarrow> bool \<Rightarrow> string \<Rightarrow> fmt_arg list \<Rightarrow> 'u test_step" where
  "test_fail func_name test_num optional message args w =
     report_wizard_event func_name test_num False optional message (Some args) (w\<lparr>test_failed := True\<rparr>)"

definition is_skipped :: "string \<Rightarrow> int \<Rightarrow> 'u wizard_run \<Rightarrow> bool" where
  "is_skipped func_name test_num w \<longleftrightarrow>
     Some (snprintf (length func_name + 64) (func_name @ '':'' @ show_int test_num)) \<in> set (skip_list w)"

definition check :: "bool \<Rightarrow> string \<Rightarrow> int \<Rightarrow> bool \<Rightarrow> string \<Rightarrow> fmt_arg list \<Rightarrow> 'u test_step" where
  \<comment> \<open>\<open>if(cond) test_pass(...); else test_fail(...);\<close>\<close>
  "check cond func_name test_num optional message args = (if cond then test_pass func_name test_num optional
     else test_fail func_name test_num optional message args)"

definition unless_skipped :: "string \<Rightarrow> int \<Rightarrow> bool \<Rightarrow> 'u test_step \<Rightarrow> 'u test_step" where
  \<comment> \<open>\<open>if(!is_skipped(...)) { body } else { test_skip(...); }\<close>\<close>
  "unless_skipped func_name test_num optional body w =
     (if \<not> is_skipped func_name test_num w then body w else test_skip func_name test_num optional w)"

definition invoke :: "'u fuse_operations option \<Rightarrow> fuse_call \<Rightarrow> (fuse_out \<Rightarrow> 'u test_step) \<Rightarrow> 'u test_step" where
  \<comment> \<open>\<open>op->f(...)\<close>: a null structure or a member that is not set is a null pointer\<close>
  "invoke op call k w = (case op of None \<Rightarrow> Inl NullPointer
     | Some fo \<Rightarrow> if \<not> has_op fo (op_name call) then Inl NullPointer
         else let (r, u) = run_op fo call (w_user w) in k r (w\<lparr>w_user := u\<rparr>))"

definition function_not_defined_err :: string where
  "function_not_defined_err = ''Define this function and set it in the fuse_operations struct passed to fuse_main.''"

definition non_existent_file :: string where "non_existent_file = ''/doesnotexistfile.txt''"
definition non_existent_dir :: string where "non_existent_dir = ''/doesnotexistdir''"

definition guarded_test :: "'u fuse_operations option \<Rightarrow> string \<Rightarrow> string \<Rightarrow> bool \<Rightarrow> 'u test_step list \<Rightarrow> 'u test_step" where
  \<comment> \<open>the frame of the tests: nothing after a failure, skipped as a whole, or the member is missing\<close>
  "guarded_test op func_name member_name optional body w =
    (if test_failed w then Inr w
     else if is_skipped func_name 0 w then test_skip func_name 0 optional w
     else case op of None \<Rightarrow> Inl NullPointer
     | Some fo \<Rightarrow> if has_op fo member_name then steps (test_pass func_name 0 optional # body) w
         else test_fail func_name 0 optional function_not_defined_err [] w)"

subsection \<open>Messages\<close>

definition msg_operations_0 :: string where
  "msg_operations_0 = ''Initialise the fuse_operations struct with pointers to your functions and pass it to fuse_main. This lets FUSE know which of your functions to use when it gets a filesystem call.''"

definition msg_getattr_1 :: string where
  "msg_getattr_1 = ''Return a negative number when a file does not exist. It currently returns %d when called with the path of a non-existent file ('' @ [quote] @ ''%s'' @ [quote] @ '').''"

definition msg_getattr_2 :: string where
  "msg_getattr_2 = ''Return 0 when a file exists. It currently returns %d when called with the root path ('' @ [quote] @ ''/'' @ [quote] @ ''), but this always exists.''"

definition msg_access_1 :: string where
  "msg_access_1 = ''Return a negative number if called with F_OK and the file does not exist. F_OK is used to test for existence of the file. It currently returns %d when called with the path of a non-existent file ('' @ [quote] @ ''%s'' @ [quote] @ '').''"

definition msg_access_2 :: string where
  "msg_access_2 = ''Return 0 if called with F_OK and the file exists. It currently returns %d when called with the root path ('' @ [quote] @ ''/'' @ [quote] @ ''), but this always exists.''"

definition msg_access_3 :: string where
  "msg_access_3 = ''Return 0 if called with R_OK, the file exists, and can be read by the process. It currently returns %d when called with the root path ('' @ [quote] @ ''/'' @ [quote] @ ''), but the filesystem should at least have read permissions.''"

definition msg_rmdir_2 :: string where
  "msg_rmdir_2 = ''Set errno to ENOENT when trying to delete a directory that does not exist ('' @ [quote] @ ''%s'' @ [quote] @ '').''"

definition msg_rmdir_1 :: string where
  "msg_rmdir_1 = ''Return -1 if the directory could not be removed. It currently returns %d when trying to remove the non-existent directory '' @ [quote] @ ''%s'' @ [quote] @ ''.''"

definition msg_mkdir_3 :: string where
  "msg_mkdir_3 = ''Set errno to EEXIST when trying to create a directory that already exists ('' @ [quote] @ ''%s'' @ [quote] @ '').''"

definition msg_mkdir_2 :: string where
  "msg_mkdir_2 = ''Return a negative number if there was an error creating the directory. It currently returns %d when trying to create '' @ [quote] @ ''%s'' @ [quote] @ '', which had already been created. The filesystem is either returning the wrong value, or new directories are not being persisted.''"

definition msg_rmdir_3 :: string where
  "msg_rmdir_3 = ''Return 0 if the directory was successfully removed. It currently returns %d when trying to remove a directory just created: '' @ [quote] @ ''%s'' @ [quote] @ ''.''"

definition msg_mkdir_1 :: string where
  "msg_mkdir_1 = ''Return 0 if the directory was successfully created. It currently returns %d when trying to create '' @ [quote] @ ''%s'' @ [quote] @ ''.''"

definition msg_unlink_2 :: string where
  "msg_unlink_2 = ''Set errno to ENOENT when trying to delete a file that does not exist ('' @ [quote] @ ''%s'' @ [quote] @ '').''"

definition msg_unlink_1 :: string where
  "msg_unlink_1 = ''Return -1 if the file could not be removed. It currently returns %d when trying to remove the non-existent file '' @ [quote] @ ''%s'' @ [quote] @ ''.''"

definition msg_unlink_3 :: string where
  "msg_unlink_3 = ''Return 0 if the file was successfully removed. It currently returns %d when trying to remove a file just created: '' @ [quote] @ ''%s'' @ [quote] @ ''.''"

definition msg_create_1 :: string where
  "msg_create_1 = ''Return a non-negative number if the file was created successfully. It currently returns %d when trying to create the file: '' @ [quote] @ ''%s'' @ [quote] @ ''.''"

definition msg_fgetattr_1 :: string where
  "msg_fgetattr_1 = ''Return 0 when a file exists. It currently returns %d when called with the path and filehandle of a file just created and opened ('' @ [quote] @ ''%s'' @ [quote] @ '').''"

definition msg_opendir_1 :: string where
  "msg_opendir_1 = ''Return 0 if the directory exists and the process has permission to open it. It currently returns %d when called with the root path ('' @ [quote] @ ''/'' @ [quote] @ ''), but the filesystem should at least have read permissions.''"

definition msg_opendir_2 :: string where
  "msg_opendir_2 = ''Return a negative number if a directory cannot be opened. It currently returns %d when called with a non-existent path ('' @ [quote] @ ''%s'' @ [quote] @ '').''"

definition msg_readdir_1 :: string where
  "msg_readdir_1 = ''Return 0 if the directory exists and the process has permission to open it. It currently returns %d when called with the root path ('' @ [quote] @ ''/'' @ [quote] @ ''), but the filesystem should at least have read permissions.''"

definition msg_readdir_3 :: string where
  "msg_readdir_3 = ''Invoke filler callback with file for the current directory ('' @ [quote] @ ''.'' @ [quote] @ '').''"

definition msg_readdir_4 :: string where
  "msg_readdir_4 = ''Invoke filler callback with file for the parent directory ('' @ [quote] @ ''..'' @ [quote] @ '').''"

definition msg_readdir_5 :: string where
  "msg_readdir_5 = ''Invoke filler callback with one of the files just created ('' @ [quote] @ ''%s'' @ [quote] @ '').''"

definition msg_readdir_6 :: string where
  "msg_readdir_6 = ''Invoke filler callback with one of the files just created ('' @ [quote] @ ''%s'' @ [quote] @ '').''"

definition msg_readdir_7 :: string where
  "msg_readdir_7 = ''Filler callback needs to be invoked exactly 4 times, for each of the 4 files that should exist in the root directory ('' @ [quote] @ ''.'' @ [quote] @ '', '' @ [quote] @ ''..'' @ [quote] @ '', '' @ [quote] @ ''%s'' @ [quote] @ '', '' @ [quote] @ ''%s'' @ [quote] @ ''). It was invoked %d times.''"

definition msg_open_1 :: string where
  "msg_open_1 = ''Return 0 if the file exists and the user has permission to open it. It currently returns %d when trying to open a file just created: '' @ [quote] @ ''%s'' @ [quote] @ ''.''"

definition msg_unlink_4 :: string where
  "msg_unlink_4 = ''Return 0 if the file was successfully removed. It currently returns %d when trying to remove a file just created: '' @ [quote] @ ''%s'' @ [quote] @ ''.''"

definition msg_create_2 :: string where
  "msg_create_2 = ''Return a non-negative number if the file was created successfully. It currently returns %d when trying to create the file: '' @ [quote] @ ''%s'' @ [quote] @ ''.''"

definition msg_open_2 :: string where
  "msg_open_2 = ''Return a negative number if a file cannot be opened. It currently returns %d when called with a non-existent path ('' @ [quote] @ ''%s'' @ [quote] @ '').''"

definition msg_write_2 :: string where
  "msg_write_2 = ''Write should return the number of bytes written except on error, so %d (not %d) when writing '' @ [quote] @ ''%s'' @ [quote] @ '' to '' @ [quote] @ ''%s'' @ [quote] @ '').''"

definition msg_read_2 :: string where
  "msg_read_2 = ''Read should have filled the buffer with '' @ [quote] @ ''%s'' @ [quote] @ '' as this was the data written to '' @ [quote] @ ''%s'' @ [quote] @ '').''"

definition msg_read_1 :: string where
  "msg_read_1 = ''Read should return the number of bytes read except on error, so %d (not %d) when reading '' @ [quote] @ ''%s'' @ [quote] @ '' from '' @ [quote] @ ''%s'' @ [quote] @ '').''"

definition msg_unlink_5 :: string where
  "msg_unlink_5 = ''Return 0 if the file was successfully removed. It currently returns %d when trying to remove a file just created: '' @ [quote] @ ''%s'' @ [quote] @ ''.''"

definition msg_create_3 :: string where
  "msg_create_3 = ''Return a non-negative number if the file was created successfully. It currently returns %d when trying to create the file: '' @ [quote] @ ''%s'' @ [quote] @ ''.''"

definition msg_symlink_1 :: string where
  "msg_symlink_1 = ''Symlink should return 0 when a symbolic link is created successfully (actual return value was %d)''"

definition msg_link_1 :: string where
  "msg_link_1 = ''Link should return 0 when a hard link is created successfully (actual return value was %d)''"

definition msg_readlink_1 :: string where
  "msg_readlink_1 = ''Return a negative number if a link cannot be opened. It currently returns %d when called with a non-existent path ('' @ [quote] @ ''%s'' @ [quote] @ '').''"

definition msg_rename_1 :: string where
  "msg_rename_1 = ''Rename should return 0 when the file is renamed successfully (actual return value was %d)''"

definition msg_truncate_1 :: string where
  "msg_truncate_1 = ''Truncate should return 0 when the file is truncated successfully (actual return value was %d)''"

definition msg_statfs_1 :: string where
  "msg_statfs_1 = ''Statfs should always return 0 when called with root path as it should never fail. It returned %d.''"

definition msg_utimens_1 :: string where
  "msg_utimens_1 = ''Function should return 0 when setting access and modification times for a file that exists. It returned %d.''"

subsection \<open>The tests\<close>

definition new_file :: string where "new_file = ''/new_file.txt''"
definition new_dir :: string where "new_dir = ''/new_dir''"
definition new_link :: string where "new_link = ''/new_link.txt''"
definition moved_file :: string where "moved_file = ''/moved_file.txt''"
definition new_file_1 :: string where "new_file_1 = ''/new_file_1.txt''"
definition new_file_2 :: string where "new_file_2 = ''/new_file_2.txt''"
definition test_data :: string where "test_data = ''this is a test string''"

definition done_step :: "fuse_out \<Rightarrow> 'u test_step" where
  \<comment> \<open>the result of a call is not used\<close>
  "done_step r w = Inr w"

definition fi_with :: "int \<Rightarrow> fuse_file_info \<Rightarrow> fuse_file_info" where
  \<comment> \<open>\<open>fi->flags = ...\<close>\<close>
  "fi_with fl fi = fi\<lparr>flags := fl\<rparr>"

definition create_file :: "'u host \<Rightarrow> string \<Rightarrow> fuse_call" where
  \<comment> \<open>\<open>create\<close> with a fresh \<open>fi\<close> of which only the flags are set\<close>
  "create_file h path = C_create (Some path) file_mode (fi_with O_RDWR_CREAT (junk_fi h))"

definition test_operations :: "'u host \<Rightarrow> 'u fuse_operations option \<Rightarrow> 'u test_step" where
  "test_operations h op w =
    (if test_failed w then Inr w
     else if is_skipped ''test_operations'' 0 w then test_skip ''test_operations'' 0 False w
     else check (op \<noteq> None) ''test_operations'' 0 False msg_operations_0 [] w)"

definition test_init :: "'u host \<Rightarrow> 'u fuse_operations option \<Rightarrow> 'u test_step" where
  "test_init h op = guarded_test op ''test_init'' ''init'' True []"

definition test_getattr :: "'u host \<Rightarrow> 'u fuse_operations option \<Rightarrow> 'u test_step" where
  "test_getattr h op = guarded_test op ''test_getattr'' ''getattr'' False
    [unless_skipped ''test_getattr'' 1 False
       (invoke op (C_getattr (Some non_existent_file) (junk_stat h)) (\<lambda>r.
          check (ret r < 0) ''test_getattr'' 1 False msg_getattr_1 [Arg_d (ret r), Arg_s non_existent_file])),
     unless_skipped ''test_getattr'' 2 False
       (invoke op (C_getattr (Some ''/'') (junk_stat h)) (\<lambda>r.
          check (ret r = 0) ''test_getattr'' 2 False msg_getattr_2 [Arg_d (ret r)]))]"

definition test_access :: "'u host \<Rightarrow> 'u fuse_operations option \<Rightarrow> 'u test_step" where
  "test_access h op = guarded_test op ''test_access'' ''access'' False
    [unless_skipped ''test_access'' 1 False
       (invoke op (C_access (Some non_existent_file) F_OK) (\<lambda>r.
          check (ret r < 0) ''test_access'' 1 False msg_access_1 [Arg_d (ret r), Arg_s non_existent_file])),
     unless_skipped ''test_access'' 2 False
       (invoke op (C_access (Some ''/'') F_OK) (\<lambda>r.
          check (ret r = 0) ''test_access'' 2 False msg_access_2 [Arg_d (ret r)])),
     unless_skipped ''test_access'' 3 False
       (invoke op (C_access (Some ''/'') R_OK) (\<lambda>r.
          check (ret r = 0) ''test_access'' 3 False msg_access_3 [Arg_d (ret r)]))]"

definition test_rmdir :: "'u host \<Rightarrow> 'u fuse_operations option \<Rightarrow> 'u test_step" where
  "test_rmdir h op = guarded_test op ''test_rmdir'' ''rmdir'' False
    [unless_skipped ''test_rmdir'' 1 False
       (invoke op (C_rmdir (Some non_existent_dir)) (\<lambda>r.
          if ret r < 0 then steps
            [test_pass ''test_rmdir'' 1 False,
             unless_skipped ''test_rmdir'' 2 False (\<lambda>w.
               check (errno_of h (w_user w) = ENOENT) ''test_rmdir'' 2 False msg_rmdir_2 [Arg_s non_existent_dir] w)]
          else test_fail ''test_rmdir'' 1 False msg_rmdir_1 [Arg_d (ret r), Arg_s non_existent_dir])),
     invoke op (C_rmdir (Some new_dir)) done_step]"

definition test_mkdir :: "'u host \<Rightarrow> 'u fuse_operations option \<Rightarrow> 'u test_step" where
  "test_mkdir h op = guarded_test op ''test_mkdir'' ''mkdir'' False
    [unless_skipped ''test_mkdir'' 1 False
       (invoke op (C_mkdir (Some new_dir) 511) (\<lambda>r.
          if ret r = 0 then steps
            [test_pass ''test_mkdir'' 1 False,
             unless_skipped ''test_mkdir'' 2 False (steps
               [invoke op (C_mkdir (Some new_dir) 0) (\<lambda>r.
                  if ret r < 0 then steps
                    [test_pass ''test_mkdir'' 2 False,
                     (\<lambda>w. check (errno_of h (w_user w) = EEXIST) ''test_mkdir'' 3 False msg_mkdir_3 [Arg_s new_dir] w)]
                  else test_fail ''test_mkdir'' 2 False msg_mkdir_2 [Arg_d (ret r), Arg_s new_dir]),
                unless_skipped ''test_mkdir'' 3 False
                  (invoke op (C_rmdir (Some new_dir)) (\<lambda>r.
                     check (ret r = 0) ''test_rmdir'' 3 False msg_rmdir_3 [Arg_d (ret r), Arg_s new_dir]))])]
          else test_fail ''test_mkdir'' 1 False msg_mkdir_1 [Arg_d (ret r), Arg_s new_dir]))]"

definition test_unlink :: "'u host \<Rightarrow> 'u fuse_operations option \<Rightarrow> 'u test_step" where
  "test_unlink h op = guarded_test op ''test_unlink'' ''unlink'' False
    [unless_skipped ''test_unlink'' 1 False
       (invoke op (C_unlink (Some non_existent_file)) (\<lambda>r.
          if ret r < 0 then steps
            [test_pass ''test_unlink'' 1 False,
             unless_skipped ''test_unlink'' 2 False (\<lambda>w.
               check (errno_of h (w_user w) = ENOENT) ''test_unlink'' 2 False msg_unlink_2 [Arg_s non_existent_file] w)]
          else test_fail ''test_unlink'' 1 False msg_unlink_1 [Arg_d (ret r), Arg_s non_existent_file])),
     invoke op (C_unlink (Some new_file)) done_step]"

definition test_create :: "'u host \<Rightarrow> 'u fuse_operations option \<Rightarrow> 'u test_step" where
  "test_create h op = guarded_test op ''test_create'' ''create'' False
    [unless_skipped ''test_create'' 1 False
       (invoke op (create_file h new_file) (\<lambda>r.
          if ret r \<ge> 0 then steps
            [test_pass ''test_create'' 1 False,
             unless_skipped ''test_unlink'' 3 False
               (invoke op (C_unlink (Some new_file)) (\<lambda>r.
                  check (ret r = 0) ''test_unlink'' 3 False msg_unlink_3 [Arg_d (ret r), Arg_s new_file]))]
          else test_fail ''test_create'' 1 False msg_create_1 [Arg_d (ret r), Arg_s new_file]))]"

definition test_fgetattr :: "'u host \<Rightarrow> 'u fuse_operations option \<Rightarrow> 'u test_step" where
  "test_fgetattr h op = guarded_test op ''test_fgetattr'' ''fgetattr'' False
    [unless_skipped ''test_fgetattr'' 1 False
       (invoke op (create_file h new_file) (\<lambda>c. steps
          [invoke op (C_fgetattr (Some new_file) (junk_stat h) (o_fi c)) (\<lambda>r.
             check (ret r = 0) ''test_fgetattr'' 1 False msg_fgetattr_1 [Arg_d (ret r), Arg_s new_file]),
           invoke op (C_unlink (Some new_file)) done_step]))]"

definition test_flush :: "'u host \<Rightarrow> 'u fuse_operations option \<Rightarrow> 'u test_step" where
  "test_flush h op = guarded_test op ''test_flush'' ''flush'' False []"

definition test_release :: "'u host \<Rightarrow> 'u fuse_operations option \<Rightarrow> 'u test_step" where
  "test_release h op = guarded_test op ''test_release'' ''release'' True []"

definition test_opendir :: "'u host \<Rightarrow> 'u fuse_operations option \<Rightarrow> 'u test_step" where
  "test_opendir h op = guarded_test op ''test_opendir'' ''opendir'' True
    [unless_skipped ''test_opendir'' 1 True
       (invoke op (C_opendir (Some ''/'') (junk_fi h)) (\<lambda>r.
          check (ret r = 0) ''test_opendir'' 1 True msg_opendir_1 [Arg_d (ret r)])),
     unless_skipped ''test_opendir'' 2 True
       (invoke op (C_opendir (Some non_existent_dir) (junk_fi h)) (\<lambda>r.
          check (ret r \<noteq> 0) ''test_opendir'' 2 True msg_opendir_2 [Arg_d (ret r), Arg_s non_existent_dir]))]"

definition filler :: "string \<Rightarrow> 'u wizard_run \<Rightarrow> 'u wizard_run" where
  "filler name w = (if executing_readdir w
     then (let w = (if name = ''.'' then w\<lparr>filled_file_cur := True\<rparr>
             else if name = ''..'' then w\<lparr>filled_file_parent := True\<rparr>
             else if name = ''new_file_1.txt'' then w\<lparr>filled_new_file_1 := True\<rparr>
             else if name = ''new_file_2.txt'' then w\<lparr>filled_new_file_2 := True\<rparr> else w)
           in w\<lparr>files_filled := wrap32 (files_filled w + 1)\<rparr>)
     else w)"

definition read_directory :: "'u host \<Rightarrow> 'u fuse_operations option \<Rightarrow> fuse_file_info \<Rightarrow> (fuse_out \<Rightarrow> 'u test_step) \<Rightarrow> 'u test_step" where
  \<comment> \<open>the operation calls \<open>filler\<close> for each of its entries\<close>
  "read_directory h op fi k w = invoke op (C_readdir (Some ''/'') 0 (filler_ptr h) 0 fi) (\<lambda>r w.
     k r ((fold filler (o_entries r) w)\<lparr>executing_readdir := False\<rparr>)) (w\<lparr>executing_readdir := True\<rparr>)"

definition readdir_checks :: "'u test_step list" where
  "readdir_checks =
    [(\<lambda>w. if is_skipped ''test_readdir'' 2 w then test_skip ''test_readdir'' 2 False w
          else if \<not> bad_increment w then test_pass ''test_readdir'' 2 False w else Inr w),
     unless_skipped ''test_readdir'' 3 False (\<lambda>w.
       check (filled_file_cur w) ''test_readdir'' 3 False msg_readdir_3 [] w),
     unless_skipped ''test_readdir'' 4 False (\<lambda>w.
       check (filled_file_parent w) ''test_readdir'' 4 False msg_readdir_4 [] w),
     unless_skipped ''test_readdir'' 5 False (\<lambda>w.
       check (filled_new_file_1 w) ''test_readdir'' 5 False msg_readdir_5 [Arg_s new_file_1] w),
     unless_skipped ''test_readdir'' 6 False (\<lambda>w.
       check (filled_new_file_2 w) ''test_readdir'' 6 False msg_readdir_6 [Arg_s new_file_2] w),
     unless_skipped ''test_readdir'' 7 False (\<lambda>w.
       check (files_filled w = 4) ''test_readdir'' 7 False msg_readdir_7
         [Arg_s new_file_1, Arg_s new_file_2, Arg_d (files_filled w)] w)]"

definition test_readdir :: "'u host \<Rightarrow> 'u fuse_operations option \<Rightarrow> 'u test_step" where
  "test_readdir h op = guarded_test op ''test_readdir'' ''readdir'' False
    [(\<lambda>w. if \<not> is_skipped ''test_readdir'' 1 w then
       invoke op (create_file h new_file_1) (\<lambda>_.
       invoke op (create_file h new_file_2) (\<lambda>_.
       invoke op (C_opendir (Some ''/'') (junk_fi h)) (\<lambda>d. steps
         (read_directory h op (o_fi d) (\<lambda>r.
            check (ret r = 0) ''test_readdir'' 1 False msg_readdir_1 [Arg_d (ret r)])
          # readdir_checks
          @ [invoke op (C_unlink (Some new_file_1)) done_step, invoke op (C_unlink (Some new_file_2)) done_step])))) w
       else Inr w)]"

definition test_releasedir :: "'u host \<Rightarrow> 'u fuse_operations option \<Rightarrow> 'u test_step" where
  "test_releasedir h op = guarded_test op ''test_releasedir'' ''releasedir'' False []"

definition test_open :: "'u host \<Rightarrow> 'u fuse_operations option \<Rightarrow> 'u test_step" where
  "test_open h op = guarded_test op ''test_open'' ''open'' True
    [unless_skipped ''test_open'' 1 True
       (invoke op (create_file h new_file) (\<lambda>c.
          if ret c \<ge> 0 then steps
            [test_pass ''test_create'' 2 True,
             invoke op (C_open (Some new_file) (fi_with O_RDWR (o_fi c))) (\<lambda>r.
               check (ret r = 0) ''test_open'' 1 True msg_open_1 [Arg_d (ret r), Arg_s new_file]),
             invoke op (C_unlink (Some new_file)) (\<lambda>r.
               check (ret r = 0) ''test_unlink'' 4 True msg_unlink_4 [Arg_d (ret r), Arg_s new_file])]
          else test_fail ''test_create'' 2 True msg_create_2 [Arg_d (ret c), Arg_s new_file])),
     unless_skipped ''test_open'' 2 True
       (invoke op (C_open (Some non_existent_file) (fi_with O_RDWR (junk_fi h))) (\<lambda>r.
          check (ret r \<noteq> 0) ''test_open'' 2 True msg_open_2 [Arg_d (ret r), Arg_s non_existent_file]))]"

definition read_back :: "'u host \<Rightarrow> 'u fuse_operations option \<Rightarrow> fuse_file_info \<Rightarrow> 'u test_step" where
  \<comment> \<open>the read test nested in the write test: the buffer is not terminated before it is compared\<close>
  "read_back h op fi = unless_skipped ''test_read'' 0 False (\<lambda>w. case op of None \<Rightarrow> Inl NullPointer
     | Some fo \<Rightarrow> if has_op fo ''read'' then steps
         [test_pass ''test_read'' 0 False,
          unless_skipped ''test_read'' 1 False
            (invoke op (C_read (Some new_file) (junk_buf h) 1024 0 fi) (\<lambda>r.
               if ret r = int (length test_data) then steps
                 [test_pass ''test_read'' 1 False,
                  unless_skipped ''test_read'' 2 False
                    (check (cstr (o_buf r) = test_data) ''test_read'' 2 False msg_read_2 [Arg_s test_data, Arg_s new_file])]
               else test_fail ''test_read'' 1 False msg_read_1
                 [Arg_d (int (length test_data)), Arg_d (ret r), Arg_s test_data, Arg_s new_file]))] w
       else test_fail ''test_read'' 0 False function_not_defined_err [] w)"

definition write_and_read :: "'u host \<Rightarrow> 'u fuse_operations option \<Rightarrow> fuse_file_info \<Rightarrow> 'u test_step" where
  "write_and_read h op fi = unless_skipped ''test_write'' 2 False
     (invoke op (C_write (Some new_file) test_data (int (length test_data)) 0 fi) (\<lambda>r. steps
        [check (ret r = int (length test_data)) ''test_write'' 2 False msg_write_2
           [Arg_d (int (length test_data)), Arg_d (ret r), Arg_s test_data, Arg_s new_file],
         read_back h op (o_fi r)]))"

definition test_read_and_write :: "'u host \<Rightarrow> 'u fuse_operations option \<Rightarrow> 'u test_step" where
  "test_read_and_write h op = guarded_test op ''test_write'' ''write'' False
    [(\<lambda>w. if \<not> is_skipped ''test_create'' 3 w then
       invoke op (create_file h new_file) (\<lambda>c.
         if ret c \<ge> 0 then steps
           [test_pass ''test_create'' 3 False,
            invoke op (C_open (Some new_file) (o_fi c)) (\<lambda>r.
              if ret r = 0 then steps [test_pass ''test_open'' 2 False, write_and_read h op (o_fi r)]
              else test_fail ''test_open'' 2 False msg_open_1 [Arg_d (ret r), Arg_s new_file]),
            invoke op (C_unlink (Some new_file)) (\<lambda>r.
              check (ret r = 0) ''test_unlink'' 5 False msg_unlink_5 [Arg_d (ret r), Arg_s new_file])]
         else test_fail ''test_create'' 3 False msg_create_3 [Arg_d (ret c), Arg_s new_file]) w
       else test_skip ''test_write'' 1 False w)]"

definition test_symlink :: "'u host \<Rightarrow> 'u fuse_operations option \<Rightarrow> 'u test_step" where
  "test_symlink h op = guarded_test op ''test_symlink'' ''symlink'' False
    [invoke op (create_file h new_file) done_step,
     unless_skipped ''test_symlink'' 1 False (steps
       [invoke op (C_symlink (Some new_file) (Some new_link)) (\<lambda>r.
          check (ret r = 0) ''test_symlink'' 1 False msg_symlink_1 [Arg_d (ret r)]),
        invoke op (C_unlink (Some new_link)) done_step]),
     invoke op (C_unlink (Some new_file)) done_step]"

definition test_link :: "'u host \<Rightarrow> 'u fuse_operations option \<Rightarrow> 'u test_step" where
  "test_link h op = guarded_test op ''test_link'' ''link'' False
    [invoke op (create_file h new_file) done_step,
     unless_skipped ''test_link'' 1 False (steps
       [invoke op (C_link (Some new_file) (Some new_link)) (\<lambda>r.
          check (ret r = 0) ''test_link'' 1 False msg_link_1 [Arg_d (ret r)]),
        invoke op (C_unlink (Some new_link)) done_step]),
     invoke op (C_unlink (Some new_file)) done_step]"

definition test_readlink :: "'u host \<Rightarrow> 'u fuse_operations option \<Rightarrow> 'u test_step" where
  \<comment> \<open>the code calls the system's \<open>readlink\<close>, not the operation\<close>
  "test_readlink h op = guarded_test op ''test_readlink'' ''readlink'' False
    [unless_skipped ''test_readlink'' 1 False
       (let retval = host_readlink h non_existent_file in
        check (retval = -1) ''test_readlink'' 1 False msg_readlink_1 [Arg_d retval, Arg_s non_existent_file])]"

definition test_rename :: "'u host \<Rightarrow> 'u fuse_operations option \<Rightarrow> 'u test_step" where
  "test_rename h op = guarded_test op ''test_rename'' ''rename'' False
    [invoke op (create_file h new_file) done_step,
     unless_skipped ''test_rename'' 1 False (steps
       [invoke op (C_rename (Some new_file) (Some moved_file)) (\<lambda>r.
          check (ret r = 0) ''test_rename'' 1 False msg_rename_1 [Arg_d (ret r)]),
        invoke op (C_unlink (Some new_link)) done_step]),
     invoke op (C_unlink (Some new_file)) done_step,
     invoke op (C_unlink (Some moved_file)) done_step]"

definition test_truncate :: "'u host \<Rightarrow> 'u fuse_operations option \<Rightarrow> 'u test_step" where
  "test_truncate h op = guarded_test op ''test_truncate'' ''truncate'' False
    [unless_skipped ''test_truncate'' 1 False
       (invoke op (create_file h new_file) (\<lambda>c.
        invoke op (C_open (Some new_file) (o_fi c)) (\<lambda>o'. steps
          [invoke op (C_write (Some new_file) test_data (int (length test_data)) 0 (o_fi o')) done_step,
           invoke op (C_truncate (Some new_file) 5) (\<lambda>r.
             check (ret r = 0) ''test_truncate'' 1 False msg_truncate_1 [Arg_d (ret r)]),
           invoke op (C_unlink (Some new_file)) done_step])))]"

definition test_statfs :: "'u host \<Rightarrow> 'u fuse_operations option \<Rightarrow> statvfs \<Rightarrow> 'u test_step" where
  \<comment> \<open>defined, but left out of the run\<close>
  "test_statfs h op junk = guarded_test op ''test_statfs'' ''statfs'' False
    [unless_skipped ''test_statfs'' 1 False
       (invoke op (C_statfs (Some ''/'') junk) (\<lambda>r.
          check (ret r = 0) ''test_statfs'' 1 False msg_statfs_1 [Arg_d (ret r)]))]"

definition test_utimens :: "'u host \<Rightarrow> 'u fuse_operations option \<Rightarrow> 'u test_step" where
  "test_utimens h op = guarded_test op ''test_utimens'' ''utimens'' False
    [unless_skipped ''test_utimens'' 1 False
       (invoke op (create_file h new_file) (\<lambda>c. steps
          [invoke op (C_open (Some new_file) (o_fi c)) done_step,
           invoke op (C_utimens (Some new_file) [\<lparr>tv_sec = 50, tv_nsec = 50000000000\<rparr>, \<lparr>tv_sec = 20, tv_nsec = 20000000000\<rparr>]) (\<lambda>r.
             check (ret r = 0) ''test_utimens'' 1 False msg_utimens_1 [Arg_d (ret r)]),
           invoke op (C_unlink (Some new_file)) done_step]))]"

subsection \<open>The run\<close>

fun split_at :: "char \<Rightarrow> string \<Rightarrow> string list" where
  "split_at d [] = [[]]"
| "split_at d (c # cs) = (if c = d then [] # split_at d cs
     else (case split_at d cs of t # ts \<Rightarrow> (c # t) # ts | [] \<Rightarrow> [[c]]))"

definition strtok :: "string \<Rightarrow> char \<Rightarrow> string list" where
  \<comment> \<open>the tokens of repeated calls; empty fields are passed over\<close>
  "strtok s d = filter (\<lambda>t. t \<noteq> []) (split_at d s)"

definition parse_skipped :: "string option \<Rightarrow> string option list" where
  \<comment> \<open>\<open>g_slist_alloc\<close> makes a first node without data\<close>
  "parse_skipped env = None # (case env of None \<Rightarrow> [] | Some s \<Rightarrow> map Some (strtok s (CHR '','')))"

definition wizard_sequence :: "'u host \<Rightarrow> 'u fuse_operations option \<Rightarrow> 'u test_step list" where
  "wizard_sequence h op = [test_operations h op, test_init h op, test_getattr h op, test_access h op, test_rmdir h op,
     test_mkdir h op, test_unlink h op, test_create h op, test_fgetattr h op, test_flush h op, test_release h op,
     test_opendir h op, test_readdir h op, test_releasedir h op, test_open h op, test_read_and_write h op,
     test_symlink h op, test_readlink h op, test_link h op, test_rename h op, test_truncate h op, test_utimens h op]"

definition wizard_start :: "string option \<Rightarrow> 'u \<Rightarrow> 'u wizard_run" where
  "wizard_start env u = \<lparr>w_user = u, w_sent = [], wizard_fifo = False, test_failed = False,
     skip_list = parse_skipped env, filled_file_cur = False, filled_file_parent = False, filled_new_file_1 = False,
     filled_new_file_2 = False, executing_readdir = False, bad_increment = False, files_filled = 0\<rparr>"

definition fwizard_init :: "'u host \<Rightarrow> 'u fuse_operations option \<Rightarrow> string option \<Rightarrow> 'u \<Rightarrow> 'u wizard_run c_res" where
  \<comment> \<open>the string is \<open>getenv("SKIPPED_TESTS")\<close>\<close>
  "fwizard_init h op env u = steps (wizard_fifo_init # wizard_sequence h op @ [tests_end, wizard_fifo_destroy]) (wizard_start env u)"

end
