(* ===== verification/Wizard_Props.thy ===== *)
theory Wizard_Props
  imports Wizard_Tests
begin

section \<open>Properties of the wizard's tests\<close>

text \<open>
  Every test is a well-behaved step: where the operations it calls are there it returns, and what
  it adds to the pipe is a list of events that can be read back, one of which says that a check
  failed exactly when the test sets \<open>test_failed\<close>. The rules for the statements the tests are made
  of are the collection \<open>well_intros\<close>, so that the proof for a test is its text.
\<close>

named_theorems well_intros "the statements of a test are well-behaved"

subsection \<open>Messages\<close>

definition clean :: "string \<Rightarrow> bool" where
  "clean s \<longleftrightarrow> backslash \<notin> set s \<and> NUL \<notin> set s"

primrec clean_arg :: "fmt_arg \<Rightarrow> bool" where
  "clean_arg (Arg_d i) = True"
| "clean_arg (Arg_s s) = clean s"

lemma clean_simps [simp]:
  "clean []" "clean (c # s) \<longleftrightarrow> c \<noteq> backslash \<and> c \<noteq> NUL \<and> clean s" "clean (s @ t) \<longleftrightarrow> clean s \<and> clean t"
  by (auto simp: clean_def)

lemma clean_sub: "clean s \<Longrightarrow> clean (take n s)" "clean s \<Longrightarrow> clean (cstr s)" "clean s \<Longrightarrow> frameable_string s"
  "clean s \<Longrightarrow> cstring s"
  by (auto simp: clean_def cstr_def frameable_string_def cstring_def dest: in_set_takeD set_takeWhileD last_in_set)

lemma clean_show_int [simp]: "clean (show_int i)"
proof -
  have "backslash \<notin> set (show_nat n)" for n
    using show_nat_digits [of backslash n] by (auto simp: c_isdigit_def)
  then show ?thesis using cstring_show_int [of i] by (auto simp: clean_def show_int_def cstring_def)
qed

lemma clean_vformat: "clean fmt \<Longrightarrow> list_all clean_arg as \<Longrightarrow> clean (vformat fmt as)"
proof (induction fmt as rule: vformat.induct)
  case (1 c d s a as)
  then show ?case by (cases a) (auto simp: conversion_def split: option.splits if_splits)
qed simp_all

lemma clean_constants [simp]:
  "clean function_not_defined_err" "clean non_existent_file" "clean non_existent_dir" "clean new_file" "clean new_dir"
  "clean new_link" "clean moved_file" "clean new_file_1" "clean new_file_2" "clean test_data"
  by (simp_all add: function_not_defined_err_def non_existent_file_def non_existent_dir_def new_file_def new_dir_def
      new_link_def moved_file_def new_file_1_def new_file_2_def test_data_def)

lemma clean_messages [simp]:
  "clean msg_operations_0" "clean msg_getattr_1" "clean msg_getattr_2" "clean msg_access_1"
  "clean msg_access_2" "clean msg_access_3" "clean msg_rmdir_2" "clean msg_rmdir_1" "clean msg_mkdir_3"
  "clean msg_mkdir_2" "clean msg_rmdir_3" "clean msg_mkdir_1" "clean msg_unlink_2" "clean msg_unlink_1"
  "clean msg_unlink_3" "clean msg_create_1" "clean msg_fgetattr_1" "clean msg_opendir_1"
  "clean msg_opendir_2" "clean msg_readdir_1" "clean msg_readdir_3" "clean msg_readdir_4"
  "clean msg_readdir_5" "clean msg_readdir_6" "clean msg_readdir_7" "clean msg_open_1"
  "clean msg_unlink_4" "clean msg_create_2" "clean msg_open_2" "clean msg_write_2" "clean msg_read_2"
  "clean msg_read_1" "clean msg_unlink_5" "clean msg_create_3" "clean msg_symlink_1" "clean msg_link_1"
  "clean msg_readlink_1" "clean msg_rename_1" "clean msg_truncate_1" "clean msg_statfs_1"
  "clean msg_utimens_1"
  by (simp_all add:
      msg_operations_0_def msg_getattr_1_def msg_getattr_2_def msg_access_1_def msg_access_2_def
      msg_access_3_def msg_rmdir_2_def msg_rmdir_1_def msg_mkdir_3_def msg_mkdir_2_def msg_rmdir_3_def
      msg_mkdir_1_def msg_unlink_2_def msg_unlink_1_def msg_unlink_3_def msg_create_1_def
      msg_fgetattr_1_def msg_opendir_1_def msg_opendir_2_def msg_readdir_1_def msg_readdir_3_def
      msg_readdir_4_def msg_readdir_5_def msg_readdir_6_def msg_readdir_7_def msg_open_1_def
      msg_unlink_4_def msg_create_2_def msg_open_2_def msg_write_2_def msg_read_2_def msg_read_1_def
      msg_unlink_5_def msg_create_3_def msg_symlink_1_def msg_link_1_def msg_readlink_1_def
      msg_rename_1_def msg_truncate_1_def msg_statfs_1_def msg_utimens_1_def)

subsection \<open>What a test writes\<close>

datatype wevent = WEvent (we_func: string) (we_num: int) (we_passed: bool) (we_optional: bool) (we_message: string)

definition we_json :: "wevent \<Rightarrow> cJSON" where
  "we_json e = wizard_event (we_func e) (we_num e) (we_passed e) (we_optional e) (we_message e)"

abbreviation we_text :: "wevent \<Rightarrow> string" where
  "we_text e \<equiv> json_text True 0 (we_json e)"

definition test_name :: "string \<Rightarrow> bool" where
  "test_name func \<longleftrightarrow> clean func \<and> take 5 func = ''test_''"

definition we_ok :: "wevent \<Rightarrow> bool" where
  "we_ok e \<longleftrightarrow> test_name (we_func e) \<and> clean (we_message e) \<and> is_int (we_num e)"

definition we_clean :: "wevent \<Rightarrow> bool" where
  "we_clean e \<longleftrightarrow> clean (we_func e) \<and> clean (we_message e) \<and> is_int (we_num e)"

lemma we_ok_clean [simp]: "we_ok e \<Longrightarrow> we_clean e"
  by (simp add: we_ok_def we_clean_def test_name_def)

lemma we_sendable: "we_clean e \<Longrightarrow> sendable (we_json e)"
proof -
  assume e: "we_clean e"
  then have "small (we_num e)" by (auto simp: we_clean_def is_int_def small_def abs_if)
  moreover have "plain (we_func e)" "plain (we_message e)"
    using e by (auto simp: we_clean_def plain_def clean_sub)
  ultimately show ?thesis
    by (simp add: we_json_def wizard_event_def Let_def json_add_defs sendable_def small_def plain_keys [of "''func_name''"]
        plain_keys [of "''test_num''"] plain_keys [of "''passed''"] plain_keys [of "''optional''"] plain_keys [of "''message''"])
qed

definition logged :: "'u wizard_run \<Rightarrow> wevent list \<Rightarrow> 'u wizard_run \<Rightarrow> bool" where
  "logged w es w' \<longleftrightarrow> w_sent w' = w_sent w @ concat (map we_text es) \<and> list_all we_ok es
     \<and> wizard_fifo w' = wizard_fifo w \<and> skip_list w' = skip_list w
     \<and> (test_failed w' \<longleftrightarrow> test_failed w \<or> (\<exists>e \<in> set es. \<not> we_passed e))"

lemma logged_refl: "logged w [] w"
  by (simp add: logged_def)

lemma logged_trans: "logged w es w' \<Longrightarrow> logged w' ds w'' \<Longrightarrow> logged w (es @ ds) w''"
  by (auto simp: logged_def)

definition all_provided :: "'u fuse_operations option \<Rightarrow> bool" where
  \<comment> \<open>every operation the tests call is there\<close>
  "all_provided op \<longleftrightarrow> (\<exists>fo. op = Some fo \<and> list_all (has_op fo) [''getattr'', ''access'', ''rmdir'', ''mkdir'', ''unlink'',
     ''create'', ''fgetattr'', ''opendir'', ''readdir'', ''open'', ''write'', ''read'', ''symlink'', ''link'',
     ''rename'', ''truncate'', ''utimens''])"

definition well :: "'u fuse_operations option \<Rightarrow> 'u test_step \<Rightarrow> bool" where
  \<comment> \<open>the step logs what it does, and fails only by calling an operation that is not there\<close>
  "well op f \<longleftrightarrow> (\<forall>w. wizard_fifo w \<longrightarrow> (case f w of Inr w' \<Rightarrow> \<exists>es. logged w es w'
     | Inl e \<Rightarrow> e = NullPointer \<and> \<not> all_provided op))"

lemma wellI:
  "(\<And>w w'. wizard_fifo w \<Longrightarrow> f w = Inr w' \<Longrightarrow> \<exists>es. logged w es w')
   \<Longrightarrow> (\<And>w e. wizard_fifo w \<Longrightarrow> f w = Inl e \<Longrightarrow> e = NullPointer \<and> \<not> all_provided op) \<Longrightarrow> well op f"
  by (auto simp: well_def split: sum.splits)

lemma wellE:
  assumes "well op f" "wizard_fifo w"
  obtains (returns) w' es where "f w = Inr w'" "logged w es w'" | (crashes) "f w = Inl NullPointer" "\<not> all_provided op"
  using assms unfolding well_def by (cases "f w") fastforce+

lemma report_eq:
  assumes "is_int n" "wizard_fifo w" "m' = (case args of Some as \<Rightarrow> snprintf (length func + length m + 1024) (vformat m as) | None \<Rightarrow> m)"
  shows "report_wizard_event func n passed optional m args w
    = Inr (w\<lparr>w_sent := w_sent w @ we_text (WEvent func n passed optional m')\<rparr>)"
proof -
  have "wf_json (we_json (WEvent func n passed optional m'))"
    using assms(1) small_def by (auto simp: we_json_def wizard_event_def Let_def json_add_defs is_int_def abs_if)
  then show ?thesis using assms
    by (simp add: report_wizard_event_def Let_def cJSON_Print_wf we_json_def)
qed

lemma well_pass [well_intros]: "test_name func \<Longrightarrow> is_int n \<Longrightarrow> well op (test_pass func n optional)"
  unfolding test_pass_def
  by (rule wellI) (auto simp: report_eq logged_def we_ok_def intro!: exI [of _ "[WEvent func n True optional []]"])

lemma well_skip [well_intros]: "test_name func \<Longrightarrow> is_int n \<Longrightarrow> well op (test_skip func n optional)"
  unfolding test_skip_def
  by (rule wellI) (auto simp: report_eq logged_def we_ok_def intro!: exI [of _ "[WEvent func n True optional ''Skipped'']"])

lemma well_fail [well_intros]:
  assumes "test_name func" "is_int n" "clean m" "list_all clean_arg as"
  shows "well op (test_fail func n optional m as)"
proof -
  let ?e = "WEvent func n False optional (snprintf (length func + length m + 1024) (vformat m as))"
  have "we_ok ?e" using assms clean_vformat [OF assms(3,4)] by (simp add: we_ok_def snprintf_def clean_sub)
  then show ?thesis unfolding test_fail_def using assms(2)
    by (intro wellI) (auto simp: report_eq logged_def intro!: exI [of _ "[?e]"])
qed

lemma well_check [well_intros]:
  "test_name func \<Longrightarrow> is_int n \<Longrightarrow> clean m \<Longrightarrow> list_all clean_arg as \<Longrightarrow> well op (check c func n optional m as)"
  by (simp add: check_def well_intros)

lemma well_done [well_intros]: "well op (done_step r)" "well op Inr"
  by (auto simp: well_def done_step_def intro: logged_refl)

text \<open>The statements of the tests.\<close>

lemma well_Cons: "well op f \<Longrightarrow> well op (steps fs) \<Longrightarrow> well op (steps (f # fs))"
proof (rule wellI, goal_cases)
  case (1 w w')
  then obtain w1 es where 2: "f w = Inr w1" "logged w es w1" by (auto simp: bindr_Inr_iff elim: wellE)
  then have "wizard_fifo w1" using 1(3) by (simp add: logged_def)
  moreover from this 1(2,4) 2(1) obtain ds where "logged w1 ds w'" by (auto elim!: wellE)
  ultimately show ?case using logged_trans [OF 2(2)] by blast
next
  case (2 w e)
  from 2(1,3) show ?case
  proof (cases rule: wellE)
    case (returns w1 es)
    then have "wizard_fifo w1" using 2(3) by (simp add: logged_def)
    with 2(2,4) returns show ?thesis by (auto elim!: wellE)
  next
    case crashes
    then show ?thesis using 2(4) by simp
  qed
qed

lemma well_steps [well_intros]: "list_all (well op) fs \<Longrightarrow> well op (steps fs)"
  by (induction fs) (auto simp: well_def [of op "steps []"] intro: logged_refl well_Cons)

lemma well_if: "well op f \<Longrightarrow> well op g \<Longrightarrow> well op (if c then f else g)"
  by simp

lemma well_if_run: "well op f \<Longrightarrow> well op g \<Longrightarrow> well op (\<lambda>w. if c w then f w else g w)"
  by (auto simp: well_def)

lemma well_state: "(\<And>x. well op (f x)) \<Longrightarrow> well op (\<lambda>w. f (g w) w)"
  by (auto simp: well_def)

lemma well_unless [well_intros]:
  "test_name func \<Longrightarrow> is_int n \<Longrightarrow> well op f \<Longrightarrow> well op (unless_skipped func n optional f)"
  unfolding unless_skipped_def by (intro well_if_run well_skip)

lemma logged_user: "logged w es w' \<longleftrightarrow> logged (w\<lparr>w_user := u\<rparr>) es w'"
  by (simp add: logged_def)

lemma well_invoke [well_intros]:
  assumes "\<And>r. well op (k r)" "\<And>fo. op = Some fo \<Longrightarrow> all_provided op \<Longrightarrow> has_op fo (op_name call)"
  shows "well op (invoke op call k)"
proof (cases op)
  case None
  then show ?thesis by (auto simp: well_def invoke_def all_provided_def)
next
  case (Some fo)
  have "case k r (w\<lparr>w_user := u\<rparr>) of Inr w' \<Rightarrow> \<exists>es. logged w es w' | Inl e \<Rightarrow> e = NullPointer \<and> \<not> all_provided op"
    if "wizard_fifo w" for r u w
    using assms(1) [of r] that unfolding logged_user [of w _ _ u] by (simp add: well_def)
  then show ?thesis using assms(2) [OF Some] Some by (auto simp: well_def invoke_def split: prod.splits)
qed

lemma well_guarded [well_intros]:
  assumes "test_name func" "op \<noteq> None \<Longrightarrow> list_all (well op) body"
  shows "well op (guarded_test op func member_name optional body)"
proof (cases op)
  case None
  then have "well op (\<lambda>w. Inl NullPointer)" by (simp add: well_def all_provided_def)
  then show ?thesis unfolding guarded_test_def None using assms
    by (auto intro!: well_if_run well_intros simp: is_int_def)
next
  case (Some fo)
  then show ?thesis unfolding guarded_test_def using assms
    by (cases "has_op fo member_name") (auto intro!: well_if_run well_intros simp: is_int_def simp del: steps.simps)
qed

lemma well_check_run [well_intros]:
  assumes "test_name func" "is_int n" "clean m" "\<And>w. list_all clean_arg (as w)"
  shows "well op (\<lambda>w. check (c w) func n optional m (as w) w)"
proof -
  have "well op (check (c w) func n optional m (as w))" for w using assms by (intro well_check)
  then show ?thesis unfolding well_def by blast
qed

text \<open>A step does not see what the directory tests remember.\<close>

definition log_view :: "'u wizard_run \<Rightarrow> string \<times> bool \<times> string option list \<times> bool" where
  "log_view w = (w_sent w, wizard_fifo w, skip_list w, test_failed w)"

lemma logged_view: "log_view v = log_view w \<Longrightarrow> log_view v' = log_view w' \<Longrightarrow> logged v es v' = logged w es w'"
  by (simp add: logged_def log_view_def)

lemma log_view_simps [simp]:
  "log_view (w\<lparr>w_user := u\<rparr>) = log_view w" "log_view (w\<lparr>executing_readdir := b\<rparr>) = log_view w"
  "log_view (filler n w) = log_view w"
  by (simp_all add: log_view_def filler_def Let_def)

lemma log_view_fold [simp]: "log_view (fold filler ns w) = log_view w"
  by (induction ns arbitrary: w) simp_all

lemma well_view:
  assumes "well op f" "\<And>w. log_view (g w) = log_view w"
  shows "well op (\<lambda>w. f (g w))"
proof (rule wellI, goal_cases)
  case (1 w w')
  then have "wizard_fifo (g w)" using assms(2) [of w] by (simp add: log_view_def)
  with assms(1) 1(2) obtain es where "logged (g w) es w'" by (auto elim!: wellE)
  then show ?case using logged_view [OF assms(2) [of w] refl] by auto
next
  case (2 w e)
  then have "wizard_fifo (g w)" using assms(2) [of w] by (simp add: log_view_def)
  with assms(1) 2(2) show ?case by (auto elim!: wellE)
qed

lemma well_read_directory [well_intros]:
  assumes "\<And>r. well op (k r)"
  shows "well op (read_directory h op fi k)"
proof -
  have "well op (invoke op (C_readdir (Some ''/'') 0 (filler_ptr h) 0 fi)
      (\<lambda>r w. k r ((fold filler (o_entries r) w)\<lparr>executing_readdir := False\<rparr>)))"
    by (rule well_invoke, rule well_view [OF assms]) (auto simp: all_provided_def)
  from well_view [OF this, of "\<lambda>w. w\<lparr>executing_readdir := True\<rparr>"] show ?thesis
    unfolding read_directory_def by simp
qed

lemma provided [simp]:
  "all_provided (Some fo) \<Longrightarrow> has_op fo ''getattr''" "all_provided (Some fo) \<Longrightarrow> has_op fo ''access''"
  "all_provided (Some fo) \<Longrightarrow> has_op fo ''rmdir''" "all_provided (Some fo) \<Longrightarrow> has_op fo ''mkdir''"
  "all_provided (Some fo) \<Longrightarrow> has_op fo ''unlink''" "all_provided (Some fo) \<Longrightarrow> has_op fo ''create''"
  "all_provided (Some fo) \<Longrightarrow> has_op fo ''fgetattr''" "all_provided (Some fo) \<Longrightarrow> has_op fo ''opendir''"
  "all_provided (Some fo) \<Longrightarrow> has_op fo ''readdir''" "all_provided (Some fo) \<Longrightarrow> has_op fo ''open''"
  "all_provided (Some fo) \<Longrightarrow> has_op fo ''write''" "all_provided (Some fo) \<Longrightarrow> has_op fo ''read''"
  "all_provided (Some fo) \<Longrightarrow> has_op fo ''symlink''" "all_provided (Some fo) \<Longrightarrow> has_op fo ''link''"
  "all_provided (Some fo) \<Longrightarrow> has_op fo ''rename''" "all_provided (Some fo) \<Longrightarrow> has_op fo ''truncate''"
  "all_provided (Some fo) \<Longrightarrow> has_op fo ''utimens''"
  by (simp_all add: all_provided_def)

lemma small_test_nums [simp]: "is_int 0" "is_int 1" "is_int 2" "is_int 3" "is_int 4" "is_int 5" "is_int 6" "is_int 7"
  by (simp_all add: is_int_def)

lemma test_names [simp]:
  "test_name ''test_operations''" "test_name ''test_init''" "test_name ''test_getattr''"
  "test_name ''test_access''" "test_name ''test_rmdir''" "test_name ''test_mkdir''"
  "test_name ''test_unlink''" "test_name ''test_create''" "test_name ''test_fgetattr''"
  "test_name ''test_flush''" "test_name ''test_release''" "test_name ''test_opendir''"
  "test_name ''test_readdir''" "test_name ''test_releasedir''" "test_name ''test_open''"
  "test_name ''test_write''" "test_name ''test_read''" "test_name ''test_symlink''" "test_name ''test_link''"
  "test_name ''test_readlink''" "test_name ''test_rename''" "test_name ''test_truncate''"
  "test_name ''test_utimens''"
  by (simp_all add: test_name_def)

lemma op_name_create [simp]: "op_name (create_file h path) = ''create''"
  by (simp add: create_file_def)

lemma well_test_operations: "well op (test_operations h op)"
  unfolding test_operations_def by (intro well_if_run well_intros) simp_all

lemma well_mount_tests:
  "well op (test_init h op)" "well op (test_getattr h op)" "well op (test_access h op)" "well op (test_rmdir h op)"
  unfolding test_init_def test_getattr_def test_access_def test_rmdir_def
  by (auto intro!: well_intros)

lemma well_file_tests:
  "well op (test_mkdir h op)" "well op (test_unlink h op)" "well op (test_create h op)" "well op (test_fgetattr h op)"
  "well op (test_flush h op)" "well op (test_release h op)" "well op (test_opendir h op)" "well op (test_releasedir h op)"
  unfolding test_mkdir_def test_unlink_def test_create_def test_fgetattr_def test_flush_def test_release_def
    test_opendir_def test_releasedir_def
  by (auto intro!: well_intros)

lemma well_readdir_checks: "list_all (well op) readdir_checks"
  unfolding readdir_checks_def by (auto intro!: well_if_run well_intros)

lemma well_test_readdir: "well op (test_readdir h op)"
  unfolding test_readdir_def using well_readdir_checks [of op]
  by (auto intro!: well_if_run well_intros)

lemma well_test_open: "well op (test_open h op)"
  unfolding test_open_def by (auto intro!: well_intros)

lemma well_read_back [well_intros]: "op \<noteq> None \<Longrightarrow> well op (read_back h op fi)"
  unfolding read_back_def by (cases "has_op (the op) ''read''") (auto intro!: well_intros simp del: steps.simps)

lemma well_write_and_read [well_intros]: "op \<noteq> None \<Longrightarrow> well op (write_and_read h op fi)"
  unfolding write_and_read_def by (auto intro!: well_intros)

lemma well_test_read_and_write: "well op (test_read_and_write h op)"
  unfolding test_read_and_write_def by (auto intro!: well_if_run well_intros)

lemma well_link_tests:
  "well op (test_symlink h op)" "well op (test_readlink h op)" "well op (test_link h op)" "well op (test_rename h op)"
  "well op (test_truncate h op)" "well op (test_utimens h op)"
  unfolding test_symlink_def test_readlink_def test_link_def test_rename_def test_truncate_def test_utimens_def Let_def
  by (auto intro!: well_intros)

lemma well_sequence: "list_all (well op) (wizard_sequence h op)"
  unfolding wizard_sequence_def
  by (simp add: well_test_operations well_mount_tests well_file_tests well_test_readdir well_test_open
      well_test_read_and_write well_link_tests)

subsection \<open>A failure ends the run\<close>

lemma failed_stops: "test_failed w \<Longrightarrow> t \<in> set (wizard_sequence h op) \<Longrightarrow> t w = Inr w"
  by (auto simp: wizard_sequence_def test_operations_def test_init_def test_getattr_def test_access_def test_rmdir_def
      test_mkdir_def test_unlink_def test_create_def test_fgetattr_def test_flush_def test_release_def test_opendir_def
      test_readdir_def test_releasedir_def test_open_def test_read_and_write_def test_symlink_def test_readlink_def
      test_link_def test_rename_def test_truncate_def test_utimens_def guarded_test_def)

lemma steps_append: "steps (fs @ gs) w = bindr (steps fs w) (steps gs)"
proof (induction fs arbitrary: w)
  case (Cons f fs)
  then show ?case by (cases "f w") simp_all
qed simp

lemma steps_stopped: "\<forall>t \<in> set ts. t w = Inr w \<Longrightarrow> steps ts w = Inr w"
  by (induction ts) simp_all

subsection \<open>The whole run\<close>

definition end_event :: wevent where
  "end_event = WEvent ''__END'' 0 True True []"

lemma end_event_clean [simp]: "we_clean end_event"
  by (simp add: we_clean_def end_event_def is_int_def)

lemma tests_end_eq: "wizard_fifo w \<Longrightarrow> tests_end w = Inr (w\<lparr>w_sent := w_sent w @ we_text end_event\<rparr>)"
  by (simp add: tests_end_def report_eq end_event_def)

lemma fwizard_init_eq:
  "fwizard_init h op env u = bindr (steps (wizard_sequence h op) ((wizard_start env u)\<lparr>wizard_fifo := True\<rparr>))
     (\<lambda>w. bindr (tests_end w) wizard_fifo_destroy)"
proof -
  have "steps [tests_end, wizard_fifo_destroy] w = bindr (tests_end w) wizard_fifo_destroy" for w :: "'a wizard_run"
    by (cases "tests_end w") (auto simp: wizard_fifo_destroy_def)
  then show ?thesis
    by (cases "steps (wizard_sequence h op) ((wizard_start env u)\<lparr>wizard_fifo := True\<rparr>)")
      (auto simp: fwizard_init_def wizard_fifo_init_def steps_append)
qed

lemma report_steps:
  assumes "is_int n" "wizard_fifo w"
  shows "test_pass func n optional w = Inr (w\<lparr>w_sent := w_sent w @ we_text (WEvent func n True optional [])\<rparr>)"
    "test_skip func n optional w = Inr (w\<lparr>w_sent := w_sent w @ we_text (WEvent func n True optional ''Skipped'')\<rparr>)"
    "test_fail func n optional m as w = Inr (w\<lparr>w_sent := w_sent w @ we_text (WEvent func n False optional
       (snprintf (length func + length m + 1024) (vformat m as))), test_failed := True\<rparr>)"
  using assms by (simp_all add: test_pass_def test_skip_def test_fail_def report_eq)

lemma we_text_nonempty: "we_text e \<noteq> []"
  by (subst json_text.simps) (simp add: we_json_def wizard_event_def Let_def json_add_defs compose_object_def)

lemma first_event:
  assumes "wizard_fifo w" "\<not> test_failed w"
  obtains w' e es where "test_operations h op w = Inr w'" "logged w (e # es) w'"
proof -
  obtain t where "test_operations h op w = Inr t" "w_sent t \<noteq> w_sent w"
    using assms we_text_nonempty
    by (cases "is_skipped ''test_operations'' 0 w"; cases "op \<noteq> None") (simp_all add: test_operations_def report_steps check_def is_int_def)
  moreover have "\<exists>es. logged w es t"
    using wellE [OF well_test_operations [of op h] assms(1)] calculation(1) by fastforce
  ultimately show ?thesis using that by (metis append_Nil2 concat.simps(1) list.exhaust list.simps(8) logged_def)
qed

lemma fwizard_init_run:
  "(\<exists>w' es. fwizard_init h op env u = Inr w' \<and> list_all we_ok es \<and> es \<noteq> []
      \<and> w_sent w' = concat (map we_text (es @ [end_event])) \<and> (test_failed w' \<longleftrightarrow> (\<exists>e \<in> set es. \<not> we_passed e)))
   \<or> fwizard_init h op env u = Inl NullPointer \<and> \<not> all_provided op"
proof -
  let ?w = "(wizard_start env u)\<lparr>wizard_fifo := True\<rparr>"
  obtain w1 e es1 where w1: "test_operations h op ?w = Inr w1" "logged ?w (e # es1) w1"
    using first_event [of ?w h op] by (auto simp: wizard_start_def)
  obtain rest where seq: "wizard_sequence h op = test_operations h op # rest" by (simp add: wizard_sequence_def)
  have "well op (steps rest)" using well_sequence [of op h] by (intro well_steps) (simp add: seq)
  moreover have "wizard_fifo w1" using w1(2) by (simp add: logged_def)
  ultimately show ?thesis
  proof (cases rule: wellE)
    case (returns w' es)
    then have l: "logged ?w ((e # es1) @ es) w'" using w1(2) logged_trans by blast
    then have "wizard_fifo w'" "w_sent w' = concat (map we_text ((e # es1) @ es))" by (simp_all add: logged_def wizard_start_def)
    with returns(1) l w1(1) show ?thesis
      by (intro disjI1 exI [of _ "w'\<lparr>w_sent := w_sent w' @ we_text end_event, wizard_fifo := False\<rparr>"] exI [of _ "(e # es1) @ es"])
        (auto simp: fwizard_init_eq tests_end_eq wizard_fifo_destroy_def logged_def wizard_start_def seq)
  qed (simp add: fwizard_init_eq seq w1(1))
qed

subsection \<open>Single steps\<close>

lemma is_skipped_simps [simp]:
  "is_skipped f n (w\<lparr>w_sent := x\<rparr>) = is_skipped f n w" "is_skipped f n (w\<lparr>w_user := u\<rparr>) = is_skipped f n w"
  "is_skipped f n (w\<lparr>test_failed := b\<rparr>) = is_skipped f n w"
  by (simp_all add: is_skipped_def)

lemma cstr_prefix: "cstring s \<Longrightarrow> cstr (s @ c # t) = s \<longleftrightarrow> c = NUL"
  by (auto simp: cstr_def cstring_def takeWhile_append takeWhile_eq_all_conv)

subsection \<open>Examples\<close>

definition demo_host :: "nat host" where
  "demo_host = \<lparr>junk_fi = zero_fi, junk_stat = zero_stat, junk_buf = replicate 1024 (CHR ''x''), errno_of = (\<lambda>_. 2),
     host_readlink = (\<lambda>_. -1), filler_ptr = 1\<rparr>"

definition demo_wizard :: "nat wizard_run" where
  "demo_wizard = (wizard_start (Some ''test_opendir:0'') 0)\<lparr>wizard_fifo := True\<rparr>"

lemma demo_provided: "all_provided (Some (demo_ops r))"
  by (simp add: all_provided_def demo_ops_def del: provided)

subsection \<open>Properties\<close>

text \<open>
  C19. The wizard always finishes when every operation its tests call is provided, whatever the
  operations return: what it writes is a sequence of readable events, the last one and only the
  last one says that the run is over, and a test has failed exactly when an event says so.
\<close>

theorem wizard_completes:
  assumes "all_provided op"
  shows "\<exists>w' es. fwizard_init h op env u = Inr w' \<and> w_sent w' = concat (map we_text (es @ [end_event]))
    \<and> list_all we_ok es \<and> end_event \<notin> set es \<and> (test_failed w' \<longleftrightarrow> (\<exists>e \<in> set es. \<not> we_passed e))"
proof -
  have "\<not> we_ok end_event" by (simp add: we_ok_def end_event_def test_name_def)
  then have "list_all we_ok es \<Longrightarrow> end_event \<notin> set es" for es by (auto simp: list_all_iff)
  then show ?thesis using fwizard_init_run [of h op env u] assms by blast
qed

theorem wizard_completes_witness:
  "all_provided (Some (demo_ops 0)) \<and> (\<exists>w' es. fwizard_init demo_host (Some (demo_ops 0)) None 0 = Inr w'
     \<and> w_sent w' = concat (map we_text (es @ [end_event])) \<and> list_all we_ok es)"
  using wizard_completes [OF demo_provided [of 0], of demo_host None 0] demo_provided [of 0] by blast

text \<open>
  C20. The wizard stops at the first failure: once a test has failed, none of the remaining tests
  calls an operation or writes an event.
\<close>

theorem wizard_stops_after_failure:
  assumes "wizard_sequence h op = before @ rest" "steps before w = Inr w1" "test_failed w1"
  shows "steps (before @ rest) w = Inr w1"
proof -
  have "\<forall>t \<in> set rest. t w1 = Inr w1" using failed_stops [OF assms(3), of _ h op] assms(1) by simp
  then show ?thesis using assms(2) by (simp add: steps_append steps_stopped)
qed



theorem wizard_stops_after_failure_witness:
  "\<exists>w1. wizard_sequence demo_host None = [test_operations demo_host None] @ tl (wizard_sequence demo_host None)
     \<and> steps [test_operations demo_host None] demo_wizard = Inr w1 \<and> test_failed w1
     \<and> steps ([test_operations demo_host None] @ tl (wizard_sequence demo_host None)) demo_wizard = Inr w1"
proof -
  have split: "wizard_sequence demo_host None = [test_operations demo_host None] @ tl (wizard_sequence demo_host None)"
    by (simp add: wizard_sequence_def)
  have skip: "skip_list demo_wizard = [None, Some ''test_opendir:0'']" by code_simp
  have "\<not> test_failed demo_wizard" "wizard_fifo demo_wizard"
    by (simp_all add: demo_wizard_def wizard_start_def)
  moreover have "\<not> is_skipped ''test_operations'' 0 demo_wizard" by (simp add: is_skipped_def skip snprintf_def)
  ultimately obtain w1 where w1: "steps [test_operations demo_host None] demo_wizard = Inr w1" "test_failed w1"
    by (auto simp: test_operations_def check_def report_steps)
  from wizard_stops_after_failure [OF split w1] split w1 show ?thesis by blast
qed

text \<open>
  C34. Skipping the test of an optional operation that is missing brings the wizard down: the
  user can skip \<open>test_opendir\<close>, after which the next test calls \<open>opendir\<close> through a null pointer.
\<close>

theorem skipped_opendir_crashes:
  assumes "has_op fo ''readdir''" "has_op fo ''create''" "\<not> has_op fo ''opendir''"
    and "wizard_fifo w" "\<not> test_failed w" "is_skipped ''test_opendir'' 0 w"
    and "\<not> is_skipped ''test_readdir'' 0 w" "\<not> is_skipped ''test_readdir'' 1 w"
  shows "steps [test_opendir h (Some fo), test_readdir h (Some fo)] w = Inl NullPointer"
  using assms by (simp add: test_opendir_def test_readdir_def guarded_test_def report_steps invoke_def create_file_def
      split: prod.splits)

definition partial_ops :: "nat fuse_operations" where
  "partial_ops = (demo_ops 0)\<lparr>has_op := (\<lambda>op. op \<noteq> ''opendir'')\<rparr>"

theorem skipped_opendir_crashes_witness:
  "has_op partial_ops ''readdir'' \<and> has_op partial_ops ''create'' \<and> \<not> has_op partial_ops ''opendir''
   \<and> wizard_fifo demo_wizard \<and> \<not> test_failed demo_wizard \<and> is_skipped ''test_opendir'' 0 demo_wizard
   \<and> \<not> is_skipped ''test_readdir'' 0 demo_wizard \<and> \<not> is_skipped ''test_readdir'' 1 demo_wizard
   \<and> steps [test_opendir demo_host (Some partial_ops), test_readdir demo_host (Some partial_ops)] demo_wizard = Inl NullPointer"
proof -
  have o: "has_op partial_ops ''readdir''" "has_op partial_ops ''create''" "\<not> has_op partial_ops ''opendir''"
    by (simp_all add: partial_ops_def)
  have w: "wizard_fifo demo_wizard" "\<not> test_failed demo_wizard" by (simp_all add: demo_wizard_def wizard_start_def)
  have s: "is_skipped ''test_opendir'' 0 demo_wizard" "\<not> is_skipped ''test_readdir'' 0 demo_wizard"
    "\<not> is_skipped ''test_readdir'' 1 demo_wizard"
    by code_simp+
  from skipped_opendir_crashes [OF o w s] o w s show ?thesis by blast
qed

text \<open>
  C35. The read test depends on memory it has not written: with a \<open>read\<close> that fills in exactly the
  data and returns its length, the comparison succeeds only where the byte after the data
  happened to be NUL before the call.
\<close>

theorem read_test_reads_garbage:
  assumes "run_op fo (C_read (Some new_file) (junk_buf h) 1024 0 fi) (w_user w) = (r, u)"
    and "ret r = 21" "o_buf r = test_data @ drop 21 (junk_buf h)" "length (junk_buf h) = 1024"
    and "has_op fo ''read''" "wizard_fifo w" "\<not> test_failed w" "list_all (\<lambda>n. \<not> is_skipped ''test_read'' n w) [0, 1, 2]"
  shows "\<exists>w'. read_back h (Some fo) fi w = Inr w' \<and> (test_failed w' \<longleftrightarrow> junk_buf h ! 21 \<noteq> NUL)"
proof -
  have "drop 21 (junk_buf h) = junk_buf h ! 21 # drop 22 (junk_buf h)"
    using assms(4) by (simp add: Cons_nth_drop_Suc [symmetric])
  moreover have "cstring test_data" "length test_data = 21" by (simp_all add: test_data_def)
  ultimately have "cstr (o_buf r) = test_data \<longleftrightarrow> junk_buf h ! 21 = NUL" using assms(3) by (simp add: cstr_prefix)
  then show ?thesis using assms \<open>length test_data = 21\<close>
    by (simp add: read_back_def unless_skipped_def report_steps invoke_def check_def)
qed

definition reading_ops :: "nat fuse_operations" where
  "reading_ops = \<lparr>has_op = (\<lambda>_. True), run_op = (\<lambda>c n. ((demo_out 21)\<lparr>o_buf := test_data @ drop 21 (junk_buf demo_host)\<rparr>, n))\<rparr>"

theorem read_test_reads_garbage_witness:
  "\<exists>r u w'. run_op reading_ops (C_read (Some new_file) (junk_buf demo_host) 1024 0 zero_fi) (w_user demo_wizard) = (r, u)
     \<and> ret r = 21 \<and> o_buf r = test_data @ drop 21 (junk_buf demo_host) \<and> length (junk_buf demo_host) = 1024
     \<and> has_op reading_ops ''read'' \<and> wizard_fifo demo_wizard \<and> \<not> test_failed demo_wizard
     \<and> list_all (\<lambda>n. \<not> is_skipped ''test_read'' n demo_wizard) [0, 1, 2]
     \<and> read_back demo_host (Some reading_ops) zero_fi demo_wizard = Inr w' \<and> test_failed w'"
proof -
  let ?r = "(demo_out 21)\<lparr>o_buf := test_data @ drop 21 (junk_buf demo_host)\<rparr>"
  have run: "run_op reading_ops (C_read (Some new_file) (junk_buf demo_host) 1024 0 zero_fi) (w_user demo_wizard)
      = (?r, w_user demo_wizard)" "has_op reading_ops ''read''"
    by (simp_all add: reading_ops_def)
  have r: "ret ?r = 21" "o_buf ?r = test_data @ drop 21 (junk_buf demo_host)" by (simp_all add: demo_out_def)
  have j: "length (junk_buf demo_host) = 1024" "junk_buf demo_host ! 21 \<noteq> NUL" by (simp_all add: demo_host_def)
  have w: "wizard_fifo demo_wizard" "\<not> test_failed demo_wizard" by (simp_all add: demo_wizard_def wizard_start_def)
  have s: "list_all (\<lambda>n. \<not> is_skipped ''test_read'' n demo_wizard) [0, 1, 2]" by code_simp
  from read_test_reads_garbage [OF run(1) r j(1) run(2) w s] j(2) obtain w'
    where "read_back demo_host (Some reading_ops) zero_fi demo_wizard = Inr w'" "test_failed w'" by auto
  then show ?thesis using run r j w s by blast
qed

text \<open>
  The readlink test never calls the operation it tests: its outcome is the same whatever the
  operations of the file system do.
\<close>

lemma readlink_test_ignores_operation:
  "test_readlink h (Some (fo\<lparr>run_op := f\<rparr>)) = test_readlink h (Some fo)"
  by (rule ext) (simp add: test_readlink_def guarded_test_def)

end
