(* ===== verification/Wizard_View.thy ===== *)
theory Wizard_View
  imports Wizard Wizard_Props Debugger_Props Refinement
begin

unbundle bit_operations_syntax

section \<open>What the wizard shows\<close>

text \<open>
  The status the wizard works out for a function against its description in the source, the table
  of functions against a specification by lists, and the two ends of the wizard together: the
  verdict shown to the user is the verdict of the tests.
\<close>

subsection \<open>The members of an event\<close>

definition wj :: "wevent \<Rightarrow> cJSON" where
  \<comment> \<open>an event as it arrives\<close>
  "wj e = canon None (we_json e)"

lemma we_json_child: "child (we_json e) =
    [set_name (Some ''func_name'') (cJSON_CreateString (we_func e)),
     set_name (Some ''test_num'') (cJSON_CreateNumber (dbl_of_int (we_num e))),
     set_name (Some ''passed'') (cJSON_CreateBool (of_bool (we_passed e))),
     set_name (Some ''optional'') (cJSON_CreateBool (of_bool (we_optional e))),
     set_name (Some ''message'') (cJSON_CreateString (we_message e))]"
  by (simp add: we_json_def wizard_event_def Let_def json_add_defs cstr_def)

lemma is_object_we [simp]: "is_object (we_json e)"
  by (simp add: we_json_def wizard_event_def Let_def json_add_defs)

lemma we_json_items:
  "cJSON_GetObjectItem (we_json e) ''func_name'' = Some (set_name (Some ''func_name'') (cJSON_CreateString (we_func e)))"
  "cJSON_GetObjectItem (we_json e) ''test_num'' = Some (set_name (Some ''test_num'') (cJSON_CreateNumber (dbl_of_int (we_num e))))"
  "cJSON_GetObjectItem (we_json e) ''passed'' = Some (set_name (Some ''passed'') (cJSON_CreateBool (of_bool (we_passed e))))"
  "cJSON_GetObjectItem (we_json e) ''optional'' = Some (set_name (Some ''optional'') (cJSON_CreateBool (of_bool (we_optional e))))"
  "cJSON_GetObjectItem (we_json e) ''message'' = Some (set_name (Some ''message'') (cJSON_CreateString (we_message e)))"
  by (simp_all add: cJSON_GetObjectItem_def we_json_child cJSON_strcasecmp_def c_tolower_def)

lemma wj_fields:
  assumes "we_clean e"
  shows "item_string (Some (wj e)) ''func_name'' = Inr (we_func e)"
    "item_int (Some (wj e)) ''test_num'' = Inr (we_num e)"
    "item_int (Some (wj e)) ''passed'' = Inr (of_bool (we_passed e))"
    "item_int (Some (wj e)) ''optional'' = Inr (of_bool (we_optional e))"
    "item_string (Some (wj e)) ''message'' = Inr (we_message e)"
    "\<exists>m. get_item (Some (wj e)) ''message'' = Inr m \<and> valuestring m = Some (we_message e)"
  using assms item_canon [OF is_object_we we_json_items(1)] item_canon [OF is_object_we we_json_items(2)]
    item_canon [OF is_object_we we_json_items(3)] item_canon [OF is_object_we we_json_items(4)]
    item_canon [OF is_object_we we_json_items(5)]
  by (simp_all add: wj_def we_clean_def clean_sub item_int_def canon_bool canon_fields)

subsection \<open>The status of a function\<close>

definition mine :: "string \<Rightarrow> wevent list \<Rightarrow> wevent list" where
  "mine name es = filter (\<lambda>e. we_func e = name) es"

definition status_spec :: "string \<Rightarrow> wevent list \<Rightarrow> funcstat" where
  \<comment> \<open>the comment in \<open>getFunctionStatus\<close>: implemented where every event passed, skipped the same with
     some skipped, defined where at least one passed, undefined where none did\<close>
  "status_spec name es = (let es = mine name es in
     if list_all we_passed es then (if \<exists>e \<in> set es. we_message e = ''Skipped'' then SKIPPED else IMPLEMENTED)
     else if \<exists>e \<in> set es. we_passed e then DEFINED else UNDEFINED)"

definition first_failing :: "string \<Rightarrow> wevent list \<Rightarrow> wevent option" where
  "first_failing name es = find (\<lambda>e. \<not> we_passed e) (mine name es)"

definition tally_spec :: "tally \<Rightarrow> string \<Rightarrow> wevent list \<Rightarrow> tally" where
  "tally_spec t name es = (let es = mine name es in
     \<lparr>num_passed = num_passed t + int (length (filter we_passed es)),
      num_failed = num_failed t + int (length (filter (\<lambda>e. \<not> we_passed e) es)),
      num_skipped = num_skipped t + int (length (filter (\<lambda>e. we_passed e \<and> we_message e = ''Skipped'') es)),
      failing_event = (case failing_event t of Some f \<Rightarrow> Some f | None \<Rightarrow> map_option wj (find (\<lambda>e. \<not> we_passed e) es))\<rparr>)"

lemma tally_events_spec:
  "list_all we_ok es \<Longrightarrow> tally_events name (map wj es) t = Inr (tally_spec t name es)"
proof (induction es arbitrary: t)
  case Nil
  then show ?case by (cases t) (simp add: tally_spec_def mine_def split: option.splits)
next
  case (Cons e es)
  obtain m where "get_item (Some (wj e)) ''message'' = Inr m" "valuestring m = Some (we_message e)"
    using Cons.prems wj_fields(6) [of e] by auto
  with Cons show ?case
    by (cases t) (auto simp: wj_fields tally_spec_def mine_def split: option.splits)
qed

lemma status_agrees:
  assumes "list_all we_ok es"
  shows "getFunctionStatus name (map wj es) = Inr (status_spec name es, map_option wj (first_failing name es))"
proof -
  have *: "filter P xs = [] \<longleftrightarrow> list_all (\<lambda>x. \<not> P x) xs" for P and xs :: "wevent list"
    by (simp add: filter_empty_conv list_all_iff)
  show ?thesis
    using tally_events_spec [OF assms, of name no_tally]
    by (simp add: getFunctionStatus_def status_of_def tally_spec_def no_tally_def status_spec_def first_failing_def Let_def
        * Bex_def list_all_iff)
qed

text \<open>
  C21. The status the wizard computes for a function from all its events is the one the source
  describes, and the event it reports is the first failing one of the function.
\<close>

theorem function_status:
  assumes "list_all we_ok es"
  shows "getFunctionStatus name (map wj es) = Inr (status_spec name es, map_option wj (first_failing name es))"
  using assms by (rule status_agrees)

definition demo_events :: "wevent list" where
  "demo_events = [WEvent ''test_getattr'' 0 True False [], WEvent ''test_mkdir'' 0 False False ''no'',
     WEvent ''test_getattr'' 1 False False ''bad'', WEvent ''test_access'' 0 True True ''Skipped'']"

lemma demo_events_ok: "list_all we_ok demo_events"
  by (simp add: demo_events_def we_ok_def test_name_def)

theorem function_status_witness:
  "list_all we_ok demo_events \<and> getFunctionStatus ''test_getattr'' (map wj demo_events)
    = Inr (DEFINED, Some (wj (WEvent ''test_getattr'' 1 False False ''bad'')))"
  using function_status [OF demo_events_ok, of "''test_getattr''"] demo_events_ok
  by (simp add: status_spec_def first_failing_def mine_def demo_events_def)

subsection \<open>The table of functions\<close>

abbreviation fname :: "wevent \<Rightarrow> string" where
  "fname e \<equiv> drop 5 (we_func e)"

definition add_first :: "wevent \<Rightarrow> wevent list \<Rightarrow> wevent list" where
  "add_first e acc = (if we_func e \<in> we_func ` set acc then acc else acc @ [e])"

definition firsts :: "wevent list \<Rightarrow> wevent list" where
  \<comment> \<open>the first event of every function\<close>
  "firsts es = fold add_first es []"

definition wizard_table :: "wevent list \<Rightarrow> (string \<times> string) list" where
  "wizard_table es = map (\<lambda>e. (fname e, status_str (status_spec (we_func e) es))) (firsts es)"

definition notice :: "wevent list \<Rightarrow> wevent option" where
  \<comment> \<open>the event shown to the user: of the first function with a failure\<close>
  "notice es = (case find (\<lambda>e. needs_attention (status_spec (we_func e) es)) (firsts es) of
     None \<Rightarrow> None | Some e \<Rightarrow> first_failing (we_func e) es)"

definition rows_of :: "wevent list \<Rightarrow> string \<Rightarrow> nat option" where
  "rows_of acc = map_of (rev (zip (map fname acc) [0..<length acc]))"

definition named :: "wevent list \<Rightarrow> bool" where
  \<comment> \<open>events of different functions\<close>
  "named acc \<longleftrightarrow> list_all we_ok acc \<and> distinct (map we_func acc)"

lemma we_func_inj: "we_ok e \<Longrightarrow> we_ok e' \<Longrightarrow> fname e = fname e' \<longleftrightarrow> we_func e = we_func e'"
  unfolding we_ok_def test_name_def by (metis append_take_drop_id)

lemma testToFunction_ok: "we_ok e \<Longrightarrow> testToFunction (we_func e) = Inr (fname e)"
proof -
  assume "we_ok e"
  then have "length (take 5 (we_func e)) = 5" by (simp add: we_ok_def test_name_def)
  then show ?thesis by (simp add: testToFunction_def)
qed

lemma add_first_cases:
  "we_func e \<in> we_func ` set acc \<Longrightarrow> add_first e acc = acc"
  "we_func e \<notin> we_func ` set acc \<Longrightarrow> add_first e acc = acc @ [e]"
  by (simp_all add: add_first_def)

lemma named_add_first: "named acc \<Longrightarrow> we_ok e \<Longrightarrow> named (add_first e acc)"
  by (auto simp: named_def add_first_def)

lemma named_fold: "named acc \<Longrightarrow> list_all we_ok es \<Longrightarrow> named (fold add_first es acc)"
  by (induction es arbitrary: acc) (auto intro: named_add_first)

lemma named_firsts: "list_all we_ok es \<Longrightarrow> named (firsts es)"
  using named_fold [of "[]" es] by (simp add: firsts_def) (simp add: named_def)

lemma funcs_fold: "we_func ` set (fold add_first es acc) = we_func ` set acc \<union> we_func ` set es"
proof (induction es arbitrary: acc)
  case (Cons e es)
  have "we_func ` set (add_first e acc) = insert (we_func e) (we_func ` set acc)" by (auto simp: add_first_def)
  with Cons show ?case by auto
qed simp

lemma funcs_firsts: "we_func ` set (firsts es) = we_func ` set es"
  by (simp add: firsts_def funcs_fold)

lemma fold_seen: "we_func ` set es \<subseteq> we_func ` set acc \<Longrightarrow> fold add_first es acc = acc"
  by (induction es) (auto simp: add_first_def)

lemma firsts_resume: "fold add_first (p @ q) (firsts p) = firsts (p @ q)"
  using fold_seen [of p "firsts p"] by (simp add: funcs_firsts) (simp add: firsts_def)

lemma fold_extends: "\<exists>new. fold add_first es acc = acc @ new"
proof (induction es arbitrary: acc)
  case (Cons e es)
  obtain new where "fold add_first es (add_first e acc) = add_first e acc @ new" using Cons by blast
  moreover obtain l where "add_first e acc = acc @ l" by (cases "we_func e \<in> we_func ` set acc") (simp_all add: add_first_def)
  ultimately show ?case by simp
qed simp

lemma firsts_prefix: "\<exists>new. firsts (p @ q) = firsts p @ new"
  using fold_extends by (simp add: firsts_def)

lemma rows_of_snoc: "rows_of (acc @ [e]) = (rows_of acc)(fname e \<mapsto> length acc)"
  by (simp add: rows_of_def)

lemma rows_of_nth:
  assumes "named (xs @ x # ys)"
  shows "rows_of (xs @ x # ys) (fname x) = Some (length xs)"
proof -
  let ?a = "xs @ x # ys"
  have "inj_on fname (set ?a)"
    using assms we_func_inj unfolding named_def distinct_map inj_on_def list_all_iff by metis
  moreover have "distinct ?a" using assms unfolding named_def distinct_map by blast
  ultimately have "distinct (map fname ?a)" unfolding distinct_map by blast
  then have "distinct (map fst (rev (zip (map fname ?a) [0..<length ?a])))"
    by (simp add: rev_map [symmetric] Int_commute)
  moreover have "(map fname ?a ! length xs, [0..<length ?a] ! length xs) \<in> set (zip (map fname ?a) [0..<length ?a])"
    unfolding set_zip by (rule CollectI, rule exI [of _ "length xs"]) simp
  then have "(fname x, length xs) \<in> set (zip (map fname ?a) [0..<length ?a])" by (simp add: nth_append del: upt_Suc)
  ultimately show ?thesis unfolding rows_of_def by (simp add: map_of_eq_Some_iff)
qed

definition show_rows :: "wevent list \<Rightarrow> (string \<times> string) list \<Rightarrow> 'a wizard_scheme \<Rightarrow> 'a wizard_scheme" where
  \<comment> \<open>the window with rows for these events\<close>
  "show_rows acc tbl d = d\<lparr>func_table := tbl, func_rows := rows_of acc, wizard_events_displayed := Some (rev (map wj acc))\<rparr>"

lemma isFunctionDisplayed_spec:
  "list_all we_ok es \<Longrightarrow> isFunctionDisplayed f (map wj es) = Inr (f \<in> we_func ` set es)"
  by (induction es) (auto simp: wj_fields)

lemma append_row_spec:
  assumes "we_ok e" "length tbl = length acc"
  shows "append_row (wj e) (we_func e) (show_rows acc tbl d) = Inr (show_rows (acc @ [e]) (tbl @ [(fname e, [])]) d)"
  using assms by (simp add: append_row_def testToFunction_ok show_rows_def rows_of_snoc nodes_def)

lemma append_rows_spec:
  assumes "named acc" "list_all we_ok es" "length tbl = length acc"
  shows "\<exists>tbl'. append_rows (map wj es) (show_rows acc tbl d) = Inr (show_rows (fold add_first es acc) tbl' d)
    \<and> map fst tbl' = map fst tbl @ map fname (drop (length acc) (fold add_first es acc))"
  using assms
proof (induction es arbitrary: acc tbl)
  case (Cons e es)
  have d: "isFunctionDisplayed (we_func e) (nodes (wizard_events_displayed (show_rows acc tbl d)))
      = Inr (we_func e \<in> we_func ` set acc)"
    using Cons.prems(1) isFunctionDisplayed_spec [of "rev acc"]
    by (simp add: show_rows_def nodes_def rev_map named_def list_all_iff)
  show ?case
  proof (cases "we_func e \<in> we_func ` set acc")
    case True
    with Cons d show ?thesis by (simp add: wj_fields add_first_cases)
  next
    case False
    have "named (acc @ [e])" using named_add_first [OF Cons.prems(1), of e] Cons.prems(2) False by (simp add: add_first_def)
    moreover obtain new where "fold add_first es (acc @ [e]) = (acc @ [e]) @ new" using fold_extends by blast
    ultimately show ?thesis using Cons.IH [of "acc @ [e]" "tbl @ [(fname e, [])]"] Cons.prems d False
      by (simp add: wj_fields add_first_cases append_row_spec)
  qed
qed auto

definition notify :: "wevent list \<Rightarrow> wevent list \<Rightarrow> 'a wizard_scheme \<Rightarrow> 'a wizard_scheme" where
  "notify es acc d = (case find (\<lambda>e. needs_attention (status_spec (we_func e) es)) acc of None \<Rightarrow> d
     | Some e \<Rightarrow> d\<lparr>notification_event := map_option wj (first_failing (we_func e) es),
                   notification_status := status_spec (we_func e) es\<rparr>)"

definition status_row :: "wevent list \<Rightarrow> wevent \<Rightarrow> string \<times> string" where
  "status_row es e = (fname e, status_str (status_spec (we_func e) es))"

lemma find_append: "find P (xs @ ys) = (case find P xs of None \<Rightarrow> find P ys | Some x \<Rightarrow> Some x)"
  by (induction xs) auto

lemma updateFunctionRow_spec:
  assumes "named acc" "acc = xs @ x # ys" "list_all we_ok es" "wizard_events d = Some (map wj es)" "map fst tbl = map fname acc"
  shows "updateFunctionRow (we_func x) (show_rows acc tbl d)
    = Inr (show_rows acc (tbl[length xs := status_row es x]) (notify es [x] d))"
proof -
  have "rows_of acc (fname x) = Some (length xs)" using assms(1,2) rows_of_nth by simp
  moreover have "fst (tbl ! length xs) = fname x"
    using arg_cong [OF assms(5), of "\<lambda>l. l ! length xs"] arg_cong [OF assms(5), of length] assms(2) by (simp add: nth_append)
  moreover have "we_ok x" using assms(1,2) by (simp add: named_def)
  moreover have "getFunctionStatus (we_func x) (map wj es) = Inr (status_spec (we_func x) es, map_option wj (first_failing (we_func x) es))"
    by (rule status_agrees [OF assms(3)])
  ultimately show ?thesis using assms(4)
    by (simp add: updateFunctionRow_def testToFunction_ok show_rows_def nodes_def notify_def status_row_def Let_def)
qed

lemma show_rows_same:
  "notify es xs (show_rows acc tbl d) = show_rows acc tbl (notify es xs d)"
  "wizard_events (notify es xs d) = wizard_events d"
  by (simp_all add: notify_def show_rows_def split: option.splits)

lemma notify_snoc: "notify es xs (notify es [x] d) = notify es (xs @ [x]) d"
  by (simp add: notify_def find_append split: option.splits)

lemma update_rows_spec:
  assumes "named acc" "acc = xs @ ys" "list_all we_ok es" "wizard_events d = Some (map wj es)"
    and "map fst tbl = map fname xs"
  shows "update_rows (map wj (rev xs)) (show_rows acc (tbl @ map (status_row es) ys) d)
    = Inr (show_rows acc (map (status_row es) acc) (notify es xs d))"
  using assms
proof (induction xs arbitrary: ys tbl d rule: rev_induct)
  case Nil
  then show ?case by (simp add: notify_def)
next
  case (snoc x xs)
  obtain tbl' r where tbl: "tbl = tbl' @ [r]" "map fst tbl' = map fname xs" "fst r = fname x"
    using snoc.prems(5) by (cases tbl rule: rev_cases) auto
  then have len: "length tbl' = length xs" by (metis length_map)
  have x: "we_ok x" using snoc.prems(1,2) by (simp add: named_def)
  have "map fst (tbl @ map (status_row es) ys) = map fname acc"
    using snoc.prems(2,5) by (simp add: status_row_def)
  then have "updateFunctionRow (we_func x) (show_rows acc (tbl @ map (status_row es) ys) d)
      = Inr (show_rows acc (tbl' @ map (status_row es) (x # ys)) (notify es [x] d))"
    using updateFunctionRow_spec [of acc xs x ys es d] snoc.prems(1-4) tbl(1) len by (simp add: list_update_append)
  then show ?case using snoc.IH [of "x # ys" "notify es [x] d" tbl'] snoc.prems tbl(2) x
    by (simp add: wj_fields show_rows_same notify_snoc)
qed

lemma refresh_table_spec:
  assumes "list_all we_ok (p @ q)" "wizard_events d = Some (map wj (p @ q))" "p = [] \<or> map fst tbl = map fname (firsts p)"
  shows "refresh_table (show_rows (firsts p) tbl d)
    = Inr (show_rows (firsts (p @ q)) (wizard_table (p @ q)) (notify (p @ q) (firsts (p @ q)) d))"
proof -
  let ?es = "p @ q" and ?a = "firsts (p @ q)"
  define t where "t = (if p = [] then [] else tbl)"
  have t: "map fst t = map fname (firsts p)" using assms(3) by (auto simp: t_def firsts_def)
  then have len: "length t = length (firsts p)" by (metis length_map)
  have n: "named (firsts p)" "named ?a" using assms(1) by (simp_all add: named_firsts)
  have "firsts p = [] \<longleftrightarrow> p = []" using funcs_firsts [of p] by auto
  then have start: "(if wizard_events_displayed (show_rows (firsts p) tbl d) = Some []
      then (show_rows (firsts p) tbl d)\<lparr>func_table := []\<rparr> else show_rows (firsts p) tbl d) = show_rows (firsts p) t d"
    by (simp add: show_rows_def t_def)
  obtain t' new where a: "append_rows (map wj ?es) (show_rows (firsts p) t d) = Inr (show_rows ?a t' d)"
      "map fst t' = map fname (firsts p) @ map fname (drop (length (firsts p)) ?a)" "?a = firsts p @ new"
    using append_rows_spec [OF n(1) assms(1) len, of d] firsts_prefix [of p q]
    unfolding firsts_resume t by blast
  then have "map fst t' = map fname ?a" by simp
  then have "update_rows (map wj (rev ?a)) (show_rows ?a t' d)
      = Inr (show_rows ?a (map (status_row ?es) ?a) (notify ?es ?a d))"
    using update_rows_spec [OF n(2) _ assms(1,2), of ?a "[]" t'] by simp
  moreover have "map (status_row ?es) ?a = wizard_table ?es"
    unfolding wizard_table_def status_row_def by simp
  moreover have "nodes (wizard_events (show_rows (firsts p) t d)) = map wj ?es" using assms(2)
    by (simp add: show_rows_def nodes_def)
  moreover have "nodes (wizard_events_displayed (show_rows ?a t' d)) = map wj (rev ?a)"
    by (simp add: show_rows_def nodes_def rev_map)
  ultimately show ?thesis unfolding refresh_table_def start Let_def by (simp only: a(1) bindr_simps)
qed

subsection \<open>The window as an abstract machine\<close>

datatype wizard_action = Restart | Receive wevent | Idle

record window =
  received :: "wevent list"
  shown :: "wevent list"
  table :: "(string \<times> string) list"

primrec window_step :: "wizard_action \<Rightarrow> window \<Rightarrow> window" where
  \<comment> \<open>a run starts, an event arrives, the window is brought up to date\<close>
  "window_step Restart a = a\<lparr>received := [], shown := []\<rparr>"
| "window_step (Receive e) a = a\<lparr>received := received a @ [e]\<rparr>"
| "window_step Idle a = a\<lparr>shown := received a, table := wizard_table (received a)\<rparr>"

primrec wizard_step :: "wizard_action \<Rightarrow> 'a wizard_scheme \<Rightarrow> 'a wizard_scheme c_res" where
  "wizard_step Restart d = Inr (reset_wizard d)"
| "wizard_step (Receive e) d = handleWizardEvent (Some (wj e)) d"
| "wizard_step Idle d = refresh_table d"

primrec action_ok :: "wizard_action \<Rightarrow> window \<Rightarrow> bool" where
  "action_ok Restart a \<longleftrightarrow> True"
| "action_ok (Receive e) a \<longleftrightarrow> we_ok e"
| "action_ok Idle a \<longleftrightarrow> True"

definition window_rel :: "window \<Rightarrow> 'a wizard_scheme \<Rightarrow> bool" where
  "window_rel a d \<longleftrightarrow> usingGui d \<and> list_all we_ok (received a) \<and> (\<exists>q. received a = shown a @ q)
     \<and> (shown a \<noteq> [] \<longrightarrow> table a = wizard_table (shown a))
     \<and> wizard_events d = Some (map wj (received a))
     \<and> notification_event d = map_option wj (notice (shown a))
     \<and> func_table d = table a \<and> func_rows d = rows_of (firsts (shown a))
     \<and> wizard_events_displayed d = Some (rev (map wj (firsts (shown a))))"

lemma window_rel_rows: "window_rel a d \<Longrightarrow> show_rows (firsts (shown a)) (table a) d = d"
  by (cases d) (simp add: window_rel_def show_rows_def)

lemma attention_iff: "needs_attention (status_spec name es) \<longleftrightarrow> (\<exists>e \<in> set (mine name es). \<not> we_passed e)"
  by (auto simp: needs_attention_def status_spec_def Let_def list_all_iff)

lemma find_SomeD: "find P xs = Some x \<Longrightarrow> x \<in> set xs \<and> P x"
  by (induction xs) (auto split: if_splits)

lemma first_failing_ex: "needs_attention (status_spec f es) \<Longrightarrow> \<exists>e. first_failing f es = Some e"
  by (auto simp: attention_iff first_failing_def find_None_iff simp flip: not_None_eq)

lemma notice_None: "notice es = None \<longleftrightarrow> list_all we_passed es"
proof -
  let ?P = "\<lambda>e. needs_attention (status_spec (we_func e) es)"
  have "notice es = None \<longleftrightarrow> find ?P (firsts es) = None"
  proof (cases "find ?P (firsts es)")
    case (Some e)
    then obtain f where "first_failing (we_func e) es = Some f" using find_SomeD first_failing_ex by metis
    with Some show ?thesis by (simp add: notice_def)
  qed (simp add: notice_def)
  also have "\<dots> \<longleftrightarrow> (\<forall>e \<in> set (firsts es). \<not> ?P e)" unfolding find_None_iff by blast
  also have "\<dots> \<longleftrightarrow> (\<forall>f \<in> we_func ` set es. \<not> needs_attention (status_spec f es))"
    by (simp only: funcs_firsts [of es, symmetric] ball_simps)
  also have "\<dots> \<longleftrightarrow> list_all we_passed es" unfolding attention_iff mine_def list_all_iff set_filter by blast
  finally show ?thesis .
qed

lemma notify_notice:
  assumes "notification_event d = map_option wj (notice p)"
  shows "notification_event (notify (p @ q) (firsts (p @ q)) d) = map_option wj (notice (p @ q))"
  using assms notice_None [of p] notice_None [of "p @ q"] by (simp add: notify_def notice_def split: option.splits)

lemma cJSON_Print_wj: "we_clean e \<Longrightarrow> \<exists>json. cJSON_Print (wj e) = Inr json"
  using we_sendable [of e] wf_canon [of "we_json e" None] by (simp add: wj_def sendable_def cJSON_Print_wf)

lemma handle_wj:
  assumes "we_ok e"
  shows "\<exists>json. handleWizardEvent (Some (wj e)) d = Inr ((if usingGui d
    then (printf json d)\<lparr>wizard_events := Some (nodes (wizard_events d) @ [wj e])\<rparr> else printf json d))"
proof -
  have "we_func e \<noteq> ''__END''" using assms by (auto simp: we_ok_def test_name_def)
  with cJSON_Print_wj [of e] assms show ?thesis
    by (auto simp: handleWizardEvent_def wj_fields Let_def printf_def)
qed

lemma handle_end:
  "\<exists>json. handleWizardEvent (Some (wj end_event)) d = Inr (printf ''FUSE binary detached so wizard will terminate.''
     (setFusePID 0 ((printf json d)\<lparr>recv_end_event := True\<rparr>)))"
  using cJSON_Print_wj [OF end_event_clean] wj_fields(1) [OF end_event_clean]
  by (auto simp: handleWizardEvent_def Let_def printf_def end_event_def)

lemma window_refresh:
  assumes "window_rel a d"
  shows "refresh_table d = Inr (show_rows (firsts (received a)) (wizard_table (received a))
      (notify (received a) (firsts (received a)) d))"
proof -
  obtain q where q: "received a = shown a @ q" using assms by (auto simp: window_rel_def)
  have "shown a = [] \<or> map fst (table a) = map fname (firsts (shown a))"
    using assms by (auto simp: window_rel_def wizard_table_def)
  with refresh_table_spec [of "shown a" q d "table a"] assms q show ?thesis
    by (simp add: window_rel_rows) (simp add: window_rel_def)
qed

lemma window_sim:
  assumes "window_rel a d" "action_ok x a"
  shows "\<exists>d'. wizard_step x d = Inr d' \<and> window_rel (window_step x a) d'"
proof (cases x)
  case Restart
  have "window_rel (window_step x a) (reset_wizard d)"
    using assms(1) by (simp add: Restart window_rel_def reset_wizard_def Let_def firsts_def rows_of_def notice_def)
  then show ?thesis by (simp add: Restart)
next
  case (Receive e)
  with assms handle_wj [of e d] obtain json
    where "wizard_step x d = Inr ((printf json d)\<lparr>wizard_events := Some (map wj (received a @ [e]))\<rparr>)"
    by (auto simp: window_rel_def nodes_def)
  moreover have "window_rel (window_step x a) ((printf json d)\<lparr>wizard_events := Some (map wj (received a @ [e]))\<rparr>)"
    using assms Receive by (auto simp: window_rel_def printf_def)
  ultimately show ?thesis by blast
next
  case Idle
  obtain q where q: "received a = shown a @ q" using assms(1) by (auto simp: window_rel_def)
  have "usingGui (notify es acc d) = usingGui d" for es acc by (simp add: notify_def split: option.splits)
  then show ?thesis using window_refresh [OF assms(1)] assms(1) q notify_notice [of d "shown a" q]
    by (simp add: Idle window_rel_def show_rows_same) (simp add: show_rows_def show_rows_same)
qed

interpretation window_machine: simulation window_step wizard_step window_rel action_ok
  using window_sim by unfold_locales

definition fresh_window :: "'a wizard_scheme \<Rightarrow> window" where
  "fresh_window d = \<lparr>received = [], shown = [], table = func_table d\<rparr>"

lemma window_rel_reset:
  "usingGui d \<Longrightarrow> wizard_events d = None \<longrightarrow> notification_event d = None \<Longrightarrow> window_rel (fresh_window d) (reset_wizard d)"
  by (simp add: window_rel_def fresh_window_def reset_wizard_def Let_def firsts_def rows_of_def notice_def)

primrec readable :: "wizard_action \<Rightarrow> bool" where
  "readable Restart \<longleftrightarrow> True"
| "readable (Receive e) \<longleftrightarrow> we_ok e"
| "readable Idle \<longleftrightarrow> True"

text \<open>
  C9. The wizard's window implements an abstract machine over the list of received events:
  whatever the order in which runs start, events arrive and the window is refreshed, no step of the
  code fails, the table of functions is the one the machine shows - a row per function in the order
  of first appearance, with the status its events give it - and the event put forward to the user
  is the first failing event of the first function that needs attention.
\<close>

theorem wizard_window_refines:
  assumes "usingGui d" "wizard_events d = None \<longrightarrow> notification_event d = None" "list_all readable acts"
  shows "\<exists>d'. run_actions wizard_step (Restart # acts) d = Inr d' \<and> (let w = fold window_step acts (fresh_window d) in
    func_table d' = table w \<and> notification_event d' = map_option wj (notice (shown w))
    \<and> wizard_events d' = Some (map wj (received w)))"
proof -
  have "action_ok x a" if "x \<in> set acts" for x a
    using assms(3) that by (cases x) (auto simp: list_all_iff)
  then have "window_machine.all_ok acts (fresh_window d)" by (rule window_machine.all_ok_static)
  from window_machine.sim_run [OF window_rel_reset [OF assms(1,2)] this] show ?thesis
    by (auto simp: window_rel_def Let_def)
qed

subsection \<open>A whole run\<close>

lemma feed_actions: "list_all we_ok es \<Longrightarrow> feed handleWizardEvent (map wj es) d = run_actions wizard_step (map Receive es) d"
proof (induction es arbitrary: d)
  case (Cons e es)
  then show ?case by (cases "handleWizardEvent (Some (wj e)) d") simp_all
qed simp

lemma feed_mounted:
  "list_all we_ok es \<Longrightarrow> run_actions wizard_step (map Receive es) d = Inr d' \<Longrightarrow> fs_mounted d' = fs_mounted d"
proof (induction es arbitrary: d)
  case (Cons e es)
  then obtain d1 where "handleWizardEvent (Some (wj e)) d = Inr d1" "run_actions wizard_step (map Receive es) d1 = Inr d'"
    by (auto elim: bindr_InrE)
  moreover from this(1) have "fs_mounted d1 = fs_mounted d"
    using handle_wj [of e d] Cons.prems(1) by (auto simp: printf_def split: if_splits)
  ultimately show ?case using Cons by auto
qed simp

lemma received_events: "received (fold window_step (map Receive es) a) = received a @ es"
  "shown (fold window_step (map Receive es) a) = shown a" "table (fold window_step (map Receive es) a) = table a"
  by (induction es arbitrary: a) auto

lemma wizard_receives:
  assumes "usingGui d" "wizard_events d = None \<longrightarrow> notification_event d = None" "list_all we_ok es"
  shows "\<exists>d'. doStartWizard (Some (concat (map we_text (es @ [end_event])))) d = Some (Inr d')
    \<and> window_rel ((fresh_window d)\<lparr>received := es\<rparr>) d' \<and> recv_end_event d' \<and> fuse_pid d' = 0 \<and> fs_mounted d' = fs_mounted d"
proof -
  let ?r = "reset_wizard d"
  have "window_machine.all_ok (map Receive es) (fresh_window d)"
    using assms(3) by (auto intro!: window_machine.all_ok_static simp: list_all_iff)
  from window_machine.sim_run [OF window_rel_reset [OF assms(1,2)] this] obtain d1
    where d1: "run_actions wizard_step (map Receive es) ?r = Inr d1" "window_rel (fold window_step (map Receive es) (fresh_window d)) d1"
    by blast
  have "fold window_step (map Receive es) (fresh_window d) = (fresh_window d)\<lparr>received := es\<rparr>"
    using received_events [of es "fresh_window d"] by (intro window.equality) (simp_all add: fresh_window_def)
  with d1(2) have rel: "window_rel ((fresh_window d)\<lparr>received := es\<rparr>) d1" by simp
  have m: "fs_mounted d1 = fs_mounted d" using feed_mounted [OF assms(3) d1(1)] by (simp add: reset_wizard_def Let_def)
  obtain json where "handleWizardEvent (Some (wj end_event)) d1 = Inr (printf ''FUSE binary detached so wizard will terminate.''
     (setFusePID 0 ((printf json d1)\<lparr>recv_end_event := True\<rparr>)))" using handle_end by blast
  then have "feed handleWizardEvent (map (canon None) (map we_json (es @ [end_event]))) ?r = Inr (printf ''FUSE binary detached so wizard will terminate.''
     (setFusePID 0 ((printf json d1)\<lparr>recv_end_event := True\<rparr>)))"
    using d1(1) feed_actions [OF assms(3), of ?r] by (simp add: feed_append wj_def [symmetric] comp_def)
  moreover have "list_all sendable (map we_json (es @ [end_event]))"
    using assms(3) by (auto simp: list_all_iff we_sendable)
  ultimately show ?thesis using pipe.recv_sent [of "map we_json (es @ [end_event])" handleWizardEvent ?r] rel m
    by (simp add: doStartWizard_def Let_def comp_def window_rel_def printf_def setFusePID_def)
qed

lemma updateResourcesTab_keeps:
  assumes "updateResourcesTab f d = Inr d'"
  shows "sig_l1 d' = sig_l1 d" "sig_page d' = sig_page d" "fsigs d' = fsigs d" "last_func_name d' = last_func_name d"
    "first_update d' = first_update d" "message_func d' = message_func d" "message_text d' = message_text d"
  using assms by (auto simp: updateResourcesTab_def Let_def elim!: bindr_InrE split: option.splits if_splits)

lemma updateSignatureTab_keeps:
  assumes "updateSignatureTab f d = Inr d'"
  shows "last_func_name d' = last_func_name d" "first_update d' = first_update d"
    "message_func d' = message_func d" "message_text d' = message_text d"
  using assms by (auto simp: updateSignatureTab_def Let_def elim!: bindr_InrE split: option.splits if_splits)

definition retitled :: "string \<Rightarrow> 'a wizard_scheme \<Rightarrow> 'a wizard_scheme" where
  \<comment> \<open>the window before the tabs of another function are filled in\<close>
  "retitled f d = (printf ''Updating info tabs'' (d\<lparr>last_func_name := f, first_update := False\<rparr>))\<lparr>tabs_shown := (f \<noteq> []),
     skip_sensitive := (f \<noteq> [])\<rparr>"

lemma retitled_fields [simp]:
  "fsigs (retitled f d) = fsigs d" "sig_l1 (retitled f d) = sig_l1 d" "sig_page (retitled f d) = sig_page d"
  "last_func_name (retitled f d) = f" "\<not> first_update (retitled f d)"
  "message_func (retitled f d) = message_func d" "message_text (retitled f d) = message_text d"
  by (simp_all add: retitled_def printf_def)

lemma updateInfoTabs_retitled:
  assumes "first_update d \<or> last_func_name d \<noteq> f"
  shows "updateInfoTabs f d = bindr (alloc_write 1024 f) (\<lambda>_. bindr (updateSignatureTab f (retitled f d)) (updateResourcesTab f))"
  using assms by (auto simp: updateInfoTabs_def retitled_def Let_def alloc_write_def)

lemma tabs_keep_message:
  assumes "updateInfoTabs f d = Inr d'"
  shows "message_func d' = message_func d \<and> message_text d' = message_text d"
proof (cases "\<not> first_update d \<and> last_func_name d = f")
  case True
  with assms show ?thesis by (simp add: updateInfoTabs_def)
next
  case False
  then obtain d1 where "updateSignatureTab f (retitled f d) = Inr d1" "updateResourcesTab f d1 = Inr d'"
    using assms by (auto simp: updateInfoTabs_retitled elim!: bindr_InrE)
  then show ?thesis by (simp add: updateSignatureTab_keeps updateResourcesTab_keeps)
qed

lemma notification_shown:
  assumes "show_notification (wj e) d = Inr d'" "we_ok e"
  shows "message_func d' = fname e \<and> message_text d' = we_message e"
proof -
  have "updateInfoTabs (fname e) (setMessageViewMessage (we_message e) (setMessageViewFunc (fname e) d)) = Inr d'"
    using assms by (simp add: show_notification_def wj_fields testToFunction_ok)
  then show ?thesis by (auto simp: setMessageViewMessage_def setMessageViewFunc_def dest!: tabs_keep_message)
qed

lemma success_shown:
  assumes "show_progress d = Inr d'" "nodes (wizard_events_displayed d) \<noteq> []" "\<not> fs_mounted d" "recv_end_event d"
  shows "message_func d' = ''Success!'' \<and> message_text d' = success_message"
proof -
  have "updateInfoTabs [] (setMessageViewMessage success_message (setMessageViewFunc ''Success!'' d)) = Inr d'"
    using assms by (simp add: show_progress_def)
  then show ?thesis by (auto simp: setMessageViewMessage_def setMessageViewFunc_def dest!: tabs_keep_message)
qed

lemma notice_failing: "notice es = Some e \<Longrightarrow> e \<in> set es \<and> \<not> we_passed e"
  by (auto simp: notice_def first_failing_def mine_def split: option.splits dest!: find_SomeD)

lemma verdict_shown:
  assumes "window_rel a d" "recv_end_event d" "\<not> fs_mounted d" "received a \<noteq> []" "gui_idle_wizard d = Inr d'"
  shows "if list_all we_passed (received a) then message_func d' = ''Success!'' \<and> message_text d' = success_message
    else \<exists>e \<in> set (received a). \<not> we_passed e \<and> message_func d' = fname e \<and> message_text d' = we_message e"
proof -
  let ?es = "received a"
  define r where "r = show_rows (firsts ?es) (wizard_table ?es) (notify ?es (firsts ?es) d)"
  have ok: "list_all we_ok ?es" using assms(1) by (simp add: window_rel_def)
  have n: "notification_event r = map_option wj (notice ?es)"
    using assms(1) notify_notice [of d "shown a"] by (auto simp: window_rel_def r_def show_rows_def)
  have r: "\<not> fs_mounted r" "recv_end_event r" "nodes (wizard_events_displayed r) \<noteq> []"
    using assms(2-4) funcs_firsts [of ?es] by (auto simp: r_def show_rows_def notify_def nodes_def split: option.splits)
  have idle: "(case notification_event r of Some e \<Rightarrow> show_notification e r | None \<Rightarrow> show_progress r) = Inr d'"
    using assms(5) window_refresh [OF assms(1)] by (simp add: gui_idle_wizard_def r_def [symmetric])
  show ?thesis
  proof (cases "notice ?es")
    case None
    then show ?thesis using idle n success_shown [OF _ r(3,1,2)] notice_None [of ?es] by simp
  next
    case (Some e)
    then have "we_ok e" using notice_failing ok by (auto simp: list_all_iff)
    then show ?thesis using idle n Some notification_shown [of e r d'] notice_failing [OF Some] notice_None [of ?es] by auto
  qed
qed

definition getattr_signature :: cJSON where
  "getattr_signature = cJSON_AddStringToObject (cJSON_AddItemToObject (cJSON_AddStringToObject cJSON_CreateObject ''name'' ''getattr'')
     ''params'' cJSON_CreateArray) ''rtype'' ''int''"

definition demo_window :: wizard where
  \<comment> \<open>the program with the signature of one operation, before its first run\<close>
  "demo_window = \<lparr>abs_libpath = ''/lib'', bin_path = ''.'', usingGui = True, terminate_calls = 0, fuse_pid = 0,
     stopToolFunction = None, fs_mounted = False, shared_error = [],
     fsigs = Some (cJSON_AddItemToArray cJSON_CreateArray getattr_signature), resources = Some cJSON_CreateArray,
     skipped_tests = None, test_data_file = None, start_sensitive = True, stop_sensitive = False, stdout = [],
     stderr = [], kills = [], dialogs = [], exited = None, pendingInvocations = 0, autoAdvance = False,
     closing = False, stepSem = 0, stdin = [], tailq_events = [], event_table = [], advance_sensitive = False,
     wizard_events = None, wizard_events_displayed = None, func_rows = (\<lambda>_. None), func_table = [],
     notification_event = None, notification_status = IMPLEMENTED, recv_end_event = False, message_func = [],
     message_text = [], tabs_shown = False, skip_sensitive = False, first_update = True, last_func_name = [],
     next_widget = 0, sig_page = [], sig_l1 = None, sig_params = [], sig_l2 = None, res_page = [], res_links = []\<rparr>"

theorem wizard_window_refines_witness:
  "usingGui demo_window \<and> wizard_events demo_window = None \<and> notification_event demo_window = None
   \<and> list_all readable (map Receive demo_events @ [Idle])
   \<and> (\<exists>d'. run_actions wizard_step (Restart # map Receive demo_events @ [Idle]) demo_window = Inr d'
      \<and> func_table d' = [(''getattr'', ''Needs fixing''), (''mkdir'', ''Needs defining''), (''access'', ''Skipped'')]
      \<and> notification_event d' = Some (wj (WEvent ''test_getattr'' 1 False False ''bad'')))"
proof -
  have a: "usingGui demo_window" "wizard_events demo_window = None" "notification_event demo_window = None"
    by (simp_all add: demo_window_def)
  have r: "list_all readable (map Receive demo_events @ [Idle])"
    using demo_events_ok by (simp add: demo_events_def)
  have w: "fold window_step (map Receive demo_events @ [Idle]) (fresh_window demo_window)
      = \<lparr>received = demo_events, shown = demo_events, table = wizard_table demo_events\<rparr>"
    by (simp add: fresh_window_def demo_events_def)
  have t: "wizard_table demo_events = [(''getattr'', ''Needs fixing''), (''mkdir'', ''Needs defining''), (''access'', ''Skipped'')]"
    "notice demo_events = Some (WEvent ''test_getattr'' 1 False False ''bad'')"
    by (simp_all add: wizard_table_def notice_def firsts_def demo_events_def add_first_def status_spec_def mine_def
        needs_attention_def first_failing_def)
  from wizard_window_refines [OF a(1) _ r] a(2,3) show ?thesis
    unfolding w Let_def using a r t by fastforce
qed

subsection \<open>The information tabs\<close>

lemma container_removed: "container_remove_all (w # ws) page = Inr page' \<Longrightarrow> w \<notin> fst ` set page'"
proof -
  have keep: "w \<notin> fst ` set page \<Longrightarrow> container_remove_all ws page = Inr page' \<Longrightarrow> w \<notin> fst ` set page'" for page
  proof (induction ws arbitrary: page)
    case (Cons v ws)
    then obtain p where "container_remove v page = Inr p" "container_remove_all ws p = Inr page'" by (auto simp: bindr_Inr_iff)
    moreover from this(1) have "w \<notin> fst ` set p" using Cons.prems(1) by (auto simp: container_remove_def split: if_splits)
    ultimately show ?case using Cons.IH by blast
  qed simp
  assume "container_remove_all (w # ws) page = Inr page'"
  then obtain p where "container_remove w page = Inr p" "container_remove_all ws p = Inr page'" by (auto simp: bindr_Inr_iff)
  moreover from this(1) have "w \<notin> fst ` set p" by (auto simp: container_remove_def split: if_splits)
  ultimately show ?thesis using keep by blast
qed

lemma signature_shown:
  "updateSignatureTab f d = Inr d' \<Longrightarrow> getFunctionSignature d f = Inr (Some sig) \<Longrightarrow> sig_l1 d' \<noteq> None \<and> fsigs d' = fsigs d"
  by (auto simp: updateSignatureTab_def bindr_Inr_iff Let_def getFunctionSignature_def split: option.splits if_splits)

lemma signature_cleared:
  assumes "updateSignatureTab f d = Inr d'" "getFunctionSignature d f = Inr None" "sig_l1 d = Some n"
  shows "sig_l1 d' = Some n \<and> n \<notin> fst ` set (sig_page d')"
proof -
  obtain ws page where "container_remove_all (n # ws) (sig_page d) = Inr page" "d' = d\<lparr>sig_page := page\<rparr>"
    using assms by (auto simp: updateSignatureTab_def Let_def getFunctionSignature_def elim!: bindr_InrE split: option.splits)
  then show ?thesis using assms(3) container_removed by force
qed

lemma signature_stale:
  "sig_l1 d = Some n \<Longrightarrow> n \<notin> fst ` set (sig_page d) \<Longrightarrow> updateSignatureTab f d = Inl UseAfterFree"
  by (simp add: updateSignatureTab_def container_remove_def)

lemma updateInfoTabs_step:
  assumes "updateInfoTabs f d = Inr d'" "first_update d \<or> last_func_name d \<noteq> f"
  shows "\<exists>d1. updateSignatureTab f (retitled f d) = Inr d1 \<and> sig_l1 d' = sig_l1 d1 \<and> sig_page d' = sig_page d1
    \<and> fsigs d' = fsigs d1 \<and> last_func_name d' = f \<and> \<not> first_update d'"
proof -
  obtain d1 where d1: "updateSignatureTab f (retitled f d) = Inr d1" "updateResourcesTab f d1 = Inr d'"
    using assms(1) unfolding updateInfoTabs_retitled [OF assms(2)] by (elim bindr_InrE)
  from d1(2) have "sig_l1 d' = sig_l1 d1" "sig_page d' = sig_page d1" "fsigs d' = fsigs d1"
      "last_func_name d' = last_func_name d1" "first_update d' = first_update d1"
    by (simp_all add: updateResourcesTab_keeps)
  with d1(1) updateSignatureTab_keeps [OF d1(1)] show ?thesis by auto
qed

text \<open>
  C36. The tabs of the wizard use widgets that are gone: after the tabs have shown a function whose
  signature is known and were then cleared, showing any function removes the old labels a second time.
\<close>

theorem cleared_tabs_crash:
  assumes "updateInfoTabs f d = Inr d1" "getFunctionSignature d f = Inr (Some sig)" "first_update d \<or> last_func_name d \<noteq> f"
    and "updateInfoTabs [] d1 = Inr d2" "getFunctionSignature d [] = Inr None" "f \<noteq> []"
    and "g \<noteq> []" "length g < 1024"
  shows "updateInfoTabs g d2 = Inl UseAfterFree"
proof -
  have sig: "getFunctionSignature (retitled h d) k = getFunctionSignature d k" for h k and d :: "'a wizard_scheme"
    by (simp add: getFunctionSignature_def)
  obtain n where d1: "sig_l1 d1 = Some n" "fsigs d1 = fsigs d" "last_func_name d1 = f" "\<not> first_update d1"
    using updateInfoTabs_step [OF assms(1,3)] signature_shown assms(2) sig by (metis not_Some_eq retitled_fields(1))
  then have "getFunctionSignature (retitled [] d1) [] = Inr None" using assms(5) by (simp add: getFunctionSignature_def)
  then have d2: "sig_l1 d2 = Some n" "n \<notin> fst ` set (sig_page d2)" "last_func_name d2 = []"
    using updateInfoTabs_step [OF assms(4)] signature_cleared d1(1,3) assms(6) retitled_fields(2) by metis+
  then show ?thesis using assms(7,8) signature_stale [of "retitled g d2" n g] by (simp add: updateInfoTabs_retitled)
qed

lemma demo_signatures:
  "getFunctionSignature demo_window ''getattr'' = Inr (Some getattr_signature)"
  "getFunctionSignature demo_window [] = Inr None"
  "cJSON_GetObjectItem getattr_signature ''params'' = Some (set_name (Some ''params'') cJSON_CreateArray)"
  "item_string (Some getattr_signature) ''rtype'' = Inr ''int''"
  by (simp_all add: getFunctionSignature_def demo_window_def getattr_signature_def json_add_defs item_string_def get_item_def
      cJSON_GetObjectItem_def cJSON_strcasecmp_def c_tolower_def cstr_def)

definition demo_titled :: wizard where "demo_titled = retitled ''getattr'' demo_window"

lemma demo_titled_fields:
  "sig_l1 demo_titled = None" "sig_l2 demo_titled = None" "sig_params demo_titled = []" "sig_page demo_titled = []"
  "res_page demo_titled = []" "res_links demo_titled = []" "next_widget demo_titled = 0"
  "fsigs demo_titled = fsigs demo_window" "resources demo_titled = Some cJSON_CreateArray"
  by (simp_all add: demo_titled_def retitled_def printf_def demo_window_def)

definition demo_shown :: wizard where
  "demo_shown = demo_titled\<lparr>next_widget := 2, sig_l1 := Some 0, sig_params := [], sig_l2 := Some 1,
     sig_page := number_from 0 [''getattr takes the following parameters:'', ''It should return a value of type int'']\<rparr>"

lemma demo_signature_of: "fsigs (d :: wizard) = fsigs demo_window \<Longrightarrow> getFunctionSignature d k = getFunctionSignature demo_window k"
  by (simp add: getFunctionSignature_def)

lemma demo_shown_step: "updateInfoTabs ''getattr'' demo_window = Inr demo_shown"
proof -
  have "updateSignatureTab ''getattr'' demo_titled = Inr demo_shown"
    by (simp add: updateSignatureTab_def demo_titled_fields demo_signature_of demo_signatures get_item_def Let_def demo_shown_def
        snprintf_def)
  moreover have "updateResourcesTab ''getattr'' demo_shown = Inr demo_shown"
    by (simp add: updateResourcesTab_def demo_shown_def demo_titled_fields getFunctionResources_def)
  moreover have "first_update demo_window" by (simp add: demo_window_def)
  ultimately show ?thesis by (simp add: updateInfoTabs_retitled demo_titled_def [symmetric])
qed

lemma demo_cleared: "\<exists>d. updateInfoTabs [] demo_shown = Inr d"
proof -
  define r where "r = retitled [] demo_shown"
  have r: "sig_l1 r = Some 0" "sig_params r = []" "sig_l2 r = Some 1" "res_links r = []" "fsigs r = fsigs demo_window"
      "resources r = Some cJSON_CreateArray"
      "sig_page r = [(0, ''getattr takes the following parameters:''), (1, ''It should return a value of type int'')]"
    by (simp_all add: r_def retitled_def printf_def demo_shown_def demo_titled_fields number_from_def)
  then have "updateSignatureTab [] r = Inr (r\<lparr>sig_page := []\<rparr>)"
    by (simp add: updateSignatureTab_def container_remove_def demo_signature_of demo_signatures)
  moreover have "updateResourcesTab [] (r\<lparr>sig_page := []\<rparr>) = Inr (r\<lparr>sig_page := []\<rparr>\<lparr>res_page := res_page r\<rparr>)"
    using r by (simp add: updateResourcesTab_def getFunctionResources_def)
  moreover have "last_func_name demo_shown = ''getattr''" by (simp add: demo_shown_def demo_titled_def)
  ultimately show ?thesis by (simp add: updateInfoTabs_retitled r_def [symmetric])
qed

theorem cleared_tabs_crash_witness:
  "\<exists>d2. updateInfoTabs ''getattr'' demo_window = Inr demo_shown \<and> getFunctionSignature demo_window ''getattr'' = Inr (Some getattr_signature)
     \<and> first_update demo_window \<and> updateInfoTabs [] demo_shown = Inr d2 \<and> getFunctionSignature demo_window [] = Inr None
     \<and> updateInfoTabs ''getattr'' d2 = Inl UseAfterFree"
proof -
  obtain d2 where d2: "updateInfoTabs [] demo_shown = Inr d2" using demo_cleared by blast
  have u: "first_update demo_window" by (simp add: demo_window_def)
  from cleared_tabs_crash [OF demo_shown_step demo_signatures(1) _ d2 demo_signatures(2), of "''getattr''"] d2 u demo_signatures(1,2)
    demo_shown_step
  show ?thesis by auto
qed

end
