(* ===== verification/Skip_List.thy ===== *)
theory Skip_List
  imports Wizard_Tests Refinement
begin

section \<open>Skipped tests, from the button to the tests\<close>

text \<open>
  The program keeps the tests the user skips in one string, passes it to the mounted file system in
  the environment, and the library takes it apart again and looks every test up in it. This theory
  follows a skipped test all the way: \<open>addSkippedTest\<close> and \<open>getEnvVarsForFork\<close> of \<open>fdt.c\<close>,
  then \<open>fwizard_init\<close> and \<open>is_skipped\<close> of \<open>wizard_tests.c\<close>.
\<close>

definition getenv :: "string list \<Rightarrow> string \<Rightarrow> string option" where
  \<comment> \<open>the value of the first declaration of the variable\<close>
  "getenv envp name = map_option (drop (length name + 1)) (find (\<lambda>d. take (length name + 1) d = name @ ''='') envp)"

definition skip_str :: "string \<times> int \<Rightarrow> string" where
  "skip_str = (\<lambda>(f, n). f @ '':'' @ show_int n)"

definition skippable :: "string \<times> int \<Rightarrow> bool" where
  "skippable = (\<lambda>(f, n). CHR '','' \<notin> set f \<and> is_int n)"

abbreviation add_skip :: "string \<times> int \<Rightarrow> 'a fdt_scheme \<Rightarrow> 'a fdt_scheme c_res" where
  "add_skip \<equiv> (\<lambda>(f, n). addSkippedTest f n)"

fun commas :: "string list \<Rightarrow> string" where
  "commas [] = []"
| "commas [t] = t"
| "commas (t # ts) = t @ '','' @ commas ts"

subsection \<open>Decimal numbers\<close>

lemma show_int_chars: "c \<in> set (show_int i) \<Longrightarrow> c_isdigit c \<or> c = CHR ''-''"
  by (auto simp: show_int_def dest: show_nat_digits split: if_splits)

lemma show_int_no_sep: "CHR '':'' \<notin> set (show_int i)" "CHR '','' \<notin> set (show_int i)"
  using show_int_chars [of "CHR '':''" i] show_int_chars [of "CHR '',''" i] by (auto simp: c_isdigit_def)

lemma show_nat_inj: "show_nat m = show_nat n \<longleftrightarrow> m = n"
  by (metis digits_val_show_nat of_nat_eq_iff)

lemma minus_not_digit: "\<not> c_isdigit (CHR ''-'')"
  by (simp add: c_isdigit_def)

lemma show_int_inj: "show_int i = show_int j \<longleftrightarrow> i = j"
proof -
  have "CHR ''-'' # s \<noteq> show_nat n" for s n
    using show_nat_digits [of "CHR ''-''" n] by (metis list.set_intros(1) minus_not_digit)
  then show ?thesis by (auto simp: show_int_def show_nat_inj dest: sym)
qed

lemma skip_str_inj: "skip_str s = skip_str t \<longleftrightarrow> s = t"
proof -
  have last: "takeWhile (\<lambda>c. c \<noteq> CHR '':'') (rev (f @ CHR '':'' # x)) = rev x" if "CHR '':'' \<notin> set x" for f x :: string
    using that by (simp add: takeWhile_append)
  have "f @ CHR '':'' # show_int m = g @ CHR '':'' # show_int n \<longleftrightarrow> f = g \<and> m = n" for f g m n
    using last [OF show_int_no_sep(1), of f m] last [OF show_int_no_sep(1), of g n] show_int_inj by fastforce
  then show ?thesis by (cases s; cases t) (simp add: skip_str_def)
qed

lemma length_show_C_int: "is_int n \<Longrightarrow> length (show_int n) \<le> 11"
proof -
  assume "is_int n"
  then have "\<bar>n\<bar> < 10 ^ 10" by (auto simp: is_int_def abs_less_iff)
  then show ?thesis using length_show_int [of n 10] by simp
qed

lemma skip_str_fits: "is_int n \<Longrightarrow> snprintf (length f + 64) (f @ '':'' @ show_int n) = skip_str (f, n)"
  using length_show_C_int [of n] by (simp add: skip_str_def)

lemma skip_str_token: "skippable t \<Longrightarrow> CHR '','' \<notin> set (skip_str t) \<and> skip_str t \<noteq> []"
  by (auto simp: skippable_def skip_str_def show_int_no_sep split: prod.splits)

subsection \<open>Writing the list\<close>

lemma commas_snoc: "ts \<noteq> [] \<Longrightarrow> commas (ts @ [t]) = commas ts @ '','' @ t"
  by (induction ts rule: commas.induct) auto

lemma addSkippedTest_eq:
  assumes "skippable t" "skipped_tests st = (if ts = [] then None else Some (commas (map skip_str ts)))"
  shows "add_skip t st = Inr (st\<lparr>skipped_tests := Some (commas (map skip_str (ts @ [t])))\<rparr>)"
proof -
  obtain f n where t: "t = (f, n)" "is_int n" using assms(1) by (cases t) (auto simp: skippable_def)
  have "length (show_int n) \<le> 11" using t(2) by (rule length_show_C_int)
  then have "length (skip_str t) < length f + 63" by (simp add: t(1) skip_str_def)
  then show ?thesis using assms(2) skip_str_fits [OF t(2), of f] commas_snoc [of "map skip_str ts" "skip_str t"]
    by (simp add: addSkippedTest_def Let_def t(1) alloc_write_def)
qed

lemma add_skips:
  assumes "list_all skippable ts" "skipped_tests st = None"
  shows "\<exists>st'. run_actions add_skip ts st = Inr st' \<and> skipped_tests st' = (if ts = [] then None else Some (commas (map skip_str ts)))"
  using assms(1)
proof (induction ts rule: rev_induct)
  case (snoc t ts)
  then obtain s where "run_actions add_skip ts st = Inr s" "skipped_tests s = (if ts = [] then None else Some (commas (map skip_str ts)))"
    by auto
  with addSkippedTest_eq [of t s ts] snoc.prems show ?case by simp
qed (simp add: assms(2))

subsection \<open>Reading it\<close>

lemma split_at_token: "CHR '','' \<notin> set t \<Longrightarrow> split_at (CHR '','') (t @ CHR '','' # s) = t # split_at (CHR '','') s"
  "CHR '','' \<notin> set t \<Longrightarrow> split_at (CHR '','') t = [t]"
  by (induction t) auto

lemma strtok_commas:
  "ts \<noteq> [] \<Longrightarrow> (\<And>t. t \<in> set ts \<Longrightarrow> CHR '','' \<notin> set t \<and> t \<noteq> []) \<Longrightarrow> strtok (commas ts) (CHR '','') = ts"
  unfolding strtok_def
proof (induction ts rule: commas.induct)
  case (3 t t' ts)
  then have "filter (\<lambda>t. t \<noteq> []) (split_at (CHR '','') (commas (t' # ts))) = t' # ts" by auto
  then show ?case using 3(3) [of t] by (simp add: split_at_token)
qed (auto simp: split_at_token)

lemma getenv_skipped:
  "getenv (fst (getEnvVarsForFork tool st)) ''SKIPPED_TESTS'' = skipped_tests st"
proof -
  have "getenv (fst (getEnvVarsForFork tool st)) ''SKIPPED_TESTS'' = skipped_tests st" if "skipped_tests st = Some s" for s
    using that by (simp add: getenv_def getEnvVarsForFork_def Let_def snprintf_def split: option.splits)
  moreover have "getenv (fst (getEnvVarsForFork tool st)) ''SKIPPED_TESTS'' = None" if "skipped_tests st = None"
    using that by (simp add: getenv_def getEnvVarsForFork_def Let_def snprintf_def split: option.splits)
  ultimately show ?thesis by (cases "skipped_tests st") auto
qed

text \<open>
  C22. Skipping works end to end: however many tests the user has skipped, none of the buffers
  overflows, and the tests started afterwards with the environment of the program treat exactly
  those tests as skipped. (Test names have no comma.)
\<close>

theorem skipping_round_trip:
  assumes "list_all skippable ts" "skipped_tests st = None" "is_int n"
  shows "\<exists>st'. run_actions add_skip ts st = Inr st'
    \<and> (is_skipped f n (wizard_start (getenv (fst (getEnvVarsForFork tool st')) ''SKIPPED_TESTS'') u) \<longleftrightarrow> (f, n) \<in> set ts)"
proof -
  obtain st' where st': "run_actions add_skip ts st = Inr st'"
      "skipped_tests st' = (if ts = [] then None else Some (commas (map skip_str ts)))"
    using add_skips [OF assms(1,2)] by blast
  have tokens: "\<And>t. t \<in> set (map skip_str ts) \<Longrightarrow> CHR '','' \<notin> set t \<and> t \<noteq> []"
    using skip_str_token assms(1) by (fastforce simp: list_all_iff)
  have "skip_list (wizard_start (skipped_tests st') u) = None # map (\<lambda>t. Some (skip_str t)) ts"
    using strtok_commas [of "map skip_str ts"] tokens by (simp add: st'(2) wizard_start_def parse_skipped_def)
  then have "is_skipped f n (wizard_start (skipped_tests st') u) \<longleftrightarrow> (f, n) \<in> set ts"
    using skip_str_fits [OF assms(3), of f] by (auto simp: is_skipped_def skip_str_inj)
  then show ?thesis using st'(1) getenv_skipped by metis
qed

definition demo_program :: fdt where
  "demo_program = \<lparr>abs_libpath = ''/lib'', bin_path = ''.'', usingGui = True, terminate_calls = 0, fuse_pid = 0,
     stopToolFunction = None, fs_mounted = False, shared_error = [], fsigs = None, resources = None,
     skipped_tests = None, test_data_file = None, start_sensitive = True, stop_sensitive = False, stdout = [],
     stderr = [], kills = [], dialogs = [], exited = None\<rparr>"

theorem skipping_round_trip_witness:
  "list_all skippable [(''test_read'', 2), (''test_mkdir'', 0)] \<and> skipped_tests demo_program = None \<and> is_int 0
   \<and> (\<exists>st'. run_actions add_skip [(''test_read'', 2), (''test_mkdir'', 0)] demo_program = Inr st'
     \<and> \<not> is_skipped ''test_read'' 0 (wizard_start (getenv (fst (getEnvVarsForFork ''wizard'' st')) ''SKIPPED_TESTS'') (0::nat)))"
proof -
  have s: "list_all skippable [(''test_read'', 2), (''test_mkdir'', 0)]" "skipped_tests demo_program = None" "is_int 0"
    by (simp_all add: skippable_def is_int_def demo_program_def)
  from skipping_round_trip [OF s, of "''test_read''" "''wizard''" "0::nat"] s show ?thesis by simp
qed

end
