(* ===== verification/Replay.thy ===== *)
theory Replay
  imports Wizard_Tests Refinement
begin

unbundle bit_operations_syntax

section \<open>The test suite\<close>

text \<open>
  Model of \<open>src/testsuite_run.c\<close>, the part of the instrumented library that replays recorded
  calls against the file system under test and, in step with it, against a passthrough file
  system, and compares the two after every call. Both file systems are parameter records of
  operations with states of their own; what the code takes from its surroundings - fresh memory,
  pointers, error texts, the root directory of the passthrough file system - is the record
  \<open>ts_host\<close>. The branches for macOS are left out, and so is console output.

  The two traversals recurse into directories. They take the greatest depth as an argument and
  give \<open>NoFuel\<close> below it; a file system limits the depth by the length of a path.
\<close>

subsection \<open>File handles\<close>

record fh_entry =
  e_fh :: int
  e_open :: int

type_synonym fh_table = "string \<rightharpoonup> fh_entry"

record 's side =
  sd_user :: 's
  sd_fi :: fuse_file_info
  sd_fhs :: fh_table

record ts_host =
  fresh :: "int \<Rightarrow> string"
  fresh_ptr :: int
  readdir_filler :: int
  testsuite_filler :: int
  junk_local_fi :: fuse_file_info
  junk_local_stat :: stat
  junk_conn :: fuse_conn_info
  junk_fuse_buf :: fuse_buf

definition empty_fi :: "fuse_file_info \<Rightarrow> fuse_file_info" where
  "empty_fi fi = fi\<lparr>flags := 0, fh_old := 0, writepage := 0, direct_io := 0, keep_cache := 0, flush := 0, fh := 0,
     lock_owner := 0\<rparr>"

definition store_fh :: "fh_table \<Rightarrow> string option \<Rightarrow> int \<Rightarrow> fh_table c_res" where
  "store_fh fhs path handle = bindr (of_opt NullPointer path) (\<lambda>path. Inr (fhs(path \<mapsto> \<lparr>e_fh = handle, e_open = 0\<rparr>)))"

definition lookup_fh :: "fh_table \<Rightarrow> string option \<Rightarrow> (string \<times> fh_entry) c_res" where
  \<comment> \<open>\<open>g_hash_table_lookup\<close> where the code dereferences the result\<close>
  "lookup_fh fhs path = bindr (of_opt NullPointer path) (\<lambda>path. bindr (of_opt NullPointer (fhs path)) (\<lambda>entry. Inr (path, entry)))"

definition increment_open :: "fh_table \<Rightarrow> string option \<Rightarrow> fh_table c_res" where
  "increment_open fhs path = bindr (lookup_fh fhs path) (\<lambda>(path, entry). Inr (fhs(path \<mapsto> entry\<lparr>e_open := e_open entry + 1\<rparr>)))"

definition path_to_fh :: "fh_table \<Rightarrow> string option \<Rightarrow> int c_res" where
  "path_to_fh fhs path = bindr (lookup_fh fhs path) (\<lambda>(path, entry). Inr (e_fh entry))"

definition destroy_fh :: "fh_table \<Rightarrow> string option \<Rightarrow> fh_table c_res" where
  "destroy_fh fhs path = bindr (lookup_fh fhs path) (\<lambda>(path, entry).
     let entry = entry\<lparr>e_open := e_open entry - 1\<rparr> in
     Inr (if e_open entry = 0 then fhs(path := None) else fhs(path \<mapsto> entry)))"

subsection \<open>Arguments from JSON\<close>

text \<open>The conversions of an assignment to an unsigned or a short integer, and to a one-bit field.\<close>

definition u32 :: "int \<Rightarrow> int" where "u32 n = n mod 2 ^ 32"
definition u64 :: "int \<Rightarrow> int" where "u64 n = n mod 2 ^ 64"
definition s16 :: "int \<Rightarrow> int" where "s16 n = (n + 2 ^ 15) mod 2 ^ 16 - 2 ^ 15"
definition u1 :: "int \<Rightarrow> int" where "u1 n = n mod 2"

definition item_ptr :: "cJSON option \<Rightarrow> string \<Rightarrow> string option c_res" where
  \<comment> \<open>the member's \<open>valuestring\<close>, which the code only hands on\<close>
  "item_ptr obj k = bindr (get_item obj k) (\<lambda>c. Inr (valuestring c))"

definition item_u32 :: "cJSON option \<Rightarrow> string \<Rightarrow> int c_res" where
  "item_u32 obj k = bindr (item_int obj k) (\<lambda>n. Inr (u32 n))"

definition item_u64 :: "cJSON option \<Rightarrow> string \<Rightarrow> int c_res" where
  "item_u64 obj k = bindr (item_int obj k) (\<lambda>n. Inr (u64 n))"

definition update_fi :: "fh_table \<Rightarrow> string option \<Rightarrow> fuse_file_info \<Rightarrow> cJSON \<Rightarrow> fuse_file_info c_res" where
  "update_fi fhs path fi obj =
    bindr (item_int (Some obj) ''flags'') (\<lambda>v0.
    bindr (item_int (Some obj) ''writepage'') (\<lambda>v1.
    bindr (item_int (Some obj) ''direct_io'') (\<lambda>v2.
    bindr (item_int (Some obj) ''keep_cache'') (\<lambda>v3.
    bindr (item_int (Some obj) ''flush'') (\<lambda>v4.
    bindr (item_int (Some obj) ''lock_owner'') (\<lambda>v5.
    bindr (if path = None then Inr 0 else path_to_fh fhs path) (\<lambda>fh.
      Inr (fi\<lparr>flags := v0, writepage := v1, direct_io := u1 v2, keep_cache := u1 v3, flush := u1 v4,
        lock_owner := u64 v5, fh_old := 0, fh := fh\<rparr>))))))))"

definition json_to_stat :: "cJSON \<Rightarrow> stat c_res" where
  "json_to_stat obj =
    bindr (item_int (Some obj) ''st_dev'') (\<lambda>v0.
    bindr (item_int (Some obj) ''st_ino'') (\<lambda>v1.
    bindr (item_int (Some obj) ''st_mode'') (\<lambda>v2.
    bindr (item_int (Some obj) ''st_nlink'') (\<lambda>v3.
    bindr (item_int (Some obj) ''st_uid'') (\<lambda>v4.
    bindr (item_int (Some obj) ''st_gid'') (\<lambda>v5.
    bindr (item_int (Some obj) ''st_rdev'') (\<lambda>v6.
    bindr (item_int (Some obj) ''st_size'') (\<lambda>v7.
    bindr (item_int (Some obj) ''st_atime'') (\<lambda>v8.
    bindr (item_int (Some obj) ''st_mtime'') (\<lambda>v9.
    bindr (item_int (Some obj) ''st_ctime'') (\<lambda>v10.
    bindr (item_int (Some obj) ''st_blksize'') (\<lambda>v11.
    bindr (item_int (Some obj) ''st_blocks'') (\<lambda>v12.
      Inr \<lparr>st_dev = u64 v0, st_ino = u64 v1, st_mode = u32 v2, st_nlink = u64 v3, st_uid = u32 v4, st_gid = u32 v5, st_rdev = u64 v6, st_size = v7, st_atime = v8, st_mtime = v9, st_ctime = v10, st_blksize = v11, st_blocks = v12\<rparr>)))))))))))))"

definition json_to_timespec :: "cJSON \<Rightarrow> timespec c_res" where
  "json_to_timespec obj =
    bindr (item_int (Some obj) ''tv_sec'') (\<lambda>v0.
    bindr (item_int (Some obj) ''tv_nsec'') (\<lambda>v1.
      Inr \<lparr>tv_sec = v0, tv_nsec = v1\<rparr>))"

definition json_to_utimbuf :: "cJSON \<Rightarrow> utimbuf c_res" where
  "json_to_utimbuf obj =
    bindr (item_int (Some obj) ''actime'') (\<lambda>v0.
    bindr (item_int (Some obj) ''modtime'') (\<lambda>v1.
      Inr \<lparr>actime = v0, modtime = v1\<rparr>))"

definition json_to_statvfs :: "cJSON \<Rightarrow> statvfs c_res" where
  "json_to_statvfs obj =
    bindr (item_int (Some obj) ''f_bsize'') (\<lambda>v0.
    bindr (item_int (Some obj) ''f_frsize'') (\<lambda>v1.
    bindr (item_int (Some obj) ''f_blocks'') (\<lambda>v2.
    bindr (item_int (Some obj) ''f_bfree'') (\<lambda>v3.
    bindr (item_int (Some obj) ''f_bavail'') (\<lambda>v4.
    bindr (item_int (Some obj) ''f_files'') (\<lambda>v5.
    bindr (item_int (Some obj) ''f_ffree'') (\<lambda>v6.
    bindr (item_int (Some obj) ''f_favail'') (\<lambda>v7.
    bindr (item_int (Some obj) ''f_fsid'') (\<lambda>v8.
    bindr (item_int (Some obj) ''f_flag'') (\<lambda>v9.
    bindr (item_int (Some obj) ''f_namemax'') (\<lambda>v10.
      Inr \<lparr>f_bsize = u64 v0, f_frsize = u64 v1, f_blocks = u64 v2, f_bfree = u64 v3, f_bavail = u64 v4, f_files = u64 v5, f_ffree = u64 v6, f_favail = u64 v7, f_fsid = u64 v8, f_flag = u64 v9, f_namemax = u64 v10\<rparr>)))))))))))"

definition json_to_flock :: "cJSON \<Rightarrow> flock c_res" where
  "json_to_flock obj =
    bindr (item_int (Some obj) ''l_type'') (\<lambda>v0.
    bindr (item_int (Some obj) ''l_whence'') (\<lambda>v1.
    bindr (item_int (Some obj) ''l_start'') (\<lambda>v2.
    bindr (item_int (Some obj) ''l_len'') (\<lambda>v3.
    bindr (item_int (Some obj) ''l_pid'') (\<lambda>v4.
      Inr \<lparr>l_type = s16 v0, l_whence = s16 v1, l_start = v2, l_len = v3, l_pid = v4\<rparr>)))))"

definition json_to_timespec_array :: "cJSON \<Rightarrow> timespec list c_res" where
  "json_to_timespec_array obj = thoser (map json_to_timespec (child obj))"

definition json_to_fuse_conn_info :: "fuse_conn_info \<Rightarrow> cJSON \<Rightarrow> fuse_conn_info c_res" where
  "json_to_fuse_conn_info conn obj =
    bindr (item_int (Some obj) ''proto_major'') (\<lambda>v0.
    bindr (item_int (Some obj) ''proto_minor'') (\<lambda>v1.
    bindr (item_int (Some obj) ''async_read'') (\<lambda>v2.
    bindr (item_int (Some obj) ''max_write'') (\<lambda>v3.
    bindr (item_int (Some obj) ''max_readahead'') (\<lambda>v4.
      Inr (conn\<lparr>proto_major := u32 v0, proto_minor := u32 v1, async_read := u32 v2, max_write := u32 v3,
        max_readahead := u32 v4\<rparr>))))))"

definition json_to_fuse_buf :: "ts_host \<Rightarrow> string option \<Rightarrow> fh_table \<Rightarrow> cJSON \<Rightarrow> fuse_buf c_res" where
  "json_to_fuse_buf h path fhs buf_obj =
    bindr (item_int (Some buf_obj) ''size'') (\<lambda>size.
    bindr (item_string (Some buf_obj) ''flags'') (\<lambda>flgs.
    bindr (path_to_fh fhs path) (\<lambda>fd.
    bindr (item_int (Some buf_obj) ''pos'') (\<lambda>pos.
      Inr \<lparr>buf_size = u64 size,
        buf_flags = (if flgs = ''FUSE_BUF_IS_FD'' then 2 else if flgs = ''FUSE_BUF_FD_SEEK'' then 4
          else if flgs = ''FUSE_BUF_FD_RETRY'' then 8 else buf_flags (junk_fuse_buf h)),
        buf_mem = fresh_ptr h, buf_fd = wrap32 fd, buf_pos = pos\<rparr>))))"

definition json_to_fuse_bufvec :: "ts_host \<Rightarrow> string option \<Rightarrow> fh_table \<Rightarrow> cJSON \<Rightarrow> fuse_bufvec c_res" where
  \<comment> \<open>the structure has room for one buffer\<close>
  "json_to_fuse_bufvec h path fhs obj =
    bindr (item_int (Some obj) ''count'') (\<lambda>count.
    bindr (item_int (Some obj) ''idx'') (\<lambda>idx.
    bindr (item_int (Some obj) ''off'') (\<lambda>off.
    bindr (get_item (Some obj) ''buf'') (\<lambda>buf_array.
    bindr (thoser (map (json_to_fuse_buf h path fhs) (child buf_array))) (\<lambda>bufs.
      if 1 < length bufs then Inl HeapOverflow
      else Inr \<lparr>bv_count = nat (u64 count), bv_idx = u64 idx, bv_off = u64 off,
        bv_buf = (if bufs = [] then [junk_fuse_buf h] else bufs)\<rparr>)))))"

definition variable_array :: "ts_host \<Rightarrow> int \<Rightarrow> string c_res" where
  \<comment> \<open>\<open>char a[size]\<close>; a size that was negative is far beyond the stack\<close>
  "variable_array h sz = (if sz < 2 ^ 31 then Inr (fresh h sz) else Inl OutOfBounds)"

definition fresh_fi :: "cJSON option \<Rightarrow> 's side \<Rightarrow> fuse_file_info c_res" where
  "fresh_fi params d = bindr (get_item params ''fi'') (update_fi Map.empty None (sd_fi d))"

definition file_fi :: "cJSON option \<Rightarrow> string option \<Rightarrow> 's side \<Rightarrow> fuse_file_info c_res" where
  "file_fi params path d = bindr (get_item params ''fi'') (update_fi (sd_fhs d) path (sd_fi d))"

subsection \<open>The calls\<close>

datatype effect =
    Plain | WithFi | Zero                \<comment> \<open>a call, one that writes to its file information, one without a result\<close>
  | Destroys "string option"             \<comment> \<open>then forget a handle\<close>
  | Stores "string option" | Opens "string option"
  | NoCall fuse_file_info                \<comment> \<open>the call is commented out in the source\<close>

type_synonym 's replay_op = "ts_host \<Rightarrow> cJSON option \<Rightarrow> 's side \<Rightarrow> (fuse_call \<times> effect) c_res"

definition replay_getattr :: "'s replay_op" where
  "replay_getattr h params d = bindr (item_ptr params ''path'') (\<lambda>path.
     bindr (bindr (get_item params ''stat'') json_to_stat) (\<lambda>st. Inr (C_getattr path st, Plain)))"

definition replay_readlink :: "'s replay_op" where
  "replay_readlink h params d = bindr (item_ptr params ''path'') (\<lambda>path. bindr (item_u64 params ''size'') (\<lambda>size.
     bindr (variable_array h size) (\<lambda>lnk. Inr (C_readlink path (fresh_ptr h) size lnk, Plain))))"

definition replay_getdir :: "'s replay_op" where
  "replay_getdir h params d = bindr (item_ptr params ''path'') (\<lambda>path. Inr (C_getdir path 0 0, Plain))"

definition replay_mknod :: "'s replay_op" where
  "replay_mknod h params d = bindr (item_ptr params ''path'') (\<lambda>path. bindr (item_u32 params ''mode'') (\<lambda>mode.
     bindr (item_u64 params ''dev'') (\<lambda>dev. Inr (C_mknod path mode dev, Plain))))"

definition replay_mkdir :: "'s replay_op" where
  "replay_mkdir h params d = bindr (item_ptr params ''path'') (\<lambda>path. bindr (item_u32 params ''mode'') (\<lambda>mode.
     Inr (C_mkdir path mode, Plain)))"

definition replay_unlink :: "'s replay_op" where
  "replay_unlink h params d = bindr (item_ptr params ''path'') (\<lambda>path. Inr (C_unlink path, Destroys path))"

definition replay_rmdir :: "'s replay_op" where
  "replay_rmdir h params d = bindr (item_ptr params ''path'') (\<lambda>path. Inr (C_rmdir path, Destroys path))"

definition replay_symlink :: "'s replay_op" where
  "replay_symlink h params d = bindr (item_ptr params ''path'') (\<lambda>path. bindr (item_ptr params ''link'') (\<lambda>lnk.
     Inr (C_symlink path lnk, Plain)))"

definition replay_rename :: "'s replay_op" where
  "replay_rename h params d = bindr (item_ptr params ''path'') (\<lambda>path. bindr (item_ptr params ''newpath'') (\<lambda>newpath.
     Inr (C_rename path newpath, Plain)))"

definition replay_link :: "'s replay_op" where
  "replay_link h params d = bindr (item_ptr params ''path'') (\<lambda>path. bindr (item_ptr params ''newpath'') (\<lambda>newpath.
     Inr (C_link path newpath, Plain)))"

definition replay_chmod :: "'s replay_op" where
  "replay_chmod h params d = bindr (item_ptr params ''path'') (\<lambda>path. bindr (item_u32 params ''mode'') (\<lambda>mode.
     Inr (C_chmod path mode, Plain)))"

definition replay_chown :: "'s replay_op" where
  "replay_chown h params d = bindr (item_ptr params ''path'') (\<lambda>path. bindr (item_u32 params ''uid'') (\<lambda>uid.
     bindr (item_u32 params ''gid'') (\<lambda>gid. Inr (C_chown path uid gid, Plain))))"

definition replay_truncate :: "'s replay_op" where
  "replay_truncate h params d = bindr (item_ptr params ''path'') (\<lambda>path. bindr (item_int params ''newsize'') (\<lambda>newsize.
     Inr (C_truncate path newsize, Plain)))"

definition replay_utime :: "'s replay_op" where
  "replay_utime h params d = bindr (item_ptr params ''path'') (\<lambda>path.
     bindr (bindr (get_item params ''ubuf'') json_to_utimbuf) (\<lambda>ubuf. Inr (C_utime path ubuf, Plain)))"

definition replay_open :: "'s replay_op" where
  "replay_open h params d = bindr (item_ptr params ''path'') (\<lambda>path. bindr (fresh_fi params d) (\<lambda>fi.
     Inr (C_open path fi, Opens path)))"

definition replay_read :: "'s replay_op" where
  "replay_read h params d = bindr (item_ptr params ''path'') (\<lambda>path. bindr (item_u64 params ''size'') (\<lambda>size.
     bindr (item_int params ''offset'') (\<lambda>offset. bindr (file_fi params path d) (\<lambda>fi.
     Inr (C_read path (fresh h size) size offset fi, WithFi)))))"

definition replay_write :: "'s replay_op" where
  "replay_write h params d = bindr (item_ptr params ''path'') (\<lambda>path. bindr (item_string params ''buf'') (\<lambda>buf.
     bindr (item_u64 params ''size'') (\<lambda>size. bindr (item_int params ''offset'') (\<lambda>offset.
     bindr (file_fi params path d) (\<lambda>fi. Inr (C_write path buf size offset fi, WithFi))))))"

definition replay_statfs :: "'s replay_op" where
  "replay_statfs h params d = bindr (item_ptr params ''path'') (\<lambda>path.
     bindr (bindr (get_item params ''statvfs'') json_to_statvfs) (\<lambda>st. Inr (C_statfs path st, Plain)))"

definition replay_flush :: "'s replay_op" where
  "replay_flush h params d = bindr (item_ptr params ''path'') (\<lambda>path. bindr (file_fi params path d) (\<lambda>fi.
     Inr (C_flush path fi, WithFi)))"

definition replay_release :: "'s replay_op" where
  "replay_release h params d = bindr (item_ptr params ''path'') (\<lambda>path. bindr (file_fi params path d) (\<lambda>fi.
     Inr (C_release path fi, WithFi)))"

definition replay_fsync :: "'s replay_op" where
  "replay_fsync h params d = bindr (item_ptr params ''path'') (\<lambda>path. bindr (item_int params ''datasync'') (\<lambda>datasync.
     bindr (file_fi params path d) (\<lambda>fi. Inr (C_fsync path datasync fi, WithFi))))"

definition replay_setxattr :: "'s replay_op" where
  "replay_setxattr h params d = bindr (item_ptr params ''path'') (\<lambda>path. bindr (item_ptr params ''name'') (\<lambda>nm.
     bindr (item_string params ''value'') (\<lambda>value. bindr (item_u64 params ''size'') (\<lambda>size.
     bindr (item_int params ''flags'') (\<lambda>flgs. Inr (C_setxattr path nm value size flgs, Plain))))))"

definition replay_getxattr :: "'s replay_op" where
  "replay_getxattr h params d = bindr (item_ptr params ''path'') (\<lambda>path. bindr (item_ptr params ''name'') (\<lambda>nm.
     bindr (item_u64 params ''size'') (\<lambda>size. bindr (variable_array h size) (\<lambda>value.
     Inr (C_getxattr path nm (fresh_ptr h) size value, Plain)))))"

definition replay_listxattr :: "'s replay_op" where
  "replay_listxattr h params d = bindr (item_ptr params ''path'') (\<lambda>path. bindr (item_u64 params ''size'') (\<lambda>size.
     bindr (variable_array h size) (\<lambda>lst. Inr (C_listxattr path (fresh_ptr h) size lst, Plain))))"

definition replay_removexattr :: "'s replay_op" where
  "replay_removexattr h params d = bindr (item_ptr params ''path'') (\<lambda>path. bindr (item_ptr params ''name'') (\<lambda>nm.
     Inr (C_removexattr path nm, Plain)))"

definition replay_opendir :: "'s replay_op" where
  "replay_opendir h params d = bindr (item_ptr params ''path'') (\<lambda>path. bindr (fresh_fi params d) (\<lambda>fi.
     Inr (C_opendir path fi, Opens path)))"

definition replay_readdir :: "'s replay_op" where
  "replay_readdir h params d = bindr (item_ptr params ''path'') (\<lambda>path. bindr (item_int params ''offset'') (\<lambda>offset.
     bindr (file_fi params path d) (\<lambda>fi. Inr (C_readdir path 0 (readdir_filler h) offset fi, WithFi))))"

definition replay_releasedir :: "'s replay_op" where
  "replay_releasedir h params d = bindr (item_ptr params ''path'') (\<lambda>path. bindr (file_fi params path d) (\<lambda>fi.
     Inr (C_releasedir path fi, NoCall fi)))"

definition replay_fsyncdir :: "'s replay_op" where
  "replay_fsyncdir h params d = bindr (item_ptr params ''path'') (\<lambda>path. bindr (item_int params ''datasync'') (\<lambda>datasync.
     bindr (file_fi params path d) (\<lambda>fi. Inr (C_fsyncdir path datasync fi, WithFi))))"

definition replay_init :: "'s replay_op" where
  "replay_init h params d = bindr (bindr (get_item params ''conn'') (json_to_fuse_conn_info (junk_conn h))) (\<lambda>conn.
     Inr (C_init conn, Zero))"

definition replay_destroy :: "'s replay_op" where
  "replay_destroy h params d = Inr (C_destroy 0, Zero)"

definition replay_access :: "'s replay_op" where
  "replay_access h params d = bindr (item_ptr params ''path'') (\<lambda>path. bindr (item_int params ''mask'') (\<lambda>msk.
     Inr (C_access path msk, Plain)))"

definition replay_create :: "'s replay_op" where
  "replay_create h params d = bindr (item_ptr params ''path'') (\<lambda>path. bindr (item_u32 params ''mode'') (\<lambda>mode.
     bindr (fresh_fi params d) (\<lambda>fi. Inr (C_create path mode fi, Stores path))))"

definition replay_ftruncate :: "'s replay_op" where
  "replay_ftruncate h params d = bindr (item_ptr params ''path'') (\<lambda>path. bindr (item_int params ''offset'') (\<lambda>offset.
     bindr (file_fi params path d) (\<lambda>fi. Inr (C_ftruncate path offset fi, WithFi))))"

definition replay_fgetattr :: "'s replay_op" where
  "replay_fgetattr h params d = bindr (item_ptr params ''path'') (\<lambda>path.
     bindr (bindr (get_item params ''stat'') json_to_stat) (\<lambda>st. bindr (file_fi params path d) (\<lambda>fi.
     Inr (C_fgetattr path st fi, WithFi))))"

definition replay_lock :: "'s replay_op" where
  "replay_lock h params d = bindr (item_ptr params ''path'') (\<lambda>path. bindr (file_fi params path d) (\<lambda>fi.
     bindr (item_int params ''cmd'') (\<lambda>cmd.
     bindr (bindr (get_item params ''flock'') json_to_flock) (\<lambda>fl. Inr (C_lock path fi cmd fl, WithFi)))))"

definition replay_utimens :: "'s replay_op" where
  "replay_utimens h params d = bindr (item_ptr params ''path'') (\<lambda>path.
     bindr (bindr (get_item params ''tv'') json_to_timespec_array) (\<lambda>tv. Inr (C_utimens path tv, Plain)))"

definition replay_bmap :: "'s replay_op" where
  "replay_bmap h params d = bindr (item_ptr params ''path'') (\<lambda>path. bindr (item_u64 params ''blocksize'') (\<lambda>blocksize.
     Inr (C_bmap path blocksize None, Plain)))"

definition replay_ioctl :: "'s replay_op" where
  "replay_ioctl h params d = bindr (item_ptr params ''path'') (\<lambda>path. bindr (item_int params ''cmd'') (\<lambda>cmd.
     bindr (item_int params ''flags'') (\<lambda>flgs. bindr (file_fi params path d) (\<lambda>fi.
     Inr (C_ioctl path cmd 0 fi flgs 0, WithFi)))))"

definition replay_poll :: "'s replay_op" where
  "replay_poll h params d = bindr (item_ptr params ''path'') (\<lambda>path. bindr (item_u32 params ''reventsp'') (\<lambda>reventsp.
     bindr (file_fi params path d) (\<lambda>fi. Inr (C_poll path fi 0 (Some reventsp), WithFi))))"

definition replay_write_buf :: "'s replay_op" where
  "replay_write_buf h params d = bindr (item_ptr params ''path'') (\<lambda>path.
     bindr (bindr (get_item params ''buf'') (json_to_fuse_bufvec h path (sd_fhs d))) (\<lambda>buf.
     bindr (item_int params ''off'') (\<lambda>off. bindr (file_fi params path d) (\<lambda>fi.
     Inr (C_write_buf path buf off fi, WithFi)))))"

definition replay_read_buf :: "'s replay_op" where
  "replay_read_buf h params d = bindr (item_ptr params ''path'') (\<lambda>path. bindr (item_int params ''size'') (\<lambda>size.
     bindr (item_int params ''off'') (\<lambda>off. bindr (file_fi params path d) (\<lambda>fi.
     Inr (C_read_buf path (fresh_ptr h) size off fi, WithFi)))))"

definition replay_flock :: "'s replay_op" where
  "replay_flock h params d = bindr (item_ptr params ''path'') (\<lambda>path. bindr (item_int params ''op'') (\<lambda>op_int.
     bindr (file_fi params path d) (\<lambda>fi. Inr (C_flock path fi op_int, WithFi))))"

definition replay_fallocate :: "'s replay_op" where
  "replay_fallocate h params d = bindr (item_ptr params ''path'') (\<lambda>path. bindr (item_int params ''mode'') (\<lambda>mode.
     bindr (item_int params ''offset'') (\<lambda>offset. bindr (item_int params ''len'') (\<lambda>len.
     bindr (file_fi params path d) (\<lambda>fi. Inr (C_fallocate path mode offset len fi, WithFi))))))"

definition replay_op_of :: "string \<Rightarrow> 's replay_op option" where
  "replay_op_of func_name =
    (if func_name = ''getattr'' then Some replay_getattr
     else if func_name = ''readlink'' then Some replay_readlink
     else if func_name = ''getdir'' then Some replay_getdir
     else if func_name = ''mknod'' then Some replay_mknod
     else if func_name = ''mkdir'' then Some replay_mkdir
     else if func_name = ''unlink'' then Some replay_unlink
     else if func_name = ''rmdir'' then Some replay_rmdir
     else if func_name = ''symlink'' then Some replay_symlink
     else if func_name = ''rename'' then Some replay_rename
     else if func_name = ''link'' then Some replay_link
     else if func_name = ''chmod'' then Some replay_chmod
     else if func_name = ''chown'' then Some replay_chown
     else if func_name = ''truncate'' then Some replay_truncate
     else if func_name = ''utime'' then Some replay_utime
     else if func_name = ''open'' then Some replay_open
     else if func_name = ''read'' then Some replay_read
     else if func_name = ''write'' then Some replay_write
     else if func_name = ''statfs'' then Some replay_statfs
     else if func_name = ''flush'' then Some replay_flush
     else if func_name = ''release'' then Some replay_release
     else if func_name = ''fsync'' then Some replay_fsync
     else if func_name = ''setxattr'' then Some replay_setxattr
     else if func_name = ''getxattr'' then Some replay_getxattr
     else if func_name = ''listxattr'' then Some replay_listxattr
     else if func_name = ''removexattr'' then Some replay_removexattr
     else if func_name = ''opendir'' then Some replay_opendir
     else if func_name = ''readdir'' then Some replay_readdir
     else if func_name = ''releasedir'' then Some replay_releasedir
     else if func_name = ''fsyncdir'' then Some replay_fsyncdir
     else if func_name = ''init'' then Some replay_init
     else if func_name = ''destroy'' then Some replay_destroy
     else if func_name = ''access'' then Some replay_access
     else if func_name = ''create'' then Some replay_create
     else if func_name = ''ftruncate'' then Some replay_ftruncate
     else if func_name = ''fgetattr'' then Some replay_fgetattr
     else if func_name = ''lock'' then Some replay_lock
     else if func_name = ''utimens'' then Some replay_utimens
     else if func_name = ''bmap'' then Some replay_bmap
     else if func_name = ''ioctl'' then Some replay_ioctl
     else if func_name = ''poll'' then Some replay_poll
     else if func_name = ''write_buf'' then Some replay_write_buf
     else if func_name = ''read_buf'' then Some replay_read_buf
     else if func_name = ''flock'' then Some replay_flock
     else if func_name = ''fallocate'' then Some replay_fallocate
     else None)"

definition call_plain_op :: "'s fuse_operations \<Rightarrow> fuse_call \<Rightarrow> 's side \<Rightarrow> int \<times> 's side" where
  "call_plain_op fo call d = (case run_op fo call (sd_user d) of (r, u) \<Rightarrow> (ret r, d\<lparr>sd_user := u\<rparr>))"

definition call_fi_op :: "'s fuse_operations \<Rightarrow> fuse_call \<Rightarrow> 's side \<Rightarrow> int \<times> 's side" where
  "call_fi_op fo call d = (case run_op fo call (sd_user d) of (r, u) \<Rightarrow> (ret r, d\<lparr>sd_user := u, sd_fi := o_fi r\<rparr>))"

definition perform :: "'s fuse_operations \<Rightarrow> fuse_call \<Rightarrow> effect \<Rightarrow> 's side \<Rightarrow> (int \<times> 's side) c_res" where
  "perform fo call eff d = (case eff of
     Plain \<Rightarrow> Inr (call_plain_op fo call d)
   | WithFi \<Rightarrow> Inr (call_fi_op fo call d)
   | Zero \<Rightarrow> Inr (0, snd (call_plain_op fo call d))
   | Destroys path \<Rightarrow> (let (r, d) = call_plain_op fo call d in
       bindr (destroy_fh (sd_fhs d) path) (\<lambda>fhs. Inr (r, d\<lparr>sd_fhs := fhs\<rparr>)))
   | Stores path \<Rightarrow> (let (r, d) = call_fi_op fo call d in
       bindr (store_fh (sd_fhs d) path (fh (sd_fi d))) (\<lambda>fhs. Inr (r, d\<lparr>sd_fhs := fhs\<rparr>)))
   | Opens path \<Rightarrow> (let (r, d) = call_fi_op fo call d in
       bindr (store_fh (sd_fhs d) path (fh (sd_fi d))) (\<lambda>fhs.
       bindr (increment_open fhs path) (\<lambda>fhs. Inr (r, d\<lparr>sd_fhs := fhs\<rparr>))))
   | NoCall fi \<Rightarrow> Inr (- 1, d\<lparr>sd_fi := fi\<rparr>))"

record call_result =
  retval :: int
  func_not_defined :: bool
  call_error :: "(string \<times> fmt_arg list) option"

definition msg_not_handled :: string where
  "msg_not_handled = ''Cannot make call '' @ [CHR 0x27] @ ''%s'' @ [CHR 0x27] @ '' as it is not handled by the test suite''"

definition msg_null_operations :: string where
  "msg_null_operations = ''Cannot make call '' @ [CHR 0x27] @ ''%s'' @ [CHR 0x27] @ '' as fuse_operations is null'' @ [newline]"

definition make_call :: "ts_host \<Rightarrow> 's fuse_operations option \<Rightarrow> string \<Rightarrow> cJSON option \<Rightarrow> 's side
    \<Rightarrow> (call_result \<times> 's side) c_res" where
  "make_call h op func_name params d = (case op of
     None \<Rightarrow> Inr (\<lparr>retval = - 1, func_not_defined = False, call_error = Some (msg_null_operations, [Arg_s func_name])\<rparr>, d)
   | Some fo \<Rightarrow> (case replay_op_of func_name of
       None \<Rightarrow> Inr (\<lparr>retval = - 1, func_not_defined = False, call_error = Some (msg_not_handled, [Arg_s func_name])\<rparr>, d)
     | Some decode \<Rightarrow>
         if has_op fo func_name then
           bindr (decode h params d) (\<lambda>(call, eff). bindr (perform fo call eff d) (\<lambda>(r, d).
             Inr (\<lparr>retval = r, func_not_defined = False, call_error = None\<rparr>, d)))
         else Inr (\<lparr>retval = - 1, func_not_defined = True, call_error = None\<rparr>, d)))"

subsection \<open>Events\<close>

record ts_log =
  testsuite_fifo :: bool
  ts_sent :: string

type_synonym ts_step = "ts_log \<Rightarrow> ts_log c_res"

definition testsuite_fifo_init :: ts_step where
  "testsuite_fifo_init l = Inr (l\<lparr>testsuite_fifo := True\<rparr>)"

definition report_testsuite_event_obj :: "cJSON \<Rightarrow> ts_step" where
  "report_testsuite_event_obj event l = (case cJSON_Print event of
     Inr event_json \<Rightarrow> if testsuite_fifo l then Inr (l\<lparr>ts_sent := ts_sent l @ event_json\<rparr>) else Inl NullPointer
   | Inl NullResult \<Rightarrow> Inl NullPointer | Inl e \<Rightarrow> Inl e)"

definition add_chain :: "cJSON \<Rightarrow> string \<Rightarrow> cJSON list \<Rightarrow> cJSON" where
  \<comment> \<open>\<open>cJSON_AddItemToObject\<close> of an item that is a member of another object: the members that follow
     it there come with it\<close>
  "add_chain obj k items = (case items of [] \<Rightarrow> obj
     | item # rest \<Rightarrow> set_child (child obj @ set_name (Some k) item # rest) obj)"

fun shorten :: "string \<Rightarrow> string" where
  \<comment> \<open>\<open>%lld\<close> prints like \<open>%d\<close>\<close>
  "shorten [] = []"
| "shorten (c # s) = (if take 4 (c # s) = ''%lld'' then ''%d'' @ shorten (drop 3 s) else c # shorten s)"

definition testsuite_event :: "string \<Rightarrow> cJSON list \<Rightarrow> bool \<Rightarrow> string \<Rightarrow> cJSON" where
  "testsuite_event func_name params passed message =
    (let event = cJSON_CreateObject;
         event = cJSON_AddStringToObject event ''func_name'' func_name;
         event = cJSON_AddBoolToObject event ''passed'' (of_bool passed);
         event = add_chain event ''params'' params
     in cJSON_AddStringToObject event ''message'' message)"

definition report_testsuite_event :: "string \<Rightarrow> cJSON list \<Rightarrow> bool \<Rightarrow> string \<Rightarrow> fmt_arg list option \<Rightarrow> ts_step" where
  "report_testsuite_event func_name params passed message args_in =
     report_testsuite_event_obj (testsuite_event func_name params passed (case args_in of
       Some args \<Rightarrow> snprintf (length func_name + length message + 1024) (vformat (shorten message) args)
     | None \<Rightarrow> message))"

definition report_testsuite_error :: "string \<Rightarrow> fmt_arg list \<Rightarrow> ts_step" where
  "report_testsuite_error message args = report_testsuite_event ''__ERROR'' [] False message (Some args)"

definition ts_test_pass :: "string \<Rightarrow> ts_step" where
  "ts_test_pass func_name = report_testsuite_event func_name [] True [] None"

definition ts_test_fail :: "string \<Rightarrow> cJSON list \<Rightarrow> string \<Rightarrow> fmt_arg list \<Rightarrow> ts_step" where
  "ts_test_fail func_name params message args = report_testsuite_event func_name params False message (Some args)"

definition grp_start_event :: "int \<Rightarrow> cJSON" where
  "grp_start_event n = cJSON_AddNumberToObject (cJSON_AddStringToObject cJSON_CreateObject ''func_name'' ''__GROUP_START'') ''num_sequences'' n"

definition testsuite_grp_start :: "cJSON \<Rightarrow> ts_step" where
  "testsuite_grp_start grp = report_testsuite_event_obj (grp_start_event (int (cJSON_GetArraySize grp)))"

definition end_event_of :: "string \<Rightarrow> bool \<Rightarrow> cJSON" where
  "end_event_of func_name passed = cJSON_AddBoolToObject (cJSON_AddStringToObject cJSON_CreateObject ''func_name'' func_name) ''passed'' (of_bool passed)"

definition testsuite_grp_end :: "bool \<Rightarrow> ts_step" where
  "testsuite_grp_end passed = report_testsuite_event_obj (end_event_of ''__GROUP_END'' passed)"

definition seq_start_event :: "string \<Rightarrow> string \<Rightarrow> string \<Rightarrow> int \<Rightarrow> cJSON" where
  "seq_start_event action application os n =
    (let event = cJSON_AddStringToObject cJSON_CreateObject ''func_name'' ''__SEQUENCE_START'';
         event = cJSON_AddStringToObject event ''action'' action;
         event = cJSON_AddStringToObject event ''application'' application;
         event = cJSON_AddStringToObject event ''os'' os
     in cJSON_AddNumberToObject event ''num_calls'' n)"

definition testsuite_seq_start :: "cJSON \<Rightarrow> ts_step" where
  "testsuite_seq_start sq l =
    bindr (item_string (Some sq) ''action'') (\<lambda>action.
    bindr (item_string (Some sq) ''application'') (\<lambda>application.
    bindr (item_string (Some sq) ''os'') (\<lambda>os.
    bindr (get_item (Some sq) ''calls'') (\<lambda>calls.
      report_testsuite_event_obj (seq_start_event action application os (int (cJSON_GetArraySize calls))) l))))"

definition testsuite_seq_end :: "bool \<Rightarrow> ts_step" where
  "testsuite_seq_end passed = report_testsuite_event_obj (end_event_of ''__SEQUENCE_END'' passed)"

definition testsuite_end :: ts_step where
  "testsuite_end = report_testsuite_event ''__END'' [] True [] None"

definition testsuite_fifo_destroy :: ts_step where
  "testsuite_fifo_destroy l = Inr (l\<lparr>testsuite_fifo := False\<rparr>)"

subsection \<open>Walking through a file system\<close>

definition must_call :: "'s fuse_operations \<Rightarrow> fuse_call \<Rightarrow> 's side \<Rightarrow> (fuse_out \<times> 's side) c_res" where
  \<comment> \<open>a call without a check that the operation is there\<close>
  "must_call fo call d = (if has_op fo (op_name call)
     then (case run_op fo call (sd_user d) of (r, u) \<Rightarrow> Inr (r, d\<lparr>sd_user := u\<rparr>)) else Inl NullPointer)"

definition child_path :: "string \<Rightarrow> string \<Rightarrow> string" where
  "child_path path fname = (if last path \<noteq> CHR ''/'' then path @ ''/'' @ fname else path @ fname)"

definition is_dots :: "string \<Rightarrow> bool" where
  "is_dots fname \<longleftrightarrow> fname = ''.'' \<or> fname = ''..''"

definition S_ISDIR :: "int \<Rightarrow> bool" where "S_ISDIR m \<longleftrightarrow> m AND 61440 = 16384"
definition S_ISBLK :: "int \<Rightarrow> bool" where "S_ISBLK m \<longleftrightarrow> m AND 61440 = 24576"
definition S_ISCHR :: "int \<Rightarrow> bool" where "S_ISCHR m \<longleftrightarrow> m AND 61440 = 8192"
definition S_ISFIFO :: "int \<Rightarrow> bool" where "S_ISFIFO m \<longleftrightarrow> m AND 61440 = 4096"
definition S_ISREG :: "int \<Rightarrow> bool" where "S_ISREG m \<longleftrightarrow> m AND 61440 = 32768"
definition S_ISLNK :: "int \<Rightarrow> bool" where "S_ISLNK m \<longleftrightarrow> m AND 61440 = 40960"
definition S_ISSOCK :: "int \<Rightarrow> bool" where "S_ISSOCK m \<longleftrightarrow> m AND 61440 = 49152"

definition blank_stat :: "ts_host \<Rightarrow> stat" where
  "blank_stat h = (junk_local_stat h)\<lparr>st_mode := 0\<rparr>"

definition list_directory :: "ts_host \<Rightarrow> 's fuse_operations \<Rightarrow> string \<Rightarrow> 's side \<Rightarrow> (string list option \<times> 's side) c_res" where
  \<comment> \<open>\<open>opendir\<close>, \<open>readdir\<close> with the collecting filler, \<open>releasedir\<close>; \<open>None\<close> where the directory cannot be opened\<close>
  "list_directory h fo path d =
    bindr (must_call fo (C_opendir (Some path) (empty_fi (junk_local_fi h))) d) (\<lambda>(r, d).
    if ret r = 0 then
      bindr (must_call fo (C_readdir (Some path) (fresh_ptr h) (testsuite_filler h) 0 (o_fi r)) d) (\<lambda>(r, d).
      bindr (must_call fo (C_releasedir (Some path) (o_fi r)) d) (\<lambda>(_, d). Inr (Some (o_entries r), d)))
    else Inr (None, d))"

definition msg_call_failed_path :: string where "msg_call_failed_path = ''Call failed on path %s. Error was: %s''"
definition msg_call_failed :: string where "msg_call_failed = ''Call failed on %s. Error was: %s''"
definition msg_empty :: string where "msg_empty = ''Directory %s is empty''"

definition reset_entry :: "ts_host \<Rightarrow> ('s \<Rightarrow> string) \<Rightarrow> 's fuse_operations \<Rightarrow> (string \<Rightarrow> 's side \<times> ts_log \<Rightarrow> ('s side \<times> ts_log) c_res)
    \<Rightarrow> string \<Rightarrow> string \<Rightarrow> 's side \<times> ts_log \<Rightarrow> ('s side \<times> ts_log) c_res" where
  \<comment> \<open>one round of the loop over the names in a directory\<close>
  "reset_entry h err fo recurse path fname = (\<lambda>(d, l).
    if is_dots fname then Inr (d, l)
    else let fpath = child_path path fname in
      bindr (must_call fo (C_getattr (Some fpath) (blank_stat h)) d) (\<lambda>(r, d).
      if ret r = 0 then
        (if S_ISDIR (st_mode (o_stat r)) then recurse fpath (d, l)
         else bindr (must_call fo (C_unlink (Some fpath)) d) (\<lambda>(r, d).
           bindr (if ret r < 0 then ts_test_fail ''unlink'' [] msg_call_failed_path [Arg_s fpath, Arg_s (err (sd_user d))] l
             else Inr l) (\<lambda>l. Inr (d, l))))
      else bindr (ts_test_fail ''getattr'' [] msg_call_failed_path [Arg_s fpath, Arg_s (err (sd_user d))] l) (\<lambda>l. Inr (d, l))))"

primrec reset_filesystem_path :: "nat \<Rightarrow> ts_host \<Rightarrow> ('s \<Rightarrow> string) \<Rightarrow> 's fuse_operations \<Rightarrow> string \<Rightarrow> 's side \<times> ts_log
    \<Rightarrow> ('s side \<times> ts_log) c_res" where
  "reset_filesystem_path 0 h err fo path st = Inl NoFuel"
| "reset_filesystem_path (Suc n) h err fo path st =
    bindr (list_directory h fo path (fst st)) (\<lambda>(files, d).
    bindr (case files of
        None \<Rightarrow> bindr (ts_test_fail ''opendir'' [] msg_call_failed [Arg_s path, Arg_s (err (sd_user d))] (snd st)) (\<lambda>l. Inr (d, l))
      | Some files \<Rightarrow>
          if files = [] then bindr (ts_test_fail ''readdir'' [] msg_empty [Arg_s path] (snd st)) (\<lambda>l. Inr (d, l))
          else run_actions (reset_entry h err fo (reset_filesystem_path n h err fo) path) files (d, snd st)) (\<lambda>(d, l).
    if path \<noteq> ''/'' then
      bindr (must_call fo (C_rmdir (Some path)) d) (\<lambda>(r, d).
      bindr (if ret r < 0 then ts_test_fail ''rmdir'' [] msg_call_failed [Arg_s path, Arg_s (err (sd_user d))] l
        else Inr l) (\<lambda>l. Inr (d, l)))
    else Inr (d, l)))"

definition reset_filesystem :: "nat \<Rightarrow> ts_host \<Rightarrow> ('s \<Rightarrow> string) \<Rightarrow> 's fuse_operations \<Rightarrow> 's side \<times> ts_log \<Rightarrow> ('s side \<times> ts_log) c_res" where
  "reset_filesystem n h err fo = reset_filesystem_path n h err fo ''/''"

subsection \<open>Comparing the file systems\<close>

definition timesRoughlyEqual :: "int \<Rightarrow> int \<Rightarrow> bool" where
  "timesRoughlyEqual t1 t2 \<longleftrightarrow> t2 \<ge> t1 - 5 \<and> t2 \<le> t1 + 5"

definition quoted :: "string \<Rightarrow> string" where
  \<comment> \<open>a message about a path in quotes\<close>
  "quoted rest = [CHR 0x27] @ ''%s'' @ [CHR 0x27] @ rest"

definition stat_to_json :: "stat \<Rightarrow> cJSON" where
  "stat_to_json s = add_numbers cJSON_CreateObject
     [(''st_dev'', st_dev s), (''st_ino'', st_ino s), (''st_mode'', st_mode s), (''st_nlink'', st_nlink s),
      (''st_uid'', st_uid s), (''st_gid'', st_gid s), (''st_rdev'', st_rdev s), (''st_size'', st_size s),
      (''st_atime'', st_atime s), (''st_mtime'', st_mtime s), (''st_ctime'', st_ctime s),
      (''st_blksize'', st_blksize s), (''st_blocks'', st_blocks s)]"

definition stat_params :: "ts_host \<Rightarrow> string \<Rightarrow> cJSON" where
  \<comment> \<open>built before the call that fills the structure in\<close>
  "stat_params h fpath = cJSON_AddItemToObject (cJSON_AddStringToObject cJSON_CreateObject ''path'' fpath) ''stat''
     (stat_to_json (blank_stat h))"

definition stat_difference :: "string \<Rightarrow> stat \<Rightarrow> stat \<Rightarrow> (string \<times> fmt_arg list) option" where
  "stat_difference fpath p r =
    (if S_ISBLK (st_mode p) \<and> \<not> S_ISBLK (st_mode r) then Some (quoted '' should be a block special file'', [Arg_s fpath])
     else if S_ISCHR (st_mode p) \<and> \<not> S_ISCHR (st_mode r) then Some (quoted '' should be a character special file'', [Arg_s fpath])
     else if S_ISDIR (st_mode p) \<and> \<not> S_ISDIR (st_mode r) then Some (quoted '' should be a directory'', [Arg_s fpath])
     else if S_ISFIFO (st_mode p) \<and> \<not> S_ISFIFO (st_mode r) then Some (quoted '' should be a pipe or FIFO special file'', [Arg_s fpath])
     else if S_ISREG (st_mode p) \<and> \<not> S_ISREG (st_mode r) then Some (quoted '' should be a regular file'', [Arg_s fpath])
     else if S_ISLNK (st_mode p) \<and> \<not> S_ISLNK (st_mode r) then Some (quoted '' should be a symbolic link'', [Arg_s fpath])
     else if S_ISSOCK (st_mode p) \<and> \<not> S_ISSOCK (st_mode r) then Some (quoted '' should be a socket'', [Arg_s fpath])
     else if \<not> timesRoughlyEqual (st_atime p) (st_atime r)
       then Some (quoted '' has last access time of %lld but should be %lld'', [Arg_s fpath, Arg_d (st_atime r), Arg_d (st_atime p)])
     else if \<not> timesRoughlyEqual (st_mtime p) (st_mtime r)
       then Some (quoted '' has last modification time of %lld but should be %lld'', [Arg_s fpath, Arg_d (st_mtime r), Arg_d (st_mtime p)])
     else if \<not> timesRoughlyEqual (st_ctime p) (st_ctime r)
       then Some (quoted '' has last status change time of %lld but should be %lld'', [Arg_s fpath, Arg_d (st_ctime r), Arg_d (st_ctime p)])
     else None)"

record ('p, 'u) suite =
  passthru :: "'p side"
  tested :: "'u side"
  tlog :: ts_log

definition on_passthru :: "('p side \<Rightarrow> ('a \<times> 'p side) c_res) \<Rightarrow> ('p, 'u) suite \<Rightarrow> ('a \<times> ('p, 'u) suite) c_res" where
  "on_passthru f s = bindr (f (passthru s)) (\<lambda>(x, d). Inr (x, s\<lparr>passthru := d\<rparr>))"

definition on_tested :: "('u side \<Rightarrow> ('a \<times> 'u side) c_res) \<Rightarrow> ('p, 'u) suite \<Rightarrow> ('a \<times> ('p, 'u) suite) c_res" where
  "on_tested f s = bindr (f (tested s)) (\<lambda>(x, d). Inr (x, s\<lparr>tested := d\<rparr>))"

definition on_log :: "ts_step \<Rightarrow> ('p, 'u) suite \<Rightarrow> ('p, 'u) suite c_res" where
  "on_log f s = bindr (f (tlog s)) (\<lambda>l. Inr (s\<lparr>tlog := l\<rparr>))"

definition report_difference :: "ts_host \<Rightarrow> string \<Rightarrow> string \<times> fmt_arg list \<Rightarrow> ('p, 'u) suite \<Rightarrow> (bool \<times> ('p, 'u) suite) c_res" where
  \<comment> \<open>the report deletes \<open>params\<close> with its event, after which \<open>cJSON_Delete(params)\<close> deletes it again\<close>
  "report_difference h fpath m s = bindr (on_log (ts_test_fail ''getattr'' [stat_params h fpath] (fst m) (snd m)) s) (\<lambda>s.
     Inl UseAfterFree)"

definition compare_entry :: "ts_host \<Rightarrow> 'p fuse_operations \<Rightarrow> 'u fuse_operations
    \<Rightarrow> (string \<Rightarrow> ('p, 'u) suite \<Rightarrow> (bool \<times> ('p, 'u) suite) c_res)
    \<Rightarrow> string \<Rightarrow> string \<Rightarrow> bool \<times> ('p, 'u) suite \<Rightarrow> (bool \<times> ('p, 'u) suite) c_res" where
  \<comment> \<open>one round of the loop over the names in a directory\<close>
  "compare_entry h po ro recurse path fname = (\<lambda>(equivalent, s).
    if is_dots fname then Inr (equivalent, s)
    else let fpath = child_path path fname in
      bindr (on_passthru (must_call po (C_getattr (Some fpath) (blank_stat h))) s) (\<lambda>(rp, s).
      if ret rp = 0 then
        bindr (on_tested (must_call ro (C_getattr (Some fpath) (blank_stat h))) s) (\<lambda>(rr, s).
        if ret rr = 0 then
          (case stat_difference fpath (o_stat rp) (o_stat rr) of
             Some m \<Rightarrow> report_difference h fpath m s
           | None \<Rightarrow> if equivalent \<and> S_ISDIR (st_mode (o_stat rp)) then recurse fpath s else Inr (equivalent, s))
        else report_difference h fpath (quoted '' should exist but getattr failed'', [Arg_s fpath]) s)
      else Inr (False, s)))"

primrec assert_equivalent_path :: "nat \<Rightarrow> ts_host \<Rightarrow> 'p fuse_operations \<Rightarrow> 'u fuse_operations \<Rightarrow> string \<Rightarrow> ('p, 'u) suite
    \<Rightarrow> (bool \<times> ('p, 'u) suite) c_res" where
  "assert_equivalent_path 0 h po ro path s = Inl NoFuel"
| "assert_equivalent_path (Suc n) h po ro path s =
    bindr (on_passthru (list_directory h po path) s) (\<lambda>(files, s).
    case files of None \<Rightarrow> Inr (False, s)
    | Some files \<Rightarrow>
        if files = [] then Inr (False, s)
        else run_actions (compare_entry h po ro (assert_equivalent_path n h po ro) path) files (True, s))"

definition assert_equivalent :: "nat \<Rightarrow> ts_host \<Rightarrow> 'p fuse_operations \<Rightarrow> 'u fuse_operations \<Rightarrow> ('p, 'u) suite
    \<Rightarrow> (bool \<times> ('p, 'u) suite) c_res" where
  "assert_equivalent n h po ro = assert_equivalent_path n h po ro ''/''"

subsection \<open>Running the tests\<close>

record ('p, 'u) ts_env =
  ts_h :: ts_host
  passthru_ops :: "'p fuse_operations"
  real_ops :: "'u fuse_operations option"
  errtext :: "'p \<Rightarrow> 'u \<Rightarrow> string"
  depth :: nat
  ts_files :: "string \<Rightarrow> string option"
  TEST_DATA_FILE :: "string option"
  ts_errno :: int
  root_exists :: bool
  root_created :: bool

definition ts_strerror :: "('p, 'u) ts_env \<Rightarrow> ('p, 'u) suite \<Rightarrow> string" where
  "ts_strerror w s = errtext w (sd_user (passthru s)) (sd_user (tested s))"

definition report_call_error :: "call_result \<Rightarrow> ('p, 'u) suite \<Rightarrow> ('p, 'u) suite c_res" where
  "report_call_error c s = (case call_error c of None \<Rightarrow> Inr s | Some (m, args) \<Rightarrow> on_log (report_testsuite_error m args) s)"

definition msg_passthru_undefined :: string where
  "msg_passthru_undefined = ''Cannot make call '' @ [CHR 0x27] @ ''%s'' @ [CHR 0x27]
     @ '' as it is not handled by the internal passthru filesystem''"

definition msg_expected_failure :: string where
  "msg_expected_failure = ''Expected call to fail with return value -1 but it returned %d which indicates success. It should have failed with this error: %s''"

definition msg_expected_success :: string where
  "msg_expected_success = ''Expected call to pass with return value 0 but it returned %d which indicates failure. The filesystem reported this error: %s''"

fun chain_from :: "cJSON list \<Rightarrow> string \<Rightarrow> cJSON list" where
  \<comment> \<open>the member with this name and those that follow it\<close>
  "chain_from [] k = []"
| "chain_from (c # cs) k = (if cJSON_strcasecmp (jname c) (Some k) \<noteq> 0 then chain_from cs k else c # cs)"

definition run_test_call :: "('p, 'u) ts_env \<Rightarrow> cJSON \<Rightarrow> ('p, 'u) suite \<Rightarrow> (bool \<times> ('p, 'u) suite) c_res" where
  "run_test_call w call s =
    bindr (item_string (Some call) ''name'') (\<lambda>func_name.
    let params = cJSON_GetObjectItem call ''params'' in
    bindr (on_passthru (make_call (ts_h w) (Some (passthru_ops w)) func_name params) s) (\<lambda>(p, s).
    bindr (report_call_error p s) (\<lambda>s.
    if func_not_defined p then
      bindr (on_log (ts_test_fail func_name [] msg_passthru_undefined [Arg_s func_name]) s) (\<lambda>s. Inr (False, s))
    else let passthru_error = ts_strerror w s in
    bindr (on_tested (make_call (ts_h w) (real_ops w) func_name params) s) (\<lambda>(r, s).
    bindr (report_call_error r s) (\<lambda>s.
    if func_not_defined r then
      bindr (on_log (ts_test_fail func_name [] ''Function not defined'' []) s) (\<lambda>s. Inr (False, s))
    else if (retval p < 0) \<noteq> (retval r < 0) then
      bindr (on_log (ts_test_fail func_name (chain_from (child call) ''params'')
          (if retval p < 0 then msg_expected_failure else msg_expected_success)
          [Arg_d (retval r), Arg_s (if retval p < 0 then passthru_error else ts_strerror w s)]) s) (\<lambda>s. Inr (False, s))
    else case real_ops w of None \<Rightarrow> Inl NullPointer | Some ro \<Rightarrow>
      bindr (assert_equivalent (depth w) (ts_h w) (passthru_ops w) ro s) (\<lambda>(equivalent, s).
      if equivalent then bindr (on_log (ts_test_pass func_name) s) (\<lambda>s. Inr (True, s))
      else Inr (False, s)))))))"

fun run_test_sequence :: "('p, 'u) ts_env \<Rightarrow> cJSON list \<Rightarrow> ('p, 'u) suite \<Rightarrow> (bool \<times> ('p, 'u) suite) c_res" where
  "run_test_sequence w [] s = Inr (True, s)"
| "run_test_sequence w (call # calls) s = bindr (run_test_call w call s) (\<lambda>(passed, s).
     if passed then run_test_sequence w calls s else Inr (False, s))"

definition test_basic_ops :: "'u fuse_operations option \<Rightarrow> ts_log \<Rightarrow> (bool \<times> ts_log) c_res" where
  "test_basic_ops op l = (case op of None \<Rightarrow> Inl NullPointer
     | Some fo \<Rightarrow> (case find (\<lambda>name. \<not> has_op fo name) [''readdir'', ''opendir'', ''releasedir'', ''rmdir'', ''unlink''] of
         Some name \<Rightarrow> bindr (ts_test_fail name [] ''Function not defined'' [] l) (\<lambda>l. Inr (False, l))
       | None \<Rightarrow> Inr (True, l)))"

fun run_group :: "('p, 'u) ts_env \<Rightarrow> cJSON list \<Rightarrow> ('p, 'u) suite \<Rightarrow> (bool \<times> ('p, 'u) suite) c_res" where
  "run_group w [] s = Inr (True, s)"
| "run_group w (sq # sqs) s =
    bindr (on_log (testsuite_seq_start sq) s) (\<lambda>s.
    bindr (get_item (Some sq) ''calls'') (\<lambda>calls.
    bindr (run_test_sequence w (child calls) s) (\<lambda>(all_passed, s).
    bindr (on_log (testsuite_seq_end all_passed) s) (\<lambda>s.
    if all_passed then run_group w sqs s else Inr (False, s)))))"

definition reset_both :: "('p, 'u) ts_env \<Rightarrow> ('p, 'u) suite \<Rightarrow> ('p, 'u) suite c_res" where
  "reset_both w s =
    bindr (reset_filesystem (depth w) (ts_h w) (\<lambda>p. errtext w p (sd_user (tested s))) (passthru_ops w) (passthru s, tlog s)) (\<lambda>(d, l).
    let s = s\<lparr>passthru := d, tlog := l\<rparr> in
    case real_ops w of None \<Rightarrow> Inl NullPointer | Some ro \<Rightarrow>
    bindr (reset_filesystem (depth w) (ts_h w) (\<lambda>u. errtext w (sd_user (passthru s)) u) ro (tested s, tlog s)) (\<lambda>(d, l).
    Inr (s\<lparr>tested := d, tlog := l\<rparr>)))"

definition new_tables :: "('p, 'u) suite \<Rightarrow> ('p, 'u) suite" where
  "new_tables s = s\<lparr>passthru := (passthru s)\<lparr>sd_fhs := Map.empty\<rparr>, tested := (tested s)\<lparr>sd_fhs := Map.empty\<rparr>\<rparr>"

definition run_test_group :: "('p, 'u) ts_env \<Rightarrow> cJSON \<Rightarrow> ('p, 'u) suite \<Rightarrow> ('p, 'u) suite c_res" where
  "run_test_group w grp s =
    bindr (on_log (testsuite_grp_start grp) s) (\<lambda>s.
    bindr (run_group w (child grp) (new_tables s)) (\<lambda>(group_passed, s).
    bindr (reset_both w s) (on_log (testsuite_grp_end group_passed))))"

definition new_fis :: "ts_host \<Rightarrow> ('p, 'u) suite \<Rightarrow> ('p, 'u) suite" where
  "new_fis h s = s\<lparr>passthru := (passthru s)\<lparr>sd_fi := empty_fi (junk_local_fi h)\<rparr>,
     tested := (tested s)\<lparr>sd_fi := empty_fi (junk_local_fi h)\<rparr>\<rparr>"

definition load_groups :: "('p, 'u) ts_env \<Rightarrow> (cJSON option \<times> int) c_res" where
  \<comment> \<open>the test data and \<open>errno\<close>\<close>
  "load_groups w = (case TEST_DATA_FILE w of
     Some f \<Rightarrow> if f = [] then Inr (None, ts_errno w) else (case ts_files w f of
       Some bytes \<Rightarrow> bindr (parsed (cstr bytes)) (\<lambda>obj. Inr (obj, case obj of None \<Rightarrow> 0 | Some _ \<Rightarrow> ts_errno w))
     | None \<Rightarrow> Inr (None, ts_errno w))
   | None \<Rightarrow> Inr (None, ts_errno w))"

definition msg_no_root :: string where
  "msg_no_root = ''Unable to create root directory for passthru filesystem at '' @ [CHR 0x27] @ ''%s'' @ [CHR 0x27] @ '': %s''"

definition msg_no_basics :: string where
  "msg_no_basics = ''Not running main test suite as a number of basic operations are not defined''"

definition run_groups :: "('p, 'u) ts_env \<Rightarrow> cJSON option \<times> int \<Rightarrow> ('p, 'u) suite \<Rightarrow> ('p, 'u) suite c_res" where
  "run_groups w = (\<lambda>(groups, errno) s. case groups of
     Some groups \<Rightarrow>
       if \<not> root_exists w \<and> \<not> root_created w then
         on_log (report_testsuite_error msg_no_root [Arg_s ''/tmp/fdt-ts-root'', Arg_s (ts_strerror w s)]) s
       else let s = new_fis (ts_h w) s in
         bindr (test_basic_ops (real_ops w) (tlog s)) (\<lambda>(basics_ok, l).
         let s = s\<lparr>tlog := l\<rparr> in
         if basics_ok then run_actions (run_test_group w) (child groups) s
         else on_log (report_testsuite_error msg_no_basics []) s)
   | None \<Rightarrow>
       if errno = 0 then on_log (report_testsuite_error ''Error parsing JSON test data'' []) s
       else on_log (report_testsuite_error ''Error loading JSON test data: %s'' [Arg_s (ts_strerror w s)]) s)"

definition testsuite_init :: "('p, 'u) ts_env \<Rightarrow> ('p, 'u) suite \<Rightarrow> ('p, 'u) suite c_res" where
  "testsuite_init w s =
    bindr (on_log testsuite_fifo_init s) (\<lambda>s.
    bindr (load_groups w) (\<lambda>data.
    bindr (run_groups w data s) (\<lambda>s.
    bindr (on_log testsuite_end s) (on_log testsuite_fifo_destroy))))"

end
