(* ===== verification/Replay_Props.thy ===== *)
theory Replay_Props
  imports Replay Wrapper_Total
begin

unbundle bit_operations_syntax

section \<open>Properties of the test suite\<close>

text \<open>
  When the replay of calls on two equal file systems passes, what the comparison looks at and what
  it does not, and the inputs that bring the test suite down.
\<close>

subsection \<open>Events can always be printed\<close>

lemma report_event_sends:
  assumes "wf_json (testsuite_event f params passed m)" "testsuite_fifo l"
  shows "report_testsuite_event_obj (testsuite_event f params passed m) l
    = Inr (l\<lparr>ts_sent := ts_sent l @ json_text True 0 (testsuite_event f params passed m)\<rparr>)"
  using assms by (simp add: report_testsuite_event_obj_def cJSON_Print_def print_value_text)

definition pass_event :: "string \<Rightarrow> cJSON" where
  "pass_event f = testsuite_event f [] True []"

lemma wf_plain_event: "wf_json (testsuite_event f [] passed m)"
  by (simp add: testsuite_event_def Let_def add_chain_def json_add_defs)

lemma ts_test_pass_sends:
  "testsuite_fifo l \<Longrightarrow> ts_test_pass f l = Inr (l\<lparr>ts_sent := ts_sent l @ json_text True 0 (pass_event f)\<rparr>)"
  by (simp add: ts_test_pass_def report_testsuite_event_def report_event_sends wf_plain_event pass_event_def)

subsection \<open>Two equal file systems\<close>

definition read_only :: "'s fuse_operations \<Rightarrow> bool" where
  \<comment> \<open>looking around leaves a file system as it is\<close>
  "read_only fo \<longleftrightarrow> (\<forall>call u. op_name call \<in> {''opendir'', ''readdir'', ''releasedir'', ''getattr''} \<longrightarrow> snd (run_op fo call u) = u)"

definition entries :: "ts_host \<Rightarrow> 's fuse_operations \<Rightarrow> 's \<Rightarrow> string \<Rightarrow> string list" where
  "entries h fo u path = o_entries (fst (run_op fo (C_readdir (Some path) (fresh_ptr h) (testsuite_filler h) 0
     (o_fi (fst (run_op fo (C_opendir (Some path) (empty_fi (junk_local_fi h))) u)))) u))"

definition attributes :: "ts_host \<Rightarrow> 's fuse_operations \<Rightarrow> 's \<Rightarrow> string \<Rightarrow> fuse_out" where
  "attributes h fo u path = fst (run_op fo (C_getattr (Some path) (blank_stat h)) u)"

primrec tidy :: "nat \<Rightarrow> ts_host \<Rightarrow> 's fuse_operations \<Rightarrow> 's \<Rightarrow> string \<Rightarrow> bool" where
  \<comment> \<open>a tree of at most this depth: directories open and list at least \<open>.\<close>, and what they list is there\<close>
  "tidy 0 h fo u path \<longleftrightarrow> False"
| "tidy (Suc n) h fo u path \<longleftrightarrow>
     list_all (has_op fo) [''opendir'', ''readdir'', ''releasedir'', ''getattr'']
     \<and> ret (fst (run_op fo (C_opendir (Some path) (empty_fi (junk_local_fi h))) u)) = 0 \<and> entries h fo u path \<noteq> []
     \<and> list_all (\<lambda>f. is_dots f \<or> (let r = attributes h fo u (child_path path f) in
         ret r = 0 \<and> (S_ISDIR (st_mode (o_stat r)) \<longrightarrow> tidy n h fo u (child_path path f)))) (entries h fo u path)"

lemma must_call_read_only:
  assumes "read_only fo" "op_name call \<in> {''opendir'', ''readdir'', ''releasedir'', ''getattr''}" "has_op fo (op_name call)"
  shows "must_call fo call d = Inr (fst (run_op fo call (sd_user d)), d)"
proof -
  obtain r u where r: "run_op fo call (sd_user d) = (r, u)" by fastforce
  moreover from this have "u = sd_user d" using assms(1,2) unfolding read_only_def by (metis snd_conv)
  ultimately show ?thesis using assms(3) by (simp add: must_call_def)
qed

lemma list_directory_tidy:
  assumes "read_only fo" "tidy (Suc n) h fo (sd_user d) path"
  shows "list_directory h fo path d = Inr (Some (entries h fo (sd_user d) path), d)"
  using assms(2) by (simp add: list_directory_def must_call_read_only [OF assms(1)] entries_def)

lemma stat_difference_same: "stat_difference fpath st st = None"
  by (simp add: stat_difference_def timesRoughlyEqual_def)

lemma run_actions_id: "(\<And>x. x \<in> set xs \<Longrightarrow> f x st = Inr st) \<Longrightarrow> run_actions f xs st = Inr st"
  by (induction xs) auto

lemma equal_trees:
  assumes "read_only fo"
  shows "tidy n h fo (sd_user (passthru s)) path \<Longrightarrow> sd_user (tested s) = sd_user (passthru s)
    \<Longrightarrow> assert_equivalent_path n h fo fo path s = Inr (True, s)"
proof (induction n arbitrary: path)
  case (Suc n)
  let ?u = "sd_user (passthru s)" and ?fs = "entries h fo (sd_user (passthru s)) path"
  have ops: "has_op fo ''getattr''" using Suc.prems(1) by simp
  have "compare_entry h fo fo (assert_equivalent_path n h fo fo) path f (True, s) = Inr (True, s)" if "f \<in> set ?fs" for f
  proof -
    let ?r = "attributes h fo ?u (child_path path f)"
    have "is_dots f \<or> ret ?r = 0 \<and> (S_ISDIR (st_mode (o_stat ?r)) \<longrightarrow> tidy n h fo ?u (child_path path f))"
      using Suc.prems(1) that by (auto simp: list_all_iff Let_def)
    then show ?thesis using Suc.IH [of "child_path path f"] Suc.prems(2) ops
      by (auto simp: compare_entry_def on_passthru_def on_tested_def must_call_read_only [OF assms] attributes_def stat_difference_same Let_def)
  qed
  then show ?case using Suc.prems(1) list_directory_tidy [OF assms Suc.prems(1)]
    by (simp add: on_passthru_def run_actions_id del: tidy.simps) (simp add: run_actions_id)
qed simp

primrec replays :: "nat \<Rightarrow> ts_host \<Rightarrow> 's fuse_operations \<Rightarrow> cJSON list \<Rightarrow> 's side \<Rightarrow> bool" where
  \<comment> \<open>the calls can be made one after the other, and leave a tidy tree every time\<close>
  "replays n h fo [] d \<longleftrightarrow> True"
| "replays n h fo (call # calls) d \<longleftrightarrow> (case item_string (Some call) ''name'' of Inl _ \<Rightarrow> False
     | Inr f \<Rightarrow> (case make_call h (Some fo) f (cJSON_GetObjectItem call ''params'') d of Inl _ \<Rightarrow> False
       | Inr (r, d') \<Rightarrow> \<not> func_not_defined r \<and> call_error r = None \<and> tidy n h fo (sd_user d') ''/'' \<and> replays n h fo calls d'))"

abbreviation pass_text :: "string \<Rightarrow> string" where
  "pass_text f \<equiv> json_text True 0 (pass_event f)"

lemma run_test_call_same:
  assumes "passthru_ops w = fo" "real_ops w = Some fo" "read_only fo" "tested s = passthru s" "testsuite_fifo (tlog s)"
    and "item_string (Some call) ''name'' = Inr f"
    and "make_call (ts_h w) (Some fo) f (cJSON_GetObjectItem call ''params'') (passthru s) = Inr (r, d)"
    and "\<not> func_not_defined r" "call_error r = None" "tidy (depth w) (ts_h w) fo (sd_user d) ''/''"
  shows "run_test_call w call s = Inr (True, s\<lparr>passthru := d, tested := d,
    tlog := (tlog s)\<lparr>ts_sent := ts_sent (tlog s) @ pass_text f\<rparr>\<rparr>)"
proof -
  let ?s = "s\<lparr>passthru := d, tested := d\<rparr>"
  have "assert_equivalent (depth w) (ts_h w) fo fo ?s = Inr (True, ?s)"
    using equal_trees [OF assms(3), of "depth w" "ts_h w" ?s "''/''"] assms(10) by (simp add: assert_equivalent_def)
  then show ?thesis using assms
    by (simp add: run_test_call_def on_passthru_def on_tested_def on_log_def report_call_error_def ts_test_pass_sends Let_def)
qed

lemma run_test_sequence_same:
  assumes "passthru_ops w = fo" "real_ops w = Some fo" "read_only fo"
  shows "tested s = passthru s \<Longrightarrow> testsuite_fifo (tlog s) \<Longrightarrow> replays (depth w) (ts_h w) fo calls (passthru s)
    \<Longrightarrow> \<exists>s' names. run_test_sequence w calls s = Inr (True, s') \<and> tested s' = passthru s'
      \<and> map (\<lambda>c. item_string (Some c) ''name'') calls = map Inr names
      \<and> ts_sent (tlog s') = ts_sent (tlog s) @ concat (map pass_text names)"
proof (induction calls arbitrary: s)
  case Nil
  then show ?case by (auto intro: exI [of _ s])
next
  case (Cons call calls)
  obtain f r d where c: "item_string (Some call) ''name'' = Inr f"
      "make_call (ts_h w) (Some fo) f (cJSON_GetObjectItem call ''params'') (passthru s) = Inr (r, d)"
      "\<not> func_not_defined r" "call_error r = None" "tidy (depth w) (ts_h w) fo (sd_user d) ''/''"
      "replays (depth w) (ts_h w) fo calls d"
    using Cons.prems(3) by (auto split: sum.splits)
  let ?s = "s\<lparr>passthru := d, tested := d, tlog := (tlog s)\<lparr>ts_sent := ts_sent (tlog s) @ pass_text f\<rparr>\<rparr>"
  obtain s' names where s': "run_test_sequence w calls ?s = Inr (True, s')" "tested s' = passthru s'"
      "map (\<lambda>c. item_string (Some c) ''name'') calls = map Inr names"
      "ts_sent (tlog s') = ts_sent (tlog ?s) @ concat (map pass_text names)"
    using Cons.IH [of ?s] Cons.prems(2) c(6) by auto
  then show ?case using run_test_call_same [OF assms Cons.prems(1,2) c(1-5)] c(1)
    by (intro exI [of _ s'] exI [of _ "f # names"]) simp
qed

text \<open>
  C23. A file system that behaves like the passthrough file system passes: when both are the same
  operations on the same state, reading directories and attributes has no side effect, and the
  recorded calls can be made on it and leave a tree that can be listed, then every call of the
  sequence is reported as passed, in order, and both sides end in the same state.
\<close>

theorem same_filesystem_passes:
  assumes "passthru_ops w = fo" "real_ops w = Some fo" "read_only fo" "tested s = passthru s" "testsuite_fifo (tlog s)"
    and "replays (depth w) (ts_h w) fo calls (passthru s)"
  shows "\<exists>s' names. run_test_sequence w calls s = Inr (True, s') \<and> tested s' = passthru s'
      \<and> map (\<lambda>c. item_string (Some c) ''name'') calls = map Inr names
      \<and> ts_sent (tlog s') = ts_sent (tlog s) @ concat (map pass_text names)"
  using run_test_sequence_same [OF assms(1-3)] assms(4-6) by blast

subsection \<open>What the comparison sees\<close>


subsection \<open>Crashes\<close>





lemma replay_op_of_removal:
  "replay_op_of ''unlink'' = Some replay_unlink" "replay_op_of ''rmdir'' = Some replay_rmdir"
  by (simp_all add: replay_op_of_def)

lemma removal_crashes:
  assumes "sd_fhs d path = None"
  shows "perform fo call (Destroys (Some path)) d = Inl NullPointer"
  using assms by (simp add: perform_def call_plain_op_def destroy_fh_def lookup_fh_def split: prod.splits)

text \<open>
  C38. Replaying the removal of a file or directory that the sequence has not opened before
  dereferences a null pointer, although the call itself needs no handle.
\<close>

theorem replayed_removal_crashes:
  assumes "func_name = ''unlink'' \<or> func_name = ''rmdir''" "has_op fo func_name"
    and "cJSON_GetObjectItem params ''path'' = Some item" "valuestring item = Some path" "sd_fhs d path = None"
  shows "make_call h (Some fo) func_name (Some params) d = Inl NullPointer"
  using assms
  by (auto simp: removal_crashes make_call_def replay_op_of_removal replay_unlink_def replay_rmdir_def item_ptr_def get_item_def)

subsection \<open>Examples\<close>

definition demo_ts_host :: ts_host where
  "demo_ts_host = \<lparr>fresh = (\<lambda>n. replicate (nat n) NUL), fresh_ptr = 8, readdir_filler = 16, testsuite_filler = 24,
     junk_local_fi = zero_fi, junk_local_stat = zero_stat,
     junk_conn = o_conn (demo_out 0), junk_fuse_buf = \<lparr>buf_size = 0, buf_flags = 0, buf_mem = 0, buf_fd = 0, buf_pos = 0\<rparr>\<rparr>"

definition empty_root :: "bool \<Rightarrow> nat fuse_operations" where
  \<comment> \<open>a root directory that lists itself and, where asked, one file that cannot be found\<close>
  "empty_root file = \<lparr>has_op = (\<lambda>_. True), run_op = (\<lambda>c n. (case c of
     C_readdir _ _ _ _ _ \<Rightarrow> ((demo_out 0)\<lparr>o_entries := (if file then [''f''] else [''.''])\<rparr>, n)
   | C_access _ _ \<Rightarrow> (demo_out 0, Suc n)
   | _ \<Rightarrow> (demo_out 0, n)))\<rparr>"

definition access_call :: cJSON where
  "access_call = cJSON_AddItemToObject (cJSON_AddStringToObject cJSON_CreateObject ''name'' ''access'') ''params''
     (cJSON_AddNumberToObject (cJSON_AddStringToObject cJSON_CreateObject ''path'' ''/'') ''mask'' 0)"

definition demo_side :: "nat side" where
  "demo_side = \<lparr>sd_user = 0, sd_fi = zero_fi, sd_fhs = Map.empty\<rparr>"

definition demo_suite :: "(nat, nat) suite" where
  "demo_suite = \<lparr>passthru = demo_side, tested = demo_side, tlog = \<lparr>testsuite_fifo = True, ts_sent = []\<rparr>\<rparr>"

definition demo_env :: "(nat, nat) ts_env" where
  "demo_env = \<lparr>ts_h = demo_ts_host, passthru_ops = empty_root False, real_ops = Some (empty_root False),
     errtext = (\<lambda>_ _. ''Success''), depth = 1, ts_files = (\<lambda>_. None), TEST_DATA_FILE = None, ts_errno = 0,
     root_exists = True, root_created = True\<rparr>"

lemma read_only_empty_root: "read_only (empty_root file)"
proof -
  have "snd (run_op (empty_root file) call u) = u" if "op_name call \<in> {''opendir'', ''readdir'', ''releasedir'', ''getattr''}" for call u
    using that by (cases call) (simp_all add: empty_root_def)
  then show ?thesis by (simp add: read_only_def)
qed

lemma tidy_empty_root: "tidy 1 demo_ts_host (empty_root False) u ''/''"
  by (simp add: entries_def empty_root_def demo_out_def is_dots_def)

lemma access_call_items:
  "item_string (Some access_call) ''name'' = Inr ''access''"
  "\<exists>p. cJSON_GetObjectItem access_call ''params'' = Some p \<and> item_ptr (Some p) ''path'' = Inr (Some ''/'') \<and> item_int (Some p) ''mask'' = Inr 0"
  by (simp_all add: access_call_def json_add_defs item_string_def item_ptr_def item_int_def get_item_def cJSON_GetObjectItem_def
      cJSON_strcasecmp_def c_tolower_def cstr_def d2i_dbl_of_int is_int_def)

lemma access_replays: "replays 1 demo_ts_host (empty_root False) [access_call] demo_side"
proof -
  obtain p where "cJSON_GetObjectItem access_call ''params'' = Some p" "item_ptr (Some p) ''path'' = Inr (Some ''/'')"
      "item_int (Some p) ''mask'' = Inr 0" using access_call_items(2) by blast
  then have "make_call demo_ts_host (Some (empty_root False)) ''access'' (cJSON_GetObjectItem access_call ''params'') demo_side
      = Inr (\<lparr>retval = 0, func_not_defined = False, call_error = None\<rparr>, demo_side\<lparr>sd_user := 1\<rparr>)"
    by (simp add: make_call_def replay_op_of_def replay_access_def perform_def call_plain_op_def empty_root_def demo_side_def demo_out_def)
  then show ?thesis using access_call_items(1) tidy_empty_root by (simp del: tidy.simps)
qed

theorem same_filesystem_passes_witness:
  "passthru_ops demo_env = empty_root False \<and> real_ops demo_env = Some (empty_root False) \<and> read_only (empty_root False)
   \<and> tested demo_suite = passthru demo_suite \<and> testsuite_fifo (tlog demo_suite)
   \<and> replays (depth demo_env) (ts_h demo_env) (empty_root False) [access_call] (passthru demo_suite)
   \<and> (\<exists>s'. run_test_sequence demo_env [access_call] demo_suite = Inr (True, s') \<and> ts_sent (tlog s') = pass_text ''access'')"
proof -
  have h: "passthru_ops demo_env = empty_root False" "real_ops demo_env = Some (empty_root False)"
    "tested demo_suite = passthru demo_suite" "testsuite_fifo (tlog demo_suite)" "ts_sent (tlog demo_suite) = []"
    "replays (depth demo_env) (ts_h demo_env) (empty_root False) [access_call] (passthru demo_suite)"
    using access_replays by (simp_all add: demo_env_def demo_suite_def del: replays.simps)
  from same_filesystem_passes [OF h(1,2) read_only_empty_root h(3,4,6)] h access_call_items(1) read_only_empty_root
  show ?thesis by (auto simp del: replays.simps)
qed




theorem replayed_removal_crashes_witness:
  "has_op (demo_ops 0) ''rmdir'' \<and> sd_fhs demo_side ''/d'' = None
   \<and> make_call demo_ts_host (Some (demo_ops 0)) ''rmdir'' (Some (cJSON_AddStringToObject cJSON_CreateObject ''path'' ''/d'')) demo_side
     = Inl NullPointer"
  by (intro conjI replayed_removal_crashes [of _ _ _ "set_name (Some ''path'') (cJSON_CreateString ''/d'')" "''/d''"])
    (simp_all add: demo_ops_def demo_side_def json_add_defs cJSON_GetObjectItem_def cJSON_strcasecmp_def c_tolower_def cstr_def)

end
