(* ===== verification/Logger.thy ===== *)
theory Logger
  imports Fdt_Base Refinement
begin

section \<open>The logger\<close>

text \<open>
  The model of \<^verbatim>\<open>src/logger.c\<close>, the console tool that records the calls made to a file system as
  test data. Its loop reads the pipe without blocking: a round of it either gets a byte or finds
  nothing there and looks at the keyboard. What the rounds find is the list of inputs; the lines
  the user types, the files and the result of \<open>uname\<close> are part of the state. The branch of
  \<open>getOSName\<close> for macOS is left out.
\<close>

datatype logger_state = IDLE | CAPTURING_SEQUENCE

record logger = fdt +
  l_fifoOpen :: bool
  prompting :: int
  l_pendingInvocations :: int
  current_sequence :: cJSON
  all_sequences :: cJSON
  l_stepSem :: nat
  current_state :: logger_state
  l_stdin :: "string list"
  l_files :: "string \<rightharpoonup> string"
  l_readable :: "string \<Rightarrow> bool"
  l_writable :: "string \<Rightarrow> bool"
  l_uname :: "(string \<times> string) option"

definition setLoggerState :: "logger_state \<Rightarrow> logger \<Rightarrow> logger" where
  "setLoggerState s l = l\<lparr>current_state := s\<rparr>"

definition interrupt_fuse :: "'a fdt_scheme \<Rightarrow> 'a fdt_scheme" where
  \<comment> \<open>the lines with which every tool ends the file system\<close>
  "interrupt_fuse st = (let pid = fuse_pid st in
     if pid \<noteq> 0 then printf ''Sent SIGINT to FUSE binary'' (kill pid SIGINT (setFusePID 0 st)) else st)"

definition quitLogger :: "logger \<Rightarrow> logger" where
  "quitLogger l = (let l = interrupt_fuse l in l\<lparr>l_stepSem := l_stepSem l + 50, l_fifoOpen := False\<rparr>)"

definition getOSName :: "logger \<Rightarrow> string c_res" where
  "getOSName l = (case l_uname l of
     Some (sysname, release) \<Rightarrow> alloc_write 256 (sysname @ '' '' @ release)
   | None \<Rightarrow> alloc_write 256 ''Unix'')"

definition exportJSON :: "string \<Rightarrow> cJSON \<Rightarrow> logger \<Rightarrow> logger c_res" where
  "exportJSON fname obj l = (case cJSON_Print obj of
     Inr data \<Rightarrow> Inr (if l_writable l fname then l\<lparr>l_files := (l_files l)(fname \<mapsto> data)\<rparr> else l)
   | Inl NullResult \<Rightarrow> if l_writable l fname then Inl NullPointer else Inr l
   | Inl e \<Rightarrow> Inl e)"

subsection \<open>Keys\<close>

definition read_line :: "logger \<Rightarrow> (string \<times> logger) c_res" where
  \<comment> \<open>\<open>getline\<close> and the statement that cuts off the last character; at the end of the input the buffer
     is not written\<close>
  "read_line l = (case l_stdin l of
     [] \<Rightarrow> Inl Uninitialised
   | line # rest \<Rightarrow> if cstr line = [] then Inl OutOfBounds else Inr (butlast (cstr line), l\<lparr>l_stdin := rest\<rparr>))"

definition open_files :: "logger \<Rightarrow> string \<Rightarrow> string option" where
  "open_files l f = (if l_readable l f then l_files l f else None)"

definition in_quotes :: "string \<Rightarrow> string \<Rightarrow> string" where
  "in_quotes s t = s @ [CHR 0x27] @ t @ [CHR 0x27]"

definition export_sequences :: "string \<Rightarrow> logger \<Rightarrow> logger c_res" where
  "export_sequences fname l =
    (if l_files l fname \<noteq> None then
       bindr (readJSONFile (open_files l) fname (printf (in_quotes ''Appending to existing file '' fname) l)) (\<lambda>(groups, l).
       case groups of
         Some groups \<Rightarrow> exportJSON fname (cJSON_AddItemToArray groups (all_sequences l)) l
       | None \<Rightarrow> Inr (printf ''Did not export data as there was an error reading the existing file'' l))
     else exportJSON fname (cJSON_AddItemToArray cJSON_CreateArray (all_sequences l))
       (printf (in_quotes ''Exporting to new file '' fname) l))"

definition quit_key :: "logger \<Rightarrow> logger c_res" where
  "quit_key l =
    bindr (if 0 < cJSON_GetArraySize (all_sequences l) then
        bindr (read_line (printf '' > '' (printf ''Enter filename to export sequences to. Leave blank to discard data.'' l))) (\<lambda>(fname, l).
        if 0 < length fname then export_sequences fname l else Inr (printf ''Discarding data'' l))
      else Inr (printf ''Nothing to export as no sequences were captured'' l)) (\<lambda>l.
    Inr (quitLogger l))"

definition sequence_object :: "string \<Rightarrow> string \<Rightarrow> string \<Rightarrow> cJSON \<Rightarrow> cJSON" where
  "sequence_object action application os calls =
    (let obj = cJSON_AddStringToObject cJSON_CreateObject ''action'' action;
         obj = cJSON_AddStringToObject obj ''application'' application;
         obj = cJSON_AddStringToObject obj ''os'' os
     in cJSON_AddItemToObject obj ''calls'' calls)"

definition save_sequence :: "logger \<Rightarrow> logger c_res" where
  "save_sequence l =
    (let l = printf (newline # ''Captured '' @ show_nat (cJSON_GetArraySize (current_sequence l)) @ '' calls'') l in
     bindr (read_line (printf '' > '' (printf ''Describe the action performed:'' l))) (\<lambda>(action, l).
     bindr (read_line (printf '' > '' (printf ''What application was used?:'' l))) (\<lambda>(application, l).
     bindr (getOSName l) (\<lambda>os.
     let l = printf (in_quotes ''Operating system logged as '' os) l;
         l = l\<lparr>all_sequences := cJSON_AddItemToArray (all_sequences l)
           (sequence_object action application os (current_sequence l))\<rparr>;
         l = printf ''Sequence saved (but not written to disk!)'' l
     in Inr (printf (''Number of sequences logged so far: '' @ show_nat (cJSON_GetArraySize (all_sequences l))) l)))))"

definition end_capture_key :: "logger \<Rightarrow> logger c_res" where
  "end_capture_key l =
    bindr (if 0 < cJSON_GetArraySize (current_sequence l) then save_sequence l
      else Inr (printf (newline # ''No calls captured so did not log empty sequence'') l)) (\<lambda>l.
    Inr (l\<lparr>current_sequence := cJSON_CreateArray, current_state := IDLE\<rparr>))"

definition show_choice :: "logger \<Rightarrow> logger" where
  "show_choice l = (if prompting l = 0 then
     (case current_state l of
        IDLE \<Rightarrow> printf ''  q : quit and (optionally) export'' (printf ''  s : start capturing sequence''
          (printf (newline # ''Not capturing data. Choose an action:'') l))
      | CAPTURING_SEQUENCE \<Rightarrow> printf (newline # in_quotes ''Press '' ''e'' @ '' key to end this sequence capture.'') l)\<lparr>prompting := 1\<rparr>
     else l)"

definition handle_key :: "char \<Rightarrow> logger \<Rightarrow> logger c_res" where
  "handle_key c l = (case current_state l of
     IDLE \<Rightarrow> if c = CHR ''s'' then Inr (l\<lparr>current_state := CAPTURING_SEQUENCE\<rparr>)
       else if c = CHR ''q'' then quit_key l else Inr l
   | CAPTURING_SEQUENCE \<Rightarrow> if c = CHR ''e'' then end_capture_key l else Inr l)"

definition choicePrompt :: "char option \<Rightarrow> logger \<Rightarrow> logger c_res" where
  \<comment> \<open>the argument is the key \<open>isKeyAvailable\<close> finds\<close>
  "choicePrompt key l = (let l = show_choice l in
     case key of None \<Rightarrow> Inr l | Some c \<Rightarrow> bindr (handle_key c l) (\<lambda>l. Inr (l\<lparr>prompting := 0\<rparr>)))"

subsection \<open>Events\<close>

definition l_canAdvance :: "logger \<Rightarrow> bool" where
  "l_canAdvance l \<longleftrightarrow> 0 < l_pendingInvocations l"

definition l_advance :: "logger \<Rightarrow> logger" where
  "l_advance l = (if l_canAdvance l
     then l\<lparr>l_stepSem := l_stepSem l + 1, l_pendingInvocations := l_pendingInvocations l - 1\<rparr>
     else printf ''Cannot advance until next FUSE operation executes'' l)"

function l_advancePending :: "logger \<Rightarrow> logger" where
  "l_advancePending l = (if l_canAdvance l
     then l_advancePending (printf ''Advanced pending invocation'' (l_advance l)) else l)"
  by pat_completeness auto
termination
  by (relation "measure (\<lambda>l. nat (l_pendingInvocations l))") (auto simp: l_canAdvance_def l_advance_def printf_def)

declare l_advancePending.simps [simp del]

definition without_header :: "cJSON \<Rightarrow> cJSON" where
  "without_header event = cJSON_DeleteItemFromObject (cJSON_DeleteItemFromObject event ''type'') ''seqnum''"

definition handleLoggerEvent :: "logger event_handler" where
  "handleLoggerEvent event l =
    bindr (item_string event ''type'') (\<lambda>type.
    bindr (get_item event ''name'') (\<lambda>name_item.
    if type = ''invoke'' then
      bindr (of_opt NullPointer (valuestring name_item)) (\<lambda>name.
      let l = (case current_state l of
           CAPTURING_SEQUENCE \<Rightarrow> printf (name @ '' captured'')
             (l\<lparr>current_sequence := cJSON_AddItemToArray (current_sequence l) (without_header (the event))\<rparr>)
         | IDLE \<Rightarrow> printf (name @ '' ignored'') l)
      in Inr (l_advance (l\<lparr>l_pendingInvocations := wrap32 (l_pendingInvocations l + 1), prompting := 0\<rparr>)))
    else Inr l))"

subsection \<open>The loop\<close>

datatype logger_input =
    Byte char             \<comment> \<open>\<open>fgetc\<close> returns a byte\<close>
  | Poll "char option"    \<comment> \<open>\<open>fgetc\<close> returns -1, which is \<open>EOF\<close>; the key pressed, if any\<close>

definition read_input :: "logger_input \<Rightarrow> reader \<Rightarrow> logger \<Rightarrow> (reader \<times> logger) c_res" where
  "read_input i s l = (case i of
     Byte c \<Rightarrow> bindr (store_byte c s) (\<lambda>s. Inr (track c s, l))
   | Poll key \<Rightarrow> bindr (choicePrompt key l) (\<lambda>l. Inr (s, l)))"

definition logger_round :: "logger_input \<Rightarrow> reader \<Rightarrow> logger \<Rightarrow> (bool \<times> reader \<times> logger) c_res" where
  \<comment> \<open>a round of the inner loop, and the rest of the outer one where it ends; the flag says that
     the outer loop goes on\<close>
  "logger_round i s l = bindr (read_input i s l) (\<lambda>(s, l).
     if 0 < unclosed_braces s then Inr (True, s, l)
     else bindr (finish_chunk s) (\<lambda>text. bindr (deliver handleLoggerEvent text l) (\<lambda>l.
       Inr (l_fifoOpen l, start_chunk s, l))))"

primrec logger_loop :: "logger_input list \<Rightarrow> reader \<Rightarrow> logger \<Rightarrow> (bool \<times> reader \<times> logger) c_res" where
  \<comment> \<open>the flag is true while the loop waits for more input\<close>
  "logger_loop [] s l = Inr (True, s, l)"
| "logger_loop (i # is) s l = bindr (logger_round i s l) (\<lambda>(running, s, l).
     if running then logger_loop is s l else Inr (False, s, l))"

definition doStartLogger :: "logger_input list option \<Rightarrow> logger \<Rightarrow> (bool \<times> logger) c_res" where
  \<comment> \<open>\<open>None\<close> where the pipe cannot be opened, whose descriptor is asked for before the check\<close>
  "doStartLogger fifo l = bindr (of_opt NullPointer fifo) (\<lambda>inputs.
     bindr (logger_loop inputs (start_chunk (open_reader []))
       (l\<lparr>l_fifoOpen := True, current_sequence := cJSON_CreateArray, all_sequences := cJSON_CreateArray\<rparr>)) (\<lambda>(running, s, l).
     Inr (running, if running then l else printf ''FUSE binary detached so logger will terminate.'' l)))"

definition startLogger :: "logger_input list option \<Rightarrow> logger \<Rightarrow> (bool \<times> logger) c_res" where
  "startLogger fifo l = doStartLogger fifo (setStopToolFunction (Some Logger_tool) (l\<lparr>l_stepSem := 0\<rparr>))"

definition stopLogger :: "logger \<Rightarrow> logger" where
  "stopLogger l = interrupt_fuse (l_advancePending (printf ''Stopping logger'' l))"

definition l_waitToAdvance :: "logger \<Rightarrow> logger" where
  "l_waitToAdvance l = (printf ''[ paused ]'' l)\<lparr>l_stdin := tl (l_stdin l)\<rparr>"

end
