(* ===== verification/Logger_Props.thy ===== *)
theory Logger_Props
  imports Logger Wrapper_Debugger
begin

unbundle bit_operations_syntax

section \<open>What the logger records\<close>

text \<open>
  The loop of the logger on the events the wrappers write, the call it keeps of each of them, and
  the file it exports. The loop reads bytes and polls the keyboard in between; the lemmas cover
  the bytes of complete events.
\<close>

subsection \<open>Bytes\<close>

definition fresh_chunk :: "reader \<Rightarrow> bool" where
  "fresh_chunk s \<longleftrightarrow> buf_ok s \<and> frame s = (0, False, False) \<and> json_chunk s = []"

lemma fresh_start [simp]: "buf_ok s \<Longrightarrow> fresh_chunk (start_chunk s)" "fresh_chunk (start_chunk (open_reader b))"
  by (simp_all add: fresh_chunk_def buf_ok_def start_chunk_def frame_def open_reader_def)

lemma read_input_Byte:
  assumes "buf_ok s"
  obtains s' where "read_input (Byte c) s l = Inr (s', l)" "buf_ok s'" "json_chunk s' = json_chunk s @ [c]"
    "frame s' = frame_step (frame s) c"
proof -
  obtain r where "store_byte c s = Inr r" "buf_ok r" "json_chunk r = json_chunk s @ [c]" "frame r = frame s"
    by (rule store_byte_ok [OF assms, of c]) (simp add: frame_def)
  then show ?thesis using that [of "track c r"] by (simp add: read_input_def frame_track)
qed

lemma logger_loop_walk:
  "buf_ok s \<Longrightarrow> walk (frame s) t = Some st \<Longrightarrow>
   \<exists>s'. logger_loop (map Byte t @ is) s l = logger_loop is s' l \<and> buf_ok s' \<and> frame s' = st
     \<and> json_chunk s' = json_chunk s @ t"
proof (induction t arbitrary: s)
  case (Cons c t)
  obtain s' where s': "read_input (Byte c) s l = Inr (s', l)" "buf_ok s'" "json_chunk s' = json_chunk s @ [c]"
    "frame s' = frame_step (frame s) c"
    using read_input_Byte [OF Cons.prems(1)] .
  have pos: "0 < unclosed_braces s'" and w: "walk (frame s') t = Some st"
    using Cons.prems(2) fst_frame [of s'] unfolding s'(4) by (auto simp: Let_def split: if_splits)
  then have "logger_loop (map Byte (c # t) @ is) s l = logger_loop (map Byte t @ is) s' l"
    by (simp add: logger_round_def s'(1))
  with Cons.IH [OF s'(2) w] s'(3) show ?case by auto
qed auto

lemma handleLoggerEvent_open: "handleLoggerEvent e l = Inr l' \<Longrightarrow> l_fifoOpen l' = l_fifoOpen l"
  by (auto simp: handleLoggerEvent_def l_advance_def printf_def Let_def elim!: bindr_InrE
      split: if_splits logger_state.splits)

lemma logger_loop_event:
  assumes "sendable e" "fresh_chunk s" "l_fifoOpen l"
  shows "\<exists>s'. logger_loop (map Byte (json_text True 0 e) @ is) s l
     = bindr (handleLoggerEvent (Some (canon None e)) l) (logger_loop is s') \<and> fresh_chunk s'"
proof -
  obtain body where body: "json_text True 0 e = CHR ''{'' # body @ ''}''" "calm body"
    using object_text [of e True 0] assms(1) unfolding sendable_def by blast
  have s: "buf_ok s" "frame s = (0, False, False)" "json_chunk s = []" using assms(2) by (auto simp: fresh_chunk_def)
  have "walk (frame s) (CHR ''{'' # body) = Some (1, False, False)"
    using s(2) body(2) by (simp add: frame_step_def calm_def)
  from logger_loop_walk [OF s(1) this, of "Byte (CHR ''}'') # is" l]
  obtain s1 where s1: "logger_loop (map Byte (json_text True 0 e) @ is) s l = logger_loop (Byte (CHR ''}'') # is) s1 l"
    "buf_ok s1" "frame s1 = (1, False, False)" "json_chunk s1 = CHR ''{'' # body"
    using s(3) body(1) by auto
  obtain s2 where s2: "read_input (Byte (CHR ''}'')) s1 l = Inr (s2, l)" "buf_ok s2" "json_chunk s2 = json_text True 0 e"
    "frame s2 = frame_step (frame s1) (CHR ''}'')"
    using read_input_Byte [OF s1(2)] s1(4) body(1) by (metis append_Cons)
  have "unclosed_braces s2 = 0" using s2(4) s1(3) by (simp add: frame_def frame_step_def)
  moreover have "finish_chunk s2 = Inr (json_text True 0 e)"
    using s2(2,3) assms(1) by (simp add: finish_chunk_def buf_ok_def sendable_def cstring_json_text)
  moreover have "json_text True 0 e \<noteq> []" using body(1) by simp
  then have "deliver handleLoggerEvent (json_text True 0 e) l = handleLoggerEvent (Some (canon None e)) l"
    using assms(1) by (simp add: deliver_def sendable_def parsed_json_text)
  ultimately have "logger_loop (Byte (CHR ''}'') # is) s1 l
      = bindr (handleLoggerEvent (Some (canon None e)) l) (logger_loop is (start_chunk s2))"
    using assms(3) handleLoggerEvent_open [of "Some (canon None e)" l]
    by (cases "handleLoggerEvent (Some (canon None e)) l") (auto simp: logger_round_def s2(1))
  with s1(1) s2(2) show ?thesis by auto
qed

lemma logger_loop_events:
  assumes "list_all sendable es" "fresh_chunk s" "l_fifoOpen l"
  shows "\<exists>s'. logger_loop (map Byte (concat (map (json_text True 0) es)) @ is) s l
     = bindr (feed handleLoggerEvent (map (canon None) es) l) (logger_loop is s') \<and> fresh_chunk s'"
  using assms
proof (induction es arbitrary: s l)
  case (Cons e es)
  let ?is = "map Byte (concat (map (json_text True 0) es)) @ is"
  obtain s1 where s1: "logger_loop (map Byte (json_text True 0 e) @ ?is) s l
      = bindr (handleLoggerEvent (Some (canon None e)) l) (logger_loop ?is s1)" "fresh_chunk s1"
    using logger_loop_event [of e s l ?is] Cons.prems by auto
  show ?case
  proof (cases "handleLoggerEvent (Some (canon None e)) l")
    case (Inr l')
    then show ?thesis using Cons.IH [of s1 l'] Cons.prems s1 handleLoggerEvent_open [OF Inr] by simp
  qed (use s1 in auto)
qed auto

subsection \<open>Calls\<close>

definition captured :: "string \<Rightarrow> cJSON \<Rightarrow> cJSON" where
  \<comment> \<open>what is left of the event of a call\<close>
  "captured name p = cJSON_AddItemToObject (cJSON_AddStringToObject cJSON_CreateObject ''name'' name) ''params'' p"

lemma captured_child: "is_object (captured name p)"
  "child (captured name p) = [set_name (Some ''name'') (cJSON_CreateString name), set_name (Some ''params'') p]"
  by (simp_all add: captured_def json_add_defs cstr_def)

lemma without_header_invoke: "without_header (canon nm (invoke_event name n p)) = canon nm (captured name p)"
  by (simp add: without_header_def canon_object captured_child invoke_event_child cJSON_strcasecmp_def c_tolower_def
      cJSON_DeleteItemFromObject_def cJSON_DetachItemFromObject_def cJSON_DetachItemFromArray_def)

definition session_kept :: "logger \<Rightarrow> logger \<Rightarrow> bool" where
  \<comment> \<open>what reading events leaves alone\<close>
  "session_kept l l' \<longleftrightarrow> all_sequences l' = all_sequences l \<and> current_state l' = current_state l
     \<and> l_stdin l' = l_stdin l \<and> l_files l' = l_files l \<and> l_readable l' = l_readable l
     \<and> l_writable l' = l_writable l \<and> l_uname l' = l_uname l \<and> l_fifoOpen l' = l_fifoOpen l"

lemma session_kept_trans: "session_kept l l' \<Longrightarrow> session_kept l' l'' \<Longrightarrow> session_kept l l''"
  by (simp add: session_kept_def)

definition add_items :: "cJSON \<Rightarrow> cJSON list \<Rightarrow> cJSON" where
  "add_items a items = set_child (child a @ items) a"

lemma add_items_simps [simp]: "add_items a [] = a" "add_items (add_items a xs) ys = add_items a (xs @ ys)"
  "cJSON_AddItemToArray a c = add_items a [c]" "child (add_items a xs) = child a @ xs"
  by (cases a; simp add: add_items_def cJSON_AddItemToArray_def)+

lemma capture_invoke:
  assumes "l_pendingInvocations l = 0"
  shows "\<exists>l'. handleLoggerEvent (Some (canon None (invoke_event name n p))) l = Inr l' \<and> session_kept l l'
    \<and> current_sequence l' = (case current_state l of
        CAPTURING_SEQUENCE \<Rightarrow> add_items (current_sequence l) [canon None (captured name p)] | IDLE \<Rightarrow> current_sequence l)
    \<and> l_pendingInvocations l' = 0 \<and> l_stepSem l' = l_stepSem l + 1"
  using assms unfolding handleLoggerEvent_def
  by (simp add: event_fields event_items canon_fields without_header_invoke session_kept_def l_advance_def
      l_canAdvance_def printf_def Let_def is_int_def split: logger_state.splits)

lemma capture_return:
  "handleLoggerEvent (Some (canon None (return_event name n rv p))) l = Inr l"
  unfolding handleLoggerEvent_def by (simp add: event_fields event_items)

fun logged_params :: "fuse_call list \<Rightarrow> cJSON list \<Rightarrow> bool" where
  \<comment> \<open>the objects the wrappers build for the arguments of the calls\<close>
  "logged_params [] ps = (ps = [])"
| "logged_params (c # cs) ps = (\<exists>p qs. ps = p # qs \<and> add_fields cJSON_CreateObject (call_params c) = Inr p
     \<and> wf_json p \<and> logged_params cs qs)"

definition capture_all :: "fuse_call list \<Rightarrow> cJSON list \<Rightarrow> cJSON list" where
  "capture_all cs ps = map2 (\<lambda>c p. canon None (captured (op_name c) p)) cs ps"

lemma feed_capture:
  "framed_log calls n es \<Longrightarrow> l_pendingInvocations l = 0 \<Longrightarrow> current_state l = CAPTURING_SEQUENCE
   \<Longrightarrow> \<exists>l' ps. feed handleLoggerEvent (map (canon None) es) l = Inr l' \<and> logged_params calls ps \<and> session_kept l l'
     \<and> current_sequence l' = add_items (current_sequence l) (capture_all calls ps)
     \<and> l_pendingInvocations l' = 0 \<and> l_stepSem l' = l_stepSem l + length calls"
proof (induction calls arbitrary: n es l)
  case (Cons c cs)
  obtain ds fs where es: "es = ds @ fs" "framed_events (call_params c) (op_name c) n ds" "framed_log cs (wrap32 (n + 1)) fs"
    using Cons.prems(1) by auto
  then obtain p rv mp where ds: "ds = [invoke_event (op_name c) n p, return_event (op_name c) n rv mp]"
    "add_fields cJSON_CreateObject (call_params c) = Inr p" "wf_json p"
    by (auto simp: framed_events_def)
  obtain l1 where l1: "handleLoggerEvent (Some (canon None (invoke_event (op_name c) n p))) l = Inr l1" "session_kept l l1"
    "current_sequence l1 = add_items (current_sequence l) [canon None (captured (op_name c) p)]"
    "l_pendingInvocations l1 = 0" "l_stepSem l1 = l_stepSem l + 1"
    using capture_invoke [OF Cons.prems(2), of "op_name c" n p] Cons.prems(3) by auto
  obtain l' ps where l': "feed handleLoggerEvent (map (canon None) fs) l1 = Inr l'" "logged_params cs ps" "session_kept l1 l'"
     "current_sequence l' = add_items (current_sequence l1) (capture_all cs ps)"
     "l_pendingInvocations l' = 0" "l_stepSem l' = l_stepSem l1 + length cs"
    using Cons.IH [OF es(3) l1(4)] Cons.prems(3) l1(2) by (auto simp: session_kept_def)
  have "feed handleLoggerEvent (map (canon None) es) l = Inr l'"
    using l1(1) l'(1) by (simp add: es(1) ds(1) capture_return)
  then show ?case using l1 l' ds(2,3) session_kept_trans [OF l1(2) l'(3)]
    by (intro exI [of _ l'] exI [of _ "p # ps"]) (simp add: capture_all_def)
qed (simp add: session_kept_def capture_all_def)

subsection \<open>Keys\<close>

lemma logger_loop_Poll:
  assumes "fresh_chunk s"
  shows "logger_loop (Poll key # is) s l = bindr (choicePrompt key l) (\<lambda>l.
    if l_fifoOpen l then logger_loop is (start_chunk s) l else Inr (False, start_chunk s, l))"
proof -
  have "unclosed_braces s = 0" "finish_chunk s = Inr []"
    using assms by (auto simp: fresh_chunk_def frame_def finish_chunk_def buf_ok_def cstr_def)
  then show ?thesis by (cases "choicePrompt key l") (simp_all add: logger_round_def read_input_def deliver_def)
qed

lemma printf_logger [simp]:
  "l_fifoOpen (printf m l) = l_fifoOpen l" "l_pendingInvocations (printf m l) = l_pendingInvocations l"
  "current_sequence (printf m l) = current_sequence l" "all_sequences (printf m l) = all_sequences l"
  "l_stepSem (printf m l) = l_stepSem l" "current_state (printf m l) = current_state l" "l_stdin (printf m l) = l_stdin l"
  "l_files (printf m l) = l_files l" "l_readable (printf m l) = l_readable l" "l_writable (printf m l) = l_writable l"
  "l_uname (printf m l) = l_uname l" "open_files (printf m l) = open_files l" "getOSName (printf m l) = getOSName l"
  by (simp_all add: printf_def open_files_def getOSName_def fun_eq_iff)

lemma show_choice_keeps [simp]:
  "session_kept l (show_choice l)" "current_sequence (show_choice l) = current_sequence l"
  "l_pendingInvocations (show_choice l) = l_pendingInvocations l" "l_stepSem (show_choice l) = l_stepSem l"
  "fuse_pid (show_choice l) = fuse_pid l" "kills (show_choice l) = kills l"
  by (simp_all add: show_choice_def session_kept_def split: logger_state.splits)

lemma key_start:
  assumes "current_state l = IDLE"
  shows "\<exists>l'. choicePrompt (Some (CHR ''s'')) l = Inr l' \<and> session_kept (l\<lparr>current_state := CAPTURING_SEQUENCE\<rparr>) l'
    \<and> current_sequence l' = current_sequence l \<and> l_pendingInvocations l' = l_pendingInvocations l
    \<and> l_stepSem l' = l_stepSem l"
  using assms show_choice_keeps [of l] by (simp add: choicePrompt_def handle_key_def session_kept_def)

lemma read_line_typed:
  "l_stdin l = (line @ [newline]) # rest \<Longrightarrow> cstring line \<Longrightarrow> read_line l = Inr (line, l\<lparr>l_stdin := rest\<rparr>)"
  by (simp add: read_line_def)

lemma key_end:
  assumes "current_state l = CAPTURING_SEQUENCE" "child (current_sequence l) \<noteq> []"
    and "l_stdin l = (action @ [newline]) # (application @ [newline]) # rest" "cstring action" "cstring application"
    and "getOSName l = Inr os"
  shows "\<exists>l'. choicePrompt (Some (CHR ''e'')) l = Inr l'
    \<and> session_kept (l\<lparr>current_state := IDLE, l_stdin := rest,
        all_sequences := add_items (all_sequences l) [sequence_object action application os (current_sequence l)]\<rparr>) l'
    \<and> current_sequence l' = cJSON_CreateArray \<and> l_pendingInvocations l' = l_pendingInvocations l
    \<and> l_stepSem l' = l_stepSem l"
proof -
  have kept: "session_kept l (show_choice l)" by simp
  have os: "getOSName (show_choice l) = Inr os" "getOSName (m\<lparr>l_stdin := x\<rparr>) = getOSName m" for m x
    using assms(6) kept by (simp_all add: getOSName_def session_kept_def)
  show ?thesis using assms(1-5) kept os
    by (simp add: choicePrompt_def handle_key_def end_capture_key_def save_sequence_def read_line_typed session_kept_def
        cJSON_GetArraySize_def Let_def)
qed

definition exportable :: "logger \<Rightarrow> string \<Rightarrow> cJSON \<Rightarrow> bool" where
  \<comment> \<open>the file can be written, and it is new or holds these groups\<close>
  "exportable l fname g \<longleftrightarrow> l_writable l fname \<and> is_array g \<and> wf_json g
     \<and> (case l_files l fname of None \<Rightarrow> g = cJSON_CreateArray
        | Some bytes \<Rightarrow> l_readable l fname \<and> bytes = json_text True 0 g)"

lemma canon_CreateArray [simp]: "canon None cJSON_CreateArray = cJSON_CreateArray"
  by (simp add: canon_array is_array_def cJSON_CreateArray_def cJSON_New_Item_def)

lemma export_writes:
  assumes "exportable l fname g" "wf_json (add_items (canon None g) [all_sequences l])"
  shows "\<exists>l'. export_sequences fname l = Inr l'
    \<and> l_files l' = (l_files l)(fname \<mapsto> json_text True 0 (add_items (canon None g) [all_sequences l]))
    \<and> l_stepSem l' = l_stepSem l \<and> fuse_pid l' = fuse_pid l \<and> kills l' = kills l"
proof (cases "l_files l fname")
  case None
  then show ?thesis using assms
    by (simp add: exportable_def export_sequences_def exportJSON_def cJSON_Print_wf)
next
  case (Some bytes)
  then have g: "bytes = json_text True 0 g" "wf_json g" "l_readable l fname" "l_writable l fname"
    using assms(1) by (auto simp: exportable_def)
  then have "parsed (cstr bytes) = Inr (Some (canon None g))" by (simp add: cstring_json_text parsed_json_text)
  then show ?thesis using assms(2) Some g(3,4)
    by (simp add: export_sequences_def readJSONFile_def open_files_def exportJSON_def cJSON_Print_wf Let_def)
qed

lemma key_quit:
  assumes "current_state l = IDLE" "child (all_sequences l) \<noteq> []" "l_stdin l = (fname @ [newline]) # rest"
    and "cstring fname" "fname \<noteq> []" "exportable l fname g" "wf_json (add_items (canon None g) [all_sequences l])"
  shows "\<exists>l'. choicePrompt (Some (CHR ''q'')) l = Inr l' \<and> \<not> l_fifoOpen l' \<and> fuse_pid l' = 0
    \<and> kills l' = kills l @ (if fuse_pid l = 0 then [] else [(fuse_pid l, SIGINT)]) \<and> l_stepSem l' = l_stepSem l + 50
    \<and> l_files l' = (l_files l)(fname \<mapsto> json_text True 0 (add_items (canon None g) [all_sequences l]))"
proof -
  let ?l = "(printf '' > '' (printf ''Enter filename to export sequences to. Leave blank to discard data.'' (show_choice l)))\<lparr>l_stdin := rest\<rparr>"
  have kept: "session_kept l (show_choice l)" by simp
  then have "exportable ?l fname g" "all_sequences ?l = all_sequences l"
    using assms(6) by (simp_all add: exportable_def session_kept_def cong: option.case_cong)
  then obtain l' where "export_sequences fname ?l = Inr l'" "l_stepSem l' = l_stepSem l" "fuse_pid l' = fuse_pid l" "kills l' = kills l"
     "l_files l' = (l_files l)(fname \<mapsto> json_text True 0 (add_items (canon None g) [all_sequences l]))"
    using export_writes [of ?l fname g] assms(7) kept by (auto simp: session_kept_def)
  then show ?thesis using assms(1-5) kept
    by (simp add: choicePrompt_def handle_key_def quit_key_def read_line_typed session_kept_def cJSON_GetArraySize_def
        quitLogger_def interrupt_fuse_def setFusePID_def Let_def kill_def printf_def)
qed

subsection \<open>The file\<close>

lemma add_items_array [simp]:
  "is_array (add_items a xs) = is_array a" "is_object (add_items a xs) = is_object a"
  "is_array a \<Longrightarrow> wf_json (add_items a xs) \<longleftrightarrow> wf_json a \<and> list_all wf_json xs"
proof -
  have "jtype (add_items a xs) = jtype a" by (cases a) (simp add: add_items_def)
  then show "is_array (add_items a xs) = is_array a" "is_object (add_items a xs) = is_object a"
    "is_array a \<Longrightarrow> wf_json (add_items a xs) \<longleftrightarrow> wf_json a \<and> list_all wf_json xs"
    by (auto simp: is_array_def is_object_def wf_json.simps [of a] wf_json.simps [of "add_items a xs"])
qed

lemma wf_captured: "wf_json p \<Longrightarrow> wf_json (captured name p)"
  by (simp add: captured_def json_add_defs)

lemma wf_capture_all: "logged_params cs ps \<Longrightarrow> list_all wf_json (capture_all cs ps)"
  by (induction cs arbitrary: ps) (auto simp: capture_all_def wf_canon wf_captured)

lemma length_capture_all: "logged_params cs ps \<Longrightarrow> length (capture_all cs ps) = length cs"
  by (induction cs arbitrary: ps) (auto simp: capture_all_def)

definition recorded_group :: "string \<Rightarrow> string \<Rightarrow> string \<Rightarrow> cJSON list \<Rightarrow> cJSON" where
  \<comment> \<open>the group of a session with one sequence\<close>
  "recorded_group action application os items = add_items cJSON_CreateArray
     [sequence_object action application os (add_items cJSON_CreateArray items)]"

lemma wf_recorded_group: "list_all wf_json items \<Longrightarrow> wf_json (recorded_group action application os items)"
  by (simp add: recorded_group_def sequence_object_def json_add_defs Let_def)

definition keystrokes :: "string \<Rightarrow> logger_input list" where
  \<comment> \<open>start capturing, the bytes of the calls, end capturing, quit\<close>
  "keystrokes bytes = Poll (Some (CHR ''s'')) # map Byte bytes @ [Poll (Some (CHR ''e'')), Poll (Some (CHR ''q''))]"

lemma fresh_again [simp]: "fresh_chunk s \<Longrightarrow> fresh_chunk (start_chunk s)"
  by (rule fresh_start(1)) (simp add: fresh_chunk_def)

lemma record_calls:
  assumes "framed_log calls n es" "fresh_chunk s" "l_fifoOpen l" "current_state l = CAPTURING_SEQUENCE" "l_pendingInvocations l = 0"
  shows "\<exists>s' l' ps. logger_loop (map Byte (concat (map (json_text True 0) es)) @ is) s l = logger_loop is s' l' \<and> fresh_chunk s'
    \<and> logged_params calls ps \<and> session_kept l l'
    \<and> current_sequence l' = add_items (current_sequence l) (capture_all calls ps)
    \<and> l_pendingInvocations l' = 0 \<and> l_stepSem l' = l_stepSem l + length calls"
proof -
  obtain l' ps where l': "feed handleLoggerEvent (map (canon None) es) l = Inr l'" "logged_params calls ps \<and> session_kept l l'
     \<and> current_sequence l' = add_items (current_sequence l) (capture_all calls ps)
     \<and> l_pendingInvocations l' = 0 \<and> l_stepSem l' = l_stepSem l + length calls"
    using feed_capture [OF assms(1,5,4)] by blast
  obtain s' where "logger_loop (map Byte (concat (map (json_text True 0) es)) @ is) s l
     = bindr (feed handleLoggerEvent (map (canon None) es) l) (logger_loop is s')" "fresh_chunk s'"
    using logger_loop_events [OF framed_log_sendable [OF assms(1)] assms(2,3)] by blast
  then show ?thesis using l' by (intro exI [of _ s'] exI [of _ l'] exI [of _ ps]) simp
qed

lemma record_sequence:
  assumes "framed_log calls n es" "calls \<noteq> []" "fresh_chunk s" "l_fifoOpen l" "current_state l = IDLE"
    and "l_pendingInvocations l = 0" "current_sequence l = cJSON_CreateArray"
    and "l_stdin l = (action @ [newline]) # (application @ [newline]) # rest" "cstring action" "cstring application"
    and "getOSName l = Inr os"
  shows "\<exists>s' l' ps. logger_loop (Poll (Some (CHR ''s'')) # map Byte (concat (map (json_text True 0) es)) @ Poll (Some (CHR ''e'')) # is) s l
      = logger_loop is s' l' \<and> fresh_chunk s' \<and> logged_params calls ps
    \<and> session_kept (l\<lparr>l_stdin := rest, all_sequences := add_items (all_sequences l)
        [sequence_object action application os (add_items cJSON_CreateArray (capture_all calls ps))]\<rparr>) l'
    \<and> l_stepSem l' = l_stepSem l + length calls"
proof -
  define lc where "lc = l\<lparr>current_state := CAPTURING_SEQUENCE\<rparr>"
  obtain l1 where l1: "choicePrompt (Some (CHR ''s'')) l = Inr l1" "session_kept lc l1"
    "current_sequence l1 = cJSON_CreateArray" "l_pendingInvocations l1 = 0" "l_stepSem l1 = l_stepSem l"
    using key_start [OF assms(5)] assms(6,7) by (auto simp: lc_def)
  then have cap: "l_fifoOpen l1" "current_state l1 = CAPTURING_SEQUENCE" using assms(4) by (auto simp: session_kept_def lc_def)
  obtain s2 l2 ps where l2: "logger_loop (map Byte (concat (map (json_text True 0) es)) @ Poll (Some (CHR ''e'')) # is) (start_chunk s) l1
      = logger_loop (Poll (Some (CHR ''e'')) # is) s2 l2" "fresh_chunk s2" "logged_params calls ps" "session_kept l1 l2"
    "current_sequence l2 = add_items cJSON_CreateArray (capture_all calls ps)" "l_stepSem l2 = l_stepSem l + length calls"
    using record_calls [OF assms(1) fresh_again [OF assms(3)] cap l1(4), of "Poll (Some (CHR ''e'')) # is"] l1(3,5) by auto
  have kept: "session_kept lc l2" using session_kept_trans [OF l1(2) l2(4)] .
  have "child (current_sequence l2) \<noteq> []" using length_capture_all [OF l2(3)] assms(2) l2(5) by auto
  moreover have "getOSName l2 = Inr os" using assms(11) kept by (simp add: session_kept_def lc_def getOSName_def)
  moreover have "current_state l2 = CAPTURING_SEQUENCE" "l_stdin l2 = (action @ [newline]) # (application @ [newline]) # rest"
    using kept assms(8) by (simp_all add: session_kept_def lc_def)
  ultimately obtain l3 where l3: "choicePrompt (Some (CHR ''e'')) l2 = Inr l3" "l_stepSem l3 = l_stepSem l2"
     "session_kept (l2\<lparr>current_state := IDLE, l_stdin := rest,
        all_sequences := add_items (all_sequences l2) [sequence_object action application os (current_sequence l2)]\<rparr>) l3"
    using key_end [OF _ _ _ assms(9,10)] by blast
  have "session_kept (l\<lparr>l_stdin := rest, all_sequences := add_items (all_sequences l)
        [sequence_object action application os (add_items cJSON_CreateArray (capture_all calls ps))]\<rparr>) l3" "l_fifoOpen l3"
    using l3(3) kept l2(5) assms(4,5) by (simp_all add: session_kept_def lc_def)
  then show ?thesis using l1(1) l2 l3(1,2) cap(1) assms(3)
    by (intro exI [of _ "start_chunk s2"] exI [of _ l3] exI [of _ ps]) (simp add: logger_loop_Poll del: logger_loop.simps(2))
qed

lemma recording_session:
  assumes "framed_log calls n es" "calls \<noteq> []" "current_state l = IDLE" "l_pendingInvocations l = 0"
    and "l_stdin l = (action @ [newline]) # (application @ [newline]) # (fname @ [newline]) # rest"
    and "cstring action" "cstring application" "cstring fname" "fname \<noteq> []" "getOSName l = Inr os" "exportable l fname g"
  shows "\<exists>l' ps. doStartLogger (Some (keystrokes (concat (map (json_text True 0) es)))) l = Inr (False, l')
    \<and> logged_params calls ps \<and> l_stepSem l' = l_stepSem l + length calls + 50
    \<and> l_files l' = (l_files l)(fname \<mapsto> json_text True 0
        (add_items (canon None g) [recorded_group action application os (capture_all calls ps)]))"
proof -
  define l0 where "l0 = l\<lparr>l_fifoOpen := True, current_sequence := cJSON_CreateArray, all_sequences := cJSON_CreateArray\<rparr>"
  have l0: "l_fifoOpen l0" "current_state l0 = IDLE" "l_pendingInvocations l0 = 0" "current_sequence l0 = cJSON_CreateArray"
    "l_stdin l0 = (action @ [newline]) # (application @ [newline]) # [(fname @ [newline])] @ rest" "getOSName l0 = Inr os"
    using assms(3-5,10) by (simp_all add: l0_def getOSName_def)
  obtain s1 l1 ps where l1: "logger_loop (keystrokes (concat (map (json_text True 0) es))) (start_chunk (open_reader [])) l0
      = logger_loop [Poll (Some (CHR ''q''))] s1 l1" "fresh_chunk s1" "logged_params calls ps"
    "session_kept (l0\<lparr>l_stdin := [(fname @ [newline])] @ rest, all_sequences := add_items (all_sequences l0)
        [sequence_object action application os (add_items cJSON_CreateArray (capture_all calls ps))]\<rparr>) l1"
    "l_stepSem l1 = l_stepSem l + length calls"
    using record_sequence [OF assms(1,2) fresh_start(2) l0(1-5) assms(6,7) l0(6), of "[Poll (Some (CHR ''q''))]" "[]"]
    unfolding keystrokes_def by (auto simp: l0_def simp del: logger_loop.simps(2))
  have all: "all_sequences l1 = recorded_group action application os (capture_all calls ps)" "l_files l1 = l_files l"
    "current_state l1 = IDLE" "l_stdin l1 = (fname @ [newline]) # rest" "exportable l1 fname g"
    using l1(4) l0(2) assms(11) by (simp_all add: session_kept_def recorded_group_def l0_def exportable_def cong: option.case_cong)
  have "wf_json (add_items (canon None g) [all_sequences l1])"
    using all(1) wf_recorded_group [OF wf_capture_all [OF l1(3)]] assms(11) by (simp add: exportable_def wf_canon)
  then obtain l2 where "choicePrompt (Some (CHR ''q'')) l1 = Inr l2" "\<not> l_fifoOpen l2" "l_stepSem l2 = l_stepSem l1 + 50"
    "l_files l2 = (l_files l1)(fname \<mapsto> json_text True 0 (add_items (canon None g) [all_sequences l1]))"
    using key_quit [OF all(3) _ all(4) assms(8,9) all(5)] all(1) by (auto simp: recorded_group_def)
  then show ?thesis using l1 all(1,2)
    by (intro exI [of _ "printf ''FUSE binary detached so logger will terminate.'' l2"] exI [of _ ps])
      (simp add: doStartLogger_def l0_def [symmetric] logger_loop_Poll del: logger_loop.simps(2))
qed

subsection \<open>The logger does not notice the end of the file system\<close>

lemma round_keeps_open:
  assumes "logger_round i s l = Inr (goes_on, s', l')" "l_fifoOpen l" "i \<noteq> Poll (Some (CHR ''q''))"
  shows "goes_on \<and> l_fifoOpen l'"
proof -
  have "l_fifoOpen l1" if "read_input i s l = Inr (s1, l1)" for s1 l1
    using that assms(2,3) unfolding read_input_def choicePrompt_def handle_key_def end_capture_key_def save_sequence_def read_line_def
    by (auto simp: Let_def show_choice_def elim!: bindr_InrE split: logger_input.splits option.splits logger_state.splits if_splits list.splits)
  moreover have "deliver handleLoggerEvent t l1 = Inr l2 \<Longrightarrow> l_fifoOpen l2 = l_fifoOpen l1" for t l1 l2
    by (auto simp: deliver_def handleLoggerEvent_open elim!: bindr_InrE split: if_splits)
  ultimately show ?thesis using assms(1) unfolding logger_round_def
    by (elim bindr_InrE) (auto elim!: bindr_InrE split: if_splits prod.splits)
qed

lemma loop_keeps_open:
  "logger_loop is s l = Inr (goes_on, s', l') \<Longrightarrow> l_fifoOpen l \<Longrightarrow> Poll (Some (CHR ''q'')) \<notin> set is \<Longrightarrow> goes_on"
proof (induction "is" arbitrary: s l)
  case (Cons i "is")
  obtain m s1 l1 where r: "logger_round i s l = Inr (m, s1, l1)"
    and rest: "(if m then logger_loop is s1 l1 else Inr (False, s1, l1)) = Inr (goes_on, s', l')"
    using Cons.prems(1) by (auto elim!: bindr_InrE)
  have "m \<and> l_fifoOpen l1" using round_keeps_open [OF r Cons.prems(2)] Cons.prems(3) by auto
  then show ?case using Cons.IH [of s1 l1] rest Cons.prems(3) by simp
qed simp

text \<open>
  C39. The logger waits forever once the file system has gone. Its check for the end of the pipe
  comes after one for -1, which is the value of \<open>EOF\<close>: without the key that ends the program, no
  input makes its loop return, neither an endless run of end-of-file results nor anything else.
\<close>

theorem logger_never_detaches:
  assumes "Poll (Some (CHR ''q'')) \<notin> set inputs" "doStartLogger (Some inputs) l = Inr (goes_on, l')"
  shows "goes_on"
proof -
  obtain s' l1 where "logger_loop inputs (start_chunk (open_reader []))
      (l\<lparr>l_fifoOpen := True, current_sequence := cJSON_CreateArray, all_sequences := cJSON_CreateArray\<rparr>) = Inr (goes_on, s', l1)"
    using assms(2) unfolding doStartLogger_def by (auto elim!: bindr_InrE)
  from loop_keeps_open [OF this _ assms(1)] show ?thesis by simp
qed

definition demo_logger :: logger where
  "demo_logger = \<lparr>abs_libpath = [], bin_path = [], usingGui = False, terminate_calls = 0, fuse_pid = 42,
     stopToolFunction = None, fs_mounted = True, shared_error = [], fsigs = None, resources = None, skipped_tests = None,
     test_data_file = None, start_sensitive = True, stop_sensitive = False, stdout = [], stderr = [], kills = [],
     dialogs = [], exited = None, l_fifoOpen = False, prompting = 0, l_pendingInvocations = 0,
     current_sequence = cJSON_CreateArray, all_sequences = cJSON_CreateArray, l_stepSem = 0, current_state = IDLE,
     l_stdin = [''made a directory'' @ [newline], ''mkdir'' @ [newline], ''data.json'' @ [newline]], l_files = Map.empty,
     l_readable = (\<lambda>_. True), l_writable = (\<lambda>_. True), l_uname = Some (''Linux'', ''3.2'')\<rparr>"

lemma demo_eof: "\<exists>l'. doStartLogger (Some (replicate 3 (Poll None))) demo_logger = Inr (True, l')"
  by (simp add: doStartLogger_def numeral_3_eq_3 logger_loop_Poll choicePrompt_def show_choice_def demo_logger_def printf_def
      del: logger_loop.simps(2))

theorem logger_never_detaches_witness:
  "Poll (Some (CHR ''q'')) \<notin> set (replicate 3 (Poll None))
   \<and> (\<exists>m l'. doStartLogger (Some (replicate 3 (Poll None))) demo_logger = Inr (m, l') \<and> m)"
proof -
  have q: "Poll (Some (CHR ''q'')) \<notin> set (replicate 3 (Poll None))" by simp
  obtain m l' where "doStartLogger (Some (replicate 3 (Poll None))) demo_logger = Inr (m, l')" using demo_eof by blast
  with logger_never_detaches [OF q this] q show ?thesis by blast
qed

end
