(* ===== verification/Record_Replay.thy ===== *)
theory Record_Replay
  imports Logger_Props Replay
begin

unbundle bit_operations_syntax

section \<open>Recording calls and replaying them\<close>

text \<open>
  The logger and the test suite together: a call that the wrappers of \<^verbatim>\<open>src/libfuse/lib/fuse.c\<close> write
  to the pipe, that the logger of \<^verbatim>\<open>src/logger.c\<close> keeps and exports, and that the test suite of
  \<^verbatim>\<open>src/testsuite_run.c\<close> reads from the file, is the call that was made. This holds for the
  operations that work on paths alone, with arguments in the range of an \<open>int\<close>; the test suite
  gives the others handles of its own.
\<close>

subsection \<open>Calls on paths\<close>

definition str_arg :: "string option \<Rightarrow> bool" where
  "str_arg s \<longleftrightarrow> (case s of None \<Rightarrow> False | Some t \<Rightarrow> cstring t)"

definition nat_arg :: "int \<Rightarrow> bool" where
  "nat_arg n \<longleftrightarrow> 0 \<le> n \<and> n \<le> INT_MAX"

definition stat_arg :: "stat \<Rightarrow> bool" where
  "stat_arg s \<longleftrightarrow> list_all nat_arg [st_dev s, st_ino s, st_mode s, st_nlink s, st_uid s, st_gid s, st_rdev s]
     \<and> list_all is_int [st_size s, st_atime s, st_mtime s, st_ctime s, st_blksize s, st_blocks s]"

definition statvfs_arg :: "statvfs \<Rightarrow> bool" where
  "statvfs_arg s \<longleftrightarrow> list_all nat_arg [f_bsize s, f_frsize s, f_blocks s, f_bfree s, f_bavail s, f_files s, f_ffree s,
     f_favail s, f_fsid s, f_flag s, f_namemax s]"

primrec path_call :: "fuse_call \<Rightarrow> bool" where
  "path_call (C_getattr path s) = (str_arg path \<and> stat_arg s)"
| "path_call (C_readlink path lnk sz bytes) = False"
| "path_call (C_getdir path b c) = False"
| "path_call (C_mknod path md dev) = (str_arg path \<and> nat_arg md \<and> nat_arg dev)"
| "path_call (C_mkdir path md) = (str_arg path \<and> nat_arg md)"
| "path_call (C_unlink path) = False"
| "path_call (C_rmdir path) = False"
| "path_call (C_symlink path lnk) = (str_arg path \<and> str_arg lnk)"
| "path_call (C_rename path newpath) = (str_arg path \<and> str_arg newpath)"
| "path_call (C_link path newpath) = (str_arg path \<and> str_arg newpath)"
| "path_call (C_chmod path md) = (str_arg path \<and> nat_arg md)"
| "path_call (C_chown path uid gid) = (str_arg path \<and> nat_arg uid \<and> nat_arg gid)"
| "path_call (C_truncate path newsize) = (str_arg path \<and> is_int newsize)"
| "path_call (C_utime path ubuf) = (str_arg path \<and> is_int (actime ubuf) \<and> is_int (modtime ubuf))"
| "path_call (C_open path fi) = False"
| "path_call (C_read path bytes sz offset fi) = False"
| "path_call (C_write path bf sz offset fi) = False"
| "path_call (C_statfs path statvfs) = (str_arg path \<and> statvfs_arg statvfs)"
| "path_call (C_flush path fi) = False"
| "path_call (C_release path fi) = False"
| "path_call (C_fsync path datasync fi) = False"
| "path_call (C_setxattr path name vl sz flg) = False"
| "path_call (C_getxattr path name vl sz bytes) = False"
| "path_call (C_listxattr path lst sz bytes) = False"
| "path_call (C_removexattr path name) = (str_arg path \<and> str_arg name)"
| "path_call (C_opendir path fi) = False"
| "path_call (C_readdir path bf fil offset fi) = False"
| "path_call (C_releasedir path fi) = False"
| "path_call (C_fsyncdir path datasync fi) = False"
| "path_call (C_init cn) = False"
| "path_call (C_destroy ud) = False"
| "path_call (C_access path msk) = (str_arg path \<and> is_int msk)"
| "path_call (C_create path md fi) = False"
| "path_call (C_ftruncate path offset fi) = False"
| "path_call (C_fgetattr path s fi) = False"
| "path_call (C_lock path fi cmd flock) = False"
| "path_call (C_utimens path tv) = (str_arg path \<and> list_all (\<lambda>t. is_int (tv_sec t) \<and> is_int (tv_nsec t)) tv)"
| "path_call (C_bmap path blocksize ix) = False"
| "path_call (C_ioctl path cmd arg fi flg dat) = False"
| "path_call (C_poll path fi ph reventsp) = False"
| "path_call (C_write_buf path bf ofs fi) = False"
| "path_call (C_read_buf path bufp sz ofs fi) = False"
| "path_call (C_flock path fi lop) = False"
| "path_call (C_fallocate path md offset leng fi) = False"

lemma nat_arg_int [simp]: "nat_arg n \<Longrightarrow> is_int n" "nat_arg n \<Longrightarrow> u32 n = n" "nat_arg n \<Longrightarrow> u64 n = n"
  by (simp_all add: nat_arg_def is_int_def u32_def u64_def)

subsection \<open>Reading the numbers of a structure\<close>

definition obj_of :: "(string \<times> cJSON) list \<Rightarrow> cJSON" where
  "obj_of kvs = foldl (\<lambda>ob (k, v). cJSON_AddItemToObject ob k v) cJSON_CreateObject kvs"

definition distinct_names :: "(string \<times> cJSON) list \<Rightarrow> bool" where
  "distinct_names kvs \<longleftrightarrow> distinct (map (map c_tolower \<circ> fst) kvs) \<and> list_all (cstring \<circ> fst) kvs"

lemma set_name_fields [simp]:
  "valueint (set_name nm c) = valueint c" "valuestring (set_name nm c) = valuestring c" "child (set_name nm c) = child c"
  by (cases c; simp)+

lemma set_name_canon [simp]: "set_name nm (canon nm' c) = canon nm c"
  by (simp add: canon.simps [of nm' c] canon.simps [of nm c] Let_def)

lemma member_canon: "is_object p \<Longrightarrow> member (canon nm p) k = map_option (canon None) (member p k)"
  by (simp add: member_def get_canon option.map_comp comp_def)

lemma is_object_obj_of [simp]: "is_object (obj_of kvs)"
proof -
  have "is_object ob \<Longrightarrow> is_object (foldl (\<lambda>ob (k, v). cJSON_AddItemToObject ob k v) ob kvs)" for ob
    by (induction kvs arbitrary: ob) auto
  then show ?thesis by (simp add: obj_of_def)
qed

lemma find_distinct: "distinct_names kvs \<Longrightarrow> (k, v) \<in> set kvs \<Longrightarrow> find (\<lambda>(k', _). same_name k' k) kvs = Some (k, v)"
proof (induction kvs)
  case (Cons kv kvs)
  obtain k' v' where kv: "kv = (k', v')" by fastforce
  have k: "cstring k" using Cons.prems by (auto simp: distinct_names_def list_all_iff)
  show ?case
  proof (cases "kv = (k, v)")
    case False
    then have "(k, v) \<in> set kvs" using Cons.prems(2) by auto
    moreover from this have "map c_tolower k' \<noteq> map c_tolower k"
      using Cons.prems(1) by (force simp: distinct_names_def kv)
    ultimately show ?thesis using Cons.IH Cons.prems(1) k by (simp add: kv distinct_names_def same_name_def)
  qed (simp add: same_name_def)
qed simp

lemma member_obj:
  assumes "distinct_names kvs" "(k, v) \<in> set kvs"
  shows "member (canon nm (obj_of kvs)) k = Some (canon None v)"
proof -
  have "cstring k" using assms by (auto simp: distinct_names_def list_all_iff)
  then show ?thesis
    using find_distinct [OF assms] by (simp add: member_canon) (simp add: obj_of_def js.get_puts)
qed

lemma get_item_obj:
  assumes "distinct_names kvs" "map_of kvs k = Some v"
  shows "\<exists>nm'. get_item (Some (canon nm (obj_of kvs))) k = Inr (canon nm' v)"
proof -
  obtain c where c: "cJSON_GetObjectItem (canon nm (obj_of kvs)) k = Some c" "set_name None c = canon None v"
    using member_obj [OF assms(1) map_of_SomeD [OF assms(2)]] by (auto simp: member_def)
  have "c = set_name (jname c) (set_name None c)" by (cases c) simp
  then show ?thesis using c by (intro exI [of _ "jname c"]) (simp add: get_item_def)
qed

lemma item_obj:
  assumes "distinct_names kvs"
  shows "map_of kvs k = Some (cJSON_CreateNumber (dbl_of_int n)) \<Longrightarrow> is_int n \<Longrightarrow> item_int (Some (canon nm (obj_of kvs))) k = Inr n"
    and "map_of kvs k = Some (cJSON_CreateString t) \<Longrightarrow> cstring t \<Longrightarrow> item_ptr (Some (canon nm (obj_of kvs))) k = Inr (Some t)"
    and "map_of kvs k = Some v \<Longrightarrow> (\<And>nm. f (canon nm v) = Inr r) \<Longrightarrow> bindr (get_item (Some (canon nm (obj_of kvs))) k) f = Inr r"
  using get_item_obj [OF assms, of k _ nm] by (force simp: item_int_def item_ptr_def canon_fields)+

subsection \<open>Structures\<close>

definition nums :: "(string \<times> int) list \<Rightarrow> (string \<times> cJSON) list" where
  "nums kvs = map (\<lambda>(k, n). (k, cJSON_CreateNumber (dbl_of_int n))) kvs"

lemma nums_simps [simp]: "nums [] = []" "nums ((k, n) # kvs) = (k, cJSON_CreateNumber (dbl_of_int n)) # nums kvs"
  by (simp_all add: nums_def)

lemma add_numbers_obj: "add_numbers cJSON_CreateObject kvs = obj_of (nums kvs)"
proof -
  have "add_numbers ob kvs = foldl (\<lambda>ob (k, v). cJSON_AddItemToObject ob k v) ob (nums kvs)" for ob
    unfolding add_numbers_def by (induction kvs arbitrary: ob) (auto simp: cJSON_AddNumberToObject_def)
  then show ?thesis by (simp add: obj_of_def)
qed

lemma fst_nums [simp]: "map (map c_tolower \<circ> fst) (nums kvs) = map (map c_tolower) (map fst kvs)"
  "list_all (cstring \<circ> fst) (nums kvs) = list_all cstring (map fst kvs)"
  by (induction kvs) auto

definition distinct_keys :: "string list \<Rightarrow> bool" where
  "distinct_keys ks \<longleftrightarrow> distinct (map (map c_tolower) ks) \<and> list_all cstring ks"

lemma struct_names:
  "distinct_keys ([''st_dev'', ''st_ino'', ''st_mode'', ''st_nlink'', ''st_uid'', ''st_gid'', ''st_rdev'',
     ''st_size'', ''st_atime'', ''st_mtime'', ''st_ctime'', ''st_blksize'', ''st_blocks''])"
  "distinct_keys ([''f_bsize'', ''f_frsize'', ''f_blocks'', ''f_bfree'', ''f_bavail'', ''f_files'',
     ''f_ffree'', ''f_favail'', ''f_fsid'', ''f_flag'', ''f_namemax''])"
  "distinct_keys ([''actime'', ''modtime''])" "distinct_keys ([''tv_sec'', ''tv_nsec''])"
  by (simp_all add: distinct_keys_def c_tolower_def)

lemma struct_read:
  "distinct_keys (map fst kvs) \<Longrightarrow> map_of kvs k = Some n \<Longrightarrow> is_int n
   \<Longrightarrow> item_int (Some (canon nm (add_numbers cJSON_CreateObject kvs))) k = Inr n"
proof -
  assume "distinct_keys (map fst kvs)" "map_of kvs k = Some n" "is_int n"
  moreover have "map_of (nums kvs) k = map_option (\<lambda>n. cJSON_CreateNumber (dbl_of_int n)) (map_of kvs k)"
    by (induction kvs) auto
  ultimately show ?thesis unfolding add_numbers_obj by (intro item_obj(1)) (simp_all add: distinct_names_def distinct_keys_def)
qed

lemma stat_read: "stat_arg s \<Longrightarrow> json_to_stat (canon nm (statToJSONObject s)) = Inr s"
  unfolding statToJSONObject_def json_to_stat_def
  by (subst struct_read, (simp only: list.map fst_conv struct_names; fail), simp, simp add: stat_arg_def)+ (simp add: stat_arg_def)

lemma statvfs_read: "statvfs_arg s \<Longrightarrow> json_to_statvfs (canon nm (statvfsToJSONObject s)) = Inr s"
  unfolding statvfsToJSONObject_def json_to_statvfs_def
  by (subst struct_read, (simp only: list.map fst_conv struct_names; fail), simp, simp add: statvfs_arg_def)+ (simp add: statvfs_arg_def)

lemma utimbuf_read: "is_int (actime u) \<Longrightarrow> is_int (modtime u) \<Longrightarrow> json_to_utimbuf (canon nm (utimbufToJSONObject u)) = Inr u"
  unfolding utimbufToJSONObject_def json_to_utimbuf_def
  by (subst struct_read, (simp only: list.map fst_conv struct_names; fail), simp, simp)+ simp

lemma timespec_read: "is_int (tv_sec t) \<Longrightarrow> is_int (tv_nsec t) \<Longrightarrow> json_to_timespec (canon nm (timespecToJSONObject t)) = Inr t"
  unfolding timespecToJSONObject_def json_to_timespec_def
  by (subst struct_read, (simp only: list.map fst_conv struct_names; fail), simp, simp)+ simp

lemma timespecs_read:
  assumes "list_all (\<lambda>t. is_int (tv_sec t) \<and> is_int (tv_nsec t)) tv"
  shows "json_to_timespec_array (canon nm (timespecArrayToJSONObject tv)) = Inr tv"
proof -
  have "foldl (\<lambda>obj t. cJSON_AddItemToArray obj (timespecToJSONObject t)) ob tv = add_items ob (map timespecToJSONObject tv)" for ob
    by (induction tv arbitrary: ob) auto
  then have "child (canon nm (timespecArrayToJSONObject tv)) = map (canon None) (map timespecToJSONObject tv)"
    by (simp add: timespecArrayToJSONObject_def canon_array)
  moreover have "thoser (map (\<lambda>t. json_to_timespec (canon None (timespecToJSONObject t))) tv) = Inr tv"
    using assms by (induction tv) (simp_all add: timespec_read)
  ultimately show ?thesis by (simp add: json_to_timespec_array_def comp_def)
qed

subsection \<open>Calls\<close>

primrec field_kv :: "json_field \<Rightarrow> string \<times> cJSON" where
  "field_kv (FStr k s) = (k, cJSON_CreateString (case s of Inr t \<Rightarrow> t | Inl _ \<Rightarrow> []))"
| "field_kv (FNum k n) = (k, cJSON_CreateNumber (dbl_of_int n))"
| "field_kv (FItem k c) = (k, c)"
| "field_kv (FNull k) = (k, cJSON_CreateNull)"

lemma add_fields_obj: "add_fields cJSON_CreateObject fs = Inr p \<Longrightarrow> p = obj_of (map field_kv fs)"
proof -
  have "add_fields ob fs = Inr p \<Longrightarrow> p = foldl (\<lambda>ob (k, v). cJSON_AddItemToObject ob k v) ob (map field_kv fs)" for ob
  proof (induction fs arbitrary: ob)
    case (Cons f fs)
    then show ?case by (cases f) (auto simp: json_add_defs elim!: bindr_InrE)
  qed simp
  then show "add_fields cJSON_CreateObject fs = Inr p \<Longrightarrow> p = obj_of (map field_kv fs)" by (simp add: obj_of_def)
qed

lemma str_argE: "str_arg s \<Longrightarrow> (\<And>t. s = Some t \<Longrightarrow> cstring t \<Longrightarrow> P) \<Longrightarrow> P"
  by (auto simp: str_arg_def split: option.splits)

lemma path_call_decoded:
  assumes "path_call c" "add_fields cJSON_CreateObject (call_params c) = Inr p"
  shows "\<exists>f. replay_op_of (op_name c) = Some f \<and> f h (Some (canon nm p)) d = Inr (c, Plain)"
proof -
  note [simp] = item_obj distinct_names_def c_tolower_def stat_read statvfs_read utimbuf_read timespecs_read item_u32_def item_u64_def
  show ?thesis
    unfolding add_fields_obj [OF assms(2)] using assms(1)
    by (cases c) (auto simp: replay_op_of_def replay_getattr_def replay_mknod_def replay_mkdir_def replay_symlink_def
        replay_rename_def replay_link_def replay_chmod_def replay_chown_def replay_truncate_def replay_utime_def
        replay_statfs_def replay_removexattr_def replay_access_def replay_utimens_def elim!: str_argE)
qed

fun replay_items :: "ts_host \<Rightarrow> 's fuse_operations \<Rightarrow> cJSON list \<Rightarrow> 's side \<Rightarrow> (int list \<times> 's side) c_res" where
  \<comment> \<open>the calls of a sequence made to one file system\<close>
  "replay_items h fo [] d = Inr ([], d)"
| "replay_items h fo (item # items) d = bindr (item_string (Some item) ''name'') (\<lambda>name.
     bindr (make_call h (Some fo) name (cJSON_GetObjectItem item ''params'') d) (\<lambda>(r, d).
     bindr (replay_items h fo items d) (\<lambda>(rs, d). Inr (retval r # rs, d))))"

lemma captured_items:
  "item_string (Some (canon nm (captured name p))) ''name'' = Inr (cstr name)"
  "cJSON_GetObjectItem (canon nm (captured name p)) ''params'' = Some (canon (Some ''params'') p)"
  by (simp_all add: item_string_def get_item_def cJSON_GetObjectItem_def canon_object captured_child cJSON_strcasecmp_def
      c_tolower_def canon_fields)

lemma cstr_op_name [simp]: "cstr (op_name c) = op_name c"
  by (rule cstr_id) (cases c; simp)

lemma replay_captured:
  assumes "path_call c" "add_fields cJSON_CreateObject (call_params c) = Inr p" "has_op fo (op_name c)"
    and "run_op fo c (sd_user d) = (r, u)"
  shows "make_call h (Some fo) (op_name c) (Some (canon nm p)) d
    = Inr (\<lparr>retval = ret r, func_not_defined = False, call_error = None\<rparr>, d\<lparr>sd_user := u\<rparr>)"
proof -
  obtain f where "replay_op_of (op_name c) = Some f" "f h (Some (canon nm p)) d = Inr (c, Plain)"
    using path_call_decoded [OF assms(1,2)] by blast
  then show ?thesis using assms(3,4) by (simp add: make_call_def perform_def call_plain_op_def)
qed

lemma replay_capture_all:
  "logged_params calls ps \<Longrightarrow> list_all path_call calls \<Longrightarrow> list_all (\<lambda>c. has_op fo (op_name c)) calls
   \<Longrightarrow> run_direct fo calls (sd_user d) = (outs, u)
   \<Longrightarrow> replay_items h fo (capture_all calls ps) d = Inr (map ret outs, d\<lparr>sd_user := u\<rparr>)"
proof (induction calls arbitrary: ps d outs)
  case (Cons c cs)
  obtain p qs where ps: "ps = p # qs" "add_fields cJSON_CreateObject (call_params c) = Inr p" "logged_params cs qs"
    using Cons.prems(1) by auto
  obtain r u1 where r: "run_op fo c (sd_user d) = (r, u1)" by fastforce
  obtain rs where rs: "run_direct fo cs u1 = (rs, u)" "outs = r # rs"
    using Cons.prems(4) r by (auto split: prod.splits)
  have "replay_items h fo (capture_all cs qs) (d\<lparr>sd_user := u1\<rparr>) = Inr (map ret rs, d\<lparr>sd_user := u\<rparr>)"
    using Cons.IH [OF ps(3), of "d\<lparr>sd_user := u1\<rparr>" rs] Cons.prems(2,3) rs(1) by simp
  then show ?case
    using Cons.prems(2,3) replay_captured [OF _ ps(2) _ r] rs(2)
    by (simp add: capture_all_def ps(1) captured_items)
qed (simp add: capture_all_def)

lemma run_loggable_ops: "run_loggable op calls u \<Longrightarrow> list_all (\<lambda>c. has_op op (op_name c)) calls"
  by (induction calls arbitrary: u) (auto split: prod.splits)

subsection \<open>The exported file\<close>

lemma sequence_object_child:
  "is_object (sequence_object action application os calls)"
  "child (sequence_object action application os calls) =
     [set_name (Some ''action'') (cJSON_CreateString action), set_name (Some ''application'') (cJSON_CreateString application),
      set_name (Some ''os'') (cJSON_CreateString os), set_name (Some ''calls'') calls]"
  by (simp_all add: sequence_object_def json_add_defs Let_def cstr_def)

lemma sequence_object_items:
  "item_string (Some (canon nm (sequence_object action application os calls))) ''action'' = Inr (cstr action)"
  "item_string (Some (canon nm (sequence_object action application os calls))) ''application'' = Inr (cstr application)"
  "item_string (Some (canon nm (sequence_object action application os calls))) ''os'' = Inr (cstr os)"
  "get_item (Some (canon nm (sequence_object action application os calls))) ''calls'' = Inr (canon (Some ''calls'') calls)"
  by (simp_all add: item_string_def get_item_def cJSON_GetObjectItem_def canon_object sequence_object_child
      cJSON_strcasecmp_def c_tolower_def canon_fields)

lemma canon_capture_all: "map (canon None) (capture_all cs ps) = capture_all cs ps"
  by (simp add: capture_all_def split_beta)

lemma exported_groups:
  assumes "wf_json g" "is_array g" "list_all wf_json items"
  shows "\<exists>groups. parsed (cstr (json_text True 0 (add_items (canon None g) [recorded_group action application os items])))
      = Inr (Some groups)
    \<and> child groups = map (canon None) (child g) @ [canon None (recorded_group action application os items)]"
proof -
  have "wf_json (add_items (canon None g) [recorded_group action application os items])"
    using assms(1-3) wf_recorded_group by (simp add: wf_canon)
  moreover have "child (canon None g) = map (canon None) (child g)" using assms(2) by (simp add: canon_array)
  ultimately show ?thesis using assms(2)
    by (intro exI conjI) (simp add: cstring_json_text parsed_json_text, subst canon_array, simp_all)
qed

lemma demo_logger_session:
  "current_state demo_logger = IDLE" "l_pendingInvocations demo_logger = 0" "getOSName demo_logger = Inr ''Linux 3.2''"
  "l_stdin demo_logger = (''made a directory'' @ [newline]) # (''mkdir'' @ [newline]) # (''data.json'' @ [newline]) # []"
  "exportable demo_logger ''data.json'' cJSON_CreateArray"
  by (simp_all add: demo_logger_def getOSName_def alloc_write_def exportable_def)

end
