(* ===== verification/Testsuite.thy ===== *)
theory Testsuite
  imports Wizard Refinement
begin

section \<open>The test suite window\<close>

text \<open>
  The model of \<^verbatim>\<open>src/testsuite.c\<close>: the thread that receives the events of the test suite, and the
  idle function of the GUI that shows them as a tree of groups, sequences and calls. The tree store
  is a forest of rows. An iterator is the path to a row and the stamp the store had when it was
  made: clearing the store changes the stamp, and a call with an older iterator breaks the
  contract of the library, as does setting a row through a null iterator. The linked lists of the
  code begin with a node without data, which the model leaves out. The code tells events apart
  by their addresses; the model does so by their place in the list, from which nothing is removed.
  The complaint on the console about a failing test without a message is left out.
\<close>

datatype ts_row = TsRow (ts_test: "string option") (ts_status: "string option") (ts_rows: "ts_row list")

type_synonym ts_iter = "nat \<times> nat list"

record testsuite = wizard +
  ts_events :: "cJSON list option"
  ts_events_displayed :: "nat list option"
  ts_store :: "ts_row list"
  ts_stamp :: nat
  group_iter :: "ts_iter option"
  sequence_iter :: "ts_iter option"
  testdata_select_open :: bool
  testdata_field :: string
  ts_recv_end_event :: bool

subsection \<open>The tree store\<close>

primrec set_status :: "string \<Rightarrow> ts_row \<Rightarrow> ts_row" where
  "set_status s (TsRow t _ rs) = TsRow t (Some s) rs"

primrec put_row :: "ts_row \<Rightarrow> ts_row \<Rightarrow> ts_row" where
  "put_row r (TsRow t s rs) = TsRow t s (rs @ [r])"

fun at_path :: "nat list \<Rightarrow> (ts_row \<Rightarrow> ts_row) \<Rightarrow> ts_row list \<Rightarrow> ts_row list" where
  \<comment> \<open>the row at a path changed\<close>
  "at_path [] f rs = rs"
| "at_path [i] f rs = (if i < length rs then rs[i := f (rs ! i)] else rs)"
| "at_path (i # is) f rs = (if i < length rs
     then rs[i := (case rs ! i of TsRow t s cs \<Rightarrow> TsRow t s (at_path is f cs))] else rs)"

fun rows_at :: "nat list \<Rightarrow> ts_row list \<Rightarrow> ts_row list" where
  "rows_at [] rs = rs"
| "rows_at (i # is) rs = (if i < length rs then rows_at is (ts_rows (rs ! i)) else [])"

definition valid_iter :: "ts_iter \<Rightarrow> 'a testsuite_scheme \<Rightarrow> nat list c_res" where
  "valid_iter it d = (if fst it = ts_stamp d then Inr (snd it) else Inl UseAfterFree)"

definition tree_store_append :: "ts_row \<Rightarrow> ts_iter option \<Rightarrow> 'a testsuite_scheme \<Rightarrow> (ts_iter \<times> 'a testsuite_scheme) c_res" where
  \<comment> \<open>\<open>gtk_tree_store_append\<close> and the values set in the new row; without a parent the row is on the top level\<close>
  "tree_store_append r parent d = (case parent of
     None \<Rightarrow> Inr ((ts_stamp d, [length (ts_store d)]), d\<lparr>ts_store := ts_store d @ [r]\<rparr>)
   | Some it \<Rightarrow> bindr (valid_iter it d) (\<lambda>p.
       Inr ((ts_stamp d, p @ [length (rows_at p (ts_store d))]), d\<lparr>ts_store := at_path p (put_row r) (ts_store d)\<rparr>)))"

definition tree_store_set_status :: "string \<Rightarrow> ts_iter option \<Rightarrow> 'a testsuite_scheme \<Rightarrow> 'a testsuite_scheme c_res" where
  "tree_store_set_status result it d = bindr (of_opt NullPointer it) (\<lambda>it. bindr (valid_iter it d) (\<lambda>p.
     Inr (d\<lparr>ts_store := at_path p (set_status result) (ts_store d)\<rparr>)))"

definition tree_store_clear :: "'a testsuite_scheme \<Rightarrow> 'a testsuite_scheme" where
  "tree_store_clear d = d\<lparr>ts_store := [], ts_stamp := ts_stamp d + 1\<rparr>"

subsection \<open>Choosing the test data\<close>

definition testdata_select_okbutton_handler :: "string \<Rightarrow> 'a testsuite_scheme \<Rightarrow> 'a testsuite_scheme" where
  "testdata_select_okbutton_handler filename d =
     setTestDataFile filename (d\<lparr>testdata_field := filename, testdata_select_open := False\<rparr>)"

definition testdata_select_cancelbutton_handler :: "'a testsuite_scheme \<Rightarrow> 'a testsuite_scheme" where
  "testdata_select_cancelbutton_handler d = d\<lparr>testdata_select_open := False\<rparr>"

definition testdata_select_close_handler :: "'a testsuite_scheme \<Rightarrow> bool \<times> 'a testsuite_scheme" where
  "testdata_select_close_handler d = (False, d\<lparr>testdata_select_open := False\<rparr>)"

definition testdata_select_handler :: "'a testsuite_scheme \<Rightarrow> bool \<times> 'a testsuite_scheme" where
  \<comment> \<open>the result says whether a dialog is opened\<close>
  "testdata_select_handler d = (if testdata_select_open d then (False, d) else (True, d\<lparr>testdata_select_open := True\<rparr>))"

subsection \<open>Receiving events\<close>

definition startTestsuite :: "'a testsuite_scheme \<Rightarrow> tool \<times> 'a testsuite_scheme" where
  "startTestsuite d = (Testsuite_tool, d\<lparr>ts_recv_end_event := False\<rparr>)"

definition reset_testsuite :: "'a testsuite_scheme \<Rightarrow> 'a testsuite_scheme" where
  "reset_testsuite d = d\<lparr>ts_events := Some [], ts_events_displayed := Some []\<rparr>"

definition handleTestsuiteEvent :: "('a testsuite_scheme) event_handler" where
  "handleTestsuiteEvent event d =
    bindr (case event of None \<Rightarrow> Inl NullPointer | Some e \<Rightarrow> (case cJSON_Print e of
        Inr json \<Rightarrow> Inr json | Inl NullResult \<Rightarrow> Inl NullPointer | Inl x \<Rightarrow> Inl x)) (\<lambda>json.
    bindr (item_string event ''func_name'') (\<lambda>func_name.
    let d = printf json d in
    if func_name = ''__END'' then
      Inr (printf ''FUSE binary detached so test suite will terminate.'' (setFusePID 0 (d\<lparr>ts_recv_end_event := True\<rparr>)))
    else if usingGui d then Inr (d\<lparr>ts_events := Some (nodes (ts_events d) @ [the event])\<rparr>)
    else Inr d))"

definition doStartTestsuite :: "string option \<Rightarrow> 'a testsuite_scheme \<Rightarrow> 'a testsuite_scheme c_res option" where
  "doStartTestsuite fifo d = (let d = reset_testsuite d in
     case fifo of None \<Rightarrow> Some (Inr d) | Some bytes \<Rightarrow> receive handleTestsuiteEvent bytes d)"

definition stopTestsuite :: "'a testsuite_scheme \<Rightarrow> 'a testsuite_scheme" where
  "stopTestsuite d = (let pid = fuse_pid d in
     if pid \<noteq> 0 then printf ''Sent SIGINT to FUSE binary'' (kill pid SIGINT (setFusePID 0 d)) else d)"

subsection \<open>Showing events\<close>

function showFailingTestParams :: "cJSON \<Rightarrow> ts_row list c_res" where
  \<comment> \<open>the rows below a node; each one is put before those of the items ahead of it\<close>
  "showFailingTestParams node = (if is_inside node
     then bindr (thoser (map (\<lambda>item. bindr (param_label item) (\<lambda>label.
            bindr (showFailingTestParams item) (\<lambda>rs. Inr (TsRow label None rs)))) (child node))) (\<lambda>rs. Inr (rev rs))
     else Inr [])"
  by pat_completeness auto
termination
  by (relation "measure size") (auto dest: size_child_item)

declare showFailingTestParams.simps [simp del]

definition result_text :: "cJSON \<Rightarrow> string c_res" where
  "result_text event = bindr (item_int (Some event) ''passed'') (\<lambda>passed. Inr (if passed = 0 then ''FAIL'' else ''PASS''))"

definition message_row :: "cJSON \<Rightarrow> ts_row list c_res" where
  "message_row event = (case cJSON_GetObjectItem event ''message'' of
     None \<Rightarrow> Inr []
   | Some message \<Rightarrow> bindr (of_opt NullPointer (valuestring message)) (\<lambda>m. Inr [TsRow (Some (wrap_text m 40)) None []]))"

definition params_row :: "cJSON \<Rightarrow> ts_row list c_res" where
  "params_row event = (case cJSON_GetObjectItem event ''params'' of
     None \<Rightarrow> Inr []
   | Some params \<Rightarrow> bindr (showFailingTestParams params) (\<lambda>rs. Inr [TsRow (Some ''Parameters passed to function'') None rs]))"

definition call_row :: "string \<Rightarrow> cJSON \<Rightarrow> ts_row c_res" where
  "call_row test_name event =
    bindr (result_text event) (\<lambda>result.
    bindr (if result = ''FAIL'' then bindr (message_row event) (\<lambda>ms. bindr (params_row event) (\<lambda>ps. Inr (ms @ ps)))
           else Inr []) (\<lambda>rs.
    Inr (TsRow (Some test_name) (Some result) rs)))"

definition sequence_label :: "cJSON \<Rightarrow> string c_res" where
  "sequence_label event =
    bindr (item_string (Some event) ''action'') (\<lambda>action.
    bindr (item_string (Some event) ''application'') (\<lambda>application.
    bindr (item_string (Some event) ''os'') (\<lambda>os.
      alloc_write (length action + length application + length os + 128) (action @ '' using '' @ application @ '' on '' @ os))))"

definition show_ts_event :: "cJSON \<Rightarrow> 'a testsuite_scheme \<Rightarrow> 'a testsuite_scheme c_res" where
  "show_ts_event event d = bindr (item_string (Some event) ''func_name'') (\<lambda>test_name.
    if test_name = ''__GROUP_START'' then
      bindr (tree_store_append (TsRow (Some ''Test Group'') (Some ''Running'') []) None d) (\<lambda>(it, d).
        Inr (d\<lparr>group_iter := Some it\<rparr>))
    else if test_name = ''__SEQUENCE_START'' then
      bindr (sequence_label event) (\<lambda>label.
      bindr (tree_store_append (TsRow (Some label) (Some ''Running'') []) (group_iter d) d) (\<lambda>(it, d).
        Inr (d\<lparr>sequence_iter := Some it\<rparr>)))
    else if test_name = ''__SEQUENCE_END'' then
      bindr (result_text event) (\<lambda>result.
      bindr (tree_store_set_status result (sequence_iter d) d) (\<lambda>d. Inr (d\<lparr>sequence_iter := None\<rparr>)))
    else if test_name = ''__GROUP_END'' then
      bindr (result_text event) (\<lambda>result.
      bindr (tree_store_set_status result (group_iter d) d) (\<lambda>d. Inr (d\<lparr>group_iter := None\<rparr>)))
    else if test_name = ''__ERROR'' then
      bindr (item_string (Some event) ''message'') (\<lambda>m. Inr (d\<lparr>dialogs := dialogs d @ [m]\<rparr>))
    else bindr (call_row test_name event) (\<lambda>r.
      bindr (tree_store_append r (sequence_iter d) d) (\<lambda>(_, d). Inr d)))"

definition isTSFunctionDisplayed :: "nat \<Rightarrow> 'a testsuite_scheme \<Rightarrow> bool" where
  "isTSFunctionDisplayed i d \<longleftrightarrow> i \<in> set (case ts_events_displayed d of None \<Rightarrow> [] | Some is \<Rightarrow> is)"

definition show_new_event :: "nat \<times> cJSON \<Rightarrow> 'a testsuite_scheme \<Rightarrow> 'a testsuite_scheme c_res" where
  "show_new_event = (\<lambda>(i, event) d. if isTSFunctionDisplayed i d then Inr d
     else bindr (show_ts_event event d) (\<lambda>d. Inr (d\<lparr>ts_events_displayed :=
       Some (i # (case ts_events_displayed d of None \<Rightarrow> [] | Some is \<Rightarrow> is))\<rparr>)))"

definition gui_idle_testsuite :: "'a testsuite_scheme \<Rightarrow> 'a testsuite_scheme c_res" where
  \<comment> \<open>runs under the lock of the list\<close>
  "gui_idle_testsuite d = (let d = (if ts_events_displayed d = Some [] then tree_store_clear d else d);
       es = nodes (ts_events d)
     in run_actions show_new_event (zip [0..<length es] es) d)"

end
