(* ===== verification/Testsuite_Props.thy ===== *)
theory Testsuite_Props
  imports Testsuite Replay Debugger_Props
begin

section \<open>The tree of test results\<close>

text \<open>
  What the window of the test suite shows. A table is the abstract state of the tree: the groups
  that are complete, the sequences of the group that is running and the calls of the sequence that
  is running. The code is related to it through the interface \<open>simulation\<close>: events arrive and the
  idle function runs in any order.
\<close>

subsection \<open>Tables\<close>

datatype ts_entry =
    Group_begins | Sequence_begins string | Call ts_row | Sequence_ends string | Group_ends string | Error string

record table =
  t_done :: "ts_row list"
  t_group :: "ts_row list option"
  t_seq :: "(string \<times> ts_row list) option"

definition empty_table :: table where
  "empty_table = \<lparr>t_done = [], t_group = None, t_seq = None\<rparr>"

definition ts_entry :: "cJSON \<Rightarrow> ts_entry c_res" where
  \<comment> \<open>what an event says\<close>
  "ts_entry event = bindr (item_string (Some event) ''func_name'') (\<lambda>test_name.
    if test_name = ''__GROUP_START'' then Inr Group_begins
    else if test_name = ''__SEQUENCE_START'' then bindr (sequence_label event) (\<lambda>label. Inr (Sequence_begins label))
    else if test_name = ''__SEQUENCE_END'' then bindr (result_text event) (\<lambda>result. Inr (Sequence_ends result))
    else if test_name = ''__GROUP_END'' then bindr (result_text event) (\<lambda>result. Inr (Group_ends result))
    else if test_name = ''__ERROR'' then bindr (item_string (Some event) ''message'') (\<lambda>m. Inr (Error m))
    else bindr (call_row test_name event) (\<lambda>r. Inr (Call r)))"

fun enter :: "ts_entry \<Rightarrow> table \<Rightarrow> table" where
  "enter Group_begins a = a\<lparr>t_group := Some []\<rparr>"
| "enter (Sequence_begins label) a = a\<lparr>t_seq := Some (label, [])\<rparr>"
| "enter (Call r) a = (case t_seq a of
     Some (label, rs) \<Rightarrow> a\<lparr>t_seq := Some (label, rs @ [r])\<rparr> | None \<Rightarrow> a\<lparr>t_done := t_done a @ [r]\<rparr>)"
| "enter (Sequence_ends result) a = (case t_seq a of
     Some (label, rs) \<Rightarrow> a\<lparr>t_group := map_option (\<lambda>ss. ss @ [TsRow (Some label) (Some result) rs]) (t_group a), t_seq := None\<rparr>
   | None \<Rightarrow> a)"
| "enter (Group_ends result) a = (case t_group a of
     Some ss \<Rightarrow> a\<lparr>t_done := t_done a @ [TsRow (Some ''Test Group'') (Some result) ss], t_group := None\<rparr> | None \<Rightarrow> a)"
| "enter (Error m) a = a"

fun enters :: "ts_entry \<Rightarrow> table \<Rightarrow> bool" where
  \<comment> \<open>the entry comes at its place\<close>
  "enters Group_begins a \<longleftrightarrow> t_group a = None \<and> t_seq a = None"
| "enters (Sequence_begins label) a \<longleftrightarrow> t_group a \<noteq> None \<and> t_seq a = None"
| "enters (Call r) a \<longleftrightarrow> t_group a = None \<or> t_seq a \<noteq> None"
| "enters (Sequence_ends result) a \<longleftrightarrow> t_group a \<noteq> None \<and> t_seq a \<noteq> None"
| "enters (Group_ends result) a \<longleftrightarrow> t_group a \<noteq> None \<and> t_seq a = None"
| "enters (Error m) a \<longleftrightarrow> True"

definition table_rows :: "table \<Rightarrow> ts_row list" where
  "table_rows a = t_done a @ (case t_group a of None \<Rightarrow> []
     | Some ss \<Rightarrow> [TsRow (Some ''Test Group'') (Some ''Running'') (ss @ (case t_seq a of None \<Rightarrow> []
         | Some (label, rs) \<Rightarrow> [TsRow (Some label) (Some ''Running'') rs]))])"

definition shows_table :: "table \<Rightarrow> 'a testsuite_scheme \<Rightarrow> bool" where
  "shows_table a d \<longleftrightarrow> ts_store d = table_rows a
     \<and> (case t_group a of None \<Rightarrow> t_seq a = None | Some ss \<Rightarrow> group_iter d = Some (ts_stamp d, [length (t_done a)]))
     \<and> (case t_seq a of None \<Rightarrow> sequence_iter d = None
        | Some _ \<Rightarrow> sequence_iter d = Some (ts_stamp d, [length (t_done a), length (the (t_group a))]))"

definition same_events :: "'a testsuite_scheme \<Rightarrow> 'a testsuite_scheme \<Rightarrow> bool" where
  "same_events d d' \<longleftrightarrow> ts_events d' = ts_events d \<and> ts_events_displayed d' = ts_events_displayed d \<and> usingGui d' = usingGui d"

lemma show_entry:
  assumes "shows_table a d" "ts_entry e = Inr x" "enters x a"
  shows "\<exists>d'. show_ts_event e d = Inr d' \<and> shows_table (enter x a) d' \<and> same_events d d'"
proof -
  obtain n where n: "item_string (Some e) ''func_name'' = Inr n" using assms(2) by (auto simp: ts_entry_def elim: bindr_InrE)
  note sim = ts_entry_def show_ts_event_def shows_table_def table_rows_def same_events_def tree_store_append_def
    tree_store_set_status_def valid_iter_def n
  show ?thesis
    using assms by (cases x; auto simp: sim elim!: bindr_InrE split: if_splits option.splits prod.splits)
qed

subsection \<open>Events arrive and are shown\<close>

datatype ts_action = Arrives cJSON | Refresh

definition ts_code :: "ts_action \<Rightarrow> 'a testsuite_scheme \<Rightarrow> 'a testsuite_scheme c_res" where
  "ts_code x d = (case x of Arrives e \<Rightarrow> handleTestsuiteEvent (Some e) d | Refresh \<Rightarrow> gui_idle_testsuite d)"

fun enter_all :: "cJSON list \<Rightarrow> table \<Rightarrow> table c_res" where
  \<comment> \<open>the table of events that come at their places\<close>
  "enter_all [] a = Inr a"
| "enter_all (e # es) a = bindr (ts_entry e) (\<lambda>x. if enters x a then enter_all es (enter x a) else Inl Uninitialised)"

lemma enter_all_append: "enter_all (es @ fs) a = bindr (enter_all es a) (enter_all fs)"
proof (induction es arbitrary: a)
  case (Cons e es)
  then show ?case by (cases "ts_entry e") simp_all
qed simp

type_synonym ts_window = "cJSON list \<times> nat"

definition tsw_step :: "ts_action \<Rightarrow> ts_window \<Rightarrow> ts_window" where
  "tsw_step x = (\<lambda>(es, n). case x of Arrives e \<Rightarrow> (es @ [e], n) | Refresh \<Rightarrow> (es, length es))"

definition ts_rel :: "ts_window \<Rightarrow> 'a testsuite_scheme \<Rightarrow> bool" where
  \<comment> \<open>the received events, and how many of them are shown\<close>
  "ts_rel = (\<lambda>(es, n) d. usingGui d \<and> ts_events d = Some es \<and> ts_events_displayed d = Some (rev [0..<n]) \<and> n \<le> length es
     \<and> (\<exists>a. enter_all es empty_table = Inr a)
     \<and> (if n = 0 then sequence_iter d = None else \<exists>a. enter_all (take n es) empty_table = Inr a \<and> shows_table a d))"

definition ts_ok :: "ts_action \<Rightarrow> ts_window \<Rightarrow> bool" where
  "ts_ok x = (\<lambda>(es, n). case x of
     Arrives e \<Rightarrow> (\<exists>json. cJSON_Print e = Inr json) \<and> item_string (Some e) ''func_name'' \<noteq> Inr ''__END''
       \<and> (\<exists>a. enter_all (es @ [e]) empty_table = Inr a)
   | Refresh \<Rightarrow> True)"

lemma window_simps [simp]:
  "tsw_step (Arrives e) (es, n) = (es @ [e], n)" "tsw_step Refresh (es, n) = (es, length es)"
  "ts_ok (Arrives e) (es, n) \<longleftrightarrow> (\<exists>json. cJSON_Print e = Inr json) \<and> item_string (Some e) ''func_name'' \<noteq> Inr ''__END''
     \<and> (\<exists>a. enter_all (es @ [e]) empty_table = Inr a)" "ts_ok Refresh (es, n)"
  by (simp_all add: tsw_step_def ts_ok_def)

lemma show_new_events:
  assumes "shows_table a d" "ts_events_displayed d = Some (rev [0..<n])" "enter_all fs a = Inr b"
  shows "\<exists>d'. run_actions show_new_event (zip [n..<n + length fs] fs) d = Inr d' \<and> shows_table b d'
    \<and> ts_events_displayed d' = Some (rev [0..<n + length fs]) \<and> ts_events d' = ts_events d \<and> usingGui d' = usingGui d"
  using assms
proof (induction fs arbitrary: a d n)
  case (Cons f fs)
  obtain x where x: "ts_entry f = Inr x" "enters x a" "enter_all fs (enter x a) = Inr b"
    using Cons.prems(3) by (auto elim!: bindr_InrE split: if_splits)
  obtain d1 where d1: "show_ts_event f d = Inr d1" "shows_table (enter x a) d1" "same_events d d1"
    using show_entry [OF Cons.prems(1) x(1,2)] by blast
  let ?d = "d1\<lparr>ts_events_displayed := Some (rev [0..<Suc n])\<rparr>"
  have step: "show_new_event (n, f) d = Inr ?d"
    using d1(1,3) Cons.prems(2) by (simp add: show_new_event_def isTSFunctionDisplayed_def same_events_def)
  have "shows_table (enter x a) ?d" using d1(2) by (simp add: shows_table_def split: option.splits)
  moreover have "zip [n..<n + length (f # fs)] (f # fs) = (n, f) # zip [Suc n..<Suc n + length fs] fs"
    by (simp add: upt_conv_Cons del: upt_Suc)
  ultimately show ?case using Cons.IH [OF _ _ x(3), of ?d "Suc n"] step d1(3)
    by (simp add: same_events_def del: upt_Suc)
qed auto

lemma show_old_events:
  "ts_events_displayed d = Some (rev [0..<n]) \<Longrightarrow> length fs = n \<Longrightarrow> run_actions show_new_event (zip [0..<n] fs) d = Inr d"
proof -
  have "list_all (\<lambda>(i, f). isTSFunctionDisplayed i d) xs \<Longrightarrow> run_actions show_new_event xs d = Inr d" for xs
    by (induction xs) (auto simp: show_new_event_def)
  moreover assume "ts_events_displayed d = Some (rev [0..<n])" "length fs = n"
  then have "list_all (\<lambda>(i, f). isTSFunctionDisplayed i d) (zip [0..<n] fs)"
    by (auto simp: list_all_iff isTSFunctionDisplayed_def dest: set_zip_leftD)
  ultimately show ?thesis by blast
qed

lemma shows_empty: "sequence_iter d = None \<Longrightarrow> shows_table empty_table (tree_store_clear d)"
  by (simp add: shows_table_def table_rows_def empty_table_def tree_store_clear_def)

lemma zip_split: "n \<le> length es \<Longrightarrow> zip [0..<length es] es = zip [0..<n] (take n es) @ zip [n..<n + length (drop n es)] (drop n es)"
  by (metis (no_types) append_take_drop_id le_add1 le_add_diff_inverse length_drop length_take length_upt
      min.absorb2 minus_nat.diff_0 plus_nat.add_0 upt_add_eq_append zip_append)

lemma ts_refresh:
  assumes "ts_rel (es, n) d"
  shows "\<exists>d'. gui_idle_testsuite d = Inr d' \<and> ts_rel (es, length es) d'
    \<and> (es \<noteq> [] \<longrightarrow> (\<exists>a. enter_all es empty_table = Inr a \<and> ts_store d' = table_rows a))"
proof -
  have rel: "usingGui d" "ts_events d = Some es" "ts_events_displayed d = Some (rev [0..<n])" "n \<le> length es"
    using assms by (auto simp: ts_rel_def)
  obtain b where b: "enter_all es empty_table = Inr b" using assms by (auto simp: ts_rel_def)
  define c where "c = (if ts_events_displayed d = Some [] then tree_store_clear d else d)"
  obtain a where a: "enter_all (take n es) empty_table = Inr a" "shows_table a c"
  proof (cases "n = 0")
    case True
    then show ?thesis using that [of empty_table] assms shows_empty [of d] by (simp add: ts_rel_def c_def)
  next
    case False
    then show ?thesis using that assms by (auto simp: ts_rel_def c_def)
  qed
  have c: "ts_events_displayed c = Some (rev [0..<n])" "ts_events c = Some es" "usingGui c"
    using rel by (simp_all add: c_def tree_store_clear_def)
  have "enter_all (drop n es) a = Inr b"
    using enter_all_append [of "take n es" "drop n es" empty_table] a(1) b by simp
  from show_new_events [OF a(2) c(1) this] obtain d' where d': "shows_table b d'" "ts_events d' = Some es" "usingGui d'"
    "ts_events_displayed d' = Some (rev [0..<length es])"
    "run_actions show_new_event (zip [n..<n + length (drop n es)] (drop n es)) c = Inr d'"
    using c rel(4) by auto
  have "gui_idle_testsuite d = run_actions show_new_event (zip [0..<length es] es) c"
    using rel(2) c(2) by (simp add: gui_idle_testsuite_def c_def nodes_def tree_store_clear_def Let_def)
  then have "gui_idle_testsuite d = Inr d'"
    using d'(5) rel(4) c(1) by (simp add: zip_split [OF rel(4)] show_old_events del: length_drop)
  moreover have "ts_rel (es, length es) d'"
    using d' b by (auto simp: ts_rel_def shows_table_def empty_table_def split: option.splits)
  ultimately show ?thesis using d'(1) b by (auto simp: shows_table_def)
qed

lemma shows_table_kept [simp]: "shows_table a ((printf m d)\<lparr>ts_events := x\<rparr>) = shows_table a d"
  by (simp add: shows_table_def printf_def cong: option.case_cong)

lemma ts_arrive:
  assumes "ts_rel (es, n) d" "ts_ok (Arrives e) (es, n)"
  shows "\<exists>d'. handleTestsuiteEvent (Some e) d = Inr d' \<and> ts_rel (es @ [e], n) d'"
proof -
  have rel: "usingGui d" "ts_events d = Some es" using assms(1) by (auto simp: ts_rel_def)
  obtain json a where e: "cJSON_Print e = Inr json" "item_string (Some e) ''func_name'' \<noteq> Inr ''__END''"
    "enter_all (es @ [e]) empty_table = Inr a" using assms(2) by auto
  then obtain f where f: "item_string (Some e) ''func_name'' = Inr f" "f \<noteq> ''__END''"
    by (auto simp: enter_all_append ts_entry_def elim!: bindr_InrE)
  have "handleTestsuiteEvent (Some e) d = Inr ((printf json d)\<lparr>ts_events := Some (es @ [e])\<rparr>)"
    using rel e(1) f by (simp add: handleTestsuiteEvent_def nodes_def printf_def Let_def)
  moreover have "ts_rel (es @ [e], n) ((printf json d)\<lparr>ts_events := Some (es @ [e])\<rparr>)"
    using assms(1) e(3) by (auto simp: ts_rel_def) (simp_all add: printf_def)
  ultimately show ?thesis by blast
qed

interpretation ts_machine: simulation tsw_step ts_code ts_rel ts_ok
proof
  fix a x and c :: "'a testsuite_scheme"
  assume rel: "ts_rel a c" and ok: "ts_ok x a"
  obtain es n where a: "a = (es, n)" by fastforce
  show "\<exists>c'. ts_code x c = Inr c' \<and> ts_rel (tsw_step x a) c'"
  proof (cases x)
    case (Arrives e)
    then show ?thesis using ts_arrive [of es n c e] rel ok by (simp add: a ts_code_def)
  next
    case Refresh
    then show ?thesis using ts_refresh [of es n c] rel by (auto simp: a ts_code_def)
  qed
qed

fun arrived :: "ts_action list \<Rightarrow> cJSON list" where
  "arrived [] = []"
| "arrived (Arrives e # xs) = e # arrived xs"
| "arrived (Refresh # xs) = arrived xs"

lemma all_arrive:
  "list_all (\<lambda>e. (\<exists>json. cJSON_Print e = Inr json) \<and> item_string (Some e) ''func_name'' \<noteq> Inr ''__END'') (arrived xs)
   \<Longrightarrow> enter_all (es @ arrived xs) empty_table = Inr a
   \<Longrightarrow> ts_machine.all_ok xs (es, n) \<and> (\<exists>n'. fold tsw_step xs (es, n) = (es @ arrived xs, n'))"
proof (induction xs arbitrary: es n)
  case (Cons x xs)
  show ?case
  proof (cases x)
    case (Arrives e)
    obtain b where "enter_all (es @ [e]) empty_table = Inr b"
      using Cons.prems(2) by (auto simp: Arrives enter_all_append elim!: bindr_InrE split: if_splits)
    then show ?thesis using Cons.IH [of "es @ [e]" n] Cons.prems by (simp add: Arrives)
  next
    case Refresh
    then show ?thesis using Cons.IH [of es "length es"] Cons.prems by simp
  qed
qed simp

lemma window_shows:
  assumes "usingGui d" "sequence_iter d = None" "arrived xs \<noteq> []" "enter_all (arrived xs) empty_table = Inr a"
    and "list_all (\<lambda>e. (\<exists>json. cJSON_Print e = Inr json) \<and> item_string (Some e) ''func_name'' \<noteq> Inr ''__END'') (arrived xs)"
  shows "\<exists>d'. run_actions ts_code (xs @ [Refresh]) (reset_testsuite d) = Inr d' \<and> ts_store d' = table_rows a"
proof -
  have "ts_rel ([], 0) (reset_testsuite d)" using assms(1,2) by (simp add: ts_rel_def reset_testsuite_def)
  with ts_machine.sim_run [of "([], 0)" "reset_testsuite d" xs] all_arrive [of xs "[]" a 0] assms(4,5)
  obtain d1 n where "run_actions ts_code xs (reset_testsuite d) = Inr d1" "ts_rel (arrived xs, n) d1" by auto
  with ts_refresh [of "arrived xs" n d1] assms(3,4) show ?thesis by (auto simp: ts_code_def)
qed

end
