(* ===== verification/Testsuite_Report.thy ===== *)
theory Testsuite_Report
  imports Testsuite_Props
begin

unbundle bit_operations_syntax

section \<open>The report of a run in the window\<close>

text \<open>
  Complete runs of the test suite: a report is what the runner of \<^verbatim>\<open>src/testsuite_run.c\<close> finds out about
  groups, sequences and calls. The events it writes for a report are shown as the tree of the report.
\<close>

subsection \<open>Reports\<close>

record call_report =
  cr_name :: string
  cr_passed :: bool
  cr_message :: string
  cr_params :: "cJSON option"

record sequence_report =
  sr_action :: string
  sr_application :: string
  sr_os :: string
  sr_calls :: "call_report list"
  sr_passed :: bool

record group_report =
  gr_sequences :: "sequence_report list"
  gr_passed :: bool

definition verdict :: "bool \<Rightarrow> string" where
  "verdict passed = (if passed then ''PASS'' else ''FAIL'')"

text \<open>The events \<^verbatim>\<open>src/testsuite_run.c\<close> writes for a report.\<close>

definition call_event :: "call_report \<Rightarrow> cJSON" where
  "call_event c = testsuite_event (cr_name c) (case cr_params c of None \<Rightarrow> [] | Some p \<Rightarrow> [p]) (cr_passed c) (cr_message c)"

definition sequence_events :: "sequence_report \<Rightarrow> cJSON list" where
  "sequence_events r = seq_start_event (sr_action r) (sr_application r) (sr_os r) (int (length (sr_calls r)))
     # map call_event (sr_calls r) @ [end_event_of ''__SEQUENCE_END'' (sr_passed r)]"

definition group_events :: "group_report \<Rightarrow> cJSON list" where
  "group_events g = grp_start_event (int (length (gr_sequences g))) # concat (map sequence_events (gr_sequences g))
     @ [end_event_of ''__GROUP_END'' (gr_passed g)]"

text \<open>The tree that shows it.\<close>

definition param_rows :: "cJSON option \<Rightarrow> ts_row list" where
  "param_rows p = (case p of None \<Rightarrow> []
     | Some p \<Rightarrow> [TsRow (Some ''Parameters passed to function'') None
         (case showFailingTestParams (canon (Some ''params'') p) of Inr rs \<Rightarrow> rs | Inl _ \<Rightarrow> [])])"

definition call_tree :: "call_report \<Rightarrow> ts_row" where
  "call_tree c = TsRow (Some (cr_name c)) (Some (verdict (cr_passed c))) (if cr_passed c then []
     else TsRow (Some (wrap_text (cr_message c) 40)) None [] # param_rows (cr_params c))"

definition sequence_tree :: "sequence_report \<Rightarrow> ts_row" where
  "sequence_tree r = TsRow (Some (sr_action r @ '' using '' @ sr_application r @ '' on '' @ sr_os r))
     (Some (verdict (sr_passed r))) (map call_tree (sr_calls r))"

definition group_tree :: "group_report \<Rightarrow> ts_row" where
  "group_tree g = TsRow (Some ''Test Group'') (Some (verdict (gr_passed g))) (map sequence_tree (gr_sequences g))"

definition call_report_ok :: "call_report \<Rightarrow> bool" where
  "call_report_ok c \<longleftrightarrow> cstring (cr_name c) \<and> cstring (cr_message c) \<and> pred_option (\<lambda>p. wf_json p \<and> showable p) (cr_params c)
     \<and> cr_name c \<notin> {''__GROUP_START'', ''__SEQUENCE_START'', ''__SEQUENCE_END'', ''__GROUP_END'', ''__ERROR'', ''__END''}"

definition sequence_report_ok :: "sequence_report \<Rightarrow> bool" where
  "sequence_report_ok r \<longleftrightarrow> list_all cstring [sr_action r, sr_application r, sr_os r] \<and> list_all call_report_ok (sr_calls r)
     \<and> small (int (length (sr_calls r)))"

definition group_report_ok :: "group_report \<Rightarrow> bool" where
  "group_report_ok g \<longleftrightarrow> list_all sequence_report_ok (gr_sequences g) \<and> small (int (length (gr_sequences g)))"

lemma report_events_child:
  "is_object (testsuite_event f [] b m)"
  "child (testsuite_event f [] b m) = [set_name (Some ''func_name'') (cJSON_CreateString f),
     set_name (Some ''passed'') (cJSON_CreateBool (of_bool b)), set_name (Some ''message'') (cJSON_CreateString m)]"
  "is_object (testsuite_event f [p] b m)"
  "child (testsuite_event f [p] b m) = [set_name (Some ''func_name'') (cJSON_CreateString f),
     set_name (Some ''passed'') (cJSON_CreateBool (of_bool b)), set_name (Some ''params'') p, set_name (Some ''message'') (cJSON_CreateString m)]"
  "is_object (grp_start_event n)"
  "child (grp_start_event n) = [set_name (Some ''func_name'') (cJSON_CreateString ''__GROUP_START''),
     set_name (Some ''num_sequences'') (cJSON_CreateNumber (dbl_of_int n))]"
  "is_object (end_event_of f b)"
  "child (end_event_of f b) = [set_name (Some ''func_name'') (cJSON_CreateString f), set_name (Some ''passed'') (cJSON_CreateBool (of_bool b))]"
  "is_object (seq_start_event x y z n)"
  "child (seq_start_event x y z n) = [set_name (Some ''func_name'') (cJSON_CreateString ''__SEQUENCE_START''),
     set_name (Some ''action'') (cJSON_CreateString x), set_name (Some ''application'') (cJSON_CreateString y),
     set_name (Some ''os'') (cJSON_CreateString z), set_name (Some ''num_calls'') (cJSON_CreateNumber (dbl_of_int n))]"
  by (simp_all add: testsuite_event_def grp_start_event_def end_event_of_def seq_start_event_def add_chain_def json_add_defs Let_def
      cstr_def is_object_def)

lemmas event_lookup = item_string_def item_int_def get_item_def cJSON_GetObjectItem_def canon_object
  report_events_child cJSON_strcasecmp_def c_tolower_def canon_fields

lemma end_entry:
  "ts_entry (canon None (end_event_of ''__SEQUENCE_END'' b)) = Inr (Sequence_ends (verdict b))"
  "ts_entry (canon None (end_event_of ''__GROUP_END'' b)) = Inr (Group_ends (verdict b))"
  by (simp_all add: ts_entry_def result_text_def event_lookup canon_bool verdict_def cstr_def)

lemma start_entry:
  "ts_entry (canon None (grp_start_event n)) = Inr Group_begins"
  "list_all cstring [x, y, z] \<Longrightarrow> ts_entry (canon None (seq_start_event x y z n)) = Inr (Sequence_begins (x @ '' using '' @ y @ '' on '' @ z))"
  by (simp_all add: ts_entry_def sequence_label_def event_lookup cstr_def [of "_ # _"])

text \<open>The parameters of a failed call are shown like those of an event of the debugger.\<close>

primrec as_ts_row :: "event_row \<Rightarrow> ts_row" where
  "as_ts_row (Row n e label rs) = TsRow label None (map as_ts_row rs)"

lemma params_like_debugger: "showParams node = Inr rs \<Longrightarrow> showFailingTestParams node = Inr (map as_ts_row rs)"
proof (induction node arbitrary: rs rule: showParams.induct)
  case (1 node)
  have "thoser (map f xs) = Inr ys \<Longrightarrow> (\<And>x y. x \<in> set xs \<Longrightarrow> f x = Inr y \<Longrightarrow> g x = Inr (as_ts_row y))
    \<Longrightarrow> thoser (map g xs) = Inr (map as_ts_row ys)" for f g and xs :: "cJSON list" and ys
    by (induction xs arbitrary: ys) (auto elim!: bindr_InrE)
  note lift = this [of "\<lambda>item. bindr (param_label item) (\<lambda>label. bindr (showParams item) (\<lambda>rs. Inr (Row 0 None label rs)))"
      "child node" _ "\<lambda>item. bindr (param_label item) (\<lambda>label. bindr (showFailingTestParams item) (\<lambda>rs. Inr (TsRow label None rs)))"]
  show ?case
  proof (cases "is_inside node")
    case True
    with "1.prems" obtain ys where "thoser (map (\<lambda>item. bindr (param_label item) (\<lambda>label. bindr (showParams item) (\<lambda>rs.
        Inr (Row 0 None label rs)))) (child node)) = Inr ys" "rs = rev ys"
      by (auto simp: showParams.simps [of node] elim!: bindr_InrE)
    moreover from True "1.IH" have "bindr (param_label x) (\<lambda>label. bindr (showFailingTestParams x) (\<lambda>rs. Inr (TsRow label None rs))) = Inr (as_ts_row y)"
      if "x \<in> set (child node)" "bindr (param_label x) (\<lambda>label. bindr (showParams x) (\<lambda>rs. Inr (Row 0 None label rs))) = Inr y" for x y
      using that by (fastforce elim!: bindr_InrE)
    ultimately show ?thesis using True lift by (simp add: showFailingTestParams.simps [of node] rev_map)
  next
    case False
    then show ?thesis using "1.prems" by (simp add: showParams.simps [of node] showFailingTestParams.simps [of node])
  qed
qed

lemma call_entry: "call_report_ok c \<Longrightarrow> ts_entry (canon None (call_event c)) = Inr (Call (call_tree c))"
proof -
  assume ok: "call_report_ok c"
  have "\<exists>rs. showFailingTestParams (canon (Some ''params'') p) = Inr rs" if "cr_params c = Some p" for p
    using showParams_canon [of p "Some ''params''"] params_like_debugger ok that by (auto simp: call_report_ok_def)
  then show ?thesis using ok
    by (cases "cr_params c"; cases "cr_passed c")
      (auto simp: ts_entry_def call_event_def call_row_def result_text_def message_row_def params_row_def event_lookup
        canon_bool [of _ True, simplified] canon_bool [of _ False, simplified]
        call_tree_def param_rows_def verdict_def call_report_ok_def)
qed

subsection \<open>The table of a report\<close>

lemma enter_calls:
  "list_all call_report_ok cs \<Longrightarrow> t_group a \<noteq> None \<Longrightarrow> t_seq a = Some (l, rs)
   \<Longrightarrow> enter_all (map (canon None) (map call_event cs)) a = Inr (a\<lparr>t_seq := Some (l, rs @ map call_tree cs)\<rparr>)"
  by (induction cs arbitrary: a rs) (auto simp: call_entry)

lemma enter_sequence:
  assumes "sequence_report_ok r" "t_group a = Some ss" "t_seq a = None"
  shows "enter_all (map (canon None) (sequence_events r)) a = Inr (a\<lparr>t_group := Some (ss @ [sequence_tree r])\<rparr>)"
proof -
  let ?l = "sr_action r @ '' using '' @ sr_application r @ '' on '' @ sr_os r"
  have "ts_entry (canon None (seq_start_event (sr_action r) (sr_application r) (sr_os r) (int (length (sr_calls r))))) = Inr (Sequence_begins ?l)"
    using assms(1) by (intro start_entry(2)) (simp add: sequence_report_ok_def)
  moreover have "enter_all (map (canon None) (map call_event (sr_calls r))) (a\<lparr>t_seq := Some (?l, [])\<rparr>)
      = Inr (a\<lparr>t_seq := Some (?l, map call_tree (sr_calls r))\<rparr>)"
    using enter_calls [of "sr_calls r" "a\<lparr>t_seq := Some (?l, [])\<rparr>" ?l "[]"] assms by (simp add: sequence_report_ok_def)
  ultimately show ?thesis using assms(2,3)
    by (simp add: sequence_events_def enter_all_append end_entry sequence_tree_def)
qed

lemma enter_sequences:
  "list_all sequence_report_ok rs \<Longrightarrow> t_group a = Some ss \<Longrightarrow> t_seq a = None
   \<Longrightarrow> enter_all (map (canon None) (concat (map sequence_events rs))) a = Inr (a\<lparr>t_group := Some (ss @ map sequence_tree rs)\<rparr>)"
  by (induction rs arbitrary: a ss) (auto simp: enter_all_append enter_sequence)

lemma enter_group:
  assumes "group_report_ok g" "t_group a = None" "t_seq a = None"
  shows "enter_all (map (canon None) (group_events g)) a = Inr (a\<lparr>t_done := t_done a @ [group_tree g]\<rparr>)"
proof -
  have "enter_all (map (canon None) (concat (map sequence_events (gr_sequences g)))) (a\<lparr>t_group := Some []\<rparr>)
      = Inr (a\<lparr>t_group := Some (map sequence_tree (gr_sequences g))\<rparr>)"
    using enter_sequences [of "gr_sequences g" "a\<lparr>t_group := Some []\<rparr>" "[]"] assms by (simp add: group_report_ok_def)
  then show ?thesis using assms(2,3)
    by (simp add: group_events_def start_entry enter_all_append end_entry group_tree_def map_concat comp_def)
qed

lemma enter_groups:
  "list_all group_report_ok gs \<Longrightarrow> t_group a = None \<Longrightarrow> t_seq a = None
   \<Longrightarrow> enter_all (map (canon None) (concat (map group_events gs))) a = Inr (a\<lparr>t_done := t_done a @ map group_tree gs\<rparr>)"
  by (induction gs arbitrary: a) (auto simp: enter_all_append enter_group)

lemma wf_object: "is_object e \<Longrightarrow> wf_json e \<longleftrightarrow> list_all (\<lambda>c. wf_json c \<and> (case jname c of None \<Rightarrow> False | Some s \<Rightarrow> cstring s)) (child e)"
  by (subst wf_json.simps) (simp add: is_object_def)

definition shown_event :: "cJSON \<Rightarrow> bool" where
  "shown_event e \<longleftrightarrow> wf_json e \<and> item_string (Some (canon None e)) ''func_name'' \<noteq> Inr ''__END''"

lemma jname_set_name [simp]: "jname (set_name nm c) = nm"
  by (cases c) simp

lemma shown_events:
  "call_report_ok c \<Longrightarrow> shown_event (call_event c)"
  "sequence_report_ok r \<Longrightarrow> list_all shown_event (sequence_events r)"
  "group_report_ok g \<Longrightarrow> list_all shown_event (group_events g)"
proof -
  show call: "call_report_ok c \<Longrightarrow> shown_event (call_event c)" for c
    by (cases "cr_params c") (simp_all add: shown_event_def call_report_ok_def call_event_def wf_object event_lookup)
  have ends: "f \<noteq> ''__END'' \<Longrightarrow> cstring f \<Longrightarrow> shown_event (end_event_of f b)" for f b
    by (simp add: shown_event_def wf_object event_lookup)
  show sequ: "sequence_report_ok r \<Longrightarrow> list_all shown_event (sequence_events r)" for r
    using call ends by (auto simp: sequence_events_def sequence_report_ok_def list_all_iff small_def)
      (simp add: shown_event_def wf_object event_lookup cstr_def)
  show "group_report_ok g \<Longrightarrow> list_all shown_event (group_events g)"
    using sequ ends by (auto simp: group_events_def group_report_ok_def list_all_iff small_def)
      (simp add: shown_event_def wf_object event_lookup cstr_def)
qed

text \<open>
  C10. The window of the test suite shows the report of the run. Whatever the runner finds out about
  groups, sequences and calls, and however the arrival of its events is interleaved with the
  idle function of the GUI, once the last event has been shown the table is the tree of the report:
  a row per group, below it a row per sequence with its action, application and operating system,
  below that a row per call, each with its verdict, and below a failed call its message and its
  parameters.
\<close>

theorem testsuite_window_shows_report:
  assumes "usingGui d" "sequence_iter d = None" "list_all group_report_ok gs" "gs \<noteq> []"
    and "arrived xs = map (canon None) (concat (map group_events gs))"
  shows "\<exists>d'. run_actions ts_code (xs @ [Refresh]) (reset_testsuite d) = Inr d' \<and> ts_store d' = map group_tree gs"
proof -
  have "list_all shown_event (concat (map group_events gs))"
    using assms(3) shown_events(3) by (auto simp: list_all_iff)
  then have "list_all (\<lambda>e. (\<exists>json. cJSON_Print e = Inr json) \<and> item_string (Some e) ''func_name'' \<noteq> Inr ''__END'') (arrived xs)"
    unfolding assms(5) by (auto simp: list_all_iff shown_event_def cJSON_Print_wf wf_canon)
  moreover have "enter_all (arrived xs) empty_table = Inr (empty_table\<lparr>t_done := map group_tree gs\<rparr>)"
    unfolding assms(5) using enter_groups [OF assms(3), of empty_table] by (simp add: empty_table_def)
  moreover have "arrived xs \<noteq> []" unfolding assms(5) using assms(4) by (cases gs) (auto simp: group_events_def)
  ultimately show ?thesis using window_shows [OF assms(1,2)] by (fastforce simp: table_rows_def empty_table_def)
qed

definition demo_testsuite :: testsuite where
  "demo_testsuite = \<lparr>abs_libpath = [], bin_path = [], usingGui = True, terminate_calls = 0, fuse_pid = 42,
     stopToolFunction = None, fs_mounted = True, shared_error = [], fsigs = None, resources = None, skipped_tests = None,
     test_data_file = None, start_sensitive = True, stop_sensitive = False, stdout = [], stderr = [], kills = [],
     dialogs = [], exited = None, pendingInvocations = 0, autoAdvance = False, closing = False, stepSem = 0, stdin = [],
     tailq_events = [], event_table = [], advance_sensitive = False, wizard_events = None, wizard_events_displayed = None,
     func_rows = (\<lambda>_. None), func_table = [], notification_event = None, notification_status = IMPLEMENTED,
     recv_end_event = False, message_func = [], message_text = [], tabs_shown = False, skip_sensitive = False,
     first_update = True, last_func_name = [], next_widget = 0, sig_page = [], sig_l1 = None, sig_params = [], sig_l2 = None,
     res_page = [], res_links = [], ts_events = None, ts_events_displayed = None, ts_store = [], ts_stamp = 0,
     group_iter = None, sequence_iter = None, testdata_select_open = False, testdata_field = [], ts_recv_end_event = False\<rparr>"

definition demo_report :: group_report where
  "demo_report = \<lparr>gr_sequences = [\<lparr>sr_action = ''copied a file'', sr_application = ''cp'', sr_os = ''Linux 3.2'',
     sr_calls = [\<lparr>cr_name = ''mknod'', cr_passed = True, cr_message = [], cr_params = None\<rparr>,
       \<lparr>cr_name = ''open'', cr_passed = False, cr_message = ''Function not defined'', cr_params = None\<rparr>],
     sr_passed = False\<rparr>], gr_passed = False\<rparr>"

definition demo_arrivals :: "ts_action list" where
  \<comment> \<open>the idle function runs between the events\<close>
  "demo_arrivals = concat (map (\<lambda>e. [Arrives (canon None e), Refresh]) (group_events demo_report))"

lemma arrived_between: "arrived (concat (map (\<lambda>e. [Arrives (f e), Refresh]) es)) = map f es"
  by (induction es) simp_all

theorem testsuite_window_shows_report_witness:
  "usingGui demo_testsuite \<and> sequence_iter demo_testsuite = None \<and> list_all group_report_ok [demo_report]
   \<and> arrived demo_arrivals = map (canon None) (concat (map group_events [demo_report]))
   \<and> (\<exists>d'. run_actions ts_code (demo_arrivals @ [Refresh]) (reset_testsuite demo_testsuite) = Inr d'
      \<and> map ts_status (ts_store d') = [Some ''FAIL''])"
proof -
  have d: "usingGui demo_testsuite" "sequence_iter demo_testsuite = None" by (simp_all add: demo_testsuite_def)
  have ok: "list_all group_report_ok [demo_report]" "[demo_report] \<noteq> []"
    by (simp_all add: group_report_ok_def sequence_report_ok_def call_report_ok_def demo_report_def small_def)
  have xs: "arrived demo_arrivals = map (canon None) (concat (map group_events [demo_report]))"
    by (simp add: demo_arrivals_def arrived_between)
  have "map ts_status (map group_tree [demo_report]) = [Some ''FAIL'']"
    by (simp add: demo_report_def group_tree_def verdict_def)
  with testsuite_window_shows_report [OF d ok xs] d ok(1) xs show ?thesis by auto
qed

end
