(* ===== verification/Fdt_Main.thy ===== *)
theory Fdt_Main
  imports Testsuite Logger Wizard_Tests
begin

section \<open>The main program\<close>

text \<open>
  The rest of \<^verbatim>\<open>src/fdt.c\<close>: starting a tool with the file system in a child process (and the place in
  \<^verbatim>\<open>src/libfuse/lib/helper.c\<close> where the child finds out about the tool), the handlers of the main
  window, the idle function that brings the window up to date, ending the program, and \<open>main\<close>. The state is that of the window of the test suite, which includes the other tools,
  extended with the fields of the main window; functions that all tools share work on any
  extension of the globals of \<^verbatim>\<open>src/fdt.c\<close>.

  The results of \<open>fork\<close>, \<open>execve\<close> and \<open>realpath\<close> are arguments, and so is the number of pointers that
  happen to be free after the array of arguments on the stack. The construction of the widgets and
  the branches for macOS are left out.
\<close>

record fdt_window = testsuite +
  binary_select_open :: bool
  binary_field :: string
  arguments_field :: string

abbreviation (input) EXIT_FAILURE :: int where "EXIT_FAILURE \<equiv> 1"

definition exit_with :: "int \<Rightarrow> 'a fdt_scheme \<Rightarrow> 'a fdt_scheme" where
  "exit_with status st = st\<lparr>exited := Some status\<rparr>"

subsection \<open>Ending the program\<close>

definition kill_fuse :: "'a fdt_scheme \<Rightarrow> 'a fdt_scheme" where
  "kill_fuse st = (if fuse_pid st \<noteq> 0 then printf ''Sent SIGKILL to FUSE binary'' (kill (fuse_pid st) SIGKILL st) else st)"

definition terminate :: "(tool \<Rightarrow> 'a fdt_scheme \<Rightarrow> 'a fdt_scheme) \<Rightarrow> 'a fdt_scheme \<Rightarrow> 'a fdt_scheme" where
  \<comment> \<open>the first argument calls the stop function of a tool\<close>
  "terminate stop st = (let st = st\<lparr>terminate_calls := terminate_calls st + 1\<rparr> in
     case stopToolFunction st of
       None \<Rightarrow> exit_with 0 (kill_fuse st)
     | Some t \<Rightarrow> if terminate_calls st = 1
         then (stop t (printf ''Stopping tool gracefully (try again for force-quit)'' st))\<lparr>stopToolFunction := None\<rparr>
         else exit_with 0 (kill_fuse (printf ''Terminating forcefully'' st)))"

definition sigintHandler :: "(tool \<Rightarrow> 'a fdt_scheme \<Rightarrow> 'a fdt_scheme) \<Rightarrow> 'a fdt_scheme \<Rightarrow> 'a fdt_scheme" where
  "sigintHandler stop st = terminate stop st"

definition delete_event :: "(tool \<Rightarrow> 'a fdt_scheme \<Rightarrow> 'a fdt_scheme) \<Rightarrow> 'a fdt_scheme \<Rightarrow> bool \<times> 'a fdt_scheme" where
  "delete_event stop st = (True, terminate stop st)"

definition destroy :: "(tool \<Rightarrow> 'a fdt_scheme \<Rightarrow> 'a fdt_scheme) \<Rightarrow> 'a fdt_scheme \<Rightarrow> 'a fdt_scheme" where
  "destroy stop st = terminate stop st"

definition stop_tool :: "tool \<Rightarrow> 'a testsuite_scheme \<Rightarrow> 'a testsuite_scheme" where
  \<comment> \<open>the stop functions of the tools of the window, which never starts the logger\<close>
  "stop_tool t st = (case t of Wizard_tool \<Rightarrow> stopWizard st | Testsuite_tool \<Rightarrow> stopTestsuite st
     | Debugger_tool \<Rightarrow> stopDebugger st | Logger_tool \<Rightarrow> st)"

subsection \<open>Starting a tool\<close>

definition strsep_tokens :: "string \<Rightarrow> string list" where
  \<comment> \<open>the tokens of repeated calls of \<open>strsep\<close>, empty ones included\<close>
  "strsep_tokens args = split_at (CHR '' '') args"

definition store_ptr :: "nat \<Rightarrow> nat \<Rightarrow> string option \<Rightarrow> string option list \<Rightarrow> string option list c_res" where
  \<comment> \<open>a store into an array with this number of places\<close>
  "store_ptr cap i p arr = (if i < cap then Inr (arr[i := p]) else Inl HeapOverflow)"

primrec store_tokens :: "nat \<Rightarrow> nat \<Rightarrow> string list \<Rightarrow> string option list \<Rightarrow> string option list c_res" where
  "store_tokens cap i [] arr = Inr arr"
| "store_tokens cap i (t # ts) arr = bindr (store_ptr cap i (Some t) arr) (store_tokens cap (i + 1) ts)"

definition fuse_argv :: "nat \<Rightarrow> string \<Rightarrow> string \<Rightarrow> string option list c_res" where
  \<comment> \<open>the array has one place more than there are arguments; the first argument is the number of places after it\<close>
  "fuse_argv slack bin_str args_str =
    (let num_args = length (strsep_tokens args_str); cap = num_args + 1 + slack in
     bindr (store_tokens cap 1 (strsep_tokens args_str) (replicate cap None)) (\<lambda>arr.
     bindr (store_ptr cap 0 (Some bin_str) arr) (\<lambda>arr.
     store_ptr cap (num_args + 1) None arr)))"

definition exec_args :: "string option list \<Rightarrow> string list" where
  \<comment> \<open>what \<open>execve\<close> takes from the array: the strings before the null pointer\<close>
  "exec_args arr = map the (takeWhile (\<lambda>p. p \<noteq> None) arr)"

definition startTool :: "nat \<Rightarrow> int \<Rightarrow> string \<Rightarrow> string \<Rightarrow> string \<Rightarrow> ('a fdt_scheme \<Rightarrow> (tool \<times> 'a fdt_scheme) c_res)
    \<Rightarrow> 'a fdt_scheme \<Rightarrow> (string list \<times> string list \<times> 'a fdt_scheme) c_res" where
  \<comment> \<open>the parent process; the argument after the slack is the result of \<open>fork\<close>, and the result holds the arguments and
     the environment of the child\<close>
  "startTool slack pid bin_str args_str tool_ident toolFunc st =
    bindr (fuse_argv slack bin_str args_str) (\<lambda>argv.
    let (envp, st) = getEnvVarsForFork tool_ident (st\<lparr>terminate_calls := 0\<rparr>);
        st = st\<lparr>fuse_pid := pid\<rparr> in
    bindr (if pid = - 1 then Inr (eprintf ''fork'' st)
           else bindr (toolFunc st) (\<lambda>(t, st). Inr (st\<lparr>stopToolFunction := Some t\<rparr>))) (\<lambda>st.
    Inr (exec_args argv, envp, st)))"

definition startTool_child :: "string option \<Rightarrow> 'a fdt_scheme \<Rightarrow> 'a fdt_scheme c_res" where
  \<comment> \<open>what the child process does to the shared memory; the argument is the error of \<open>execve\<close>, if it returns\<close>
  "startTool_child failed st = (let st = st\<lparr>fs_mounted := True\<rparr> in
     case failed of None \<Rightarrow> Inr st | Some err \<Rightarrow> setSharedErrorPrefixed ''Could not execute fuse binary: '' err st)"

subsection \<open>The library in the child\<close>

definition getenv :: "string list \<Rightarrow> string \<Rightarrow> string option" where
  \<comment> \<open>the value of the first entry for the name\<close>
  "getenv envp name = (case filter (\<lambda>e. take (length name + 1) e = name @ ''='') envp of
     [] \<Rightarrow> None | e # _ \<Rightarrow> Some (drop (length name + 1) e))"

definition fuse_setup_tool :: "string list \<Rightarrow> tool option c_res" where
  \<comment> \<open>the tool that \<open>fuse_setup_common\<close> runs in place of the mount, once the file system is set up: \<open>fwizard_init\<close> or
     \<open>testsuite_init\<close>; otherwise it goes on with the mount\<close>
  "fuse_setup_tool envp = (case getenv envp ''FDT_TOOL'' of
     None \<Rightarrow> Inl NullPointer
   | Some tool_ident \<Rightarrow> Inr (if tool_ident = ''wizard'' then Some Wizard_tool
       else if tool_ident = ''testsuite'' then Some Testsuite_tool else None))"

subsection \<open>The main window\<close>

definition binary_select_okbutton_handler :: "string \<Rightarrow> 'a fdt_window_scheme \<Rightarrow> 'a fdt_window_scheme" where
  "binary_select_okbutton_handler filename st = st\<lparr>binary_field := filename, binary_select_open := False\<rparr>"

definition binary_select_cancelbutton_handler :: "'a fdt_window_scheme \<Rightarrow> 'a fdt_window_scheme" where
  "binary_select_cancelbutton_handler st = st\<lparr>binary_select_open := False\<rparr>"

definition binary_select_close_handler :: "'a fdt_window_scheme \<Rightarrow> bool \<times> 'a fdt_window_scheme" where
  "binary_select_close_handler st = (False, st\<lparr>binary_select_open := False\<rparr>)"

definition binary_select_handler :: "'a fdt_window_scheme \<Rightarrow> bool \<times> 'a fdt_window_scheme" where
  \<comment> \<open>the result says whether a dialog is opened\<close>
  "binary_select_handler st = (if binary_select_open st then (False, st) else (True, st\<lparr>binary_select_open := True\<rparr>))"

definition tab_tool :: "int \<Rightarrow> (string \<times> ('a testsuite_scheme \<Rightarrow> tool \<times> 'a testsuite_scheme)) option" where
  "tab_tool selected_tab = (if selected_tab = 0 then Some (''wizard'', startWizard)
     else if selected_tab = 1 then Some (''testsuite'', startTestsuite)
     else if selected_tab = 2 then Some (''debugger'', startDebugger) else None)"

definition start_btn_handler :: "nat \<Rightarrow> int \<Rightarrow> int \<Rightarrow> 'a fdt_window_scheme \<Rightarrow> 'a fdt_window_scheme c_res" where
  "start_btn_handler slack pid selected_tab st =
    (let bin_str = binary_field st; args_str = arguments_field st; st = st\<lparr>start_sensitive := False\<rparr> in
     case tab_tool selected_tab of None \<Rightarrow> Inr st
     | Some (ident, f) \<Rightarrow> bindr (startTool slack pid bin_str args_str ident (\<lambda>st. Inr (f st)) st) (\<lambda>(_, _, st). Inr st))"

definition stop_btn_handler :: "'a fdt_window_scheme \<Rightarrow> 'a fdt_window_scheme" where
  "stop_btn_handler st = (let st = st\<lparr>stop_sensitive := False\<rparr> in
     case stopToolFunction st of
       Some t \<Rightarrow> (stop_tool t st)\<lparr>stopToolFunction := None\<rparr>
     | None \<Rightarrow> eprintf ''No stop function defined for tool'' st)"

definition skip_btn_handler :: "nat \<Rightarrow> int \<Rightarrow> int \<Rightarrow> 'a fdt_window_scheme \<Rightarrow> 'a fdt_window_scheme c_res" where
  "skip_btn_handler slack pid selected_tab st = (case notification_event st of
     None \<Rightarrow> Inr (eprintf (''Can'' @ [CHR 0x27] @ ''t skip if there'' @ [CHR 0x27] @ ''s no event'') st)
   | Some e \<Rightarrow>
       bindr (item_string (Some e) ''func_name'') (\<lambda>func_name.
       bindr (item_int (Some e) ''test_num'') (\<lambda>test_num.
       bindr (addSkippedTest func_name test_num st) (start_btn_handler slack pid selected_tab))))"

definition showErrorDialog :: "string \<Rightarrow> 'a fdt_scheme \<Rightarrow> 'a fdt_scheme" where
  "showErrorDialog message st = st\<lparr>dialogs := dialogs st @ [message]\<rparr>"

definition update_buttons :: "'a fdt_scheme \<Rightarrow> 'a fdt_scheme" where
  "update_buttons st = (if fs_mounted st then st\<lparr>start_sensitive := False, stop_sensitive := True\<rparr>
     else st\<lparr>start_sensitive := True, stop_sensitive := False\<rparr>)"

definition gui_idle :: "'a testsuite_scheme \<Rightarrow> 'a testsuite_scheme c_res" where
  "gui_idle st =
    (let st = (if shared_error st \<noteq> [] then (showErrorDialog (shared_error st) st)\<lparr>shared_error := []\<rparr> else st);
         st = update_buttons st
     in bindr (gui_idle_wizard st) (\<lambda>st. bindr (gui_idle_testsuite st) gui_idle_debugger))"

subsection \<open>The command line\<close>

definition last_slash_pos :: "string \<Rightarrow> nat" where
  "last_slash_pos s = (if CHR ''/'' \<in> set s then length s - 1 - length (takeWhile (\<lambda>c. c \<noteq> CHR ''/'') (rev s)) else 0)"

definition resolveLibraryPaths :: "(string \<Rightarrow> string option) \<Rightarrow> string \<Rightarrow> 'a fdt_scheme \<Rightarrow> 'a fdt_scheme" where
  "resolveLibraryPaths realpath argv0 st = (let st = st\<lparr>bin_path := take (last_slash_pos argv0) argv0\<rparr>;
       libpath = bin_path st @ ''/libfuse/lib/.libs'' in
     case realpath libpath of
       Some p \<Rightarrow> st\<lparr>abs_libpath := p\<rparr>
     | None \<Rightarrow> exit_with EXIT_FAILURE (eprintf (''Make sure there is a compiled version of libfuse in '' @ libpath)
         (eprintf ''Unable to open libfuse wrapper directory'' st)))"

fun strcat_all :: "nat \<Rightarrow> string \<Rightarrow> string list \<Rightarrow> string c_res" where
  "strcat_all cap acc [] = Inr acc"
| "strcat_all cap acc (s # ss) = bindr (alloc_write cap (acc @ '' '' @ s)) (\<lambda>acc. strcat_all cap acc ss)"

definition logger_args :: "nat \<Rightarrow> string list \<Rightarrow> string c_res" where
  \<comment> \<open>the arguments after the name of the file system in one string; the loop over their lengths keeps the last one.
     The first argument is the number of bytes free after the array\<close>
  "logger_args room args = (let args_len = foldl (\<lambda>_ s. length s + 1) 1 args + room in
     case args of [] \<Rightarrow> Inl NullPointer
     | a # as \<Rightarrow> bindr (alloc_write args_len a) (\<lambda>acc. strcat_all args_len acc as))"

definition printLoggerUsage :: "'a fdt_scheme \<Rightarrow> 'a fdt_scheme" where
  "printLoggerUsage st =
     printf ''Example: ./fdt --logger /Users/md49/hg/CS4099-MajorSP/loopback-mac/loopback /tmp/lfsroot -f /tmp/lfsmnt -oallow_other,native_xattr,volname=LoopbackFS''
     (printf ([tab] @ ''-a'' @ [tab] @ '' Start capturing sequence automatically on mount'' @ [newline])
     (printf ''Options:''
     (printf (''Usage: fdt --logger [-a] [FUSE Binary] [FUSE Arguments]'' @ [newline]) st)))"

definition main_logger :: "nat \<Rightarrow> nat \<Rightarrow> int \<Rightarrow> logger_input list option \<Rightarrow> string list \<Rightarrow> logger \<Rightarrow> logger c_res" where
  \<comment> \<open>the branch of \<open>main\<close> for \<open>--logger\<close>; \<open>startLogger\<close> has set its stop function also while it waits for input\<close>
  "main_logger room slack pid fifo argv l =
    (if 4 \<le> length argv then
       (let (l, bin_idx) = (if argv ! 2 = ''-a'' then (setLoggerState CAPTURING_SEQUENCE l, 3) else (l, 2)) in
        bindr (logger_args room (drop (bin_idx + 1) argv)) (\<lambda>args_str.
        bindr (startTool slack pid (argv ! bin_idx) args_str ''debugger''
          (\<lambda>l. bindr (startLogger fifo l) (\<lambda>(_, l). Inr (Logger_tool, l))) l) (\<lambda>(_, _, l). Inr l)))
     else Inr (printLoggerUsage l))"

definition load_json :: "(string \<Rightarrow> string option) \<Rightarrow> (string \<Rightarrow> string option) \<Rightarrow> string \<Rightarrow> string \<Rightarrow> 'a fdt_scheme
    \<Rightarrow> (cJSON option \<times> 'a fdt_scheme) c_res" where
  "load_json realpath files path complaint st = (case realpath path of
     None \<Rightarrow> Inr (None, exit_with EXIT_FAILURE (eprintf complaint st))
   | Some p \<Rightarrow> readJSONFile files p st)"

definition main_window :: "(string \<Rightarrow> string option) \<Rightarrow> (string \<Rightarrow> string option) \<Rightarrow> 'a fdt_window_scheme \<Rightarrow> 'a fdt_window_scheme c_res" where
  \<comment> \<open>the rest of \<open>main\<close>, up to the loop of the window\<close>
  "main_window realpath files st =
    bindr (load_json realpath files (bin_path st @ ''/libfuse/fsigs.json'')
      ''Unable to open JSON file containing function signatures'' st) (\<lambda>(o1, st).
    if exited st \<noteq> None then Inr st else
    let st = st\<lparr>fsigs := o1\<rparr> in
    bindr (load_json realpath files (bin_path st @ ''/resources.json'')
      ''Unable to open JSON file containing function resources'' st) (\<lambda>(o2, st).
    if exited st \<noteq> None then Inr st else
    let st = st\<lparr>resources := o2\<rparr> in
    Inr (if usingGui st then initGUIEventQueue st else st)))"

definition main_start :: "(string \<Rightarrow> string option) \<Rightarrow> string \<Rightarrow> 'a fdt_scheme \<Rightarrow> 'a fdt_scheme" where
  \<comment> \<open>the beginning of \<open>main\<close>\<close>
  "main_start realpath argv0 st =
    (let st = st\<lparr>usingGui := True, shared_error := [], fs_mounted := False\<rparr>;
         st = resolveLibraryPaths realpath argv0 st
     in if exited st = None then printf (''Using libfuse wrapper directory: '' @ abs_libpath st) st else st)"

datatype program = Console logger | Window fdt_window

definition main_fdt :: "(string \<Rightarrow> string option) \<Rightarrow> (string \<Rightarrow> string option) \<Rightarrow> nat \<Rightarrow> nat \<Rightarrow> int
    \<Rightarrow> logger_input list option \<Rightarrow> string list \<Rightarrow> logger \<Rightarrow> fdt_window \<Rightarrow> program c_res" where
  \<comment> \<open>the two last arguments are the globals before the program starts, with those of the console or of the window\<close>
  "main_fdt realpath files room slack pid fifo argv l w =
    (if 2 \<le> length argv \<and> argv ! 1 = ''--logger'' then
       (let l = main_start realpath (hd argv) l in
        if exited l \<noteq> None then Inr (Console l)
        else bindr (main_logger room slack pid fifo argv l) (\<lambda>l. Inr (Console l)))
     else
       (let w = main_start realpath (hd argv) w in
        if exited w \<noteq> None then Inr (Window w)
        else bindr (main_window realpath files w) (\<lambda>w. Inr (Window w))))"

end
