(* ===== verification/Fdt_Main_Props.thy ===== *)
theory Fdt_Main_Props
  imports Fdt_Main
begin

section \<open>Starting and ending the program\<close>

text \<open>
  What the child process gets for arguments and how much memory this takes, the arguments of the
  logger, a fork that fails, and the end of the program after at most two requests.
\<close>

subsection \<open>Arguments\<close>

lemma split_at_nonempty [simp]: "split_at d s \<noteq> []"
  by (induction s) (auto split: list.splits)

lemma join_split_at: "join [d] (split_at d s) = s"
proof (induction s)
  case (Cons c s)
  obtain t ts where "split_at d s = t # ts" by (meson neq_Nil_conv split_at_nonempty)
  then show ?case using Cons by (cases ts) auto
qed simp

lemma store_tokens_stores:
  "length arr = cap \<Longrightarrow> i + length ts \<le> cap
    \<Longrightarrow> store_tokens cap i ts arr = Inr (take i arr @ map Some ts @ drop (i + length ts) arr)"
proof (induction ts arbitrary: i arr)
  case (Cons t ts)
  then show ?case
    by (simp add: store_ptr_def take_Suc_conv_app_nth take_update_swap drop_update_cancel list_update_append)
qed simp

lemma fuse_argv_room:
  "fuse_argv slack b a = (if slack = 0 then Inl HeapOverflow else Inr (Some b # map Some (strsep_tokens a) @ replicate slack None))"
proof -
  let ?ts = "strsep_tokens a"
  have "store_tokens (length ?ts + 1 + slack) 1 ?ts (replicate (length ?ts + 1 + slack) None)
      = Inr (None # map Some ?ts @ replicate slack None)"
    by (subst store_tokens_stores) simp_all
  moreover have "(map Some ?ts @ replicate slack None)[length ?ts := None] = map Some ?ts @ replicate slack None"
    by (cases slack) (simp_all add: list_update_append list_update_beyond)
  ultimately show ?thesis by (simp add: fuse_argv_def store_ptr_def Let_def)
qed

lemma exec_args_strings: "exec_args (map Some ts @ replicate n None) = ts"
proof -
  have "takeWhile (\<lambda>p. p \<noteq> None) (map Some ts @ replicate n None) = map Some ts"
    by (induction ts) (cases n; simp)+
  then show ?thesis by (simp add: exec_args_def comp_def)
qed

text \<open>
  C26. The array of arguments for the file system is one pointer too short: with nothing free
  after it, building it is always an overflow. With room for one pointer the child is started
  with the path of the binary and the fields of the argument text between single spaces,
  which together are the whole text.
\<close>

theorem child_arguments:
  "bindr (fuse_argv slack b a) (\<lambda>arr. Inr (exec_args arr))
     = (if slack = 0 then Inl HeapOverflow else Inr (b # strsep_tokens a))
   \<and> join '' '' (strsep_tokens a) = a"
  using exec_args_strings [of "b # strsep_tokens a" slack]
  by (simp add: fuse_argv_room) (simp add: strsep_tokens_def join_split_at)

subsection \<open>Arguments of the logger\<close>

lemma strcat_all_join:
  "length acc < cap \<Longrightarrow> strcat_all cap acc ss = (let s = join '' '' (acc # ss) in
     if length s < cap then Inr s else Inl HeapOverflow)"
proof (induction ss arbitrary: acc)
  case (Cons s ss)
  have j: "join '' '' (acc # s # ss) = join '' '' ((acc @ '' '' @ s) # ss)" by (cases ss) simp_all
  have "length (acc @ '' '' @ s) \<le> length (join '' '' ((acc @ '' '' @ s) # ss))"
    by (intro length_join_member) simp
  then show ?case unfolding j by (auto simp: Cons.IH alloc_write_def Let_def)
qed simp

lemma args_len_last: "args \<noteq> [] \<Longrightarrow> foldl (\<lambda>_ s. Suc (length s)) n args = Suc (length (last args))"
  by (induction args rule: rev_induct) simp_all

text \<open>
  C27. The arguments of the logger are joined in an array that has the length of the last one
  only: the text is built exactly when the other arguments and the spaces fit behind it, and
  two or more of them overflow an array with nothing free after it. Without any argument the
  program copies from a null pointer.
\<close>

theorem logger_arguments:
  "logger_args room args = (if args = [] then Inl NullPointer
     else if length (join '' '' args) \<le> length (last args) + room then Inr (join '' '' args) else Inl HeapOverflow)
   \<and> (logger_args 0 args = Inr (join '' '' args) \<longleftrightarrow> length args = 1)"
proof -
  have main: "logger_args room args = (if args = [] then Inl NullPointer
     else if length (join '' '' args) \<le> length (last args) + room then Inr (join '' '' args) else Inl HeapOverflow)" for room
  proof (cases args)
    case (Cons a as)
    have "length a \<le> length (join '' '' args)" using Cons by (intro length_join_member) simp
    then show ?thesis using Cons
      by (auto simp: logger_args_def args_len_last alloc_write_def strcat_all_join Let_def)
  qed (simp add: logger_args_def)
  have "length (last args) < length (join '' '' args)" if "args = a # b # as" for a b as
    using that length_join_member [of "last (b # as)" "b # as" "'' ''"] last_in_set [of "b # as"] by simp
  then show ?thesis unfolding main by (cases args; cases "tl args") auto
qed

subsection \<open>Ending\<close>


lemma getEnvVarsForFork_keeps:
  assumes "getEnvVarsForFork ident st = (envp, st')"
  shows "kills st' = kills st" "stopToolFunction st' = stopToolFunction st"
  using assms by (auto simp: getEnvVarsForFork_def Let_def printf_def split: option.splits)

lemma tool_reaches_library:
  "getenv (fst (getEnvVarsForFork ident st)) ''FDT_TOOL'' = Some ident"
  by (cases "skipped_tests st"; cases "test_data_file st") (simp_all add: getEnvVarsForFork_def getenv_def Let_def printf_def)

lemma tab_runs_its_tool:
  assumes "tab_tool selected_tab = Some (ident, f)"
  shows "fuse_setup_tool (fst (getEnvVarsForFork ident st)) = Inr (if selected_tab = 0 then Some Wizard_tool
    else if selected_tab = 1 then Some Testsuite_tool else None)"
  using assms by (auto simp: tab_tool_def fuse_setup_tool_def tool_reaches_library split: if_splits)

lemma startTool_failed_fork:
  assumes "0 < slack"
  obtains argv envp st' where "startTool slack (- 1) b a ident f st = Inr (argv, envp, st')"
    "fuse_pid st' = - 1" "kills st' = kills st" "stopToolFunction st' = stopToolFunction st"
proof -
  obtain envp s where s: "getEnvVarsForFork ident (st\<lparr>terminate_calls := 0\<rparr>) = (envp, s)" by fastforce
  show thesis
    by (rule that [of _ envp "eprintf ''fork'' (s\<lparr>fuse_pid := - 1\<rparr>)"])
       (use assms s getEnvVarsForFork_keeps [OF s] in \<open>simp_all add: startTool_def fuse_argv_room eprintf_def Let_def\<close>)
qed

text \<open>
  C40. When \<open>fork\<close> fails on the start button, \<open>fuse_pid\<close> stays at -1 and the handler returns as if
  nothing had happened. Closing the window then sends \<open>SIGKILL\<close> to process -1, which is every
  process the user may signal.
\<close>

theorem failed_fork_kills_everything:
  assumes "0 < slack" "selected_tab \<in> {0..2}" "stopToolFunction st = None"
  shows "\<exists>st'. start_btn_handler slack (- 1) selected_tab st = Inr st' \<and> fuse_pid st' = - 1
    \<and> kills (terminate stop_tool st') = kills st @ [(- 1, SIGKILL)] \<and> exited (terminate stop_tool st') = Some 0"
proof -
  obtain ident and f :: "'a fdt_window_scheme \<Rightarrow> tool \<times> 'a fdt_window_scheme" where f: "tab_tool selected_tab = Some (ident, f)"
    using assms(2) by (cases "selected_tab = 0"; cases "selected_tab = 1") (auto simp: tab_tool_def)
  obtain argv envp st' where st': "startTool slack (- 1) (binary_field st) (arguments_field st) ident (\<lambda>st. Inr (f st))
      (st\<lparr>start_sensitive := False\<rparr>) = Inr (argv, envp, st')" "fuse_pid st' = - 1" "kills st' = kills st" "stopToolFunction st' = None"
    by (rule startTool_failed_fork [OF assms(1), of "binary_field st" "arguments_field st" ident "\<lambda>st. Inr (f st)" "st\<lparr>start_sensitive := False\<rparr>"])
       (use assms(3) in simp)
  have "start_btn_handler slack (- 1) selected_tab st = Inr st'"
    using f st'(1) by (simp add: start_btn_handler_def Let_def)
  moreover have "kills (terminate stop_tool st') = kills st @ [(- 1, SIGKILL)]" "exited (terminate stop_tool st') = Some 0"
    using st' by (simp_all add: terminate_def exit_with_def kill_fuse_def Let_def printf_def kill_def)
  ultimately show ?thesis using st'(2) by blast
qed

definition demo_window :: fdt_window where
  "demo_window = \<lparr>abs_libpath = ''/lib'', bin_path = [], usingGui = True, terminate_calls = 0, fuse_pid = 0,
     stopToolFunction = None, fs_mounted = False, shared_error = [], fsigs = None, resources = None, skipped_tests = None,
     test_data_file = None, start_sensitive = True, stop_sensitive = False, stdout = [], stderr = [], kills = [],
     dialogs = [], exited = None, pendingInvocations = 0, autoAdvance = False, closing = False, stepSem = 0, stdin = [],
     tailq_events = [], event_table = [], advance_sensitive = False, wizard_events = None, wizard_events_displayed = None,
     func_rows = (\<lambda>_. None), func_table = [], notification_event = None, notification_status = IMPLEMENTED,
     recv_end_event = False, message_func = [], message_text = [], tabs_shown = False, skip_sensitive = False,
     first_update = True, last_func_name = [], next_widget = 0, sig_page = [], sig_l1 = None, sig_params = [], sig_l2 = None,
     res_page = [], res_links = [], ts_events = None, ts_events_displayed = None, ts_store = [], ts_stamp = 0,
     group_iter = None, sequence_iter = None, testdata_select_open = False, testdata_field = [], ts_recv_end_event = False,
     binary_select_open = False, binary_field = ''/bin/fs'', arguments_field = ''-f /mnt''\<rparr>"

theorem failed_fork_kills_everything_witness:
  "\<exists>st'. start_btn_handler 1 (- 1) 0 demo_window = Inr st' \<and> fuse_pid st' = - 1
    \<and> kills (terminate stop_tool st') = [(- 1, SIGKILL)] \<and> exited (terminate stop_tool st') = Some 0"
  using failed_fork_kills_everything [of 1 0 demo_window] by (simp add: demo_window_def)

end
