(* ===== verification/Spec2Isabelle.thy ===== *)
theory Spec2Isabelle
  imports Wrapper_Debugger CJSON_Safety CJSON_Typed Wizard_View Skip_List Replay_Props Record_Replay
    Testsuite_Report Fdt_Main_Props
begin

text \<open>
  FDT, the FUSE Diagnostic Tool.

  FDT runs a FUSE file system in a child process, against a modified libfuse, and shows what it
  does. The program has four tools. The debugger stops at each call, the wizard tests the
  operations one by one, the test suite replays recorded calls, and the logger records
  calls on the console. The child writes each step as a JSON object to a named pipe; a
  thread of the tool reads the objects and queues them, and the idle function of the window
  shows them. This development models both ends of the pipe, in the Linux build.

  \<^bold>\<open>Theories and sources\<close>

  \<^item> \<open>Prelude\<close>, \<open>C_Double\<close>: results of C code that can go wrong, C strings and \<open>int\<close>, and the
    arithmetic of \<open>double\<close> that the JSON library uses.
  \<^item> \<open>CJSON\<close>: the parser, printer, accessors and builders of \<^verbatim>\<open>src/cJSON.c\<close>. \<open>CJSON_Roundtrip\<close>: printed
    trees are read back. \<open>CJSON_Safety\<close>: termination and memory safety of the parser.
    \<open>CJSON_Typed\<close>: parsed trees are well typed.
  \<^item> \<open>Framing\<close>: the loop that cuts the pipe into objects, which is written out in
    \<open>doStartDebugger\<close>, \<open>doStartWizard\<close> and \<open>doStartTestsuite\<close>.
  \<^item> \<open>Wrapper\<close>, \<open>Fuse_Dispatch\<close>: the wrappers \<open>fuse_op_wrapper_*\<close> and the entry points \<open>fuse_fs_*\<close> of
    \<^verbatim>\<open>src/libfuse/lib/fuse.c\<close>. \<open>Wrapper_Props\<close>, \<open>Wrapper_Total\<close>: they are transparent, log every call
    once, and return.
  \<^item> \<open>Event_Access\<close>: reading the members of an event. \<open>Refinement\<close>: simulation of an abstract machine.
  \<^item> \<open>Fdt_Base\<close>, \<open>Fdt_Main\<close>: \<^verbatim>\<open>src/fdt.c\<close>, the services for the tools, and the rest with \<open>startTool\<close>,
    \<open>terminate\<close>, the handlers of the window and \<open>main\<close>, and the choice of the tool in the
    child (\<open>fuse_setup_common\<close> of \<^verbatim>\<open>src/libfuse/lib/helper.c\<close>). \<open>Fdt_Main_Props\<close>: arguments of the
    child and of the logger, failed forks, the end of the program.
  \<^item> \<open>Debugger\<close>: \<^verbatim>\<open>src/debugger.c\<close>. \<open>Debugger_Props\<close>: its operations. \<open>Debug_Session\<close>: calls, reader
    thread and GUI thread as an interleaving step relation. \<open>Wrapper_Debugger\<close>: the events of the
    wrappers as the debugger reads them.
  \<^item> \<open>Wizard_Tests\<close>: \<^verbatim>\<open>src/wizard_tests.c\<close>, with \<open>Wizard_Props\<close>. \<open>Wizard\<close>: \<^verbatim>\<open>src/wizard.c\<close>, with
    \<open>Wizard_View\<close>. \<open>Skip_List\<close>: skipped tests from the button to the tests.
  \<^item> \<open>Replay\<close>: \<^verbatim>\<open>src/testsuite_run.c\<close>, with \<open>Replay_Props\<close>. \<open>Testsuite\<close>: \<^verbatim>\<open>src/testsuite.c\<close>, with
    \<open>Testsuite_Props\<close> and \<open>Testsuite_Report\<close>.
  \<^item> \<open>Logger\<close>: \<^verbatim>\<open>src/logger.c\<close>, with \<open>Logger_Props\<close>. \<open>Record_Replay\<close>: recorded calls as the test suite
    reads them.

  \<^bold>\<open>State and operations\<close>

  The globals of \<^verbatim>\<open>src/fdt.c\<close> are the record \<open>fdt\<close>. The debugger, the wizard, the window of the test
  suite and the main window each extend the record before them, and the logger extends
  \<open>fdt\<close>, so that the tools share one state as they do in the program. A C function is a
  definition of the same name; one that can fail has a result of type \<open>c_res\<close>, whose left side
  says what went wrong (a null pointer, a write past a buffer, a use after free, and so on). What
  is printed, signalled or shown is collected in the state. A widget is the text or the rows it
  shows. Each handler, and each event that is read, is one step.

  Parameters stand for what is not part of the program: the operations of the file system
  (\<open>fuse_operations\<close>), files, the environment, the contents of fresh memory, error texts, and the
  results of \<open>fork\<close>, \<open>execve\<close> and \<open>realpath\<close>.

  \<^bold>\<open>What the lemmas show\<close>

  \<^item> The transport is exact. Printed trees parse to themselves, and the reader delivers the events
    that were written; the exceptions are stated as theorems (strings that end with a
    backslash, a pipe that ends inside an object, a truncated escape).
  \<^item> The wrappers do not change what the file system does and log each call as a pair of
    events. A debugger that does not stop at calls follows any sequence of them, and in every
    interleaving the semaphore, the pending calls and the unread events account for the calls
    that wait.
  \<^item> The wizard ends, announces its end once, and its verdict reaches the window.
  \<^item> Calls that are recorded and replayed on an equal file system give the recorded results, and the
    report of a replay is what the window shows.
  \<^item> The program ends after at most two requests. The array of arguments for the child, and that
    of the logger, are too short.

  The interfaces are the locales \<open>bounded_parser\<close>, \<open>typed_parser\<close>, \<open>event_channel\<close>, \<open>named_members\<close> and
  \<open>simulation\<close>, each interpreted on the definitions of the model.

  \<^bold>\<open>Bounds\<close>

  The parser recurses at most once per character: its budget is the length of the text plus one,
  which \<open>cJSON_Parse_terminates\<close> shows to be enough. The inner loop of the reader is a
  \<open>partial_function\<close>, because it really does not return on a truncated event. The loop of the
  logger recurses on the list of what its rounds find in the pipe, and a flag says whether it
  is still waiting. The traversals of \<open>Replay\<close> take a depth and give \<open>NoFuel\<close> below it; the
  length of a path limits the depth of a directory. Arrays on the stack that the code overruns
  come with the number of places that are free after them, so that the rest of the function
  can be followed as well. Integers are kept at 32 bits where the code computes with them.

  \<^bold>\<open>Not modelled\<close>

  \<^item> The construction of the widgets: it only calls GTK and keeps pointers.
  \<^item> Locks and allocation: threads interleave at whole handlers, and \<open>malloc\<close> succeeds. Memory that
    is given back is followed only where the code uses it afterwards.
  \<^item> The rest of libfuse (options, mounting, kernel requests, sessions, the table of nodes), which FDT
    does not change.
  \<^item> The branches for macOS and \<^verbatim>\<open>src/osxfuse\<close>: a second copy of the instrumented library, and a kernel
    extension, framework and preference pane that belong to another project.
  \<^item> The example file systems, the data files, \<^verbatim>\<open>src/siggen.py\<close> and the build.
\<close>



text \<open>
  C6. The two ends of the wizard agree: whatever the operations of a file system that provides
  them all return, the program reads the complete run of the tests, ends with the process marked
  as detached, shows the row and status of every tested function, and puts an event forward
  exactly when a test has failed. When the window is then brought up to date, it says ``Success!''
  if no test failed, and otherwise the function and message of a failed test.
\<close>

theorem wizard_verdict:
  assumes "all_provided op" "usingGui d" "wizard_events d = None \<longrightarrow> notification_event d = None" "\<not> fs_mounted d"
  shows "\<exists>w es d' t. fwizard_init h op env u = Inr w \<and> doStartWizard (Some (w_sent w)) d = Some (Inr d')
    \<and> recv_end_event d' \<and> fuse_pid d' = 0
    \<and> refresh_table d' = Inr t \<and> func_table t = wizard_table es \<and> (notification_event t = None \<longleftrightarrow> \<not> test_failed w)
    \<and> w_sent w = concat (map we_text (es @ [end_event]))
    \<and> (\<forall>d''. gui_idle_wizard d' = Inr d'' \<longrightarrow> (if test_failed w
         then \<exists>e \<in> set es. \<not> we_passed e \<and> message_func d'' = fname e \<and> message_text d'' = we_message e
         else message_func d'' = ''Success!''))"
proof -
  obtain w es where w: "fwizard_init h op env u = Inr w" "list_all we_ok es" "es \<noteq> []"
      "w_sent w = concat (map we_text (es @ [end_event]))" "test_failed w \<longleftrightarrow> (\<exists>e \<in> set es. \<not> we_passed e)"
    using fwizard_init_run [of h op env u] assms(1) by blast
  let ?a = "(fresh_window d)\<lparr>received := es\<rparr>"
  obtain d' where d': "doStartWizard (Some (w_sent w)) d = Some (Inr d')" "window_rel ?a d'" "recv_end_event d'"
      "fuse_pid d' = 0" "\<not> fs_mounted d'"
    using wizard_receives [OF assms(2,3) w(2)] w(4) assms(4) by auto
  have f: "test_failed w \<longleftrightarrow> \<not> list_all we_passed es" using w(5) by (auto simp: list_all_iff)
  obtain t where t: "refresh_table d' = Inr t" "window_rel (window_step wizard_action.Idle ?a) t"
    using window_sim [OF d'(2), of wizard_action.Idle] by auto
  then have "func_table t = wizard_table es" "notification_event t = None \<longleftrightarrow> \<not> test_failed w"
    using f notice_None [of es] by (auto simp: window_rel_def)
  moreover have "if test_failed w then \<exists>e \<in> set es. \<not> we_passed e \<and> message_func d'' = fname e \<and> message_text d'' = we_message e
      else message_func d'' = ''Success!''" if "gui_idle_wizard d' = Inr d''" for d''
    using verdict_shown [OF d'(2,3,5) _ that] w(3) f by (auto split: if_splits)
  ultimately show ?thesis using w(1,4) d' t(1)
    by (intro exI [of _ w] exI [of _ es] exI [of _ d'] exI [of _ t]) simp
qed

theorem wizard_verdict_witness:
  "all_provided (Some (demo_ops 0)) \<and> usingGui demo_window \<and> \<not> fs_mounted demo_window
   \<and> wizard_events demo_window = None \<and> notification_event demo_window = None
   \<and> (\<exists>w d' t. fwizard_init demo_host (Some (demo_ops 0)) None 0 = Inr w
        \<and> doStartWizard (Some (w_sent w)) demo_window = Some (Inr d') \<and> recv_end_event d'
        \<and> refresh_table d' = Inr t \<and> (notification_event t = None \<longleftrightarrow> \<not> test_failed w))"
proof -
  have d: "usingGui demo_window" "\<not> fs_mounted demo_window" "wizard_events demo_window = None" "notification_event demo_window = None"
    by (simp_all add: demo_window_def)
  have n: "wizard_events demo_window = None \<longrightarrow> notification_event demo_window = None" using d(4) by simp
  obtain w d' t where "fwizard_init demo_host (Some (demo_ops 0)) None 0 = Inr w"
      "doStartWizard (Some (w_sent w)) demo_window = Some (Inr d')" "recv_end_event d'"
      "refresh_table d' = Inr t" "notification_event t = None \<longleftrightarrow> \<not> test_failed w"
    using wizard_verdict [OF demo_provided [of 0] d(1) n d(2), of demo_host None 0] by (elim exE conjE) rule
  then show ?thesis using d demo_provided [of 0]
    by (intro conjI exI [of _ w] exI [of _ d'] exI [of _ t]) simp_all
qed



end
